(* ===== verification/GoPrelude.thy ===== *)
theory GoPrelude
  imports Main "HOL-Library.Word" "HOL-Library.Sublist"
begin

text \<open>
  The part of Go that every component of the proxy uses: results (a value, a returned
  \<open>error\<close>, or a run-time panic), a state monad over such results, byte streams that a
  connection reads, sinks that it writes, and the fixed-width integer codecs of
  \<open>encoding/binary\<close>.

  \<^item> \<open>'a res\<close> is the outcome of a Go call. A panic is kept apart from an error: the
    callers test errors, nothing in the proxy recovers from a panic.
  \<^item> \<open>('s, 'a) act\<close> is a Go function with a side effect on a state \<open>'s\<close>; the state is
    returned on every path, since the code goes on after an error it ignores.
  \<^item> A connection's input is the finite list of the bytes that arrive before it closes.
  \<^item> A sink has the bytes written so far and the number of bytes it still takes
    (\<open>None\<close>: it never fails), so that write errors are branches of the model.
\<close>

named_theorems act_simps \<open>unfolding of the state monad\<close>
named_theorems codec_simps \<open>encode and decode laws of the wire formats\<close>

unbundle bit_operations_syntax

section \<open>Results and actions\<close>

type_synonym byte = "8 word"

datatype go_err =
    EOF
  | UnexpectedEOF
  | WriteFailed
  | ErrorText string

definition error_text :: "go_err \<Rightarrow> string" where
  "error_text e = (case e of EOF \<Rightarrow> ''EOF'' | UnexpectedEOF \<Rightarrow> ''unexpected EOF''
     | WriteFailed \<Rightarrow> ''write failed'' | ErrorText s \<Rightarrow> s)"

datatype go_panic = SliceBounds | IndexRange | MakeSliceLen | ClosedChan | NilDeref | TickerInterval

datatype 'a res = Ok 'a | Err go_err | Panic go_panic

type_synonym ('s, 'a) act = "'s \<Rightarrow> 'a res \<times> 's"

primrec bind_res :: "'a res \<Rightarrow> ('a \<Rightarrow> 'b res) \<Rightarrow> 'b res" where
  "bind_res (Ok x) f = f x"
| "bind_res (Err e) f = Err e"
| "bind_res (Panic p) f = Panic p"

definition ret :: "'a \<Rightarrow> ('s, 'a) act" where
  "ret x s = (Ok x, s)"

definition failM :: "go_err \<Rightarrow> ('s, 'a) act" where
  "failM e s = (Err e, s)"

definition liftR :: "'a res \<Rightarrow> ('s, 'a) act" where
  "liftR r s = (r, s)"

definition bindM :: "('s, 'a) act \<Rightarrow> ('a \<Rightarrow> ('s, 'b) act) \<Rightarrow> ('s, 'b) act" where
  "bindM m f s = (case m s of
       (Ok x, s') \<Rightarrow> f x s'
     | (Err e, s') \<Rightarrow> (Err e, s')
     | (Panic p, s') \<Rightarrow> (Panic p, s'))"

text \<open>A sequence of statements, each of which returns early when it fails.\<close>

primrec seqM :: "('s, unit) act list \<Rightarrow> ('s, unit) act" where
  "seqM [] = ret ()"
| "seqM (m # ms) = bindM m (\<lambda>_. seqM ms)"

text \<open>A call whose error the code drops (\<open>x, _ := f()\<close>): the zero value \<open>d\<close> stands in.\<close>

definition orElse :: "'a \<Rightarrow> ('s, 'a) act \<Rightarrow> ('s, 'a) act" where
  "orElse d m s = (case m s of
       (Err e, s') \<Rightarrow> (Ok d, s')
     | r \<Rightarrow> r)"

lemma bind_res_eq_Ok: "bind_res m f = Ok y \<longleftrightarrow> (\<exists>x. m = Ok x \<and> f x = Ok y)"
  by (cases m) auto

lemma bind_res_eq_Panic:
  "bind_res m f = Panic p \<longleftrightarrow> m = Panic p \<or> (\<exists>x. m = Ok x \<and> f x = Panic p)"
  by (cases m) auto

lemma bind_res_cong [fundef_cong]:
  "m = n \<Longrightarrow> (\<And>x. n = Ok x \<Longrightarrow> f x = g x) \<Longrightarrow> bind_res m f = bind_res n g"
  by (cases n) auto

lemma bindM_apply_Ok [act_simps]: "m s = (Ok x, s') \<Longrightarrow> bindM m f s = f x s'"
  by (simp add: bindM_def)

lemma bindM_apply_Err [act_simps]: "m s = (Err e, s') \<Longrightarrow> bindM m f s = (Err e, s')"
  by (simp add: bindM_def)

lemma bindM_apply_Panic [act_simps]: "m s = (Panic p, s') \<Longrightarrow> bindM m f s = (Panic p, s')"
  by (simp add: bindM_def)

lemma bindM_eq_Ok:
  "bindM m f s = (Ok y, t) \<longleftrightarrow> (\<exists>x u. m s = (Ok x, u) \<and> f x u = (Ok y, t))"
  by (auto simp: bindM_def split: prod.splits res.splits)

lemma ret_eq [simp]: "ret x s = (r, t) \<longleftrightarrow> r = Ok x \<and> t = s"
  by (auto simp: ret_def)

lemma fst_eq_iff: "fst p = a \<longleftrightarrow> (\<exists>b. p = (a, b))"
  by (cases p) auto

text \<open>An action that panics or succeeds, and never returns an error.\<close>

definition never_err :: "('s, 'a) act \<Rightarrow> bool" where
  "never_err m \<longleftrightarrow> (\<forall>s e t. m s \<noteq> (Err e, t))"

lemma never_err_ret [intro]: "never_err (ret x)"
  by (simp add: never_err_def)

lemma never_err_bindM [intro]:
  "never_err m \<Longrightarrow> (\<And>x. never_err (f x)) \<Longrightarrow> never_err (bindM m f)"
  by (fastforce simp: never_err_def bindM_def split: prod.splits res.splits)

lemma never_err_cases:
  "never_err m \<Longrightarrow> (\<exists>x. fst (m s) = Ok x) \<or> (\<exists>p. fst (m s) = Panic p)"
  by (cases "m s"; cases "fst (m s)") (auto simp: never_err_def)

lemma bindM_ret [simp]: "bindM (ret x) f = f x"
  by (simp add: bindM_def ret_def fun_eq_iff)

lemma bindM_failM [simp]: "bindM (failM e) f = failM e"
  by (simp add: bindM_def failM_def fun_eq_iff)

lemma bindM_ret_right [simp]: "bindM m ret = m"
  by (simp add: bindM_def ret_def fun_eq_iff split: prod.split res.split)

lemma bindM_assoc: "bindM (bindM m f) g = bindM m (\<lambda>x. bindM (f x) g)"
  by (simp add: bindM_def fun_eq_iff split: prod.split res.split)

lemma seqM_append: "seqM (ms @ ns) = bindM (seqM ms) (\<lambda>_. seqM ns)"
  by (induction ms) (simp_all add: bindM_assoc)

lemma bindM_cong [fundef_cong]:
  "m s = n t \<Longrightarrow> (\<And>x u. n t = (Ok x, u) \<Longrightarrow> f x u = g x u) \<Longrightarrow> s = t \<Longrightarrow> bindM m f s = bindM n g t"
  by (auto simp: bindM_def split: prod.splits res.splits)

section \<open>Input streams\<close>

type_synonym 'a reader = "(byte list, 'a) act"

definition ReadByte :: "byte reader" where
  "ReadByte s = (case s of [] \<Rightarrow> (Err EOF, []) | b # bs \<Rightarrow> (Ok b, bs))"

text \<open>\<open>io.ReadFull\<close>: all \<open>n\<close> bytes, or what is left and an error.\<close>

definition ReadFull :: "nat \<Rightarrow> byte list reader" where
  "ReadFull n s =
     (if n \<le> length s then (Ok (take n s), drop n s)
      else if s = [] then (Err EOF, [])
      else (Err UnexpectedEOF, []))"

lemma ReadByte_simps [simp]:
  "ReadByte [] = (Err EOF, [])"
  "ReadByte (b # bs) = (Ok b, bs)"
  by (simp_all add: ReadByte_def)

lemma ReadFull_append [codec_simps]:
  "length bs = n \<Longrightarrow> ReadFull n (bs @ rest) = (Ok bs, rest)"
  by (simp add: ReadFull_def)

lemma ReadFull_short: "length s < n \<Longrightarrow> ReadFull n s = (Err (if s = [] then EOF else UnexpectedEOF), [])"
  by (auto simp: ReadFull_def)

text \<open>\<open>make([]byte, n)\<close> panics above the run time's allocation limit (\<open>2 ^ 48\<close> on 64-bit
  Linux); below it the model grants the memory.\<close>

definition max_alloc :: nat where
  "max_alloc = 2 ^ 48"

definition makeBytes :: "nat \<Rightarrow> ('s, unit) act" where
  "makeBytes n s = (if n \<le> max_alloc then (Ok (), s) else (Panic MakeSliceLen, s))"

lemma makeBytes_ok [simp]: "n \<le> max_alloc \<Longrightarrow> makeBytes n = ret ()"
  by (simp add: makeBytes_def ret_def fun_eq_iff)

section \<open>Sinks\<close>

record sink =
  out :: "byte list"
  room :: "nat option"

type_synonym writer = "(sink, unit) act"

definition WriteBytes :: "byte list \<Rightarrow> writer" where
  "WriteBytes bs k = (case room k of
       None \<Rightarrow> (Ok (), k\<lparr>out := out k @ bs\<rparr>)
     | Some r \<Rightarrow>
         if length bs \<le> r then (Ok (), k\<lparr>out := out k @ bs, room := Some (r - length bs)\<rparr>)
         else (Err WriteFailed, k\<lparr>out := out k @ take r bs, room := Some 0\<rparr>))"

definition WriteByte :: "byte \<Rightarrow> writer" where
  "WriteByte b = WriteBytes [b]"

definition open_sink :: "byte list \<Rightarrow> sink" where
  "open_sink bs = \<lparr>out = bs, room = None\<rparr>"

lemma WriteBytes_open [simp]:
  "room k = None \<Longrightarrow> WriteBytes bs k = (Ok (), k\<lparr>out := out k @ bs\<rparr>)"
  by (simp add: WriteBytes_def)

lemma WriteBytes_Nil [simp]: "WriteBytes [] = ret ()"
  by (auto simp: WriteBytes_def ret_def fun_eq_iff split: option.split)

text \<open>Writing in pieces, with an early return on the first error, is writing the whole.\<close>

lemma WriteBytes_append [act_simps]:
  "bindM (WriteBytes bs) (\<lambda>_. WriteBytes cs) = WriteBytes (bs @ cs)"
  by (auto simp: WriteBytes_def bindM_def fun_eq_iff split: option.split)

lemma seqM_WriteBytes: "seqM (map WriteBytes bss) = WriteBytes (concat bss)"
  by (induction bss) (simp_all add: WriteBytes_append)

lemma seqM_WriteByte: "seqM (map WriteByte bs) = WriteBytes bs"
proof -
  have "map WriteByte bs = map WriteBytes (map (\<lambda>b. [b]) bs)"
    by (simp add: WriteByte_def comp_def)
  then show ?thesis
    by (simp only: seqM_WriteBytes) (simp add: concat_map_singleton)
qed

text \<open>A sink only grows, and what it got is a prefix of what was sent.\<close>

lemma WriteBytes_out:
  "WriteBytes bs k = (r, k') \<Longrightarrow>
     \<exists>ds. prefix ds bs \<and> out k' = out k @ ds \<and> (r = Ok () \<longleftrightarrow> ds = bs)"
  by (fastforce simp: WriteBytes_def take_is_prefix split: option.splits if_splits)

section \<open>Fixed-width integers as bytes\<close>

primrec le_bytes :: "nat \<Rightarrow> 'a::len word \<Rightarrow> byte list" where
  "le_bytes 0 w = []"
| "le_bytes (Suc n) w = ucast w # le_bytes n (drop_bit 8 w)"

primrec le_word :: "byte list \<Rightarrow> 'a::len word" where
  "le_word [] = 0"
| "le_word (b # bs) = ucast b OR push_bit 8 (le_word bs)"

definition be_bytes :: "nat \<Rightarrow> 'a::len word \<Rightarrow> byte list" where
  "be_bytes n w = rev (le_bytes n w)"

definition be_word :: "byte list \<Rightarrow> 'a::len word" where
  "be_word bs = le_word (rev bs)"

lemma length_le_bytes [simp]: "length (le_bytes n w) = n"
  by (induction n arbitrary: w) simp_all

lemma length_be_bytes [simp]: "length (be_bytes n w) = n"
  by (simp add: be_bytes_def)

lemma be_bytes_eq_Nil [simp]: "be_bytes n w = [] \<longleftrightarrow> n = 0"
  by (metis length_0_conv length_be_bytes)

lemma le_word_le_bytes: "le_word (le_bytes n w) = take_bit (8 * n) w"
proof (induction n arbitrary: w)
  case 0
  show ?case by simp
next
  case (Suc n)
  show ?case
    by (rule bit_word_eqI) (auto simp: Suc bit_simps)
qed

lemma bit_le_word:
  "bit (le_word bs :: 'a::len word) i \<longleftrightarrow>
     i < LENGTH('a) \<and> i div 8 < length bs \<and> bit (bs ! (i div 8)) (i mod 8)"
proof (induction bs arbitrary: i)
  case Nil
  show ?case by simp
next
  case (Cons b bs)
  show ?case
  proof (cases "i < 8")
    case True
    then show ?thesis by (auto simp: bit_simps)
  next
    case False
    have "\<not> bit b i" using False bit_imp_le_length [of b i] by auto
    moreover have "i div 8 = Suc ((i - 8) div 8)" "(i - 8) mod 8 = i mod 8"
      using False by (simp_all add: le_div_geq le_mod_geq)
    ultimately show ?thesis using False Cons.IH [of "i - 8"]
      by (auto simp: bit_simps)
  qed
qed

lemma le_bytes_nth: "i < n \<Longrightarrow> le_bytes n w ! i = ucast (drop_bit (8 * i) w)"
proof (induction n arbitrary: w i)
  case (Suc n)
  then show ?case by (cases i) (simp_all add: drop_bit_drop_bit add.commute)
qed simp

lemma le_bytes_le_word:
  assumes "length bs = n" and "8 * n \<le> LENGTH('a)"
  shows "le_bytes n (le_word bs :: 'a::len word) = bs"
proof (rule nth_equalityI)
  show "length (le_bytes n (le_word bs :: 'a word)) = length bs"
    using assms by simp
next
  fix i assume "i < length (le_bytes n (le_word bs :: 'a word))"
  then have i: "i < n" by simp
  show "le_bytes n (le_word bs :: 'a word) ! i = bs ! i"
  proof (rule bit_word_eqI)
    fix j assume j: "j < LENGTH(8)"
    have "(8 * i + j) div 8 = i" "(8 * i + j) mod 8 = j" "8 * i + j < LENGTH('a)"
      using j i assms by auto
    then show "bit (le_bytes n (le_word bs :: 'a word) ! i) j = bit (bs ! i) j"
      using i j assms by (simp add: le_bytes_nth bit_simps bit_le_word add.commute)
  qed
qed

lemma be_word_be_bytes [codec_simps]:
  "LENGTH('a) \<le> 8 * n \<Longrightarrow> be_word (be_bytes n w) = (w :: 'a::len word)"
  by (simp add: be_word_def be_bytes_def le_word_le_bytes take_bit_word_eq_self)

lemma be_bytes_be_word:
  "length bs = n \<Longrightarrow> 8 * n \<le> LENGTH('a) \<Longrightarrow> be_bytes n (be_word bs :: 'a::len word) = bs"
  by (simp add: be_word_def be_bytes_def le_bytes_le_word)

lemma le_word_le_bytes_full [codec_simps]:
  "LENGTH('a) \<le> 8 * n \<Longrightarrow> le_word (le_bytes n w) = (w :: 'a::len word)"
  by (simp add: le_word_le_bytes take_bit_word_eq_self)

lemma be_bytes_inject:
  "LENGTH('a) \<le> 8 * n \<Longrightarrow> be_bytes n v = be_bytes n w \<longleftrightarrow> v = (w :: 'a::len word)"
  by (metis be_word_be_bytes)

end
