(* ===== verification/GoStrings.thy ===== *)
theory GoStrings
  imports GoPrelude "HOL-Library.Char_ord"
begin

text \<open>
  The functions of Go's \<open>strings\<close> and \<open>bytes\<close> packages that the proxy calls, on
  lists. A Go string is a sequence of bytes, here a \<open>string\<close> (an 8-bit \<open>char\<close> per
  byte); \<open>[]byte(s)\<close> and \<open>string(b)\<close> are the conversions \<open>to_bytes\<close> and
  \<open>to_str\<close>. Case mapping and white space are those of ASCII: on a text with other
  letters Go's functions also map those, which the model leaves as they are. An index
  of \<open>-1\<close> (not found) is \<open>None\<close>.
\<close>

named_theorems str_simps \<open>laws of the string functions\<close>

section \<open>Bytes and strings\<close>

definition to_bytes :: "string \<Rightarrow> byte list" where
  "to_bytes s = map of_char s"

definition to_str :: "byte list \<Rightarrow> string" where
  "to_str bs = map (\<lambda>b. char_of (unat b)) bs"

lemma char_of_byte_inverse [simp]: "of_char (char_of (unat (b :: byte))) = b"
proof -
  have "unat b < 256" using unsigned_less [of b] by simp
  then have "(of_char (char_of (unat b)) :: nat) = unat b" by (simp add: of_char_of)
  then show ?thesis by (metis of_nat_of_char of_nat_unat ucast_id)
qed

lemma char_of_of_char_byte [simp]: "char_of (unat (of_char c :: byte)) = c"
proof -
  have "unat (of_char c :: byte) = of_char c"
    by (subst of_nat_of_char [symmetric], subst unat_of_nat) simp
  then show ?thesis by simp
qed

lemma to_str_to_bytes [simp]: "to_str (to_bytes s) = s"
  by (simp add: to_str_def to_bytes_def comp_def)

lemma to_bytes_to_str [simp]: "to_bytes (to_str bs) = bs"
  by (simp add: to_str_def to_bytes_def comp_def map_idI)

lemma length_to_bytes [simp]: "length (to_bytes s) = length s"
  by (simp add: to_bytes_def)

lemma length_to_str [simp]: "length (to_str bs) = length bs"
  by (simp add: to_str_def)

lemma to_bytes_append [simp]: "to_bytes (s @ t) = to_bytes s @ to_bytes t"
  by (simp add: to_bytes_def)

lemma to_bytes_Nil [simp]: "to_bytes [] = []"
  by (simp add: to_bytes_def)

lemma to_bytes_Cons [simp]: "to_bytes (c # s) = of_char c # to_bytes s"
  by (simp add: to_bytes_def)

lemma to_str_Nil [simp]: "to_str [] = []"
  by (simp add: to_str_def)

lemma to_str_append [simp]: "to_str (a @ b) = to_str a @ to_str b"
  by (simp add: to_str_def)

lemma to_bytes_inject [simp]: "to_bytes s = to_bytes t \<longleftrightarrow> s = t"
  by (metis to_str_to_bytes)

section \<open>Case and white space\<close>

definition upper_char :: "char \<Rightarrow> char" where
  "upper_char c = (let n = (of_char c :: nat) in if 97 \<le> n \<and> n \<le> 122 then char_of (n - 32) else c)"

definition lower_char :: "char \<Rightarrow> char" where
  "lower_char c = (let n = (of_char c :: nat) in if 65 \<le> n \<and> n \<le> 90 then char_of (n + 32) else c)"

definition ToUpper :: "string \<Rightarrow> string" where
  "ToUpper s = map upper_char s"

definition ToLower :: "string \<Rightarrow> string" where
  "ToLower s = map lower_char s"

definition EqualFold :: "string \<Rightarrow> string \<Rightarrow> bool" where
  "EqualFold s t \<longleftrightarrow> ToLower s = ToLower t"

definition is_space :: "char \<Rightarrow> bool" where
  "is_space c \<longleftrightarrow> c = CHR '' '' \<or> c = CHR 0x09 \<or> c = CHR 0x0A \<or> c = CHR 0x0B \<or> c = CHR 0x0C \<or> c = CHR 0x0D"

text \<open>\<open>trim_by p\<close> drops the longest prefix and suffix of characters in \<open>p\<close>.\<close>

definition trim_by :: "('a \<Rightarrow> bool) \<Rightarrow> 'a list \<Rightarrow> 'a list" where
  "trim_by p s = rev (dropWhile p (rev (dropWhile p s)))"

definition TrimSpace :: "string \<Rightarrow> string" where
  "TrimSpace s = trim_by is_space s"

definition Trim :: "string \<Rightarrow> string \<Rightarrow> string" where
  "Trim s cutset = trim_by (\<lambda>c. c \<in> set cutset) s"

definition TrimRight :: "string \<Rightarrow> string \<Rightarrow> string" where
  "TrimRight s cutset = rev (dropWhile (\<lambda>c. c \<in> set cutset) (rev s))"

lemma length_ToUpper [simp]: "length (ToUpper s) = length s"
  by (simp add: ToUpper_def)

lemma length_ToLower [simp]: "length (ToLower s) = length s"
  by (simp add: ToLower_def)

lemma ToUpper_append [simp]: "ToUpper (s @ t) = ToUpper s @ ToUpper t"
  by (simp add: ToUpper_def)

lemma ToUpper_Nil [simp]: "ToUpper [] = []"
  by (simp add: ToUpper_def)

lemma upper_char_idem [simp]: "upper_char (upper_char c) = upper_char c"
  by (auto simp: upper_char_def Let_def of_char_of)

lemma upper_char_not_lower:
  "\<not> (97 \<le> (of_char (upper_char c) :: nat) \<and> (of_char (upper_char c) :: nat) \<le> 122)"
  by (auto simp: upper_char_def Let_def of_char_of)

lemma trim_by_sublist: "sublist (trim_by p s) s"
proof -
  have "prefix (trim_by p s) (dropWhile p s)"
    unfolding trim_by_def using suffix_dropWhile [of p "rev (dropWhile p s)"]
    by (metis rev_rev_ident suffix_to_prefix)
  moreover have "suffix (dropWhile p s) s" by (rule suffix_dropWhile)
  ultimately show ?thesis
    by (meson prefix_imp_sublist sublist_order.order_trans suffix_imp_sublist)
qed

lemma trim_by_none: "(s = [] \<or> \<not> p (hd s)) \<Longrightarrow> (s = [] \<or> \<not> p (last s)) \<Longrightarrow> trim_by p s = s"
proof (cases "s = []")
  case False
  assume "s = [] \<or> \<not> p (hd s)" "s = [] \<or> \<not> p (last s)"
  with False have "dropWhile p s = s" "dropWhile p (rev s) = rev s"
    by (metis dropWhile_eq_self_iff, metis dropWhile_eq_self_iff hd_rev)
  then show ?thesis by (simp add: trim_by_def)
qed (simp add: trim_by_def)

lemma trim_by_ends:
  "trim_by p s = [] \<or> (\<not> p (hd (trim_by p s)) \<and> \<not> p (last (trim_by p s)))"
proof (cases "trim_by p s = []")
  case False
  let ?d = "dropWhile p s"
  have last: "\<not> p (last (trim_by p s))"
    using False by (simp add: trim_by_def last_rev hd_dropWhile)
  have "prefix (trim_by p s) ?d"
    unfolding trim_by_def using suffix_dropWhile [of p "rev ?d"]
    by (metis rev_rev_ident suffix_to_prefix)
  with False have "hd (trim_by p s) = hd ?d" "?d \<noteq> []"
    by (auto simp del: dropWhile_eq_Nil_conv simp: prefix_def)
  then show ?thesis using last hd_dropWhile [of p s] by metis
qed simp

lemma trim_by_idem: "trim_by p (trim_by p s) = trim_by p s"
  using trim_by_ends [of p s] by (auto intro: trim_by_none)

section \<open>Searching\<close>

definition HasPrefix :: "'a list \<Rightarrow> 'a list \<Rightarrow> bool" where
  "HasPrefix s p \<longleftrightarrow> take (length p) s = p"

definition HasSuffix :: "'a list \<Rightarrow> 'a list \<Rightarrow> bool" where
  "HasSuffix s p \<longleftrightarrow> HasPrefix (rev s) (rev p)"

fun Index :: "'a list \<Rightarrow> 'a list \<Rightarrow> nat option" where
  "Index s sub =
     (if HasPrefix s sub then Some 0
      else case s of [] \<Rightarrow> None | _ # s' \<Rightarrow> map_option Suc (Index s' sub))"

declare Index.simps [simp del]

definition Contains :: "'a list \<Rightarrow> 'a list \<Rightarrow> bool" where
  "Contains s sub \<longleftrightarrow> Index s sub \<noteq> None"

fun IndexByte :: "'a list \<Rightarrow> 'a \<Rightarrow> nat option" where
  "IndexByte [] c = None"
| "IndexByte (x # xs) c = (if x = c then Some 0 else map_option Suc (IndexByte xs c))"

definition LastIndex :: "'a list \<Rightarrow> 'a list \<Rightarrow> nat option" where
  "LastIndex s sub =
     map_option (\<lambda>i. length s - (i + length sub)) (Index (rev s) (rev sub))"

lemma HasPrefix_iff: "HasPrefix s p \<longleftrightarrow> prefix p s"
  by (auto simp: HasPrefix_def prefix_def) (metis append_take_drop_id)

lemma HasSuffix_iff: "HasSuffix s p \<longleftrightarrow> suffix p s"
  by (simp add: HasSuffix_def HasPrefix_iff suffix_to_prefix)

lemma Index_Some:
  "Index s sub = Some i \<Longrightarrow> i + length sub \<le> length s \<and> take (length sub) (drop i s) = sub"
proof (induction s arbitrary: i)
  case Nil
  then show ?case by (auto simp: Index.simps [of "[]"] HasPrefix_def split: if_splits)
next
  case (Cons x s)
  show ?case
  proof (cases "HasPrefix (x # s) sub")
    case True
    then have "i = 0" using Cons.prems by (simp add: Index.simps [of "x # s"])
    with True show ?thesis
      using prefix_length_le [of sub "x # s"] by (auto simp: HasPrefix_iff [symmetric] HasPrefix_def)
  next
    case False
    with Cons.prems obtain j where "Index s sub = Some j" "i = Suc j"
      by (auto simp: Index.simps [of "x # s"])
    then show ?thesis using Cons.IH by auto
  qed
qed

lemma Index_split: "Index s sub = Some i \<Longrightarrow> s = take i s @ sub @ drop (i + length sub) s"
  using Index_Some [of s sub i]
  by (metis add.commute append_take_drop_id drop_drop)

lemma Index_None: "Index s sub = None \<longleftrightarrow> \<not> sublist sub s"
proof (induction s)
  case Nil
  show ?case by (auto simp: Index.simps [of "[]"] HasPrefix_def)
next
  case (Cons x s)
  then show ?case
    by (auto simp: Index.simps [of "x # s"] HasPrefix_iff sublist_Cons_right)
qed

lemma Contains_iff: "Contains s sub \<longleftrightarrow> sublist sub s"
  unfolding Contains_def by (metis Index_None)

lemma IndexByte_None [simp]: "IndexByte xs c = None \<longleftrightarrow> c \<notin> set xs"
  by (induction xs) auto

lemma IndexByte_append [simp]: "c \<notin> set xs \<Longrightarrow> IndexByte (xs @ c # ys) c = Some (length xs)"
  by (induction xs) auto

lemma IndexByte_Some:
  "IndexByte xs c = Some i \<Longrightarrow> i < length xs \<and> xs ! i = c \<and> c \<notin> set (take i xs)"
  by (induction xs arbitrary: i) (auto split: if_splits)

lemma IndexByte_split: "IndexByte xs c = Some i \<Longrightarrow> xs = take i xs @ c # drop (Suc i) xs"
  using IndexByte_Some [of xs c i] by (metis id_take_nth_drop)

section \<open>Splitting, joining and replacing\<close>

text \<open>\<open>Split s sep\<close> for a separator of one element (the only use), and \<open>strings.Join\<close>.\<close>

fun Split :: "'a list \<Rightarrow> 'a \<Rightarrow> 'a list list" where
  "Split [] c = [[]]"
| "Split (x # xs) c =
     (if x = c then [] # Split xs c
      else case Split xs c of [] \<Rightarrow> [[x]] | p # ps \<Rightarrow> (x # p) # ps)"

fun Join :: "'a list list \<Rightarrow> 'a list \<Rightarrow> 'a list" where
  "Join [] sep = []"
| "Join [p] sep = p"
| "Join (p # q # ps) sep = p @ sep @ Join (q # ps) sep"

text \<open>\<open>strings.Fields\<close>: the maximal runs of characters that are not white space.\<close>

fun fields_acc :: "string \<Rightarrow> string \<Rightarrow> string list" where
  "fields_acc [] acc = (if acc = [] then [] else [rev acc])"
| "fields_acc (c # cs) acc =
     (if is_space c then (if acc = [] then fields_acc cs [] else rev acc # fields_acc cs [])
      else fields_acc cs (c # acc))"

definition Fields :: "string \<Rightarrow> string list" where
  "Fields s = fields_acc s []"

text \<open>\<open>strings.ReplaceAll\<close> for a non-empty \<open>old\<close>; the fuel is the length of the text,
  which every replacement or step shortens.\<close>

fun replace_fuel :: "nat \<Rightarrow> 'a list \<Rightarrow> 'a list \<Rightarrow> 'a list \<Rightarrow> 'a list" where
  "replace_fuel 0 s old new = s"
| "replace_fuel (Suc n) s old new =
     (case s of [] \<Rightarrow> []
      | x # xs \<Rightarrow> if HasPrefix s old then new @ replace_fuel n (drop (length old) s) old new
                 else x # replace_fuel n xs old new)"

definition ReplaceAll :: "'a list \<Rightarrow> 'a list \<Rightarrow> 'a list \<Rightarrow> 'a list" where
  "ReplaceAll s old new = replace_fuel (length s) s old new"

definition ReplaceFirst :: "'a list \<Rightarrow> 'a list \<Rightarrow> 'a list \<Rightarrow> 'a list" where
  "ReplaceFirst s old new = (case Index s old of
       None \<Rightarrow> s
     | Some i \<Rightarrow> take i s @ new @ drop (i + length old) s)"

lemma Split_not_Nil [simp]: "Split xs c \<noteq> []"
  by (cases xs) (auto split: list.splits)

lemma Split_no_sep: "c \<notin> set xs \<Longrightarrow> Split xs c = [xs]"
  by (induction xs) auto

lemma Split_append: "c \<notin> set xs \<Longrightarrow> Split (xs @ c # ys) c = xs # Split ys c"
  by (induction xs) auto

lemma Split_parts: "p \<in> set (Split xs c) \<Longrightarrow> c \<notin> set p"
  by (induction xs arbitrary: p) (auto split: if_splits list.splits)

lemma Join_Cons: "ps \<noteq> [] \<Longrightarrow> Join (p # ps) sep = p @ sep @ Join ps sep"
  by (cases ps) auto

lemma Join_Split [simp]: "Join (Split xs c) [c] = xs"
proof (induction xs)
  case (Cons x xs)
  then show ?case
    by (cases "Split xs c") (auto simp: Join_Cons, metis Join.simps(2,3) append_Cons list.exhaust)
qed simp

lemma Split_Join:
  "ps \<noteq> [] \<Longrightarrow> (\<And>p. p \<in> set ps \<Longrightarrow> c \<notin> set p) \<Longrightarrow> Split (Join ps [c]) c = ps"
proof (induction ps rule: induct_list012)
  case (3 p q ps)
  then have "Split (p @ c # Join (q # ps) [c]) c = p # Split (Join (q # ps) [c]) c"
    by (intro Split_append) auto
  with 3 show ?case by simp
qed (auto simp: Split_no_sep)

lemma replace_fuel_id: "\<not> sublist old s \<Longrightarrow> replace_fuel n s old new = s"
proof (induction n arbitrary: s)
  case (Suc n)
  show ?case
  proof (cases s)
    case (Cons x xs)
    with Suc.prems have "\<not> HasPrefix s old" "\<not> sublist old xs"
      by (auto simp: HasPrefix_iff sublist_Cons_right)
    with Suc.IH Cons show ?thesis by simp
  qed simp
qed simp

lemma ReplaceAll_id [str_simps]: "\<not> sublist old s \<Longrightarrow> ReplaceAll s old new = s"
  by (simp add: ReplaceAll_def replace_fuel_id)

lemma ReplaceAll_id_char [str_simps]: "c \<in> set old \<Longrightarrow> c \<notin> set s \<Longrightarrow> ReplaceAll s old new = s"
  using ReplaceAll_id set_mono_sublist by blast

section \<open>Decimal numbers\<close>

definition digit_char :: "nat \<Rightarrow> char" where
  "digit_char d = char_of (48 + d)"

fun nat_dec :: "nat \<Rightarrow> string" where
  "nat_dec n = (if n < 10 then [digit_char n] else nat_dec (n div 10) @ [digit_char (n mod 10)])"

declare nat_dec.simps [simp del]

text \<open>\<open>strconv.Itoa\<close> and \<open>FormatInt(_, 10)\<close>.\<close>

definition int_dec :: "int \<Rightarrow> string" where
  "int_dec i = (if i < 0 then CHR ''-'' # nat_dec (nat (- i)) else nat_dec (nat i))"

definition is_digit :: "char \<Rightarrow> bool" where
  "is_digit c \<longleftrightarrow> 48 \<le> (of_char c :: nat) \<and> (of_char c :: nat) \<le> 57"

definition digit_val :: "char \<Rightarrow> nat" where
  "digit_val c = of_char c - 48"

definition dec_val :: "string \<Rightarrow> nat" where
  "dec_val s = foldl (\<lambda>a c. 10 * a + digit_val c) 0 s"

lemma digit_char_props:
  assumes "d < 10"
  shows "is_digit (digit_char d)" and "digit_val (digit_char d) = d"
  using assms by (simp_all add: is_digit_def digit_val_def digit_char_def of_char_of)

lemma nat_dec_digits: "c \<in> set (nat_dec n) \<Longrightarrow> is_digit c"
proof (induction n rule: nat_dec.induct)
  case (1 n)
  then show ?case
    by (subst (asm) (2) nat_dec.simps) (auto simp: digit_char_props split: if_splits)
qed

lemma nat_dec_not_Nil [simp]: "nat_dec n \<noteq> []"
  by (subst nat_dec.simps) simp

lemma dec_val_append: "dec_val (s @ [c]) = 10 * dec_val s + digit_val c"
  by (simp add: dec_val_def)

lemma dec_val_nat_dec [simp]: "dec_val (nat_dec n) = n"
proof (induction n rule: nat_dec.induct)
  case (1 n)
  show ?case
  proof (cases "n < 10")
    case True
    then show ?thesis
      by (subst nat_dec.simps) (simp add: dec_val_def digit_char_props)
  next
    case False
    with 1 show ?thesis
      by (subst nat_dec.simps) (simp add: dec_val_append digit_char_props)
  qed
qed

lemma nat_dec_inject [simp]: "nat_dec m = nat_dec n \<longleftrightarrow> m = n"
  by (metis dec_val_nat_dec)

section \<open>Evaluation\<close>

text \<open>Characters by their bits, so that evaluating a case change or a class is a few steps.\<close>

text \<open>\<open>%q\<close>: Go's quoted form of a name.\<close>

definition hex_digit :: "nat \<Rightarrow> char" where
  "hex_digit n = (if n < 10 then digit_char n else char_of (87 + n))"

definition quote_char :: "char \<Rightarrow> string" where
  "quote_char c = (let n = (of_char c :: nat) in
     if c = CHR 0x22 \<or> c = CHR 0x5C then [CHR 0x5C, c]
     else if c = CHR 0x07 then [CHR 0x5C, CHR ''a'']
     else if c = CHR 0x08 then [CHR 0x5C, CHR ''b'']
     else if c = CHR 0x0C then [CHR 0x5C, CHR ''f'']
     else if c = CHR 0x0A then [CHR 0x5C, CHR ''n'']
     else if c = CHR 0x0D then [CHR 0x5C, CHR ''r'']
     else if c = CHR 0x09 then [CHR 0x5C, CHR ''t'']
     else if c = CHR 0x0B then [CHR 0x5C, CHR ''v'']
     else if n < 32 \<or> n = 127 then [CHR 0x5C, CHR ''x'', hex_digit (n div 16), hex_digit (n mod 16)]
     else [c])"

definition go_quote :: "string \<Rightarrow> string" where
  "go_quote s = [CHR 0x22] @ concat (map quote_char s) @ [CHR 0x22]"

lemma upper_char_code [code]:
  "upper_char (Char b0 b1 b2 b3 b4 b5 b6 b7) =
     (if \<not> b7 \<and> b6 \<and> b5 \<and> (if b4 \<and> b3 then \<not> b2 \<and> \<not> (b1 \<and> b0) else b4 \<or> b3 \<or> b2 \<or> b1 \<or> b0)
      then Char b0 b1 b2 b3 b4 False b6 b7 else Char b0 b1 b2 b3 b4 b5 b6 b7)"
  by (cases b0; cases b1; cases b2; cases b3; cases b4; cases b5; cases b6; cases b7)
     (simp_all add: upper_char_def of_char_def char_of_def bit_0)

lemma lower_char_code [code]:
  "lower_char (Char b0 b1 b2 b3 b4 b5 b6 b7) =
     (if \<not> b7 \<and> b6 \<and> \<not> b5 \<and> (if b4 \<and> b3 then \<not> b2 \<and> \<not> (b1 \<and> b0) else b4 \<or> b3 \<or> b2 \<or> b1 \<or> b0)
      then Char b0 b1 b2 b3 b4 True b6 b7 else Char b0 b1 b2 b3 b4 b5 b6 b7)"
  by (cases b0; cases b1; cases b2; cases b3; cases b4; cases b5; cases b6; cases b7)
     (simp_all add: lower_char_def of_char_def char_of_def bit_0)

lemma is_digit_code [code]:
  "is_digit (Char b0 b1 b2 b3 b4 b5 b6 b7) \<longleftrightarrow>
     \<not> b7 \<and> \<not> b6 \<and> b5 \<and> b4 \<and> \<not> (b3 \<and> (b2 \<or> b1))"
  by (cases b0; cases b1; cases b2; cases b3; cases b4; cases b5; cases b6; cases b7)
     (simp_all add: is_digit_def of_char_def)

end
