(* ===== verification/Codec.thy ===== *)
theory Codec
  imports GoPrelude
begin

text \<open>
  The contract every wire format of the proxy keeps, as a locale: an encoder, a decoder
  that reads a stream, and the values the encoder is right for. The client's lemmas are
  proved once here: no encoding is a proper prefix of another, encoding is injective, and
  a sequence of encodings decodes back element by element. The formats of
  \<open>pkg/chproto\<close> and \<open>pkg/pgwire\<close> are interpretations.
\<close>

text \<open>Running a decoder \<open>n\<close> times, as the counted loops of the protocol readers do.\<close>

primrec decode_n :: "nat \<Rightarrow> 'a reader \<Rightarrow> 'a list reader" where
  "decode_n 0 dec = ret []"
| "decode_n (Suc n) dec = bindM dec (\<lambda>x. bindM (decode_n n dec) (\<lambda>xs. ret (x # xs)))"

locale codec =
  fixes enc :: "'a \<Rightarrow> byte list"
    and dec :: "'a reader"
    and valid :: "'a \<Rightarrow> bool"
  assumes dec_enc: "valid x \<Longrightarrow> dec (enc x @ rest) = (Ok x, rest)"
begin

lemma bind_dec: "valid x \<Longrightarrow> bindM dec k (enc x @ rest) = k x rest"
  by (simp add: bindM_def dec_enc)

lemma dec_enc_end: "valid x \<Longrightarrow> dec (enc x) = (Ok x, [])"
  using dec_enc [of x "[]"] by simp

lemma enc_split:
  assumes "valid x" and "valid y" and "enc x @ r = enc y @ t"
  shows "x = y" and "r = t"
proof -
  have "(Ok x, r) = dec (enc y @ t)" using dec_enc [OF assms(1), of r] assms(3) by simp
  also have "\<dots> = (Ok y, t)" by (rule dec_enc [OF assms(2)])
  finally show "x = y" and "r = t" by simp_all
qed

lemma enc_inject: "valid x \<Longrightarrow> valid y \<Longrightarrow> enc x = enc y \<longleftrightarrow> x = y"
  using enc_split [of x y "[]" "[]"] by auto

lemma enc_prefix_free: "valid x \<Longrightarrow> valid y \<Longrightarrow> prefix (enc x) (enc y) \<Longrightarrow> x = y"
  using enc_split(1) [of x y _ "[]"] by (auto simp: prefix_def)

lemma decode_n_concat:
  "(\<And>x. x \<in> set xs \<Longrightarrow> valid x) \<Longrightarrow>
     decode_n (length xs) dec (concat (map enc xs) @ rest) = (Ok xs, rest)"
proof (induction xs)
  case Nil
  show ?case by (simp add: ret_def)
next
  case (Cons x xs)
  then show ?case by (simp add: bindM_def dec_enc ret_def)
qed

end

text \<open>A codec whose decoder accepts nothing but encodings, so that decoding is the inverse relation.\<close>

locale exact_codec = codec +
  assumes dec_sound: "dec s = (Ok x, rest) \<Longrightarrow> valid x \<and> s = enc x @ rest"
begin

lemma dec_iff: "dec s = (Ok x, rest) \<longleftrightarrow> valid x \<and> s = enc x @ rest"
  using dec_sound [of s x rest] dec_enc [of x rest] by auto

lemma bind_iff:
  "bindM dec k s = (Ok y, t) \<longleftrightarrow> (\<exists>x u. valid x \<and> s = enc x @ u \<and> k x u = (Ok y, t))"
  by (simp add: bindM_eq_Ok dec_iff)

lemma decode_n_iff:
  "decode_n n dec s = (Ok xs, rest) \<longleftrightarrow>
     length xs = n \<and> list_all valid xs \<and> s = concat (map enc xs) @ rest"
proof (induction n arbitrary: s xs)
  case 0
  show ?case by auto
next
  case (Suc n)
  have "decode_n (Suc n) dec s = (Ok xs, rest) \<longleftrightarrow>
      (\<exists>x u ys. valid x \<and> s = enc x @ u \<and> decode_n n dec u = (Ok ys, rest) \<and> xs = x # ys)"
    by (auto simp: bindM_eq_Ok dec_iff)
  also have "\<dots> \<longleftrightarrow> length xs = Suc n \<and> list_all valid xs \<and> s = concat (map enc xs) @ rest"
    by (cases xs) (auto simp: Suc.IH)
  finally show ?case .
qed

end

lemma never_err_decode_n [intro]: "never_err dec \<Longrightarrow> never_err (decode_n n dec)"
  by (induction n) auto

text \<open>A codec whose encodings have one width, and whose decoder rejects nothing of that width.\<close>

locale fixed_codec = codec enc dec "\<lambda>_. True"
  for enc :: "'a \<Rightarrow> byte list" and dec :: "'a reader" +
  fixes width :: nat
  assumes enc_width: "length (enc x) = width"
    and dec_short: "length s < width \<Longrightarrow> \<exists>e. dec s = (Err e, [])"
    and enc_surj: "length bs = width \<Longrightarrow> \<exists>x. enc x = bs"
begin

lemma dec_long:
  assumes "width \<le> length s"
  shows "\<exists>x. dec s = (Ok x, drop width s) \<and> enc x = take width s"
proof -
  obtain x where x: "enc x = take width s" using enc_surj [of "take width s"] assms by auto
  then have "dec s = (Ok x, drop width s)"
    using dec_enc [of x "drop width s"] by simp
  with x show ?thesis by blast
qed

lemma dec_total: "(\<exists>x. dec s = (Ok x, drop width s)) \<or> (\<exists>e. dec s = (Err e, []))"
  using dec_long [of s] dec_short [of s] by (cases "width \<le> length s") auto

lemma length_concat_enc: "length (concat (map enc xs)) = width * length xs"
  by (induction xs) (simp_all add: enc_width)

end

end
