(* ===== verification/PgWire.thy ===== *)
theory PgWire
  imports GoStrings Codec
begin

text \<open>
  \<open>pkg/pgwire/wire.go\<close>: the reader side of the PostgreSQL wire protocol. Frames
  (\<open>ReadMessage\<close>), the start-up parameters, and the parsers of the client messages.
  The parsers index and slice the body without checks, so each step is an action on the
  rest of the body that panics where Go does. A body comes from \<open>make([]byte, n)\<close>, so
  its capacity is its length and a slice past the end panics.
\<close>

section \<open>Message types\<close>

definition MsgAuthentication :: byte where "MsgAuthentication = of_char (CHR ''R'')"
definition MsgParameterStatus :: byte where "MsgParameterStatus = of_char (CHR ''S'')"
definition MsgBackendKeyData :: byte where "MsgBackendKeyData = of_char (CHR ''K'')"
definition MsgReadyForQuery :: byte where "MsgReadyForQuery = of_char (CHR ''Z'')"
definition MsgRowDescription :: byte where "MsgRowDescription = of_char (CHR ''T'')"
definition MsgDataRow :: byte where "MsgDataRow = of_char (CHR ''D'')"
definition MsgCommandComplete :: byte where "MsgCommandComplete = of_char (CHR ''C'')"
definition MsgErrorResponse :: byte where "MsgErrorResponse = of_char (CHR ''E'')"
definition MsgNoticeResponse :: byte where "MsgNoticeResponse = of_char (CHR ''N'')"
definition MsgParseComplete :: byte where "MsgParseComplete = of_char (CHR ''1'')"
definition MsgBindComplete :: byte where "MsgBindComplete = of_char (CHR ''2'')"
definition MsgCloseComplete :: byte where "MsgCloseComplete = of_char (CHR ''3'')"
definition MsgNoData :: byte where "MsgNoData = of_char (CHR ''n'')"
definition MsgEmptyQuery :: byte where "MsgEmptyQuery = of_char (CHR ''I'')"
definition MsgParameterDescription :: byte where "MsgParameterDescription = of_char (CHR ''t'')"

definition MsgClientPassword :: byte where "MsgClientPassword = of_char (CHR ''p'')"
definition MsgClientQuery :: byte where "MsgClientQuery = of_char (CHR ''Q'')"
definition MsgClientParse :: byte where "MsgClientParse = of_char (CHR ''P'')"
definition MsgClientBind :: byte where "MsgClientBind = of_char (CHR ''B'')"
definition MsgClientExecute :: byte where "MsgClientExecute = of_char (CHR ''E'')"
definition MsgClientDescribe :: byte where "MsgClientDescribe = of_char (CHR ''D'')"
definition MsgClientSync :: byte where "MsgClientSync = of_char (CHR ''S'')"
definition MsgClientFlush :: byte where "MsgClientFlush = of_char (CHR ''H'')"
definition MsgClientClose :: byte where "MsgClientClose = of_char (CHR ''C'')"
definition MsgClientTerminate :: byte where "MsgClientTerminate = of_char (CHR ''X'')"

definition AuthOK :: "32 word" where "AuthOK = 0"
definition AuthCleartext :: "32 word" where "AuthCleartext = 3"

definition FieldSeverity :: byte where "FieldSeverity = of_char (CHR ''S'')"
definition FieldCode :: byte where "FieldCode = of_char (CHR ''C'')"
definition FieldMessage :: byte where "FieldMessage = of_char (CHR ''M'')"

definition StatusIdle :: byte where "StatusIdle = of_char (CHR ''I'')"
definition StatusInTrans :: byte where "StatusInTrans = of_char (CHR ''T'')"
definition StatusInFailedTx :: byte where "StatusInFailedTx = of_char (CHR ''E'')"

lemmas client_msg_defs = MsgClientPassword_def MsgClientQuery_def MsgClientParse_def
  MsgClientBind_def MsgClientExecute_def MsgClientDescribe_def MsgClientSync_def
  MsgClientFlush_def MsgClientClose_def MsgClientTerminate_def

lemmas status_defs = StatusIdle_def StatusInTrans_def StatusInFailedTx_def

section \<open>Messages\<close>

type_synonym param_map = "string \<rightharpoonup> string"

record startup_message =
  ProtocolVersion :: "32 word"
  Parameters :: param_map

record query_msg =
  q_String :: string

record parse_msg =
  parse_Name :: string
  parse_Query :: string
  ParameterOIDs :: "32 word list"

text \<open>A parameter is \<open>None\<close> for SQL NULL (a nil slice).\<close>

record bind_msg =
  bind_Portal :: string
  PreparedStatement :: string
  ParameterFormatCodes :: "16 word list"
  bind_Parameters :: "byte list option list"
  ResultFormatCodes :: "16 word list"

record execute_msg =
  exec_Portal :: string
  MaxRows :: "32 word"

text \<open>\<open>Describe\<close> and \<open>Close\<close> have the same fields.\<close>

record target_msg =
  target_Type :: byte
  target_Name :: string

record field_description =
  fd_Name :: string
  TableOID :: "32 word"
  TableAttrNumber :: "16 word"
  TypeOID :: "32 word"
  TypeSize :: "16 word"
  TypeModifier :: "32 word"
  FormatCode :: "16 word"

section \<open>Frames\<close>

definition ReadUint32 :: "32 word reader" where
  "ReadUint32 = bindM (ReadFull 4) (\<lambda>bs. ret (be_word bs))"

text \<open>The pairs of a start-up message: a later value of a name replaces an earlier one.\<close>

fun param_pairs :: "byte list list \<Rightarrow> param_map \<Rightarrow> param_map" where
  "param_pairs (k # v # ps) m = param_pairs ps (m(to_str k \<mapsto> to_str v))"
| "param_pairs _ m = m"

definition parseParams :: "byte list \<Rightarrow> param_map" where
  "parseParams paramData =
     (if 1 < length paramData then param_pairs (Split (butlast paramData) 0) Map.empty
      else Map.empty)"

text \<open>\<open>buf := make([]byte, length-4)\<close> in 32-bit arithmetic: a length below four wraps.\<close>

definition readBody :: "32 word \<Rightarrow> byte list reader" where
  "readBody len =
     bindM (makeBytes (unat (len - 4))) (\<lambda>_. ReadFull (unat (len - 4)))"

definition ReadStartupMessage :: "startup_message reader" where
  "ReadStartupMessage =
     bindM ReadUint32 (\<lambda>len.
     bindM (readBody len) (\<lambda>buf.
       if length buf < 4 then liftR (Panic SliceBounds)
       else ret \<lparr>ProtocolVersion = 196608, Parameters = parseParams (drop 4 buf)\<rparr>))"

definition ReadMessage :: "(byte \<times> byte list) reader" where
  "ReadMessage =
     bindM (ReadFull 1) (\<lambda>msgType.
     bindM ReadUint32 (\<lambda>len.
     bindM (readBody len) (\<lambda>buf.
       ret (hd msgType, buf))))"

section \<open>Parsers of the client messages\<close>

text \<open>\<open>idx := bytes.IndexByte(body, 0)\<close>, \<open>body[:idx]\<close>, \<open>body = body[idx+1:]\<close>:
  without a NUL the index is \<open>-1\<close> and the slice panics.\<close>

definition cstring :: "string reader" where
  "cstring body = (case IndexByte body 0 of
       None \<Rightarrow> (Panic SliceBounds, body)
     | Some idx \<Rightarrow> (Ok (to_str (take idx body)), drop (Suc idx) body))"

text \<open>\<open>binary.BigEndian.Uint16(body)\<close> followed by \<open>body = body[2:]\<close>.\<close>

definition u16 :: "16 word reader" where
  "u16 body = (if 2 \<le> length body then (Ok (be_word (take 2 body)), drop 2 body)
               else (Panic IndexRange, body))"

text \<open>\<open>Uint16(body[:2])\<close> and \<open>Uint32(body[:4])\<close>: the slice is what panics.\<close>

definition u16_slice :: "16 word reader" where
  "u16_slice body = (if 2 \<le> length body then (Ok (be_word (take 2 body)), drop 2 body)
                     else (Panic SliceBounds, body))"

definition u32_slice :: "32 word reader" where
  "u32_slice body = (if 4 \<le> length body then (Ok (be_word (take 4 body)), drop 4 body)
                     else (Panic SliceBounds, body))"

definition u32 :: "32 word reader" where
  "u32 body = (if 4 \<le> length body then (Ok (be_word (take 4 body)), drop 4 body)
               else (Panic IndexRange, body))"

text \<open>One parameter of \<open>Bind\<close>: \<open>int32\<close> length, \<open>-1\<close> for NULL, other negative lengths
  panic in \<open>make\<close>.\<close>

definition bindParam :: "byte list option reader" where
  "bindParam =
     bindM u32_slice (\<lambda>paramLen body.
       if paramLen = -1 then (Ok None, body)
       else if sint paramLen < 0 then (Panic MakeSliceLen, body)
       else if unat paramLen \<le> length body
         then (Ok (Some (take (unat paramLen) body)), drop (unat paramLen) body)
         else (Panic SliceBounds, body))"

definition ParseQuery :: "byte list \<Rightarrow> query_msg res" where
  "ParseQuery body = fst (bindM cstring (\<lambda>q. ret \<lparr>q_String = q\<rparr>) body)"

definition ParseParse :: "byte list \<Rightarrow> parse_msg res" where
  "ParseParse body = fst (
     bindM cstring (\<lambda>name.
     bindM cstring (\<lambda>query.
     bindM u16 (\<lambda>numOIDs.
     bindM (decode_n (unat numOIDs) u32_slice) (\<lambda>oids.
       ret \<lparr>parse_Name = name, parse_Query = query, ParameterOIDs = oids\<rparr>)))) body)"

definition ParseBind :: "byte list \<Rightarrow> bind_msg res" where
  "ParseBind body = fst (
     bindM cstring (\<lambda>portal.
     bindM cstring (\<lambda>stmt.
     bindM u16 (\<lambda>numFmt.
     bindM (decode_n (unat numFmt) u16_slice) (\<lambda>fmts.
     bindM u16 (\<lambda>numParams.
     bindM (decode_n (unat numParams) bindParam) (\<lambda>params.
     bindM u16 (\<lambda>numResultFmt.
     bindM (decode_n (unat numResultFmt) u16_slice) (\<lambda>rfmts.
       ret \<lparr>bind_Portal = portal, PreparedStatement = stmt, ParameterFormatCodes = fmts,
            bind_Parameters = params, ResultFormatCodes = rfmts\<rparr>)))))))) body)"

definition ParseExecute :: "byte list \<Rightarrow> execute_msg res" where
  "ParseExecute body = fst (
     bindM cstring (\<lambda>portal.
     bindM u32 (\<lambda>maxRows.
       ret \<lparr>exec_Portal = portal, MaxRows = maxRows\<rparr>)) body)"

text \<open>\<open>body[0]\<close> panics on an empty body, \<open>body[1 : len(body)-1]\<close> on one byte.\<close>

definition ParseDescribe :: "byte list \<Rightarrow> target_msg res" where
  "ParseDescribe body =
     (if body = [] then Panic IndexRange
      else if length body - 1 < 1 then Panic SliceBounds
      else Ok \<lparr>target_Type = hd body, target_Name = to_str (butlast (tl body))\<rparr>)"

definition ParseClose :: "byte list \<Rightarrow> target_msg res" where
  "ParseClose body =
     (if body = [] then Panic IndexRange
      else if length body - 1 < 1 then Panic SliceBounds
      else Ok \<lparr>target_Type = hd body, target_Name = to_str (butlast (tl body))\<rparr>)"

section \<open>The formats as codecs\<close>

text \<open>The reference encodings of the protocol: a NUL-terminated string, a counted list, a parameter.\<close>

definition cstring_bytes :: "string \<Rightarrow> byte list" where
  "cstring_bytes s = to_bytes s @ [0]"

definition no_nul :: "string \<Rightarrow> bool" where
  "no_nul s \<longleftrightarrow> CHR 0x00 \<notin> set s"

definition counted :: "('a \<Rightarrow> byte list) \<Rightarrow> 'a list \<Rightarrow> byte list" where
  "counted enc xs = be_bytes 2 (word_of_nat (length xs) :: 16 word) @ concat (map enc xs)"

primrec param_bytes :: "byte list option \<Rightarrow> byte list" where
  "param_bytes None = be_bytes 4 (-1 :: 32 word)"
| "param_bytes (Some bs) = be_bytes 4 (word_of_nat (length bs) :: 32 word) @ bs"

primrec param_ok :: "byte list option \<Rightarrow> bool" where
  "param_ok None = True"
| "param_ok (Some bs) \<longleftrightarrow> length bs < 2 ^ 31"

lemma char_of_0: "char_of (0 :: nat) = CHR 0x00"
  by (simp add: char_of_def)

lemma nul_to_bytes: "no_nul s \<Longrightarrow> 0 \<notin> set (to_bytes s)"
proof
  assume s: "no_nul s" and "0 \<in> set (to_bytes s)"
  then obtain c where c: "c \<in> set s" "of_char c = (0 :: byte)" by (auto simp: to_bytes_def)
  have "c = char_of (unat (of_char c :: byte))" by simp
  then have "c = CHR 0x00" by (simp add: c(2) char_of_0)
  with c s show False by (simp add: no_nul_def)
qed

text \<open>The encoders of the client's side, as the protocol describes the messages.\<close>

definition parse_body :: "parse_msg \<Rightarrow> byte list" where
  "parse_body p = cstring_bytes (parse_Name p) @ cstring_bytes (parse_Query p)
     @ counted (be_bytes 4) (ParameterOIDs p)"

definition bind_body :: "bind_msg \<Rightarrow> byte list" where
  "bind_body b = cstring_bytes (bind_Portal b) @ cstring_bytes (PreparedStatement b)
     @ counted (be_bytes 2) (ParameterFormatCodes b)
     @ counted param_bytes (bind_Parameters b)
     @ counted (be_bytes 2) (ResultFormatCodes b)"

definition execute_body :: "execute_msg \<Rightarrow> byte list" where
  "execute_body e = cstring_bytes (exec_Portal e) @ be_bytes 4 (MaxRows e)"

definition target_body :: "target_msg \<Rightarrow> byte list" where
  "target_body t = target_Type t # cstring_bytes (target_Name t)"

definition parse_ok :: "parse_msg \<Rightarrow> bool" where
  "parse_ok p \<longleftrightarrow> no_nul (parse_Name p) \<and> no_nul (parse_Query p) \<and> length (ParameterOIDs p) < 2 ^ 16"

definition bind_ok :: "bind_msg \<Rightarrow> bool" where
  "bind_ok b \<longleftrightarrow> no_nul (bind_Portal b) \<and> no_nul (PreparedStatement b)
     \<and> length (ParameterFormatCodes b) < 2 ^ 16 \<and> length (bind_Parameters b) < 2 ^ 16
     \<and> length (ResultFormatCodes b) < 2 ^ 16 \<and> list_all param_ok (bind_Parameters b)"

interpretation cstr: exact_codec cstring_bytes cstring no_nul
proof
  fix s rest
  assume "no_nul s"
  then have "0 \<notin> set (to_bytes s)" by (rule nul_to_bytes)
  then show "cstring (cstring_bytes s @ rest) = (Ok s, rest)"
    by (simp add: cstring_def cstring_bytes_def)
next
  fix s x rest
  assume "cstring s = (Ok x, rest)"
  then obtain i where i: "IndexByte s 0 = Some i" and x: "x = to_str (take i s)" "rest = drop (Suc i) s"
    by (auto simp: cstring_def split: option.splits)
  have "s = cstring_bytes x @ rest"
    using IndexByte_split [OF i] by (simp add: cstring_bytes_def x)
  moreover have "no_nul x"
  proof -
    have "0 \<notin> set (to_bytes x)" using IndexByte_Some [OF i] by (simp add: x)
    then show ?thesis by (auto simp: no_nul_def to_bytes_def image_iff)
  qed
  ultimately show "no_nul x \<and> s = cstring_bytes x @ rest" by simp
qed

lemma be_take: "n \<le> length s \<Longrightarrow> 8 * n = LENGTH('a) \<Longrightarrow> s = be_bytes n (be_word (take n s) :: 'a::len word) @ drop n s"
  by (simp add: be_bytes_be_word)

interpretation u16: exact_codec "be_bytes 2" u16 "\<lambda>_. True"
  by unfold_locales (auto simp: u16_def be_word_be_bytes be_bytes_be_word split: if_splits)

interpretation u16_slice: exact_codec "be_bytes 2" u16_slice "\<lambda>_. True"
  by unfold_locales (auto simp: u16_slice_def be_word_be_bytes be_bytes_be_word split: if_splits)

interpretation u32_slice: exact_codec "be_bytes 4" u32_slice "\<lambda>_. True"
  by unfold_locales (auto simp: u32_slice_def be_word_be_bytes be_bytes_be_word split: if_splits)

interpretation u32: exact_codec "be_bytes 4" u32 "\<lambda>_. True"
  by unfold_locales (auto simp: u32_def be_word_be_bytes be_bytes_be_word split: if_splits)

lemma int32_length:
  assumes "n < 2 ^ 31"
  shows "unat (word_of_nat n :: 32 word) = n" and "0 \<le> sint (word_of_nat n :: 32 word)"
    and "(word_of_nat n :: 32 word) \<noteq> -1"
proof -
  show u: "unat (word_of_nat n :: 32 word) = n" using assms by (simp add: unat_of_nat)
  show s: "0 \<le> sint (word_of_nat n :: 32 word)"
    using assms by (simp add: signed_of_nat signed_take_bit_int_eq_self)
  show "(word_of_nat n :: 32 word) \<noteq> -1"
    using s by auto
qed

lemma unat_nonneg_int32: "0 \<le> sint (w :: 32 word) \<Longrightarrow> unat w < 2 ^ 31"
proof -
  assume nn: "0 \<le> sint w"
  have lt: "sint w < 2 ^ 31" using sint_lt [of w] by simp
  have "uint w = take_bit 32 (sint w)"
    using uint_word_of_int [of "sint w", where 'a = 32] by (simp add: take_bit_eq_mod)
  also have "\<dots> = sint w" using nn lt by (simp add: take_bit_eq_mod)
  finally have "unat w = nat (sint w)" by (metis nat_uint_eq)
  with lt nn show ?thesis by simp
qed

interpretation param: exact_codec param_bytes bindParam param_ok
proof
  fix p rest
  assume ok: "param_ok p"
  show "bindParam (param_bytes p @ rest) = (Ok p, rest)"
  proof (cases p)
    case None
    then show ?thesis by (simp add: bindParam_def bindM_def u32_slice.dec_enc)
  next
    case (Some bs)
    with ok int32_length [of "length bs"] show ?thesis
      by (simp add: bindParam_def bindM_def u32_slice.dec_enc)
  qed
next
  fix s x rest
  assume "bindParam s = (Ok x, rest)"
  then obtain w t where s: "s = be_bytes 4 (w :: 32 word) @ t"
    and x: "(if w = -1 then (Ok None, t) else if sint w < 0 then (Panic MakeSliceLen, t)
         else if unat w \<le> length t then (Ok (Some (take (unat w) t)), drop (unat w) t)
         else (Panic SliceBounds, t)) = (Ok x, rest)"
    by (auto simp: bindParam_def bindM_eq_Ok u32_slice.dec_iff)
  show "param_ok x \<and> s = param_bytes x @ rest"
    using x s unat_nonneg_int32 [of w] by (auto split: if_splits)
qed

text \<open>A counted list: a 16-bit count, then the elements.\<close>

context exact_codec
begin

lemma counted_bind_iff:
  "bindM u16 (\<lambda>n. bindM (decode_n (unat n) dec) k) s = (Ok y, t) \<longleftrightarrow>
     (\<exists>xs u. length xs < 2 ^ 16 \<and> list_all valid xs \<and> s = counted enc xs @ u \<and> k xs u = (Ok y, t))"
proof
  assume "bindM u16 (\<lambda>n. bindM (decode_n (unat n) dec) k) s = (Ok y, t)"
  then obtain n :: "16 word" and xs u where n: "length xs = unat n" "list_all valid xs"
      "s = be_bytes 2 n @ concat (map enc xs) @ u" "k xs u = (Ok y, t)"
    by (auto simp: u16.dec_iff bindM_eq_Ok decode_n_iff)
  moreover have "length xs < 2 ^ 16" using n(1) unsigned_less [of n, where 'a = nat] by simp
  moreover have "s = counted enc xs @ u" using n by (simp add: counted_def)
  ultimately show "\<exists>xs u. length xs < 2 ^ 16 \<and> list_all valid xs \<and> s = counted enc xs @ u \<and> k xs u = (Ok y, t)"
    by blast
next
  assume "\<exists>xs u. length xs < 2 ^ 16 \<and> list_all valid xs \<and> s = counted enc xs @ u \<and> k xs u = (Ok y, t)"
  then obtain xs u where xs: "length xs < 2 ^ 16" "list_all valid xs" "s = counted enc xs @ u" "k xs u = (Ok y, t)"
    by blast
  then have "decode_n (length xs) dec (concat (map enc xs) @ u) = (Ok xs, u)"
    by (simp add: decode_n_iff)
  with xs show "bindM u16 (\<lambda>n. bindM (decode_n (unat n) dec) k) s = (Ok y, t)"
    by (simp add: counted_def u16.bind_dec unat_of_nat bindM_apply_Ok)
qed

lemma counted_bind:
  "length xs < 2 ^ 16 \<Longrightarrow> list_all valid xs \<Longrightarrow>
     bindM u16 (\<lambda>n. bindM (decode_n (unat n) dec) k) (counted enc xs @ rest) = k xs rest"
  using decode_n_iff [of "length xs" "concat (map enc xs) @ rest" xs rest]
  by (simp add: counted_def u16.bind_dec unat_of_nat bindM_apply_Ok)

end

section \<open>Properties\<close>

lemma list_all_True [simp]: "list_all (\<lambda>_. True) xs"
  by (simp add: list_all_iff)

lemmas parser_iffs = fst_eq_iff cstr.bind_iff u32.bind_iff u32_slice.counted_bind_iff
  u16_slice.counted_bind_iff param.counted_bind_iff

lemmas parser_runs = cstr.bind_dec u32.bind_dec u32_slice.counted_bind
  u16_slice.counted_bind param.counted_bind

lemma ParseParse_iff:
  "ParseParse body = Ok p \<longleftrightarrow> parse_ok p \<and> (\<exists>rest. body = parse_body p @ rest)"
proof
  assume "ParseParse body = Ok p"
  then show "parse_ok p \<and> (\<exists>rest. body = parse_body p @ rest)"
    unfolding ParseParse_def parser_iffs by (auto simp: parse_ok_def parse_body_def)
next
  assume "parse_ok p \<and> (\<exists>rest. body = parse_body p @ rest)"
  then show "ParseParse body = Ok p"
    by (auto simp: ParseParse_def parse_ok_def parse_body_def parser_runs ret_def)
qed

lemma ParseBind_iff:
  "ParseBind body = Ok b \<longleftrightarrow> bind_ok b \<and> (\<exists>rest. body = bind_body b @ rest)"
proof
  assume "ParseBind body = Ok b"
  then show "bind_ok b \<and> (\<exists>rest. body = bind_body b @ rest)"
    unfolding ParseBind_def parser_iffs by (auto simp: bind_ok_def bind_body_def)
next
  assume "bind_ok b \<and> (\<exists>rest. body = bind_body b @ rest)"
  then show "ParseBind body = Ok b"
    by (auto simp: ParseBind_def bind_ok_def bind_body_def parser_runs ret_def)
qed

lemma ParseExecute_iff:
  "ParseExecute body = Ok e \<longleftrightarrow> no_nul (exec_Portal e) \<and> (\<exists>rest. body = execute_body e @ rest)"
proof
  assume "ParseExecute body = Ok e"
  then show "no_nul (exec_Portal e) \<and> (\<exists>rest. body = execute_body e @ rest)"
    unfolding ParseExecute_def parser_iffs by (auto simp: execute_body_def)
next
  assume "no_nul (exec_Portal e) \<and> (\<exists>rest. body = execute_body e @ rest)"
  then show "ParseExecute body = Ok e"
    by (auto simp: ParseExecute_def execute_body_def parser_runs ret_def)
qed

lemma ParseQuery_iff:
  "ParseQuery body = Ok q \<longleftrightarrow> no_nul (q_String q) \<and> (\<exists>rest. body = cstring_bytes (q_String q) @ rest)"
  by (cases q) (auto simp: ParseQuery_def parser_iffs)

text \<open>The parsers have no error branch: what they do not accept, they panic on.\<close>

lemma never_err_parsers [intro]:
  "never_err cstring" "never_err u16" "never_err u16_slice" "never_err u32_slice" "never_err u32"
  by (auto simp: never_err_def cstring_def u16_def u16_slice_def u32_slice_def u32_def split: option.split)

lemma never_err_bindParam [intro]: "never_err bindParam"
  unfolding bindParam_def by (intro never_err_bindM never_err_parsers) (auto simp: never_err_def)

lemma cstring_no_nul: "0 \<notin> set body \<Longrightarrow> cstring body = (Panic SliceBounds, body)"
proof -
  assume "0 \<notin> set body"
  then have "IndexByte body 0 = None" by simp
  then show ?thesis by (simp only: cstring_def option.case)
qed

lemma ParseBind_cases: "(\<exists>b. ParseBind body = Ok b) \<or> (\<exists>p. ParseBind body = Panic p)"
  unfolding ParseBind_def
  by (rule never_err_cases)
     (intro never_err_bindM never_err_parsers never_err_decode_n never_err_bindParam never_err_ret)

lemma ParseBind_panic:
  "(\<exists>p. ParseBind body = Panic p) \<longleftrightarrow> \<not> (\<exists>b rest. bind_ok b \<and> body = bind_body b @ rest)"
  using ParseBind_cases [of body] ParseBind_iff [of body] by fastforce

text \<open>
  C1: the parser of \<open>Bind\<close> accepts exactly the encodings of the protocol (with anything
  behind them) and returns what was encoded; on every other body it panics, which no
  caller recovers from.
\<close>

theorem ParseBind_exact:
  "(ParseBind body = Ok b \<longleftrightarrow> bind_ok b \<and> (\<exists>rest. body = bind_body b @ rest))
   \<and> ((\<exists>p. ParseBind body = Panic p) \<longleftrightarrow> \<not> (\<exists>b rest. bind_ok b \<and> body = bind_body b @ rest))"
  by (intro conjI ParseBind_iff ParseBind_panic)

text \<open>
  C20: the parsers of \<open>Query\<close>, \<open>Parse\<close> and \<open>Execute\<close> return exactly what the
  protocol's encoding of the message holds.
\<close>

theorem client_parsers_exact:
  "(ParseQuery body = Ok q \<longleftrightarrow> no_nul (q_String q) \<and> (\<exists>rest. body = cstring_bytes (q_String q) @ rest))
   \<and> (ParseParse body = Ok p \<longleftrightarrow> parse_ok p \<and> (\<exists>rest. body = parse_body p @ rest))
   \<and> (ParseExecute body = Ok e \<longleftrightarrow> no_nul (exec_Portal e) \<and> (\<exists>rest. body = execute_body e @ rest))"
  by (intro conjI ParseQuery_iff ParseParse_iff ParseExecute_iff)

text \<open>
  A client body without a NUL byte makes every parser that expects a string panic, and
  a body of one byte does so for \<open>Describe\<close> and \<open>Close\<close>.
\<close>

theorem unterminated_body_panics:
  assumes "0 \<notin> set body"
  shows "ParseQuery body = Panic SliceBounds \<and> ParseParse body = Panic SliceBounds
    \<and> ParseBind body = Panic SliceBounds \<and> ParseExecute body = Panic SliceBounds
    \<and> ParseDescribe [t] = Panic SliceBounds \<and> ParseClose [t] = Panic SliceBounds"
  using cstring_no_nul [OF assms]
  by (simp add: ParseQuery_def ParseParse_def ParseBind_def ParseExecute_def ParseDescribe_def
    ParseClose_def bindM_apply_Panic)

theorem unterminated_body_panics_witness:
  "ParseQuery [83] = Panic SliceBounds \<and> ParseBind [83] = Panic SliceBounds"
proof -
  have h: "0 \<notin> set [83 :: byte]" by simp
  show ?thesis using unterminated_body_panics [OF h] by blast
qed

text \<open>
  A frame whose length field is below four, its own size, is not rejected: the body
  length wraps in 32 bits, so the reader takes everything the connection still sends and
  fails only when the connection ends before about 4 GiB.
\<close>

theorem short_length_swallows_stream:
  assumes "unat (len :: 32 word) < 4" and "length rest < 2 ^ 32 - 4"
  shows "ReadMessage (ty # be_bytes 4 len @ rest) = (Err (if rest = [] then EOF else UnexpectedEOF), [])"
proof -
  have n: "unat (len - 4) = unat len + 2 ^ 32 - 4"
    using assms(1) by (simp add: unat_sub_if' word_size)
  have "length rest < unat (len - 4)" "unat (len - 4) \<le> max_alloc"
    using assms unsigned_less [of "len - 4", where 'a = nat] n by (simp_all add: max_alloc_def)
  then have "readBody len rest = (Err (if rest = [] then EOF else UnexpectedEOF), [])"
    by (simp add: readBody_def ReadFull_short)
  then show ?thesis
    by (simp add: ReadMessage_def ReadUint32_def bindM_def ret_def ReadFull_def be_word_be_bytes)
qed

theorem short_length_swallows_stream_witness:
  "ReadMessage (81 # be_bytes 4 (3 :: 32 word) @ [83, 0, 0, 0, 4]) = (Err UnexpectedEOF, [])"
proof -
  have h: "unat (3 :: 32 word) < 4" "length [83 :: byte, 0, 0, 0, 4] < 2 ^ 32 - 4" by simp_all
  show ?thesis using short_length_swallows_stream [OF h, of 81] by simp
qed

end
