(* ===== verification/PgWriter.thy ===== *)
theory PgWriter
  imports PgWire
begin

text \<open>
  \<open>pkg/pgwire/writer.go\<close>: the messages the proxy sends. Every message is one frame
  (\<open>writeMessage\<close>); the bodies are built in a buffer that cannot fail, so a message is
  the action that writes its frame to the connection. A data row turns Go values into
  text, or into the binary form of their PostgreSQL type (\<open>textToBinary\<close>).

  The parameter \<open>go_float\<close> holds the functions of \<open>strconv\<close> and \<open>time\<close> on
  floating-point numbers and dates, whose results the writer only copies.
\<close>

section \<open>Frames\<close>

definition writeMessage :: "byte \<Rightarrow> byte list \<Rightarrow> writer" where
  "writeMessage msgType body = seqM
     [WriteBytes [msgType],
      WriteBytes (be_bytes 4 (word_of_nat (length body + 4) :: 32 word)),
      WriteBytes body]"

definition writeMessageNoType :: "byte list \<Rightarrow> writer" where
  "writeMessageNoType body = seqM
     [WriteBytes (be_bytes 4 (word_of_nat (length body + 4) :: 32 word)),
      WriteBytes body]"

text \<open>The frame as one byte string.\<close>

definition frame :: "byte \<Rightarrow> byte list \<Rightarrow> byte list" where
  "frame msgType body = msgType # be_bytes 4 (word_of_nat (length body + 4) :: 32 word) @ body"

lemma writeMessage_frame: "writeMessage ty body = WriteBytes (frame ty body)"
proof -
  have "writeMessage ty body = seqM (map WriteBytes
      [[ty], be_bytes 4 (word_of_nat (length body + 4) :: 32 word), body])"
    by (simp add: writeMessage_def)
  then show ?thesis by (simp only: seqM_WriteBytes) (simp add: frame_def)
qed

section \<open>Messages\<close>

definition AuthenticationOK :: writer where
  "AuthenticationOK = writeMessage MsgAuthentication (be_bytes 4 AuthOK)"

definition SendAuthenticationCleartextPassword :: writer where
  "SendAuthenticationCleartextPassword = writeMessage MsgAuthentication (be_bytes 4 AuthCleartext)"

definition SendReadyForQuery :: "byte \<Rightarrow> writer" where
  "SendReadyForQuery status = writeMessage MsgReadyForQuery [status]"

definition SendParameterStatus :: "string \<Rightarrow> string \<Rightarrow> writer" where
  "SendParameterStatus name value =
     writeMessage MsgParameterStatus (to_bytes name @ [0] @ to_bytes value @ [0])"

definition SendBackendKeyData :: "32 word \<Rightarrow> 32 word \<Rightarrow> writer" where
  "SendBackendKeyData pid secret =
     writeMessage MsgBackendKeyData (be_bytes 4 pid @ be_bytes 4 secret)"

definition field_bytes :: "field_description \<Rightarrow> byte list" where
  "field_bytes f = to_bytes (fd_Name f) @ [0] @ be_bytes 4 (TableOID f)
     @ be_bytes 2 (TableAttrNumber f) @ be_bytes 4 (TypeOID f) @ be_bytes 2 (TypeSize f)
     @ be_bytes 4 (TypeModifier f) @ be_bytes 2 (FormatCode f)"

definition SendRowDescription :: "field_description list \<Rightarrow> writer" where
  "SendRowDescription fds = writeMessage MsgRowDescription
     (be_bytes 2 (word_of_nat (length fds) :: 16 word) @ concat (map field_bytes fds))"

definition SendCommandComplete :: "string \<Rightarrow> writer" where
  "SendCommandComplete tag = writeMessage MsgCommandComplete (to_bytes tag @ [0])"

definition SendParseComplete :: writer where
  "SendParseComplete = writeMessage MsgParseComplete []"

definition SendBindComplete :: writer where
  "SendBindComplete = writeMessage MsgBindComplete []"

definition SendCloseComplete :: writer where
  "SendCloseComplete = writeMessage MsgCloseComplete []"

definition SendNoData :: writer where
  "SendNoData = writeMessage MsgNoData []"

definition SendEmptyQueryResponse :: writer where
  "SendEmptyQueryResponse = writeMessage MsgEmptyQuery []"

text \<open>The fields of an error are a Go map: the list is the order in which \<open>range\<close> visits it.\<close>

definition notice_body :: "(byte \<times> string) list \<Rightarrow> byte list" where
  "notice_body fs = concat (map (\<lambda>(code, value). code # to_bytes value @ [0]) fs) @ [0]"

definition SendErrorResponse :: "(byte \<times> string) list \<Rightarrow> writer" where
  "SendErrorResponse fs = writeMessage MsgErrorResponse (notice_body fs)"

definition SendNoticeResponse :: "(byte \<times> string) list \<Rightarrow> writer" where
  "SendNoticeResponse fs = writeMessage MsgNoticeResponse (notice_body fs)"

definition SendParameterDescription :: "32 word list \<Rightarrow> writer" where
  "SendParameterDescription oids = writeMessage MsgParameterDescription
     (be_bytes 2 (word_of_nat (length oids) :: 16 word) @ concat (map (be_bytes 4) oids))"

definition SendStartupMessage :: "32 word \<Rightarrow> writer" where
  "SendStartupMessage version = writeMessageNoType (be_bytes 4 version)"

section \<open>Values\<close>

text \<open>The dynamic types a row's value can have. \<open>GOther\<close> carries the text that
  \<open>fmt.Sprintf("%v")\<close> gives for a value of any other type, \<open>GTime\<close> that text of a time and
  its text in the layout \<open>2006-01-02 15:04:05.000 -0700\<close>.\<close>

datatype gval =
    GNil
  | GBytes "byte list"
  | GString string
  | GInt "64 word"
  | GUint "64 word"
  | GFloat "64 word"
  | GBool bool
  | GTime string string
  | GOther string

record go_float =
  FormatG :: "64 word \<Rightarrow> string"
  FormatFloat :: "64 word \<Rightarrow> string"
  ParseFloat32 :: "string \<Rightarrow> 32 word"
  ParseFloat64 :: "string \<Rightarrow> 64 word"
  ParseTimestamp :: "string \<Rightarrow> int option"

text \<open>\<open>strconv.ParseUint(s, 10, bits)\<close>: \<open>None\<close> for a character that is no digit; a value
  that does not fit ends the scan with the largest one.\<close>

fun parse_uint :: "nat \<Rightarrow> string \<Rightarrow> nat \<Rightarrow> nat option" where
  "parse_uint bits [] n = Some n"
| "parse_uint bits (c # cs) n =
     (if \<not> is_digit c then None
      else let n' = 10 * n + digit_val c
           in if 2 ^ bits \<le> n' then Some (2 ^ bits - 1) else parse_uint bits cs n')"

text \<open>\<open>n, _ := strconv.ParseInt(s, 10, bits)\<close>: 0 on a syntax error, the nearest value in
  range on a range error.\<close>

definition ParseInt :: "string \<Rightarrow> nat \<Rightarrow> int" where
  "ParseInt s bits =
     (let neg = (s \<noteq> [] \<and> hd s = CHR ''-'');
          digits = (if s \<noteq> [] \<and> (hd s = CHR ''-'' \<or> hd s = CHR ''+'') then tl s else s);
          cutoff = 2 ^ (bits - 1)
      in if digits = [] then 0
         else case parse_uint bits digits 0 of
             None \<Rightarrow> 0
           | Some un \<Rightarrow>
               if \<not> neg \<and> cutoff \<le> int un then cutoff - 1
               else if neg \<and> cutoff < int un then - cutoff
               else if neg then - int un else int un)"

definition textToBinaryTimestamp :: "go_float \<Rightarrow> string \<Rightarrow> byte list" where
  "textToBinaryTimestamp fl s = (case ParseTimestamp fl s of
       None \<Rightarrow> to_bytes s
     | Some micros \<Rightarrow> be_bytes 8 (word_of_int micros :: 64 word))"

definition textToBinary :: "go_float \<Rightarrow> byte list \<Rightarrow> 32 word \<Rightarrow> byte list" where
  "textToBinary fl text oid =
     (let s = to_str text in
      if oid = 16 then (if s = ''t'' \<or> s = ''true'' \<or> s = ''1'' then [1] else [0])
      else if oid = 21 then be_bytes 2 (word_of_int (ParseInt s 16) :: 16 word)
      else if oid = 23 then be_bytes 4 (word_of_int (ParseInt s 32) :: 32 word)
      else if oid = 20 then be_bytes 8 (word_of_int (ParseInt s 64) :: 64 word)
      else if oid = 700 then be_bytes 4 (ParseFloat32 fl s)
      else if oid = 701 then be_bytes 8 (ParseFloat64 fl s)
      else if oid = 1114 then textToBinaryTimestamp fl s
      else text)"

text \<open>The type switch of \<open>SendDataRow\<close>; \<open>None\<close> for nil.\<close>

fun value_text :: "go_float \<Rightarrow> gval \<Rightarrow> byte list option" where
  "value_text fl GNil = None"
| "value_text fl (GBytes b) = Some b"
| "value_text fl (GString s) = Some (to_bytes s)"
| "value_text fl (GInt i) = Some (to_bytes (int_dec (sint i)))"
| "value_text fl (GUint u) = Some (to_bytes (nat_dec (unat u)))"
| "value_text fl (GFloat f) = Some (to_bytes (FormatFloat fl f))"
| "value_text fl (GBool b) = Some (if b then to_bytes ''t'' else to_bytes ''f'')"
| "value_text fl (GTime s layout) = Some (to_bytes s)"
| "value_text fl (GOther s) = Some (to_bytes s)"

definition nth_default :: "'a \<Rightarrow> 'a list \<Rightarrow> nat \<Rightarrow> 'a" where
  "nth_default d xs i = (if i < length xs then xs ! i else d)"

definition cell_data :: "go_float \<Rightarrow> 16 word list \<Rightarrow> 32 word list \<Rightarrow> nat \<Rightarrow> gval \<Rightarrow> byte list option" where
  "cell_data fl formatCodes oids i v = (case value_text fl v of
       None \<Rightarrow> None
     | Some data \<Rightarrow>
         Some (if nth_default 0 formatCodes i = 1 then textToBinary fl data (nth_default 0 oids i)
               else data))"

primrec cell_bytes :: "byte list option \<Rightarrow> byte list" where
  "cell_bytes None = be_bytes 4 (-1 :: 32 word)"
| "cell_bytes (Some data) = be_bytes 4 (word_of_nat (length data) :: 32 word) @ data"

definition row_cells :: "go_float \<Rightarrow> gval list \<Rightarrow> 16 word list \<Rightarrow> 32 word list \<Rightarrow> byte list option list" where
  "row_cells fl values formatCodes oids =
     map (\<lambda>(i, v). cell_data fl formatCodes oids i v) (enumerate 0 values)"

definition SendDataRow :: "go_float \<Rightarrow> gval list \<Rightarrow> 16 word list \<Rightarrow> 32 word list \<Rightarrow> writer" where
  "SendDataRow fl values formatCodes oids = writeMessage MsgDataRow
     (be_bytes 2 (word_of_nat (length values) :: 16 word)
      @ concat (map cell_bytes (row_cells fl values formatCodes oids)))"

section \<open>Reading back\<close>

definition frame_ok :: "byte \<times> byte list \<Rightarrow> bool" where
  "frame_ok m \<longleftrightarrow> length (snd m) + 4 < 2 ^ 32"

interpretation pg_frame: codec "\<lambda>m. frame (fst m) (snd m)" ReadMessage frame_ok
proof
  fix m rest
  assume ok: "frame_ok m"
  obtain ty body where m: "m = (ty, body)" by (cases m)
  have "unat (word_of_nat (length body + 4) - 4 :: 32 word) = length body"
    using ok unat_of_nat [of "length body", where 'a = 32] by (simp add: frame_ok_def m)
  moreover have "length body \<le> max_alloc" using ok by (simp add: frame_ok_def m max_alloc_def)
  ultimately show "ReadMessage (frame (fst m) (snd m) @ rest) = (Ok m, rest)"
    by (simp add: m frame_def ReadMessage_def ReadUint32_def readBody_def bindM_def ret_def
      ReadFull_def be_word_be_bytes)
qed

text \<open>A client reads a row as a counted list of parameters: the layout is that of \<open>Bind\<close>.\<close>

lemma cell_bytes_param: "cell_bytes = param_bytes"
proof
  fix p show "cell_bytes p = param_bytes p" by (cases p) simp_all
qed

lemma length_row_cells [simp]: "length (row_cells fl vs fc oids) = length vs"
  by (simp add: row_cells_def)

lemma row_cells_nth:
  "i < length vs \<Longrightarrow> row_cells fl vs fc oids ! i = cell_data fl fc oids i (vs ! i)"
  by (simp add: row_cells_def nth_enumerate_eq)

text \<open>The reader's view of a row: a count and the cells.\<close>

definition client_row :: "byte list option list reader" where
  "client_row = bindM u16 (\<lambda>n. bindM (decode_n (unat n) bindParam) ret)"

lemma client_row_cells:
  "length cells < 2 ^ 16 \<Longrightarrow> list_all param_ok cells \<Longrightarrow>
     client_row (be_bytes 2 (word_of_nat (length cells) :: 16 word) @ concat (map cell_bytes cells))
       = (Ok cells, [])"
  using param.counted_bind [of cells ret "[]"]
  by (simp add: client_row_def counted_def cell_bytes_param ret_def)

lemma seqM_writeMessage:
  "seqM (map (\<lambda>m. writeMessage (fst m) (snd m)) ms)
     = WriteBytes (concat (map (\<lambda>m. frame (fst m) (snd m)) ms))"
  using seqM_WriteBytes [of "map (\<lambda>m. frame (fst m) (snd m)) ms"]
  by (simp add: writeMessage_frame comp_def)

lemma foldl_dec_ge: "n \<le> foldl (\<lambda>a c. 10 * a + digit_val c) n cs"
proof (induction cs arbitrary: n)
  case (Cons c cs)
  show ?case using Cons.IH [of "10 * n + digit_val c"] by simp
qed simp

lemma parse_uint_digits:
  "list_all is_digit cs \<Longrightarrow> n < 2 ^ bits \<Longrightarrow>
     parse_uint bits cs n = Some (min (foldl (\<lambda>a c. 10 * a + digit_val c) n cs) (2 ^ bits - 1))"
proof (induction cs arbitrary: n)
  case Nil
  then show ?case by (simp add: min_def)
next
  case (Cons c cs)
  let ?n = "10 * n + digit_val c"
  show ?case
  proof (cases "2 ^ bits \<le> ?n")
    case True
    then have "2 ^ bits - 1 \<le> foldl (\<lambda>a c. 10 * a + digit_val c) ?n cs"
      using foldl_dec_ge [of ?n cs] by linarith
    with True Cons.prems show ?thesis by (simp add: Let_def min_absorb2)
  next
    case False
    with Cons show ?thesis by (simp add: Let_def)
  qed
qed

lemma parse_uint_nat_dec: "parse_uint bits (nat_dec n) 0 = Some (min n (2 ^ bits - 1))"
  using parse_uint_digits [of "nat_dec n" 0 bits] dec_val_nat_dec [of n]
  by (simp add: list_all_iff nat_dec_digits dec_val_def)

text \<open>The value of \<open>bits\<close> bits that is nearest to \<open>i\<close>.\<close>

definition clamp :: "nat \<Rightarrow> int \<Rightarrow> int" where
  "clamp bits i = max (- (2 ^ (bits - 1))) (min (2 ^ (bits - 1) - 1) i)"

lemma is_digit_hd: "is_digit c \<Longrightarrow> c \<noteq> CHR ''-'' \<and> c \<noteq> CHR ''+''"
  by (auto simp: is_digit_def)

lemma nat_dec_hd: "hd (nat_dec n) \<noteq> CHR ''-''" "hd (nat_dec n) \<noteq> CHR ''+''"
  using nat_dec_digits [of "hd (nat_dec n)" n] is_digit_hd by auto

lemma ParseInt_int_dec:
  assumes "0 < bits"
  shows "ParseInt (int_dec i) bits = clamp bits i"
proof -
  define c :: int where "c = 2 ^ (bits - 1)"
  define N :: nat where "N = 2 ^ bits - 1"
  have c: "0 < c" and N: "int N = 2 * c - 1"
    using assms by (simp_all add: c_def N_def of_nat_diff flip: power_Suc)
  have pu: "parse_uint bits (nat_dec n) 0 = Some (min n N)" for n
    by (simp add: parse_uint_nat_dec N_def)
  have neg: "i < 0 \<Longrightarrow> int (min (nat (- i)) N) = min (- i) (2 * c - 1)"
    and pos: "0 \<le> i \<Longrightarrow> int (min (nat i) N) = min i (2 * c - 1)"
    by (simp_all add: of_nat_min N)
  show ?thesis
  proof (cases "i < 0")
    case True
    then show ?thesis
      unfolding ParseInt_def clamp_def int_dec_def Let_def c_def [symmetric]
      using c by (simp add: pu neg; simp add: min_def max_def)
  next
    case False
    then show ?thesis
      unfolding ParseInt_def clamp_def int_dec_def Let_def c_def [symmetric]
      using c by (simp add: pu nat_dec_hd pos; simp add: min_def max_def)
  qed
qed

section \<open>Properties\<close>

text \<open>
  C16: what the proxy writes with \<open>writeMessage\<close>, message after message, a client that
  reads frames gets back: the same types and bodies in the same order.
\<close>

theorem message_stream_roundtrip:
  assumes "list_all frame_ok ms"
  shows "\<exists>bs. seqM (map (\<lambda>m. writeMessage (fst m) (snd m)) ms) (open_sink []) = (Ok (), open_sink bs)
    \<and> decode_n (length ms) ReadMessage (bs @ rest) = (Ok ms, rest)"
  using pg_frame.decode_n_concat [of ms rest] assms
  by (simp add: list_all_iff seqM_writeMessage open_sink_def)

theorem message_stream_roundtrip_witness:
  "\<exists>bs. seqM (map (\<lambda>m. writeMessage (fst m) (snd m)) [(83, [1, 0, 2, 0]), (90, [73])]) (open_sink []) = (Ok (), open_sink bs)
    \<and> decode_n 2 ReadMessage (bs @ [7]) = (Ok [(83, [1, 0, 2, 0]), (90, [73])], [7])"
proof -
  have h: "list_all frame_ok [(83, [1, 0, 2, 0]), (90, [73])]"
    by (simp add: frame_ok_def)
  show ?thesis using message_stream_roundtrip [OF h, of "[7]"] by (simp only: list.size) (simp add: numeral_2_eq_2)
qed

text \<open>
  C17: a data row is one frame, and a client that reads the frame and then the counted
  cells gets NULL for a nil value and otherwise the text of the value, in the binary form
  of its column's type where the column's format code is 1.
\<close>

theorem DataRow_roundtrip:
  assumes "length vs < 2 ^ 16" and "list_all param_ok (row_cells fl vs fc oids)"
    and "length (concat (map cell_bytes (row_cells fl vs fc oids))) < 2 ^ 31"
  shows "\<exists>bs. SendDataRow fl vs fc oids (open_sink []) = (Ok (), open_sink bs)
    \<and> bindM ReadMessage (\<lambda>m. liftR (fst (bindM client_row (\<lambda>cells. ret (fst m, cells)) (snd m)))) (bs @ rest)
        = (Ok (MsgDataRow, row_cells fl vs fc oids), rest)
    \<and> (\<forall>i < length vs. row_cells fl vs fc oids ! i = cell_data fl fc oids i (vs ! i))"
proof -
  let ?cells = "row_cells fl vs fc oids"
  let ?body = "be_bytes 2 (word_of_nat (length vs) :: 16 word) @ concat (map cell_bytes ?cells)"
  have "frame_ok (MsgDataRow, ?body)" using assms(3) by (simp add: frame_ok_def)
  then have m: "ReadMessage (frame MsgDataRow ?body @ rest) = (Ok (MsgDataRow, ?body), rest)"
    using pg_frame.dec_enc [of "(MsgDataRow, ?body)" rest] by simp
  have "client_row ?body = (Ok ?cells, [])"
    using client_row_cells [of ?cells] assms(1,2) by simp
  with m show ?thesis
    by (simp add: SendDataRow_def writeMessage_frame open_sink_def bindM_def liftR_def ret_def
      row_cells_nth)
qed

definition plain_float :: go_float where
  "plain_float = \<lparr>FormatG = \<lambda>_. ''0'', FormatFloat = \<lambda>_. ''0'', ParseFloat32 = \<lambda>_. 0, ParseFloat64 = \<lambda>_. 0,
     ParseTimestamp = \<lambda>_. None\<rparr>"

theorem DataRow_roundtrip_witness:
  "\<exists>bs. SendDataRow plain_float [GNil, GBool True, GString ''ab''] [0, 1] [25, 16] (open_sink []) = (Ok (), open_sink bs)
    \<and> bindM ReadMessage (\<lambda>m. liftR (fst (bindM client_row (\<lambda>cells. ret (fst m, cells)) (snd m)))) (bs @ [])
        = (Ok (MsgDataRow, [None, Some [1], Some (to_bytes ''ab'')]), [])"
proof -
  have cells: "row_cells plain_float [GNil, GBool True, GString ''ab''] [0, 1] [25, 16]
      = [None, Some [1], Some (to_bytes ''ab'')]"
    by (simp add: row_cells_def cell_data_def nth_default_def textToBinary_def Let_def del: to_bytes_Cons)
  show ?thesis
    using DataRow_roundtrip [of "[GNil, GBool True, GString ''ab'']" plain_float "[0, 1]" "[25, 16]" "[]"]
    by (simp only: cells) (auto simp: )
qed

text \<open>
  C31: the binary form of an integer's decimal text is its two's complement in the width of
  the column's type; a value outside that width becomes the nearest one inside it, without
  an error to the client.
\<close>

theorem textToBinary_int:
  "textToBinary fl (to_bytes (int_dec i)) 21 = be_bytes 2 (word_of_int (clamp 16 i) :: 16 word)
   \<and> textToBinary fl (to_bytes (int_dec i)) 23 = be_bytes 4 (word_of_int (clamp 32 i) :: 32 word)
   \<and> textToBinary fl (to_bytes (int_dec i)) 20 = be_bytes 8 (word_of_int (clamp 64 i) :: 64 word)"
  by (simp add: textToBinary_def ParseInt_int_dec)

end
