(* ===== verification/ProxyConfig.thy ===== *)
theory ProxyConfig
  imports GoStrings
begin

text \<open>
  \<open>internal/config/config.go\<close>: the configuration, its defaults, and how the environment
  overrides what the file says. Reading the file and parsing YAML are parameters: the content
  of the file or the error, and the effect of \<open>yaml.Unmarshal\<close> on the defaults. Durations
  are in nanoseconds.
\<close>

record listen_config =
  PostgreSQL :: string
  ClickHouseNative :: string
  ClickHouseHTTP :: string

record mysql_config =
  Host :: string
  Port :: int
  User :: string
  Password :: string
  Database :: string
  MaxOpenConns :: int
  MaxIdleConns :: int
  ConnMaxLifetime :: int

record pg_to_mysql_config =
  pg_Enabled :: bool
  ArrayColumnMode :: string
  FulltextMode :: string

record ch_to_mysql_config =
  ch_Enabled :: bool
  AggMode :: string
  WriteBufferSize :: int
  WriteFlushInterval :: int

record proxy_config =
  PGToMySQL :: pg_to_mysql_config
  CHToMySQL :: ch_to_mysql_config

record log_config =
  Level :: string
  Format :: string

record config =
  Listen :: listen_config
  MySQL :: mysql_config
  Proxy :: proxy_config
  Log :: log_config

definition Second :: int where
  "Second = 10 ^ 9"

definition DefaultConfig :: config where
  "DefaultConfig = \<lparr>
     Listen = \<lparr>PostgreSQL = ''0.0.0.0:5432'', ClickHouseNative = ''0.0.0.0:9000'', ClickHouseHTTP = ''0.0.0.0:8123''\<rparr>,
     MySQL = \<lparr>Host = ''127.0.0.1'', Port = 3306, User = ''langfuse'', Password = [], Database = ''langfuse'',
       MaxOpenConns = 100, MaxIdleConns = 20, ConnMaxLifetime = 600 * Second\<rparr>,
     Proxy = \<lparr>
       PGToMySQL = \<lparr>pg_Enabled = True, ArrayColumnMode = ''json'', FulltextMode = ''match_against''\<rparr>,
       CHToMySQL = \<lparr>ch_Enabled = True, AggMode = ''realtime'', WriteBufferSize = 10000, WriteFlushInterval = Second\<rparr>\<rparr>,
     Log = \<lparr>Level = ''info'', Format = ''json''\<rparr>\<rparr>"

text \<open>\<open>os.Getenv\<close>: an unset variable is empty.\<close>

type_synonym environment = "string \<Rightarrow> string"

definition on_mysql :: "(mysql_config \<Rightarrow> mysql_config) \<Rightarrow> config \<Rightarrow> config" where
  "on_mysql f cfg = cfg\<lparr>MySQL := f (MySQL cfg)\<rparr>"

definition on_listen :: "(listen_config \<Rightarrow> listen_config) \<Rightarrow> config \<Rightarrow> config" where
  "on_listen f cfg = cfg\<lparr>Listen := f (Listen cfg)\<rparr>"

definition on_log :: "(log_config \<Rightarrow> log_config) \<Rightarrow> config \<Rightarrow> config" where
  "on_log f cfg = cfg\<lparr>Log := f (Log cfg)\<rparr>"

definition override :: "environment \<Rightarrow> string \<Rightarrow> (string \<Rightarrow> config \<Rightarrow> config) \<Rightarrow> config \<Rightarrow> config" where
  "override env name f cfg = (if env name \<noteq> [] then f (env name) cfg else cfg)"

definition env_overrides :: "environment \<Rightarrow> config \<Rightarrow> config" where
  "env_overrides env cfg = fold (\<lambda>(name, f). override env name f)
     [(''MYSQL_HOST'', \<lambda>v. on_mysql (\<lambda>m. m\<lparr>Host := v\<rparr>)),
      (''MYSQL_PORT'', \<lambda>v. on_mysql (\<lambda>m. m\<lparr>Port := 3306\<rparr>)),
      (''MYSQL_USER'', \<lambda>v. on_mysql (\<lambda>m. m\<lparr>User := v\<rparr>)),
      (''MYSQL_PASSWORD'', \<lambda>v. on_mysql (\<lambda>m. m\<lparr>Password := v\<rparr>)),
      (''MYSQL_DATABASE'', \<lambda>v. on_mysql (\<lambda>m. m\<lparr>Database := v\<rparr>)),
      (''PG_LISTEN'', \<lambda>v. on_listen (\<lambda>l. l\<lparr>PostgreSQL := v\<rparr>)),
      (''CH_NATIVE_LISTEN'', \<lambda>v. on_listen (\<lambda>l. l\<lparr>ClickHouseNative := v\<rparr>)),
      (''CH_HTTP_LISTEN'', \<lambda>v. on_listen (\<lambda>l. l\<lparr>ClickHouseHTTP := v\<rparr>)),
      (''LOG_LEVEL'', \<lambda>v. on_log (\<lambda>l. l\<lparr>Level := v\<rparr>))] cfg"

text \<open>The file: missing, unreadable, or its bytes.\<close>

datatype config_file = NotExist | Unreadable go_err | FileData "byte list"

definition LoadConfig :: "(byte list \<Rightarrow> config \<Rightarrow> config res) \<Rightarrow> environment \<Rightarrow> config_file \<Rightarrow> config res" where
  "LoadConfig unmarshal env file = (case file of
       NotExist \<Rightarrow> Ok DefaultConfig
     | Unreadable e \<Rightarrow> Err e
     | FileData bs \<Rightarrow> bind_res (unmarshal bs DefaultConfig) (\<lambda>cfg. Ok (env_overrides env cfg)))"

section \<open>What the environment decides\<close>

lemma on_fields [simp]:
  "MySQL (on_mysql f c) = f (MySQL c)" "Listen (on_mysql f c) = Listen c"
  "Proxy (on_mysql f c) = Proxy c" "Log (on_mysql f c) = Log c"
  "MySQL (on_listen g c) = MySQL c" "Listen (on_listen g c) = g (Listen c)"
  "Proxy (on_listen g c) = Proxy c" "Log (on_listen g c) = Log c"
  "MySQL (on_log h c) = MySQL c" "Listen (on_log h c) = Listen c"
  "Proxy (on_log h c) = Proxy c" "Log (on_log h c) = h (Log c)"
  by (simp_all add: on_mysql_def on_listen_def on_log_def)

lemma override_fields:
  "override env n (\<lambda>v. on_mysql (\<lambda>m. m\<lparr>Host := v\<rparr>)) c
     = on_mysql (\<lambda>m. m\<lparr>Host := if env n = [] then Host m else env n\<rparr>) c"
  "override env n (\<lambda>v. on_mysql (\<lambda>m. m\<lparr>Port := 3306\<rparr>)) c
     = on_mysql (\<lambda>m. m\<lparr>Port := if env n = [] then Port m else 3306\<rparr>) c"
  "override env n (\<lambda>v. on_mysql (\<lambda>m. m\<lparr>User := v\<rparr>)) c
     = on_mysql (\<lambda>m. m\<lparr>User := if env n = [] then User m else env n\<rparr>) c"
  "override env n (\<lambda>v. on_mysql (\<lambda>m. m\<lparr>Password := v\<rparr>)) c
     = on_mysql (\<lambda>m. m\<lparr>Password := if env n = [] then Password m else env n\<rparr>) c"
  "override env n (\<lambda>v. on_mysql (\<lambda>m. m\<lparr>Database := v\<rparr>)) c
     = on_mysql (\<lambda>m. m\<lparr>Database := if env n = [] then Database m else env n\<rparr>) c"
  "override env n (\<lambda>v. on_listen (\<lambda>l. l\<lparr>PostgreSQL := v\<rparr>)) c
     = on_listen (\<lambda>l. l\<lparr>PostgreSQL := if env n = [] then PostgreSQL l else env n\<rparr>) c"
  "override env n (\<lambda>v. on_listen (\<lambda>l. l\<lparr>ClickHouseNative := v\<rparr>)) c
     = on_listen (\<lambda>l. l\<lparr>ClickHouseNative := if env n = [] then ClickHouseNative l else env n\<rparr>) c"
  "override env n (\<lambda>v. on_listen (\<lambda>l. l\<lparr>ClickHouseHTTP := v\<rparr>)) c
     = on_listen (\<lambda>l. l\<lparr>ClickHouseHTTP := if env n = [] then ClickHouseHTTP l else env n\<rparr>) c"
  "override env n (\<lambda>v. on_log (\<lambda>l. l\<lparr>Level := v\<rparr>)) c
     = on_log (\<lambda>l. l\<lparr>Level := if env n = [] then Level l else env n\<rparr>) c"
  by (simp_all add: override_def on_mysql_def on_listen_def on_log_def)

text \<open>
  Without a configuration file the environment is not looked at: the proxy runs with the
  built-in defaults, whatever \<open>MYSQL_HOST\<close>, \<open>MYSQL_PASSWORD\<close> or the listen addresses say.
\<close>

theorem missing_file_ignores_environment:
  "LoadConfig unmarshal env NotExist = Ok DefaultConfig"
  by (simp add: LoadConfig_def)

text \<open>
  With a file, a variable that is set decides its field, a variable that is not leaves the
  value of the file; the exception is \<open>MYSQL_PORT\<close>, which sets the port to 3306 whatever its
  value.
\<close>

theorem environment_decides:
  assumes "unmarshal bs DefaultConfig = Ok cfg"
  shows "\<exists>r. LoadConfig unmarshal env (FileData bs) = Ok r
    \<and> Host (MySQL r) = (if env ''MYSQL_HOST'' = [] then Host (MySQL cfg) else env ''MYSQL_HOST'')
    \<and> Port (MySQL r) = (if env ''MYSQL_PORT'' = [] then Port (MySQL cfg) else 3306)
    \<and> User (MySQL r) = (if env ''MYSQL_USER'' = [] then User (MySQL cfg) else env ''MYSQL_USER'')
    \<and> Password (MySQL r) = (if env ''MYSQL_PASSWORD'' = [] then Password (MySQL cfg) else env ''MYSQL_PASSWORD'')
    \<and> Database (MySQL r) = (if env ''MYSQL_DATABASE'' = [] then Database (MySQL cfg) else env ''MYSQL_DATABASE'')
    \<and> PostgreSQL (Listen r) = (if env ''PG_LISTEN'' = [] then PostgreSQL (Listen cfg) else env ''PG_LISTEN'')
    \<and> ClickHouseNative (Listen r) =
        (if env ''CH_NATIVE_LISTEN'' = [] then ClickHouseNative (Listen cfg) else env ''CH_NATIVE_LISTEN'')
    \<and> ClickHouseHTTP (Listen r) =
        (if env ''CH_HTTP_LISTEN'' = [] then ClickHouseHTTP (Listen cfg) else env ''CH_HTTP_LISTEN'')
    \<and> Level (Log r) = (if env ''LOG_LEVEL'' = [] then Level (Log cfg) else env ''LOG_LEVEL'')
    \<and> Proxy r = Proxy cfg \<and> MaxOpenConns (MySQL r) = MaxOpenConns (MySQL cfg)"
  using assms
  by (simp add: LoadConfig_def env_overrides_def override_fields)

theorem environment_decides_witness:
  "\<exists>r. LoadConfig (\<lambda>bs cfg. Ok cfg) (\<lambda>name. if name = ''MYSQL_PORT'' then ''3307'' else []) (FileData []) = Ok r
    \<and> Port (MySQL r) = 3306"
  using environment_decides [of "\<lambda>bs cfg. Ok cfg" "[]" DefaultConfig
      "\<lambda>name. if name = ''MYSQL_PORT'' then ''3307'' else []"]
  by auto

end
