(* ===== verification/Steps.thy ===== *)
theory Steps
  imports GoPrelude
begin

text \<open>
  The control structures of Go handlers on top of the state monad of \<open>GoPrelude\<close> (reading
  and changing the state, \<open>if err != nil\<close>, dropped errors), and relations between states
  that actions keep. The locale \<open>kept_relation\<close> says when a relation between the state before
  and the state after passes through all of them; every invariant of a connection, of either
  server, is an interpretation of it or of an extension.
\<close>

section \<open>Steps\<close>

definition getM :: "('s \<Rightarrow> ('s, 'a) act) \<Rightarrow> ('s, 'a) act" where
  "getM f s = f s s"

definition modifyM :: "('s \<Rightarrow> 's) \<Rightarrow> ('s, unit) act" where
  "modifyM f s = (Ok (), f s)"

text \<open>\<open>if err := m(); err != nil { h }\<close>.\<close>

definition catchM :: "('s, 'a) act \<Rightarrow> (go_err \<Rightarrow> ('s, 'a) act) \<Rightarrow> ('s, 'a) act" where
  "catchM m h s = (case m s of (Err e, s') \<Rightarrow> h e s' | r \<Rightarrow> r)"

definition ignoreM :: "('s, unit) act \<Rightarrow> ('s, unit) act" where
  "ignoreM m = catchM m (\<lambda>_. ret ())"

text \<open>How a connection ends: closed, or the process goes down with a panic.\<close>

datatype ending = Closed | Crashed go_panic

text \<open>What writing does to a sink: the output grows, a peer that takes everything still does.\<close>

definition grows :: "sink \<Rightarrow> sink \<Rightarrow> bool" where
  "grows k l \<longleftrightarrow> prefix (out k) (out l) \<and> (room k = None \<longrightarrow> room l = None)"

lemma grows_refl [simp]: "grows k k"
  by (simp add: grows_def)

lemma grows_trans: "grows k l \<Longrightarrow> grows l m \<Longrightarrow> grows k m"
  by (auto simp: grows_def dest: prefix_order.order_trans)

section \<open>Relations kept by actions\<close>

definition within :: "('s \<Rightarrow> 's \<Rightarrow> bool) \<Rightarrow> ('s, 'a) act \<Rightarrow> bool" where
  "within R m \<longleftrightarrow> (\<forall>s. R s (snd (m s)))"

lemma withinD: "within R m \<Longrightarrow> R s (snd (m s))"
  by (simp add: within_def)

lemma within_run: "within R m \<Longrightarrow> m s = (r, t) \<Longrightarrow> R s t"
  using withinD [of R m s] by simp

lemma modify_keep: "(\<And>s. R s (f s)) \<Longrightarrow> within R (modifyM f)"
  by (simp add: within_def modifyM_def)

lemma if_cases:
  "(c \<Longrightarrow> within R a) \<Longrightarrow> (\<not> c \<Longrightarrow> within R b) \<Longrightarrow> within R (if c then a else b)"
  by simp

locale kept_relation =
  fixes R :: "'s \<Rightarrow> 's \<Rightarrow> bool"
  assumes R_refl: "R s s"
    and R_trans: "R s t \<Longrightarrow> R t u \<Longrightarrow> R s u"
begin

lemma pure_ret: "within R (ret x)"
  by (simp add: within_def ret_def R_refl)

lemma pure_fail: "within R (failM e)"
  by (simp add: within_def failM_def R_refl)

lemma pure_lift: "within R (liftR r)"
  by (simp add: within_def liftR_def R_refl)

lemma bind_keep: "within R m \<Longrightarrow> (\<And>x. within R (f x)) \<Longrightarrow> within R (bindM m f)"
  unfolding within_def
proof
  fix s
  assume m: "\<forall>s. R s (snd (m s))" and f: "\<And>x. \<forall>s. R s (snd (f x s))"
  show "R s (snd (bindM m f s))"
    using m [THEN spec, of s] f R_trans by (auto simp: bindM_def split: prod.split res.split)
qed

lemma catch_keep: "within R m \<Longrightarrow> (\<And>e. within R (h e)) \<Longrightarrow> within R (catchM m h)"
  unfolding within_def
proof
  fix s
  assume m: "\<forall>s. R s (snd (m s))" and h: "\<And>e. \<forall>s. R s (snd (h e s))"
  show "R s (snd (catchM m h s))"
    using m [THEN spec, of s] h R_trans by (auto simp: catchM_def split: prod.split res.split)
qed

lemma get_keep: "(\<And>s. within R (f s)) \<Longrightarrow> within R (getM f)"
  by (simp add: within_def getM_def)

lemma ignore_keep: "within R m \<Longrightarrow> within R (ignoreM m)"
  unfolding ignoreM_def by (intro catch_keep pure_ret)

lemma or_else_keep: "within R m \<Longrightarrow> within R (orElse d m)"
  unfolding within_def orElse_def by (auto split: prod.split res.split) (metis snd_conv)+

lemma seq_keep: "(\<And>m. m \<in> set ms \<Longrightarrow> within R m) \<Longrightarrow> within R (seqM ms)"
  by (induction ms) (auto intro!: bind_keep pure_ret)

lemma if_keep: "within R a \<Longrightarrow> within R b \<Longrightarrow> within R (if c then a else b)"
  by simp

lemmas control = if_keep pure_ret pure_fail pure_lift bind_keep catch_keep get_keep ignore_keep or_else_keep

end

end
