(* ===== verification/MysqlPool.thy ===== *)
theory MysqlPool
  imports PgWriter ProxyConfig Steps
begin

text \<open>
  The database behind the proxy. MySQL and \<open>database/sql\<close> are a parameter: what a statement
  returns and how it changes the database \<open>'d\<close>, and what the steps of a transaction do. A
  result set has the type and name of each column, the rows as they are scanned (or the error
  of the scan), and the error that ends the iteration. On top of it, the functions of
  \<open>internal/mysql/pool.go\<close>; its \<open>Exec\<close>, \<open>Query\<close> and \<open>QueryRow\<close> only pass their arguments on.
\<close>

section \<open>Results and statements\<close>

record mysql_rows =
  col_types :: "string list res"
  col_names :: "string list res"
  scans :: "gval list res list"
  iter_err :: "go_err option"

record 'd mysql =
  pool_Query :: "string \<Rightarrow> gval list \<Rightarrow> ('d, mysql_rows) act"
  pool_Exec :: "string \<Rightarrow> gval list \<Rightarrow> ('d, 64 word) act"

record 'd transactions =
  tx_Begin :: "('d, unit) act"
  tx_Exec :: "string \<Rightarrow> ('d, unit) act"
  tx_Commit :: "('d, unit) act"
  tx_Rollback :: "('d, unit) act"

text \<open>Scanning one column into a Go string, integer or boolean variable: \<open>None\<close> for an error,
  which leaves the variable as it was.\<close>

definition scan_string :: "gval \<Rightarrow> string option" where
  "scan_string v = (case v of
       GBytes b \<Rightarrow> Some (to_str b)
     | GString s \<Rightarrow> Some s
     | GInt i \<Rightarrow> Some (int_dec (sint i))
     | GUint u \<Rightarrow> Some (nat_dec (unat u))
     | _ \<Rightarrow> None)"

definition text_int :: "string \<Rightarrow> int option" where
  "text_int s = (let neg = (s \<noteq> [] \<and> hd s = CHR ''-''); ds = (if neg then tl s else s) in
     if ds \<noteq> [] \<and> list_all is_digit ds then Some (if neg then - int (dec_val ds) else int (dec_val ds)) else None)"

definition scan_int :: "gval \<Rightarrow> int option" where
  "scan_int v = (case v of
       GBytes b \<Rightarrow> text_int (to_str b)
     | GString s \<Rightarrow> text_int s
     | GInt i \<Rightarrow> Some (sint i)
     | GUint u \<Rightarrow> Some (int (unat u))
     | _ \<Rightarrow> None)"

definition scan_bool :: "gval \<Rightarrow> bool option" where
  "scan_bool v = (case scan_int v of
       Some i \<Rightarrow> if i = 1 then Some True else if i = 0 then Some False else None
     | None \<Rightarrow> None)"

text \<open>The values of a result set of one column; a row that does not scan keeps \<open>None\<close>.\<close>

definition first_column :: "mysql_rows \<Rightarrow> gval option list" where
  "first_column rows = map (\<lambda>r. case r of Ok (v # _) \<Rightarrow> Some v | _ \<Rightarrow> None) (scans rows)"

definition first_value :: "mysql_rows \<Rightarrow> gval option" where
  "first_value rows = (case first_column rows of [] \<Rightarrow> None | v # _ \<Rightarrow> v)"

text \<open>\<open>fmt.Sprintf("%v", v)\<close>: a byte slice is printed as a list of numbers.\<close>

definition Sprintf_v :: "go_float \<Rightarrow> gval \<Rightarrow> string" where
  "Sprintf_v fl v = (case v of
       GNil \<Rightarrow> ''<nil>''
     | GBytes b \<Rightarrow> ''['' @ Join (map (\<lambda>x. nat_dec (unat x)) b) '' '' @ '']''
     | GString s \<Rightarrow> s
     | GInt i \<Rightarrow> int_dec (sint i)
     | GUint u \<Rightarrow> nat_dec (unat u)
     | GFloat f \<Rightarrow> FormatG fl f
     | GBool b \<Rightarrow> (if b then ''true'' else ''false'')
     | GTime t layout \<Rightarrow> t
     | GOther s \<Rightarrow> s)"

section \<open>The functions of the pool\<close>

text \<open>\<open>QueryRow(...).Scan(&v)\<close> on one column: the first row, or the error that there is none.\<close>

definition query_row :: "'d mysql \<Rightarrow> string \<Rightarrow> gval list \<Rightarrow> ('d, gval) act" where
  "query_row db q args = bindM (pool_Query db q args) (\<lambda>rows.
     case scans rows of
       [] \<Rightarrow> (case iter_err rows of Some e \<Rightarrow> failM e | None \<Rightarrow> failM (ErrorText ''sql: no rows in result set''))
     | r # _ \<Rightarrow> bindM (liftR r) (\<lambda>vs. case vs of v # _ \<Rightarrow> ret v | [] \<Rightarrow> failM (ErrorText ''sql: Scan error'')))"

definition scan_into :: "('a \<Rightarrow> 'b option) \<Rightarrow> 'a \<Rightarrow> ('s, 'b) act" where
  "scan_into f v = (case f v of Some x \<Rightarrow> ret x | None \<Rightarrow> failM (ErrorText ''sql: Scan error''))"

definition exists_query :: string where
  "exists_query = ''SELECT COUNT(*) FROM information_schema.tables WHERE table_schema = DATABASE() AND table_name = ?''"

definition TableExists :: "'d mysql \<Rightarrow> string \<Rightarrow> ('d, bool) act" where
  "TableExists db table =
     bindM (query_row db exists_query [GString table]) (\<lambda>v.
     bindM (scan_into scan_int v) (\<lambda>count. ret (0 < count)))"

record column_info =
  ci_Name :: string
  DatabaseType :: string
  Nullable :: bool

definition columns_info_query :: string where
  "columns_info_query = ''SELECT COLUMN_NAME, COLUMN_TYPE, IS_NULLABLE'' @ [CHR 0x0A, CHR 0x09, CHR 0x09]
     @ ''FROM information_schema.columns'' @ [CHR 0x0A, CHR 0x09, CHR 0x09]
     @ ''WHERE table_schema = DATABASE() AND table_name = ?'' @ [CHR 0x0A, CHR 0x09, CHR 0x09]
     @ ''ORDER BY ORDINAL_POSITION''"

definition scan_column_info :: "gval list \<Rightarrow> column_info option" where
  "scan_column_info row = (case map scan_string row of
       [Some name, Some dbType, Some nullable] \<Rightarrow>
         Some \<lparr>ci_Name = name, DatabaseType = dbType, Nullable = EqualFold nullable ''YES''\<rparr>
     | _ \<Rightarrow> None)"

primrec columns_info :: "gval list res list \<Rightarrow> ('s, column_info list) act" where
  "columns_info [] = ret []"
| "columns_info (r # rs) =
     bindM (liftR r) (\<lambda>vs. bindM (scan_into scan_column_info vs) (\<lambda>c.
     bindM (columns_info rs) (\<lambda>cs. ret (c # cs))))"

definition GetTableColumns :: "'d mysql \<Rightarrow> string \<Rightarrow> ('d, column_info list) act" where
  "GetTableColumns db table =
     bindM (pool_Query db columns_info_query [GString table]) (\<lambda>rows.
     bindM (columns_info (scans rows)) (\<lambda>cols.
       case iter_err rows of Some e \<Rightarrow> failM e | None \<Rightarrow> ret cols))"

section \<open>Opening the pool\<close>

definition dsn :: "mysql_config \<Rightarrow> string" where
  "dsn cfg = User cfg @ '':'' @ Password cfg @ ''@tcp('' @ Host cfg @ '':'' @ int_dec (Port cfg) @ '')/'' @ Database cfg
     @ ''?parseTime=true&loc=UTC&multiStatements=true&allowNativePasswords=true&sql_mode=ANSI_QUOTES''"

record pool_limits =
  limit_open :: int
  limit_idle :: int
  limit_lifetime :: int

text \<open>\<open>sql.Open\<close> and the first ping are the driver's.\<close>

definition NewPool :: "(string \<Rightarrow> 'p res) \<Rightarrow> ('p \<Rightarrow> go_err option) \<Rightarrow> mysql_config \<Rightarrow> ('p \<times> pool_limits) res" where
  "NewPool open_db ping cfg = (case open_db (dsn cfg) of
       Err e \<Rightarrow> Err (ErrorText (''open mysql: '' @ error_text e))
     | Panic p \<Rightarrow> Panic p
     | Ok db \<Rightarrow> (case ping db of
         Some e \<Rightarrow> Err (ErrorText (''ping mysql: '' @ error_text e))
       | None \<Rightarrow> Ok (db, \<lparr>limit_open = MaxOpenConns cfg, limit_idle = MaxIdleConns cfg,
           limit_lifetime = ConnMaxLifetime cfg\<rparr>)))"

end
