(* ===== verification/GoRegexp.thy ===== *)
theory GoRegexp
  imports GoStrings
begin

text \<open>
  The part of Go's \<open>regexp\<close> package that the translators and the server use. Patterns are
  trees (\<open>re\<close>), written with the combinators below in the order of the source's pattern.
  Go prefers matches as a backtracking matcher does (leftmost first, alternatives in order,
  greedy or lazy repetition as marked): \<open>matches\<close> lists all ways to match in that order
  and is the specification; \<open>run\<close> is the matcher that is evaluated, in
  continuation-passing style so that it stops at the first success.

  Text is a byte string: a character class has the ASCII characters Go's has, and
  case-insensitive literals fold ASCII letters. No pattern of the program matches the empty
  string (\<open>min_width\<close>), so Go's rules for empty matches are not needed.
\<close>

section \<open>Patterns\<close>

datatype re =
    RChar "char \<Rightarrow> bool"
  | REps
  | RSeq re re
  | RAlt re re
  | RStar bool re
  | RGroup nat re
  | RBegin
  | REnd
  | RBound

definition newline :: char where "newline = CHR 0x0A"

definition is_word :: "char \<Rightarrow> bool" where
  "is_word c = (let n = (of_char c :: nat) in
     (97 \<le> n \<and> n \<le> 122) \<or> (48 \<le> n \<and> n \<le> 57) \<or> (65 \<le> n \<and> n \<le> 90) \<or> n = 95)"

lemma is_word_code [code]:
  "is_word (Char b0 b1 b2 b3 b4 b5 b6 b7) \<longleftrightarrow> \<not> b7 \<and>
     (if b6 then (if b4 \<and> b3 then (if b2 then b1 \<and> b0 \<and> \<not> b5 else \<not> (b1 \<and> b0)) else b4 \<or> b3 \<or> b2 \<or> b1 \<or> b0)
      else b5 \<and> b4 \<and> \<not> (b3 \<and> (b2 \<or> b1)))"
  by (cases b0; cases b1; cases b2; cases b3; cases b4; cases b5; cases b6; cases b7)
     (simp_all add: is_word_def of_char_def)

definition re_space :: "char \<Rightarrow> bool" where
  "re_space c \<longleftrightarrow> c = CHR '' '' \<or> c = CHR 0x09 \<or> c = CHR 0x0A \<or> c = CHR 0x0C \<or> c = CHR 0x0D"

abbreviation dot :: re where "dot \<equiv> RChar (\<lambda>c. c \<noteq> newline)"
abbreviation space :: re where "space \<equiv> RChar re_space"
abbreviation word :: re where "word \<equiv> RChar is_word"
abbreviation digit :: re where "digit \<equiv> RChar is_digit"

definition one_of :: "string \<Rightarrow> re" where "one_of cs = RChar (\<lambda>c. c \<in> set cs)"
definition none_of :: "string \<Rightarrow> re" where "none_of cs = RChar (\<lambda>c. c \<notin> set cs)"

text \<open>\<open>r*\<close>, \<open>r+\<close>, \<open>r?\<close> and the lazy \<open>r+?\<close>.\<close>

abbreviation many :: "re \<Rightarrow> re" where "many r \<equiv> RStar True r"
abbreviation some1 :: "re \<Rightarrow> re" where "some1 r \<equiv> RSeq r (RStar True r)"
abbreviation lazy1 :: "re \<Rightarrow> re" where "lazy1 r \<equiv> RSeq r (RStar False r)"
abbreviation optional :: "re \<Rightarrow> re" where "optional r \<equiv> RAlt r REps"

primrec seqR :: "re list \<Rightarrow> re" where
  "seqR [] = REps"
| "seqR (r # rs) = (if rs = [] then r else RSeq r (seqR rs))"

primrec altR :: "re list \<Rightarrow> re" where
  "altR [] = RChar (\<lambda>_. False)"
| "altR (r # rs) = (if rs = [] then r else RAlt r (altR rs))"

text \<open>A literal, and a literal under \<open>(?i)\<close>.\<close>

primrec lit :: "string \<Rightarrow> re" where
  "lit [] = REps"
| "lit (c # cs) = RSeq (RChar (\<lambda>d. d = c)) (lit cs)"

primrec ilit :: "string \<Rightarrow> re" where
  "ilit [] = REps"
| "ilit (c # cs) = RSeq (RChar (\<lambda>d. upper_char d = upper_char c)) (ilit cs)"

section \<open>Matching\<close>

text \<open>Where the matcher is: the text before (reversed), the text ahead, the groups so far.\<close>

record cfg =
  seen :: string
  ahead :: string
  caps :: "(nat \<times> string) list"

definition at_word :: "string \<Rightarrow> bool" where
  "at_word s = (case s of [] \<Rightarrow> False | c # _ \<Rightarrow> is_word c)"

definition consumed :: "cfg \<Rightarrow> cfg \<Rightarrow> string" where
  "consumed c d = take (length (ahead c) - length (ahead d)) (ahead c)"

definition capture :: "nat \<Rightarrow> cfg \<Rightarrow> cfg \<Rightarrow> cfg" where
  "capture n c d = d\<lparr>caps := (n, consumed c d) # caps d\<rparr>"

text \<open>Repetition: an iteration that consumes nothing ends it; the fuel is the text ahead.\<close>

primrec star_list :: "bool \<Rightarrow> (cfg \<Rightarrow> cfg list) \<Rightarrow> string \<Rightarrow> cfg \<Rightarrow> cfg list" where
  "star_list g f [] c = [c]"
| "star_list g f (_ # fuel) c =
     (let more = concat (map (\<lambda>d. if ahead d = ahead c then [] else star_list g f fuel d) (f c))
      in if g then more @ [c] else c # more)"

primrec matches :: "re \<Rightarrow> cfg \<Rightarrow> cfg list" where
  "matches (RChar p) c = (case ahead c of [] \<Rightarrow> []
     | x # xs \<Rightarrow> if p x then [c\<lparr>seen := x # seen c, ahead := xs\<rparr>] else [])"
| "matches REps c = [c]"
| "matches (RSeq a b) c = concat (map (matches b) (matches a c))"
| "matches (RAlt a b) c = matches a c @ matches b c"
| "matches (RStar g a) c = star_list g (matches a) (ahead c) c"
| "matches (RGroup n a) c = map (capture n c) (matches a c)"
| "matches RBegin c = (if seen c = [] then [c] else [])"
| "matches REnd c = (if ahead c = [] then [c] else [])"
| "matches RBound c = (if at_word (seen c) \<noteq> at_word (ahead c) then [c] else [])"

primrec star_run :: "bool \<Rightarrow> ((cfg \<Rightarrow> cfg option) \<Rightarrow> cfg \<Rightarrow> cfg option) \<Rightarrow>
    string \<Rightarrow> (cfg \<Rightarrow> cfg option) \<Rightarrow> cfg \<Rightarrow> cfg option" where
  "star_run g f [] k c = k c"
| "star_run g f (_ # fuel) k c =
     (if g then (case f (\<lambda>d. if ahead d = ahead c then None else star_run g f fuel k d) c of
                     None \<Rightarrow> k c | Some x \<Rightarrow> Some x)
      else (case k c of
                     None \<Rightarrow> f (\<lambda>d. if ahead d = ahead c then None else star_run g f fuel k d) c
                   | Some x \<Rightarrow> Some x))"

primrec run :: "re \<Rightarrow> (cfg \<Rightarrow> cfg option) \<Rightarrow> cfg \<Rightarrow> cfg option" where
  "run (RChar p) k c = (case ahead c of [] \<Rightarrow> None
     | x # xs \<Rightarrow> if p x then k (c\<lparr>seen := x # seen c, ahead := xs\<rparr>) else None)"
| "run REps k c = k c"
| "run (RSeq a b) k c = run a (run b k) c"
| "run (RAlt a b) k c = (case run a k c of None \<Rightarrow> run b k c | Some x \<Rightarrow> Some x)"
| "run (RStar g a) k c = star_run g (run a) (ahead c) k c"
| "run (RGroup n a) k c = run a (\<lambda>d. k (capture n c d)) c"
| "run RBegin k c = (if seen c = [] then k c else None)"
| "run REnd k c = (if ahead c = [] then k c else None)"
| "run RBound k c = (if at_word (seen c) \<noteq> at_word (ahead c) then k c else None)"

text \<open>The first match at or after a position: the text skipped, and where the match ends. The
  whole match is group 0.\<close>

definition match_here :: "re \<Rightarrow> string \<Rightarrow> string \<Rightarrow> cfg option" where
  "match_here r sn ah = run (RGroup 0 r) Some \<lparr>seen = sn, ahead = ah, caps = []\<rparr>"

fun search :: "re \<Rightarrow> string \<Rightarrow> string \<Rightarrow> (string \<times> cfg) option" where
  "search r sn [] = (case match_here r sn [] of None \<Rightarrow> None | Some d \<Rightarrow> Some ([], d))"
| "search r sn (x # xs) = (case match_here r sn (x # xs) of
       Some d \<Rightarrow> Some ([], d)
     | None \<Rightarrow> (case search r (x # sn) xs of None \<Rightarrow> None | Some (gap, d) \<Rightarrow> Some (x # gap, d)))"

text \<open>All matches from left to right, each with the gap before it, and the rest of the text.\<close>

fun scan :: "nat \<Rightarrow> re \<Rightarrow> string \<Rightarrow> string \<Rightarrow> (string \<times> cfg) list \<times> string" where
  "scan 0 r sn ah = ([], ah)"
| "scan (Suc n) r sn ah = (case search r sn ah of
       None \<Rightarrow> ([], ah)
     | Some (gap, d) \<Rightarrow> (let (ms, tail) = scan n r (seen d) (ahead d) in ((gap, d) # ms, tail)))"

definition submatch :: "cfg \<Rightarrow> nat \<Rightarrow> string" where
  "submatch d n = (case map_of (caps d) n of None \<Rightarrow> [] | Some t \<Rightarrow> t)"

section \<open>The operations of \<open>regexp\<close>\<close>

definition scan_all :: "re \<Rightarrow> string \<Rightarrow> (string \<times> cfg) list \<times> string" where
  "scan_all r s = scan (Suc (length s)) r [] s"

definition MatchString :: "re \<Rightarrow> string \<Rightarrow> bool" where
  "MatchString r s \<longleftrightarrow> search r [] s \<noteq> None"

text \<open>\<open>FindStringSubmatch\<close>: the groups of the first match, by number.\<close>

definition FindSubmatch :: "re \<Rightarrow> string \<Rightarrow> (nat \<Rightarrow> string) option" where
  "FindSubmatch r s = (case search r [] s of None \<Rightarrow> None | Some (_, d) \<Rightarrow> Some (submatch d))"

definition FindAllString :: "re \<Rightarrow> string \<Rightarrow> string list" where
  "FindAllString r s = map (\<lambda>(gap, d). submatch d 0) (fst (scan_all r s))"

definition FindAllSubmatch :: "re \<Rightarrow> string \<Rightarrow> (nat \<Rightarrow> string) list" where
  "FindAllSubmatch r s = map (\<lambda>(gap, d). submatch d) (fst (scan_all r s))"

definition SplitAll :: "re \<Rightarrow> string \<Rightarrow> string list" where
  "SplitAll r s = (let (ms, tail) = scan_all r s in map fst ms @ [tail])"

text \<open>\<open>re.Split(s, 2)\<close>: at the first match only.\<close>

definition SplitTwo :: "re \<Rightarrow> string \<Rightarrow> string list" where
  "SplitTwo r s = (case search r [] s of None \<Rightarrow> [s] | Some (gap, d) \<Rightarrow> [gap, ahead d])"

definition replace_with :: "re \<Rightarrow> (cfg \<Rightarrow> string) \<Rightarrow> string \<Rightarrow> string" where
  "replace_with r f s =
     (let (ms, tail) = scan_all r s in concat (map (\<lambda>(gap, d). gap @ f d) ms) @ tail)"

definition ReplaceAllFunc :: "re \<Rightarrow> (string \<Rightarrow> string) \<Rightarrow> string \<Rightarrow> string" where
  "ReplaceAllFunc r f s = replace_with r (\<lambda>d. f (submatch d 0)) s"

text \<open>The template of \<open>ReplaceAllString\<close>: \<open>$name\<close> and \<open>${name}\<close> stand for a group, \<open>$$\<close> for
  a dollar; a name is the longest run of word characters, and one that is no number
  (or has a leading zero) is an unknown group, the empty text.\<close>

definition group_num :: "string \<Rightarrow> nat option" where
  "group_num name = (if list_all is_digit name \<and> \<not> (length name > 1 \<and> hd name = CHR ''0'')
     then Some (dec_val name) else None)"

definition template_ref :: "string \<Rightarrow> (string \<times> string) option" where
  "template_ref t =
     (let brace = (t \<noteq> [] \<and> hd t = CHR ''{'');
          t' = (if brace then tl t else t);
          name = takeWhile is_word t';
          rest = dropWhile is_word t'
      in if name = [] then None
         else if brace then (if rest \<noteq> [] \<and> hd rest = CHR ''}'' then Some (name, tl rest) else None)
         else Some (name, rest))"

fun expand :: "nat \<Rightarrow> string \<Rightarrow> cfg \<Rightarrow> string" where
  "expand 0 t d = t"
| "expand (Suc n) t d = (case t of
       [] \<Rightarrow> []
     | c # cs \<Rightarrow>
         if c \<noteq> CHR ''$'' then c # expand n cs d
         else if cs \<noteq> [] \<and> hd cs = CHR ''$'' then CHR ''$'' # expand n (tl cs) d
         else (case template_ref cs of
             None \<Rightarrow> CHR ''$'' # expand n cs d
           | Some (name, rest) \<Rightarrow>
               (case group_num name of None \<Rightarrow> [] | Some i \<Rightarrow> submatch d i) @ expand n rest d))"

definition ReplaceAllString :: "re \<Rightarrow> string \<Rightarrow> string \<Rightarrow> string" where
  "ReplaceAllString r s template = replace_with r (expand (length template) template) s"

section \<open>The matcher agrees with its specification\<close>

primrec first_some :: "('a \<Rightarrow> 'b option) \<Rightarrow> 'a list \<Rightarrow> 'b option" where
  "first_some k [] = None"
| "first_some k (x # xs) = (case k x of None \<Rightarrow> first_some k xs | Some y \<Rightarrow> Some y)"

lemma first_some_append:
  "first_some k (xs @ ys) = (case first_some k xs of None \<Rightarrow> first_some k ys | Some y \<Rightarrow> Some y)"
  by (induction xs) (simp_all split: option.split)

lemma first_some_concat:
  "first_some k (concat (map f xs)) = first_some (\<lambda>x. first_some k (f x)) xs"
  by (induction xs) (simp_all add: first_some_append split: option.split)

lemma first_some_map: "first_some k (map f xs) = first_some (\<lambda>x. k (f x)) xs"
  by (induction xs) (simp_all split: option.split)

lemma first_some_Some: "first_some k xs = Some y \<Longrightarrow> \<exists>x \<in> set xs. k x = Some y"
  by (induction xs) (auto split: option.splits)

lemma first_some_None: "first_some k xs = None \<longleftrightarrow> (\<forall>x \<in> set xs. k x = None)"
  by (induction xs) (auto split: option.splits)

lemma star_run_list:
  assumes "\<And>k c. f k c = first_some k (g c)"
  shows "star_run b f fuel k c = first_some k (star_list b g fuel c)"
proof (induction fuel arbitrary: k c)
  case Nil
  show ?case by (simp split: option.split)
next
  case (Cons x fuel)
  let ?more = "concat (map (\<lambda>d. if ahead d = ahead c then [] else star_list b g fuel d) (g c))"
  have "(\<lambda>d. if ahead d = ahead c then None else star_run b f fuel k d)
      = (\<lambda>d. first_some k (if ahead d = ahead c then [] else star_list b g fuel d))"
    by (simp add: Cons.IH fun_eq_iff)
  then have "f (\<lambda>d. if ahead d = ahead c then None else star_run b f fuel k d) c = first_some k ?more"
    by (simp only: assms first_some_concat)
  then show ?case
    by (simp add: Let_def first_some_append split: option.split)
qed

lemma run_matches: "run r k c = first_some k (matches r c)"
proof (induction r arbitrary: k c)
  case (RSeq a b)
  have "run b k = (\<lambda>d. first_some k (matches b d))" by (simp add: RSeq.IH fun_eq_iff)
  then show ?case by (simp add: RSeq.IH(1) first_some_concat)
next
  case (RStar g a)
  show ?case by (simp add: star_run_list [of "run a" "matches a"] RStar.IH)
qed (auto simp: first_some_append first_some_map split: option.split list.split)

section \<open>What a match consumes\<close>

text \<open>The texts a pattern can consume, its anchors left aside.\<close>

primrec lang :: "re \<Rightarrow> string set" where
  "lang (RChar p) = {[c] | c. p c}"
| "lang REps = {[]}"
| "lang (RSeq a b) = {u @ v | u v. u \<in> lang a \<and> v \<in> lang b}"
| "lang (RAlt a b) = lang a \<union> lang b"
| "lang (RStar g a) = {concat ts | ts. set ts \<subseteq> lang a}"
| "lang (RGroup n a) = lang a"
| "lang RBegin = {[]}"
| "lang REnd = {[]}"
| "lang RBound = {[]}"

definition step_by :: "string \<Rightarrow> cfg \<Rightarrow> cfg \<Rightarrow> bool" where
  "step_by t c d \<longleftrightarrow> ahead c = t @ ahead d \<and> seen d = rev t @ seen c"

lemma step_by_Nil [simp]: "step_by [] c c"
  by (simp add: step_by_def)

lemma step_by_append: "step_by u c d \<Longrightarrow> step_by v d e \<Longrightarrow> step_by (u @ v) c e"
  by (simp add: step_by_def)

lemma step_by_capture [simp]: "step_by t c (capture n b d) \<longleftrightarrow> step_by t c d"
  by (simp add: step_by_def capture_def)

lemma consumed_step_by: "step_by t c d \<Longrightarrow> consumed c d = t"
  by (simp add: step_by_def consumed_def)

lemma star_list_sound:
  assumes "\<And>c d. d \<in> set (f c) \<Longrightarrow> \<exists>t \<in> L. step_by t c d"
  shows "d \<in> set (star_list g f fuel c) \<Longrightarrow> \<exists>ts. set ts \<subseteq> L \<and> step_by (concat ts) c d"
proof (induction fuel arbitrary: c)
  case Nil
  then show ?case by (intro exI [of _ "[]"]) simp
next
  case (Cons x fuel)
  from Cons.prems consider "d = c" | e where "e \<in> set (f c)" "d \<in> set (star_list g f fuel e)"
    by (auto simp: Let_def split: if_splits)
  then show ?case
  proof cases
    case 1
    then show ?thesis by (intro exI [of _ "[]"]) simp
  next
    case 2
    from assms [OF 2(1)] obtain t where t: "t \<in> L" "step_by t c e" by blast
    from Cons.IH [OF 2(2)] obtain ts where ts: "set ts \<subseteq> L" "step_by (concat ts) e d" by blast
    have "step_by (concat (t # ts)) c d" using step_by_append [OF t(2) ts(2)] by simp
    with t ts show ?thesis by (intro exI [of _ "t # ts"]) simp
  qed
qed

lemma matches_sound: "d \<in> set (matches r c) \<Longrightarrow> \<exists>t \<in> lang r. step_by t c d"
proof (induction r arbitrary: c d)
  case (RChar p)
  then show ?case by (auto simp: step_by_def split: list.splits if_splits)
next
  case (RSeq a b)
  then obtain e where e: "e \<in> set (matches a c)" "d \<in> set (matches b e)" by auto
  from RSeq.IH(1) [OF e(1)] RSeq.IH(2) [OF e(2)] obtain u v
    where "u \<in> lang a" "step_by u c e" "v \<in> lang b" "step_by v e d" by blast
  then show ?case using step_by_append [of u c e v d] by auto
next
  case (RStar g a)
  then have "\<exists>ts. set ts \<subseteq> lang a \<and> step_by (concat ts) c d"
    by (intro star_list_sound [of "matches a" "lang a" d g "ahead c" c]) auto
  then show ?case by auto
next
  case (RAlt a b)
  then show ?case by (metis UnCI UnE lang.simps(4) matches.simps(4) set_append)
qed (auto split: if_splits)

text \<open>The least number of characters of a match.\<close>

primrec min_width :: "re \<Rightarrow> nat" where
  "min_width (RChar p) = 1"
| "min_width REps = 0"
| "min_width (RSeq a b) = min_width a + min_width b"
| "min_width (RAlt a b) = min (min_width a) (min_width b)"
| "min_width (RStar g a) = 0"
| "min_width (RGroup n a) = min_width a"
| "min_width RBegin = 0"
| "min_width REnd = 0"
| "min_width RBound = 0"

lemma lang_min_width: "t \<in> lang r \<Longrightarrow> min_width r \<le> length t"
proof (induction r arbitrary: t)
  case (RSeq a b)
  from RSeq.prems(1) obtain u v where "t = u @ v" "u \<in> lang a" "v \<in> lang b" by auto
  with RSeq.IH show ?case by (simp add: add_mono)
next
  case (RAlt a b)
  then show ?case by (auto simp: min.coboundedI1 min.coboundedI2)
qed auto

section \<open>Searching and replacing\<close>

lemma match_here_Some:
  assumes "match_here r sn ah = Some d"
  shows "\<exists>t \<in> lang r. ah = t @ ahead d \<and> seen d = rev t @ sn \<and> submatch d 0 = t"
proof -
  let ?c = "\<lparr>seen = sn, ahead = ah, caps = []\<rparr>"
  from assms obtain e where e: "e \<in> set (matches r ?c)" "d = capture 0 ?c e"
    by (auto simp: match_here_def run_matches dest!: first_some_Some)
  from matches_sound [OF e(1)] obtain t where t: "t \<in> lang r" "step_by t ?c e" by blast
  have "submatch d 0 = t"
    using consumed_step_by [OF t(2)] by (simp add: e(2) submatch_def capture_def)
  with t show ?thesis by (auto simp: e(2) step_by_def capture_def)
qed

lemma search_Some:
  "search r sn ah = Some (gap, d) \<Longrightarrow>
     \<exists>t \<in> lang r. ah = gap @ t @ ahead d \<and> seen d = rev t @ rev gap @ sn \<and> submatch d 0 = t"
proof (induction r sn ah arbitrary: gap rule: search.induct)
  case (1 r sn)
  then show ?case by (auto split: option.splits dest!: match_here_Some)
next
  case (2 r sn x xs)
  show ?case
  proof (cases "match_here r sn (x # xs)")
    case None
    with "2.prems" obtain g where g: "search r (x # sn) xs = Some (g, d)" "gap = x # g"
      by (auto split: option.splits)
    with "2.IH" [OF None g(1)] show ?thesis by auto
  next
    case (Some e)
    with "2.prems" have "gap = []" "e = d" by auto
    with match_here_Some [OF Some] show ?thesis by auto
  qed
qed

text \<open>A pattern none of whose texts occurs does not match.\<close>

definition occurs :: "re \<Rightarrow> string \<Rightarrow> bool" where
  "occurs r s \<longleftrightarrow> (\<exists>t \<in> lang r. sublist t s)"

lemma not_occurs_search: "\<not> occurs r ah \<Longrightarrow> search r sn ah = None"
  by (cases "search r sn ah") (fastforce simp: occurs_def sublist_def dest: search_Some)+

text \<open>A scan takes the text apart: gaps, matches, and the rest.\<close>

lemma scan_parts:
  "scan n r sn ah = (ms, tail) \<Longrightarrow>
     ah = concat (map (\<lambda>(gap, d). gap @ submatch d 0) ms) @ tail
     \<and> (\<forall>(gap, d) \<in> set ms. submatch d 0 \<in> lang r)"
proof (induction n r sn ah arbitrary: ms tail rule: scan.induct)
  case (1 r sn ah)
  then show ?case by simp
next
  case (2 n r sn ah)
  show ?case
  proof (cases "search r sn ah")
    case None
    with "2.prems" show ?thesis by simp
  next
    case (Some p)
    obtain gap d where p: "p = (gap, d)" by (cases p)
    obtain ms' tail' where s: "scan n r (seen d) (ahead d) = (ms', tail')" by fastforce
    with Some p "2.prems" have ms: "ms = (gap, d) # ms'" "tail = tail'" by auto
    from search_Some [OF Some [unfolded p]] "2.IH" [OF Some p [symmetric] s] show ?thesis by (auto simp: ms)
  qed
qed

lemma scan_all_parts:
  "scan_all r s = (ms, tail) \<Longrightarrow>
     s = concat (map (\<lambda>(gap, d). gap @ submatch d 0) ms) @ tail
     \<and> (\<forall>(gap, d) \<in> set ms. submatch d 0 \<in> lang r)"
  unfolding scan_all_def by (rule scan_parts)

text \<open>The fuel of \<open>scan_all\<close> is enough: every match of a pattern that has a width takes a
  character, so that no match is left in the rest.\<close>

lemma scan_complete:
  "0 < min_width r \<Longrightarrow> length ah < n \<Longrightarrow> scan n r sn ah = (ms, tail) \<Longrightarrow>
     \<exists>sn'. search r sn' tail = None"
proof (induction n r sn ah arbitrary: ms tail rule: scan.induct)
  case (1 r sn ah)
  then show ?case by simp
next
  case (2 n r sn ah)
  show ?case
  proof (cases "search r sn ah")
    case None
    with "2.prems" show ?thesis by auto
  next
    case (Some p)
    obtain gap d where p: "p = (gap, d)" by (cases p)
    obtain ms' where s: "scan n r (seen d) (ahead d) = (ms', tail)"
      using Some p "2.prems"(3) by (auto split: prod.splits)
    from search_Some [OF Some [unfolded p]] obtain t
      where t: "t \<in> lang r" "ah = gap @ t @ ahead d" by blast
    have "length (ahead d) < n"
      using lang_min_width [OF t(1)] t(2) "2.prems"(1,2) by simp
    with "2.IH" [OF Some p [symmetric] "2.prems"(1) _ s] show ?thesis by simp
  qed
qed

lemma scan_not_occurs: "\<not> occurs r s \<Longrightarrow> scan_all r s = ([], s)"
  by (simp add: scan_all_def not_occurs_search)

lemma replace_with_id [str_simps]: "\<not> occurs r s \<Longrightarrow> replace_with r f s = s"
  by (simp add: replace_with_def scan_not_occurs)

lemma ReplaceAllString_id [str_simps]: "\<not> occurs r s \<Longrightarrow> ReplaceAllString r s t = s"
  by (simp add: ReplaceAllString_def replace_with_id)

lemma ReplaceAllFunc_id [str_simps]: "\<not> occurs r s \<Longrightarrow> ReplaceAllFunc r f s = s"
  by (simp add: ReplaceAllFunc_def replace_with_id)

lemma FindSubmatch_None [str_simps]: "\<not> occurs r s \<Longrightarrow> FindSubmatch r s = None"
  by (simp add: FindSubmatch_def not_occurs_search)

lemma MatchString_False [str_simps]: "\<not> occurs r s \<Longrightarrow> \<not> MatchString r s"
  by (simp add: MatchString_def not_occurs_search)

text \<open>A template without a dollar is copied.\<close>

lemma expand_plain: "CHR ''$'' \<notin> set t \<Longrightarrow> length t \<le> n \<Longrightarrow> expand n t d = t"
  by (induction n arbitrary: t) (auto split: list.split)

text \<open>Why a pattern does not occur: one of its parts does not. The rules stop at the literals,
  which stay folded.\<close>

lemma lang_lit [simp]: "lang (lit w) = {w}"
proof (induction w)
  case (Cons c w)
  have "lang (lit (c # w)) = {[c] @ w}" by (simp add: Cons.IH)
  then show ?case by simp
qed simp

lemma occurs_lit: "occurs (lit w) s \<longleftrightarrow> Contains s w"
  by (simp add: occurs_def Contains_iff)

lemma char_not_occurs: "c \<in> set w \<Longrightarrow> c \<notin> set s \<Longrightarrow> \<not> occurs (lit w) s"
  using set_mono_sublist by (fastforce simp: occurs_def)

lemma lang_seqR:
  "t \<in> lang (seqR rs) \<Longrightarrow> r \<in> set rs \<Longrightarrow> \<exists>v \<in> lang r. sublist v t"
proof (induction rs arbitrary: t)
  case (Cons q rs)
  show ?case
  proof (cases "rs = []")
    case True
    with Cons.prems show ?thesis by auto
  next
    case False
    with Cons.prems obtain u v where uv: "t = u @ v" "u \<in> lang q" "v \<in> lang (seqR rs)" by auto
    show ?thesis
    proof (cases "r = q")
      case True
      with uv show ?thesis by (auto intro!: bexI [of _ u])
    next
      case False
      with Cons.prems Cons.IH [OF uv(3)] obtain w where "w \<in> lang r" "sublist w v" by auto
      with uv(1) show ?thesis by (metis sublist_append)
    qed
  qed
qed simp

lemma occurs_seqR: "occurs (seqR rs) s \<Longrightarrow> r \<in> set rs \<Longrightarrow> occurs r s"
  unfolding occurs_def using lang_seqR sublist_order.order_trans by blast

lemma occurs_simps [simp]:
  "occurs (RAlt a b) s \<longleftrightarrow> occurs a s \<or> occurs b s"
  "occurs (RGroup n a) s \<longleftrightarrow> occurs a s"
  by (auto simp: occurs_def)

lemma lang_RChar_Seq: "d # u \<in> lang (RSeq (RChar p) r) \<longleftrightarrow> p d \<and> u \<in> lang r"
proof
  assume "p d \<and> u \<in> lang r"
  then show "d # u \<in> lang (RSeq (RChar p) r)"
    by (simp, intro exI [of _ "[d]"] exI [of _ u] conjI exI [of _ d]) simp_all
qed auto

lemma lang_ilit: "lang (ilit w) = {t. ToUpper t = ToUpper w}"
proof (induction w)
  case (Cons c w)
  have "t \<in> lang (ilit (c # w)) \<longleftrightarrow> ToUpper t = ToUpper (c # w)" for t
  proof (cases t)
    case (Cons d u)
    have "t \<in> lang (ilit (c # w)) \<longleftrightarrow> upper_char d = upper_char c \<and> u \<in> lang (ilit w)"
      by (simp only: Cons ilit.simps lang_RChar_Seq)
    then show ?thesis by (simp add: Cons Cons.IH ToUpper_def)
  qed (auto simp: ToUpper_def)
  then show ?case by blast
qed (simp add: ToUpper_def)

lemma sublist_ToUpper: "sublist t s \<Longrightarrow> sublist (ToUpper t) (ToUpper s)"
proof -
  assume "sublist t s"
  then obtain u v where "s = u @ t @ v" by (auto simp: sublist_def)
  then have "ToUpper s = ToUpper u @ ToUpper t @ ToUpper v" by simp
  then show ?thesis by (auto simp: sublist_def)
qed

lemma occurs_ilit: "occurs (ilit w) s \<Longrightarrow> Contains (ToUpper s) (ToUpper w)"
proof -
  assume "occurs (ilit w) s"
  then obtain t where "ToUpper t = ToUpper w" "sublist t s" by (auto simp: occurs_def lang_ilit)
  then show ?thesis using sublist_ToUpper [of t s] by (simp add: Contains_iff)
qed

lemma word_not_occurs: "\<not> Contains (ToUpper s) (ToUpper w) \<Longrightarrow> \<not> occurs (ilit w) s"
  using occurs_ilit by blast

lemma seqR_not_occurs: "list_ex (\<lambda>r. \<not> occurs r s) rs \<Longrightarrow> \<not> occurs (seqR rs) s"
  using occurs_seqR by (fastforce simp: list_ex_iff)

lemma RSeq_not_occurs: "\<not> occurs a s \<or> \<not> occurs b s \<Longrightarrow> \<not> occurs (RSeq a b) s"
  unfolding occurs_def lang.simps
  by (clarsimp) (metis sublist_appendI sublist_append_leftI sublist_append_rightI sublist_order.order_trans)

lemma occurs_altR: "occurs (altR rs) s \<longleftrightarrow> list_ex (\<lambda>r. occurs r s) rs"
  by (induction rs) (auto simp: occurs_def)

lemmas not_occurs = occurs_altR seqR_not_occurs RSeq_not_occurs occurs_simps

declare seqR.simps [simp del] altR.simps [simp del] lit.simps [simp del] ilit.simps [simp del]

end
