(* ===== verification/PgCatalog.thy ===== *)
theory PgCatalog
  imports MysqlPool GoRegexp
begin

text \<open>
  \<open>internal/proxy/postgresql/catalog.go\<close>: the answers to queries on PostgreSQL's system
  tables. A query is recognised and dispatched by the words in it; the answer is a list of
  column names and rows, from a fixed table or from MySQL's \<open>information_schema\<close>.

  MySQL itself is the parameter \<open>mysql\<close> of \<open>MysqlPool\<close>.
\<close>

section \<open>Numbers in a query\<close>

text \<open>\<open>fmt.Sscanf(s, "%d", &n)\<close> on a variable that was 0.\<close>

definition Sscanf_d :: "string \<Rightarrow> int" where
  "Sscanf_d s = (let s' = dropWhile re_space s;
       neg = (s' \<noteq> [] \<and> hd s' = CHR ''-'');
       t = (if s' \<noteq> [] \<and> (hd s' = CHR ''-'' \<or> hd s' = CHR ''+'') then tl s' else s');
       ds = takeWhile is_digit t;
       n = (if neg then - int (dec_val ds) else int (dec_val ds))
     in if ds = [] \<or> n < - (2 ^ 63) \<or> 2 ^ 63 \<le> n then 0 else n)"

section \<open>Recognising a catalog query\<close>

definition catalog_words :: "string list" where
  "catalog_words =
    [''PG_CATALOG'', ''PG_TYPE'', ''PG_CLASS'', ''PG_ATTRIBUTE'', ''PG_NAMESPACE'', ''PG_INDEX'',
     ''PG_PROC'', ''PG_ENUM'', ''PG_DESCRIPTION'', ''PG_DATABASE'', ''PG_CONSTRAINT'',
     ''PG_EXTENSION'', ''PG_AM'', ''PG_SETTINGS'', ''PG_OPCLASS'', ''PG_OPERATOR'',
     ''PG_SECLABEL'', ''PG_TRIGGER'', ''PG_RANGE'']"

definition IsCatalogQuery :: "string \<Rightarrow> bool" where
  "IsCatalogQuery sql = list_ex (\<lambda>w. Contains (ToUpper sql) w) catalog_words"

section \<open>The fixed tables\<close>

definition pg_type_columns :: "string list" where
  "pg_type_columns =
    [''oid'', ''typname'', ''typnamespace'', ''typtype'', ''typcategory'', ''typrelid'',
     ''typelem'', ''typarray'', ''typinput'', ''typoutput'', ''typreceive'', ''typsend'',
     ''typmod_in'', ''typmod_out'', ''typalign'', ''typstorage'', ''typnotnull'', ''typbasetype'',
     ''typtypmod'', ''typndims'', ''typcollation'', ''typdefaultbin'', ''typdefault'', ''typacl'']"

definition pg_types :: "gval list list" where
  "pg_types =
    [[GInt 16, GString ''bool'', GInt 11, GString ''b'', GString ''B'', GInt 0, GInt 0, GInt 1000,
      GString ''boolin'', GString ''boolout'', GString ''-'', GString ''-'', GString ''-'',
      GString ''-'', GString ''c'', GString ''p'', GBool False, GInt 0, GInt (-1), GInt 0, GInt 0,
      GNil, GNil, GNil],
     [GInt 17, GString ''bytea'', GInt 11, GString ''b'', GString ''U'', GInt 0, GInt 0, GInt 1001,
      GString ''byteain'', GString ''byteaout'', GString ''-'', GString ''-'', GString ''-'',
      GString ''-'', GString ''i'', GString ''x'', GBool False, GInt 0, GInt (-1), GInt 0, GInt 0,
      GNil, GNil, GNil],
     [GInt 18, GString ''char'', GInt 11, GString ''b'', GString ''C'', GInt 0, GInt 0, GInt 1002,
      GString ''charin'', GString ''charout'', GString ''-'', GString ''-'', GString ''-'',
      GString ''-'', GString ''c'', GString ''p'', GBool False, GInt 0, GInt (-1), GInt 0, GInt 0,
      GNil, GNil, GNil],
     [GInt 19, GString ''name'', GInt 11, GString ''b'', GString ''C'', GInt 0, GInt 0, GInt 1003,
      GString ''namein'', GString ''nameout'', GString ''-'', GString ''-'', GString ''-'',
      GString ''-'', GString ''c'', GString ''p'', GBool False, GInt 0, GInt (-1), GInt 0, GInt 0,
      GNil, GNil, GNil],
     [GInt 20, GString ''int8'', GInt 11, GString ''b'', GString ''N'', GInt 0, GInt 0, GInt 1016,
      GString ''int8in'', GString ''int8out'', GString ''-'', GString ''-'', GString ''-'',
      GString ''-'', GString ''d'', GString ''p'', GBool False, GInt 0, GInt (-1), GInt 0, GInt 0,
      GNil, GNil, GNil],
     [GInt 21, GString ''int2'', GInt 11, GString ''b'', GString ''N'', GInt 0, GInt 0, GInt 1005,
      GString ''int2in'', GString ''int2out'', GString ''-'', GString ''-'', GString ''-'',
      GString ''-'', GString ''s'', GString ''p'', GBool False, GInt 0, GInt (-1), GInt 0, GInt 0,
      GNil, GNil, GNil],
     [GInt 23, GString ''int4'', GInt 11, GString ''b'', GString ''N'', GInt 0, GInt 0, GInt 1007,
      GString ''int4in'', GString ''int4out'', GString ''-'', GString ''-'', GString ''-'',
      GString ''-'', GString ''i'', GString ''p'', GBool False, GInt 0, GInt (-1), GInt 0, GInt 0,
      GNil, GNil, GNil],
     [GInt 25, GString ''text'', GInt 11, GString ''b'', GString ''S'', GInt 0, GInt 0, GInt 1009,
      GString ''textin'', GString ''textout'', GString ''-'', GString ''-'', GString ''-'',
      GString ''-'', GString ''i'', GString ''x'', GBool False, GInt 0, GInt (-1), GInt 0, GInt 0,
      GNil, GNil, GNil],
     [GInt 26, GString ''oid'', GInt 11, GString ''b'', GString ''N'', GInt 0, GInt 0, GInt 1028,
      GString ''oidin'', GString ''oidout'', GString ''-'', GString ''-'', GString ''-'',
      GString ''-'', GString ''i'', GString ''p'', GBool False, GInt 0, GInt (-1), GInt 0, GInt 0,
      GNil, GNil, GNil],
     [GInt 700, GString ''float4'', GInt 11, GString ''b'', GString ''N'', GInt 0, GInt 0, GInt 1021,
      GString ''float4in'', GString ''float4out'', GString ''-'', GString ''-'', GString ''-'',
      GString ''-'', GString ''i'', GString ''p'', GBool False, GInt 0, GInt (-1), GInt 0, GInt 0,
      GNil, GNil, GNil],
     [GInt 701, GString ''float8'', GInt 11, GString ''b'', GString ''N'', GInt 0, GInt 0, GInt 1022,
      GString ''float8in'', GString ''float8out'', GString ''-'', GString ''-'', GString ''-'',
      GString ''-'', GString ''d'', GString ''p'', GBool False, GInt 0, GInt (-1), GInt 0, GInt 0,
      GNil, GNil, GNil],
     [GInt 1043, GString ''varchar'', GInt 11, GString ''b'', GString ''C'', GInt 0, GInt 0,
      GInt 1015, GString ''varcharin'', GString ''varcharout'', GString ''-'', GString ''-'',
      GString ''-'', GString ''-'', GString ''i'', GString ''x'', GBool False, GInt 0, GInt (-1),
      GInt 0, GInt 0, GNil, GNil, GNil],
     [GInt 1082, GString ''date'', GInt 11, GString ''b'', GString ''D'', GInt 0, GInt 0, GInt 1182,
      GString ''date_in'', GString ''date_out'', GString ''-'', GString ''-'', GString ''-'',
      GString ''-'', GString ''d'', GString ''p'', GBool False, GInt 0, GInt (-1), GInt 0, GInt 0,
      GNil, GNil, GNil],
     [GInt 1083, GString ''time'', GInt 11, GString ''b'', GString ''D'', GInt 0, GInt 0, GInt 1183,
      GString ''time_in'', GString ''time_out'', GString ''-'', GString ''-'', GString ''-'',
      GString ''-'', GString ''d'', GString ''p'', GBool False, GInt 0, GInt (-1), GInt 0, GInt 0,
      GNil, GNil, GNil],
     [GInt 1114, GString ''timestamp'', GInt 11, GString ''b'', GString ''D'', GInt 0, GInt 0,
      GInt 1115, GString ''timestamp_in'', GString ''timestamp_out'', GString ''-'', GString ''-'',
      GString ''-'', GString ''-'', GString ''d'', GString ''p'', GBool False, GInt 0, GInt (-1),
      GInt 0, GInt 0, GNil, GNil, GNil],
     [GInt 1184, GString ''timestamptz'', GInt 11, GString ''b'', GString ''D'', GInt 0, GInt 0,
      GInt 1185, GString ''timestamptz_in'', GString ''timestamptz_out'', GString ''-'',
      GString ''-'', GString ''-'', GString ''-'', GString ''d'', GString ''p'', GBool False, GInt 0,
      GInt (-1), GInt 0, GInt 0, GNil, GNil, GNil],
     [GInt 1700, GString ''numeric'', GInt 11, GString ''b'', GString ''N'', GInt 0, GInt 0,
      GInt 1231, GString ''numeric_in'', GString ''numeric_out'', GString ''-'', GString ''-'',
      GString ''-'', GString ''-'', GString ''m'', GString ''m'', GBool False, GInt 0, GInt (-1),
      GInt 0, GInt 0, GNil, GNil, GNil],
     [GInt 2950, GString ''uuid'', GInt 11, GString ''b'', GString ''U'', GInt 0, GInt 0, GInt 2951,
      GString ''uuid_in'', GString ''uuid_out'', GString ''-'', GString ''-'', GString ''-'',
      GString ''-'', GString ''c'', GString ''p'', GBool False, GInt 0, GInt (-1), GInt 0, GInt 0,
      GNil, GNil, GNil],
     [GInt 3802, GString ''jsonb'', GInt 11, GString ''b'', GString ''U'', GInt 0, GInt 0, GInt 3807,
      GString ''jsonb_in'', GString ''jsonb_out'', GString ''-'', GString ''-'', GString ''-'',
      GString ''-'', GString ''i'', GString ''m'', GBool False, GInt 0, GInt (-1), GInt 0, GInt 0,
      GNil, GNil, GNil],
     [GInt 114, GString ''json'', GInt 11, GString ''b'', GString ''U'', GInt 0, GInt 0, GInt 199,
      GString ''json_in'', GString ''json_out'', GString ''-'', GString ''-'', GString ''-'',
      GString ''-'', GString ''i'', GString ''m'', GBool False, GInt 0, GInt (-1), GInt 0, GInt 0,
      GNil, GNil, GNil],
     [GInt 2951, GString ''_uuid'', GInt 11, GString ''b'', GString ''A'', GInt 2950, GInt 0, GInt 0,
      GString ''array_in'', GString ''array_out'', GString ''-'', GString ''-'', GString ''-'',
      GString ''-'', GString ''i'', GString ''m'', GBool False, GInt 0, GInt (-1), GInt 0, GInt 0,
      GNil, GNil, GNil],
     [GInt 1009, GString ''_text'', GInt 11, GString ''b'', GString ''A'', GInt 25, GInt 0, GInt 0,
      GString ''array_in'', GString ''array_out'', GString ''-'', GString ''-'', GString ''-'',
      GString ''-'', GString ''i'', GString ''x'', GBool False, GInt 0, GInt (-1), GInt 0, GInt 0,
      GNil, GNil, GNil],
     [GInt 1007, GString ''_int4'', GInt 11, GString ''b'', GString ''A'', GInt 23, GInt 0, GInt 0,
      GString ''array_in'', GString ''array_out'', GString ''-'', GString ''-'', GString ''-'',
      GString ''-'', GString ''i'', GString ''m'', GBool False, GInt 0, GInt (-1), GInt 0, GInt 0,
      GNil, GNil, GNil],
     [GInt 1016, GString ''_int8'', GInt 11, GString ''b'', GString ''A'', GInt 20, GInt 0, GInt 0,
      GString ''array_in'', GString ''array_out'', GString ''-'', GString ''-'', GString ''-'',
      GString ''-'', GString ''d'', GString ''m'', GBool False, GInt 0, GInt (-1), GInt 0, GInt 0,
      GNil, GNil, GNil],
     [GInt 1000, GString ''_bool'', GInt 11, GString ''b'', GString ''A'', GInt 16, GInt 0, GInt 0,
      GString ''array_in'', GString ''array_out'', GString ''-'', GString ''-'', GString ''-'',
      GString ''-'', GString ''i'', GString ''m'', GBool False, GInt 0, GInt (-1), GInt 0, GInt 0,
      GNil, GNil, GNil],
     [GInt 1005, GString ''_int2'', GInt 11, GString ''b'', GString ''A'', GInt 21, GInt 0, GInt 0,
      GString ''array_in'', GString ''array_out'', GString ''-'', GString ''-'', GString ''-'',
      GString ''-'', GString ''s'', GString ''m'', GBool False, GInt 0, GInt (-1), GInt 0, GInt 0,
      GNil, GNil, GNil],
     [GInt 1002, GString ''_char'', GInt 11, GString ''b'', GString ''A'', GInt 18, GInt 0, GInt 0,
      GString ''array_in'', GString ''array_out'', GString ''-'', GString ''-'', GString ''-'',
      GString ''-'', GString ''c'', GString ''p'', GBool False, GInt 0, GInt (-1), GInt 0, GInt 0,
      GNil, GNil, GNil]]"

definition pg_class_columns :: "string list" where
  "pg_class_columns =
    [''oid'', ''relname'', ''relnamespace'', ''reltype'', ''reloftype'', ''relowner'', ''relam'',
     ''relfilenode'', ''reltablespace'', ''relpages'', ''reltuples'', ''relallvisible'',
     ''reltoastrelid'', ''relhasindex'', ''relisshared'', ''relpersistence'', ''relkind'',
     ''relnatts'', ''relchecks'', ''relhasoids'', ''relhaspkey'', ''relhasrules'',
     ''relhastriggers'', ''relhassubclass'', ''relrowsecurity'', ''relforcerowsecurity'',
     ''relispopulated'', ''relreplident'', ''relispartition'']"

definition pg_attribute_columns :: "string list" where
  "pg_attribute_columns =
    [''attrelid'', ''attname'', ''atttypid'', ''attstattarget'', ''attlen'', ''attnum'',
     ''attndims'', ''attcacheoff'', ''atttypmod'', ''attbyval'', ''attstorage'', ''attalign'',
     ''attnotnull'', ''atthasdef'', ''atthasmissing'', ''attidentity'', ''attgenerated'',
     ''attisdropped'', ''attislocal'', ''attinhcount'', ''attcollation'', ''attacl'',
     ''attoptions'', ''attfdwoptions'']"

definition pg_namespaces :: "gval list list" where
  "pg_namespaces =
    [[GInt 11, GString ''pg_catalog'', GInt 10, GNil],
     [GInt 2200, GString ''public'', GInt 10, GNil],
     [GInt 13179, GString ''pg_toast'', GInt 10, GNil]]"

definition pg_index_columns :: "string list" where
  "pg_index_columns =
    [''indexrelid'', ''indrelid'', ''indnatts'', ''indnkeyatts'', ''indisunique'',
     ''indisprimary'', ''indisexclusion'', ''indimmediate'', ''indisclustered'', ''indisvalid'',
     ''indcheckxmin'', ''indisready'', ''indislive'', ''indisreplident'', ''indkey'',
     ''indcollation'', ''indclass'', ''indoption'', ''indexprs'', ''indpred'']"

definition pg_proc_columns :: "string list" where
  "pg_proc_columns =
    [''oid'', ''proname'', ''pronamespace'', ''proowner'', ''prolang'', ''procost'', ''prorows'',
     ''provariadic'', ''prosupport'', ''prokind'', ''prosecdef'', ''proleakproof'',
     ''proisstrict'', ''proretset'', ''provolatile'', ''proparallel'', ''pronargs'',
     ''pronargdefaults'', ''prorettype'', ''proargtypes'', ''proallargtypes'', ''proargmodes'',
     ''proargnames'', ''proargdefaults'', ''protrftypes'', ''prosrc'', ''probin'', ''proconfig'',
     ''proacl'']"

definition pg_procs :: "gval list list" where
  "pg_procs =
    [[GInt 2100, GString ''version'', GInt 11, GInt 10, GInt 0, GInt 1, GInt 0, GInt 0, GNil,
      GString ''f'', GBool False, GBool False, GBool False, GBool False, GString ''s'',
      GString ''s'', GOther ''0'', GOther ''0'', GInt 25, GNil, GNil, GNil, GNil, GNil, GNil,
      GString ''SELECT VERSION()'', GNil, GNil, GNil],
     [GInt 2101, GString ''current_database'', GInt 11, GInt 10, GInt 0, GInt 1, GInt 1, GInt 0,
      GNil, GString ''f'', GBool False, GBool False, GBool False, GBool False, GString ''s'',
      GString ''s'', GOther ''0'', GOther ''0'', GInt 25, GNil, GNil, GNil, GNil, GNil, GNil,
      GString ''SELECT DATABASE()'', GNil, GNil, GNil],
     [GInt 2102, GString ''current_user'', GInt 11, GInt 10, GInt 0, GInt 1, GInt 1, GInt 0, GNil,
      GString ''f'', GBool False, GBool False, GBool False, GBool False, GString ''s'',
      GString ''s'', GOther ''0'', GOther ''0'', GInt 25, GNil, GNil, GNil, GNil, GNil, GNil,
      GString ''SELECT CURRENT_USER()'', GNil, GNil, GNil],
     [GInt 2103, GString ''current_schema'', GInt 11, GInt 10, GInt 0, GInt 1, GInt 1, GInt 0, GNil,
      GString ''f'', GBool False, GBool False, GBool False, GBool False, GString ''s'',
      GString ''s'', GOther ''0'', GOther ''0'', GInt 25, GNil, GNil, GNil, GNil, GNil, GNil,
      GString (''SELECT 'public'' @ [CHR 0x27]), GNil, GNil, GNil],
     [GInt 2104, GString ''pg_get_expr'', GInt 11, GInt 10, GInt 0, GInt 1, GInt 0, GInt 0, GNil,
      GString ''f'', GBool False, GBool False, GBool False, GBool False, GString ''s'',
      GString ''s'', GOther ''2'', GOther ''0'', GInt 25, GNil, GNil, GNil, GNil, GNil, GNil,
      GString ''pg_get_expr'', GNil, GNil, GNil],
     [GInt 2105, GString ''pg_get_userbyid'', GInt 11, GInt 10, GInt 0, GInt 1, GInt 1, GInt 0, GNil,
      GString ''f'', GBool False, GBool False, GBool False, GBool False, GString ''s'',
      GString ''s'', GOther ''1'', GOther ''0'', GInt 25, GNil, GNil, GNil, GNil, GNil, GNil,
      GString ''pg_get_userbyid'', GNil, GNil, GNil],
     [GInt 2106, GString ''format_type'', GInt 11, GInt 10, GInt 0, GInt 1, GInt 1, GInt 0, GNil,
      GString ''f'', GBool False, GBool False, GBool False, GBool False, GString ''s'',
      GString ''s'', GOther ''2'', GOther ''0'', GInt 25, GNil, GNil, GNil, GNil, GNil, GNil,
      GString ''format_type'', GNil, GNil, GNil],
     [GInt 2107, GString ''obj_description'', GInt 11, GInt 10, GInt 0, GInt 1, GInt 1, GInt 0, GNil,
      GString ''f'', GBool False, GBool False, GBool False, GBool False, GString ''s'',
      GString ''s'', GOther ''1'', GOther ''0'', GInt 25, GNil, GNil, GNil, GNil, GNil, GNil,
      GString ''obj_description'', GNil, GNil, GNil],
     [GInt 2108, GString ''pg_get_constraintdef'', GInt 11, GInt 10, GInt 0, GInt 1, GInt 1, GInt 0,
      GNil, GString ''f'', GBool False, GBool False, GBool False, GBool False, GString ''s'',
      GString ''s'', GOther ''1'', GOther ''0'', GInt 25, GNil, GNil, GNil, GNil, GNil, GNil,
      GString ''pg_get_constraintdef'', GNil, GNil, GNil],
     [GInt 2109, GString ''pg_get_indexdef'', GInt 11, GInt 10, GInt 0, GInt 1, GInt 1, GInt 0, GNil,
      GString ''f'', GBool False, GBool False, GBool False, GBool False, GString ''s'',
      GString ''s'', GOther ''1'', GOther ''0'', GInt 25, GNil, GNil, GNil, GNil, GNil, GNil,
      GString ''pg_get_indexdef'', GNil, GNil, GNil]]"

definition pg_enums :: "gval list list" where
  "pg_enums =
    [[GInt 50001, GInt 40001, GFloat (push_bit 48 0x3FF0), GString ''OWNER''],
     [GInt 50002, GInt 40001, GFloat (push_bit 48 0x4000), GString ''ADMIN''],
     [GInt 50003, GInt 40001, GFloat (push_bit 48 0x4008), GString ''MEMBER''],
     [GInt 50004, GInt 40001, GFloat (push_bit 48 0x4010), GString ''VIEWER''],
     [GInt 50005, GInt 40001, GFloat (push_bit 48 0x4014), GString ''NONE''],
     [GInt 50011, GInt 40002, GFloat (push_bit 48 0x3FF0), GString ''ORGANIZATION''],
     [GInt 50012, GInt 40002, GFloat (push_bit 48 0x4000), GString ''PROJECT''],
     [GInt 50021, GInt 40003, GFloat (push_bit 48 0x3FF0), GString ''ACTIVE''],
     [GInt 50022, GInt 40003, GFloat (push_bit 48 0x4000), GString ''ARCHIVED''],
     [GInt 50031, GInt 40004, GFloat (push_bit 48 0x3FF0), GString ''TRACE''],
     [GInt 50032, GInt 40004, GFloat (push_bit 48 0x4000), GString ''OBSERVATION''],
     [GInt 50033, GInt 40004, GFloat (push_bit 48 0x4008), GString ''SESSION''],
     [GInt 50034, GInt 40004, GFloat (push_bit 48 0x4010), GString ''PROMPT''],
     [GInt 50041, GInt 40005, GFloat (push_bit 48 0x3FF0), GString ''EMAIL''],
     [GInt 50046, GInt 40006, GFloat (push_bit 48 0x3FF0), GString ''COMMENT_MENTION''],
     [GInt 50051, GInt 40007, GFloat (push_bit 48 0x3FF0), GString ''WEBHOOK''],
     [GInt 50052, GInt 40007, GFloat (push_bit 48 0x4000), GString ''SLACK''],
     [GInt 50053, GInt 40007, GFloat (push_bit 48 0x4008), GString ''GITHUB_DISPATCH''],
     [GInt 50061, GInt 40008, GFloat (push_bit 48 0x3FF0), GString ''COMPLETED''],
     [GInt 50062, GInt 40008, GFloat (push_bit 48 0x4000), GString ''ERROR''],
     [GInt 50063, GInt 40008, GFloat (push_bit 48 0x4008), GString ''PENDING''],
     [GInt 50064, GInt 40008, GFloat (push_bit 48 0x4010), GString ''CANCELLED''],
     [GInt 50065, GInt 40008, GFloat (push_bit 48 0x4014), GString ''DELAYED''],
     [GInt 50071, GInt 40009, GFloat (push_bit 48 0x3FF0), GString ''NUMERIC''],
     [GInt 50072, GInt 40009, GFloat (push_bit 48 0x4000), GString ''BOOLEAN''],
     [GInt 50073, GInt 40009, GFloat (push_bit 48 0x4008), GString ''CATEGORICAL''],
     [GInt 50081, GInt 40010, GFloat (push_bit 48 0x3FF0), GString ''PENDING''],
     [GInt 50082, GInt 40010, GFloat (push_bit 48 0x4000), GString ''COMPLETED''],
     [GInt 50083, GInt 40010, GFloat (push_bit 48 0x4008), GString ''SKIPPED''],
     [GInt 50091, GInt 40011, GFloat (push_bit 48 0x3FF0), GString ''TRACE''],
     [GInt 50092, GInt 40011, GFloat (push_bit 48 0x4000), GString ''OBSERVATION''],
     [GInt 50093, GInt 40011, GFloat (push_bit 48 0x4008), GString ''SESSION''],
     [GInt 50101, GInt 40012, GFloat (push_bit 48 0x3FF0), GString ''EVAL''],
     [GInt 50111, GInt 40013, GFloat (push_bit 48 0x3FF0), GString ''ACTIVE''],
     [GInt 50112, GInt 40013, GFloat (push_bit 48 0x4000), GString ''INACTIVE''],
     [GInt 50121, GInt 40014, GFloat (push_bit 48 0x3FF0), GString ''COMPLETED''],
     [GInt 50122, GInt 40014, GFloat (push_bit 48 0x4000), GString ''ERROR''],
     [GInt 50123, GInt 40014, GFloat (push_bit 48 0x4008), GString ''PENDING''],
     [GInt 50124, GInt 40014, GFloat (push_bit 48 0x4010), GString ''CANCELLED''],
     [GInt 50125, GInt 40014, GFloat (push_bit 48 0x4014), GString ''DELAYED''],
     [GInt 50131, GInt 40015, GFloat (push_bit 48 0x3FF0), GString ''FEEDBACK''],
     [GInt 50132, GInt 40015, GFloat (push_bit 48 0x4000), GString ''SATISFACTION''],
     [GInt 50141, GInt 40016, GFloat (push_bit 48 0x3FF0), GString ''SPAN''],
     [GInt 50142, GInt 40016, GFloat (push_bit 48 0x4000), GString ''EVENT''],
     [GInt 50143, GInt 40016, GFloat (push_bit 48 0x4008), GString ''GENERATION''],
     [GInt 50144, GInt 40016, GFloat (push_bit 48 0x4010), GString ''AGENT''],
     [GInt 50145, GInt 40016, GFloat (push_bit 48 0x4014), GString ''TOOL''],
     [GInt 50146, GInt 40016, GFloat (push_bit 48 0x4018), GString ''CHAIN''],
     [GInt 50147, GInt 40016, GFloat (push_bit 48 0x401C), GString ''RETRIEVER''],
     [GInt 50148, GInt 40016, GFloat (push_bit 48 0x4020), GString ''EVALUATOR''],
     [GInt 50149, GInt 40016, GFloat (push_bit 48 0x4022), GString ''EMBEDDING''],
     [GInt 50150, GInt 40016, GFloat (push_bit 48 0x4024), GString ''GUARDRAIL''],
     [GInt 50151, GInt 40017, GFloat (push_bit 48 0x3FF0), GString ''DEBUG''],
     [GInt 50152, GInt 40017, GFloat (push_bit 48 0x4000), GString ''DEFAULT''],
     [GInt 50153, GInt 40017, GFloat (push_bit 48 0x4008), GString ''WARNING''],
     [GInt 50154, GInt 40017, GFloat (push_bit 48 0x4010), GString ''ERROR''],
     [GInt 50161, GInt 40018, GFloat (push_bit 48 0x3FF0), GString ''ANNOTATION''],
     [GInt 50162, GInt 40018, GFloat (push_bit 48 0x4000), GString ''API''],
     [GInt 50163, GInt 40018, GFloat (push_bit 48 0x4008), GString ''EVAL''],
     [GInt 50171, GInt 40019, GFloat (push_bit 48 0x3FF0), GString ''SCORE_THRESHOLD''],
     [GInt 50172, GInt 40019, GFloat (push_bit 48 0x4000), GString ''MODEL_RESPONSE''],
     [GInt 50173, GInt 40019, GFloat (push_bit 48 0x4008), GString ''TIMEOUT''],
     [GInt 50174, GInt 40019, GFloat (push_bit 48 0x4010), GString ''ERROR''],
     [GInt 50175, GInt 40019, GFloat (push_bit 48 0x4014), GString ''MANUAL''],
     [GInt 50176, GInt 40019, GFloat (push_bit 48 0x4018), GString ''OTHER''],
     [GInt 50181, GInt 40020, GFloat (push_bit 48 0x3FF0), GString ''S3''],
     [GInt 50182, GInt 40020, GFloat (push_bit 48 0x4000), GString ''S3_COMPATIBLE''],
     [GInt 50183, GInt 40020, GFloat (push_bit 48 0x4008), GString ''AZURE_BLOB_STORAGE''],
     [GInt 50191, GInt 40021, GFloat (push_bit 48 0x3FF0), GString ''FULL_HISTORY''],
     [GInt 50192, GInt 40021, GFloat (push_bit 48 0x4000), GString ''FROM_TODAY''],
     [GInt 50193, GInt 40021, GFloat (push_bit 48 0x4008), GString ''FROM_CUSTOM_DATE''],
     [GInt 50201, GInt 40022, GFloat (push_bit 48 0x3FF0), GString ''JSON''],
     [GInt 50202, GInt 40022, GFloat (push_bit 48 0x4000), GString ''CSV''],
     [GInt 50203, GInt 40022, GFloat (push_bit 48 0x4008), GString ''JSONL''],
     [GInt 50211, GInt 40023, GFloat (push_bit 48 0x3FF0), GString ''TRACES_OBSERVATIONS''],
     [GInt 50212, GInt 40023, GFloat (push_bit 48 0x4000), GString ''TRACES_OBSERVATIONS_EVENTS''],
     [GInt 50213, GInt 40023, GFloat (push_bit 48 0x4008), GString ''EVENTS'']]"

definition pg_constraint_columns :: "string list" where
  "pg_constraint_columns =
    [''oid'', ''conname'', ''connamespace'', ''contype'', ''condeferrable'', ''condeferred'',
     ''convalidated'', ''conrelid'', ''contypid'', ''conindid'', ''conparentid'', ''confrelid'',
     ''confupdtype'', ''confdeltype'', ''confmatchtype'', ''conislocal'', ''coninhcount'',
     ''connoinherit'', ''conkey'', ''confkey'', ''conpfeqop'', ''conppeqop'', ''conffeqop'',
     ''conexclop'', ''conbin'']"

definition pg_databases :: "gval list list" where
  "pg_databases =
    [[GInt 1, GString ''langfuse'', GInt 10, GInt 6, GString ''en_US.UTF-8'',
      GString ''en_US.UTF-8'', GBool False, GBool True, GInt (-1), GInt 0, GInt 1, GInt 1663]]"

definition pg_database_columns :: "string list" where
  "pg_database_columns =
    [''oid'', ''datname'', ''datdba'', ''encoding'', ''datcollate'', ''datctype'',
     ''datistemplate'', ''datallowconn'', ''datconnlimit'', ''datfrozenxid'', ''datminmxid'',
     ''dattablespace'']"

definition pg_extensions :: "gval list list" where
  "pg_extensions =
    [[GInt 100, GString ''plpgsql'', GInt 10, GInt 11, GBool False, GString ''1.0'', GNil, GNil]]"

definition pg_extension_columns :: "string list" where
  "pg_extension_columns =
    [''oid'', ''extname'', ''extowner'', ''extnamespace'', ''extrelocatable'', ''extversion'',
     ''extconfig'', ''extcondition'']"

definition pg_enum_columns :: "string list" where
  "pg_enum_columns = [''oid'', ''enumtypid'', ''enumsortorder'', ''enumlabel'']"

definition pg_namespace_columns :: "string list" where
  "pg_namespace_columns = [''oid'', ''nspname'', ''nspowner'', ''nspacl'']"

definition pg_description_columns :: "string list" where
  "pg_description_columns = [''objoid'', ''classoid'', ''objsubid'', ''description'']"

section \<open>Handlers on the fixed tables\<close>

text \<open>A handler's answer: column names and rows; \<open>None\<close> is \<open>nil, nil\<close>, "pass through".\<close>

type_synonym answer = "(string list \<times> gval list list) option"

definition cell_is :: "nat \<Rightarrow> gval \<Rightarrow> gval list \<Rightarrow> bool" where
  "cell_is i v row \<longleftrightarrow> row ! i = v"

definition oid_re :: re where
  "oid_re = (seqR [ilit ''oid'', many space, optional (altR [lit ''='', seqR [ilit ''IN'', many space, lit ''('']]), many space, RGroup 1 (some1 digit)])"

definition oid_in_re :: re where
  "oid_in_re = (seqR [ilit ''oid'', some1 space, ilit ''IN'', many space, lit ''('', RGroup 1 (some1 (none_of '')'')), lit '')''])"

definition typname_re :: re where
  "typname_re = (seqR [ilit ''typname'', many space, lit ''='', many space, lit [CHR 0x27], RGroup 1 (some1 (none_of [CHR 0x27])), lit [CHR 0x27]])"

definition typname_in_re :: re where
  "typname_in_re = (seqR [ilit ''typname'', some1 space, ilit ''IN'', many space, lit ''('', RGroup 1 (some1 (none_of '')'')), lit '')''])"

text \<open>The four conditions \<open>handlePGType\<close> looks for, in order: the rows of a condition that is
  there and selects something.\<close>

definition selected :: "re \<Rightarrow> (string \<Rightarrow> gval list \<Rightarrow> bool) \<Rightarrow> string \<Rightarrow> gval list list option" where
  "selected r cond sql = (case FindSubmatch r sql of
       None \<Rightarrow> None
     | Some m \<Rightarrow> (let rows = filter (cond (m 1)) pg_types in if rows = [] then None else Some rows))"

definition by_oid :: "string \<Rightarrow> gval list \<Rightarrow> bool" where
  "by_oid s = cell_is 0 (GInt (word_of_int (Sscanf_d s)))"

definition by_oids :: "string \<Rightarrow> gval list \<Rightarrow> bool" where
  "by_oids s row \<longleftrightarrow> row ! 0 \<in> set (map (\<lambda>t. GInt (word_of_int (Sscanf_d (TrimSpace t)))) (Split s CHR '',''))"

definition by_name :: "string \<Rightarrow> gval list \<Rightarrow> bool" where
  "by_name s = cell_is 1 (GString s)"

definition by_names :: "string \<Rightarrow> gval list \<Rightarrow> bool" where
  "by_names s row \<longleftrightarrow> row ! 1 \<in> set (map (\<lambda>t. GString (Trim (TrimSpace t) [CHR 0x27])) (Split s CHR '',''))"

definition handlePGType :: "string \<Rightarrow> answer" where
  "handlePGType sql = Some (pg_type_columns,
    (if \<not> Contains (ToUpper sql) ''WHERE'' then pg_types
     else case selected oid_re by_oid sql of Some rows \<Rightarrow> rows | None \<Rightarrow>
       (case selected oid_in_re by_oids sql of Some rows \<Rightarrow> rows | None \<Rightarrow>
         (case selected typname_re by_name sql of Some rows \<Rightarrow> rows | None \<Rightarrow>
           (case selected typname_in_re by_names sql of Some rows \<Rightarrow> rows | None \<Rightarrow> [])))))"

definition handlePGNamespace :: answer where
  "handlePGNamespace = Some (pg_namespace_columns, pg_namespaces)"

definition handlePGProc :: answer where
  "handlePGProc = Some (pg_proc_columns, pg_procs)"

definition enumtypid_re :: re where
  "enumtypid_re = (seqR [ilit ''enumtypid'', many space, lit ''='', many space, RGroup 1 (some1 digit)])"

definition handlePGEnum :: "string \<Rightarrow> answer" where
  "handlePGEnum query = Some (pg_enum_columns, (case FindSubmatch enumtypid_re query of
       Some m \<Rightarrow> filter (cell_is 1 (GInt (word_of_int (Sscanf_d (m 1))))) pg_enums
     | None \<Rightarrow> pg_enums))"

definition handlePGConstraint :: answer where
  "handlePGConstraint = Some (pg_constraint_columns, [])"

definition handlePGDescription :: answer where
  "handlePGDescription = Some (pg_description_columns, [])"

definition handlePGDatabase :: answer where
  "handlePGDatabase = Some (pg_database_columns, pg_databases)"

definition handlePGExtension :: answer where
  "handlePGExtension = Some (pg_extension_columns, pg_extensions)"

section \<open>Handlers that ask MySQL\<close>

definition tables_query :: string where
  "tables_query = ([CHR 0x0A, CHR 0x09, CHR 0x09] @ ''SELECT table_name FROM information_schema.tables'' @ [CHR 0x0A, CHR 0x09, CHR 0x09] @ ''WHERE table_schema = DATABASE() AND table_type = 'BASE TABLE'' @ [CHR 0x27, CHR 0x0A, CHR 0x09, CHR 0x09] @ ''ORDER BY table_name'' @ [CHR 0x0A, CHR 0x09])"

definition gint :: "int \<Rightarrow> gval" where
  "gint n = GInt (word_of_int n)"

text \<open>A count that is asked for and dropped when the query or its scan fails.\<close>

definition ask :: "'d mysql \<Rightarrow> string \<Rightarrow> gval list \<Rightarrow> ('d, gval option) act" where
  "ask db q args = orElse None (bindM (pool_Query db q args) (\<lambda>rows. ret (first_value rows)))"

definition natts_query :: string where
  "natts_query = ''SELECT COUNT(*) FROM information_schema.columns WHERE table_schema = DATABASE() AND table_name = ?''"

definition pk_query :: string where
  "pk_query = (''SELECT COUNT(*) FROM information_schema.table_constraints WHERE table_schema = DATABASE() AND table_name = ? AND constraint_type = 'PRIMARY KEY'' @ [CHR 0x27])"

definition int_or_0 :: "gval option \<Rightarrow> int" where
  "int_or_0 v = (case v of Some g \<Rightarrow> (case scan_int g of Some n \<Rightarrow> n | None \<Rightarrow> 0) | None \<Rightarrow> 0)"

definition bool_or_false :: "gval option \<Rightarrow> bool" where
  "bool_or_false v = (case v of Some g \<Rightarrow> (case scan_bool g of Some b \<Rightarrow> b | None \<Rightarrow> False) | None \<Rightarrow> False)"

definition pg_class_row :: "int \<Rightarrow> string \<Rightarrow> int \<Rightarrow> bool \<Rightarrow> gval list" where
  "pg_class_row oid name natts hasPK =
    [gint oid, GString name, GInt 2200, GInt 0, GInt 0, GInt 0, GInt 0, GInt 0, GInt 0, GInt 0, GInt 0,
     GInt 0, GInt 0, GBool False, GBool False, GString ''p'', GString ''r'', gint natts, GInt 0, GBool False,
     GBool hasPK, GBool False, GBool False, GBool False, GBool False, GBool False, GBool True,
     GString ''d'', GBool False]"

text \<open>The tables get consecutive numbers from 16384 on; a name that does not scan is skipped. The
  code asks for a table's numbers while the rows of the outer query are still open; the queries and
  their order are the same as here, the connections they hold are the subject of \<open>CatalogPool\<close>.\<close>

primrec class_rows :: "'d mysql \<Rightarrow> string option list \<Rightarrow> int \<Rightarrow> ('d, gval list list) act" where
  "class_rows db [] oid = ret []"
| "class_rows db (n # ns) oid = (case n of
       None \<Rightarrow> class_rows db ns oid
     | Some name \<Rightarrow>
         bindM (ask db natts_query [GString name]) (\<lambda>natts.
         bindM (ask db pk_query [GString name]) (\<lambda>pk.
         bindM (class_rows db ns (oid + 1)) (\<lambda>rest.
           ret (pg_class_row oid name (int_or_0 natts) (bool_or_false pk) # rest)))))"

definition names_of :: "mysql_rows \<Rightarrow> string option list" where
  "names_of rows = map (\<lambda>v. case v of Some g \<Rightarrow> scan_string g | None \<Rightarrow> None) (first_column rows)"

definition handlePGClass :: "'d mysql \<Rightarrow> ('d, answer) act" where
  "handlePGClass db = bindM (pool_Query db tables_query []) (\<lambda>rows.
     bindM (class_rows db (names_of rows) 16384) (\<lambda>data. ret (Some (pg_class_columns, data))))"

text \<open>The table of a number: here a name that does not scan is empty and counts.\<close>

fun table_of_oid :: "string option list \<Rightarrow> int \<Rightarrow> int \<Rightarrow> string" where
  "table_of_oid [] cur oid = []"
| "table_of_oid (n # ns) cur oid =
     (if cur = oid then (case n of Some name \<Rightarrow> name | None \<Rightarrow> []) else table_of_oid ns (cur + 1) oid)"

definition columns_query :: string where
  "columns_query = ([CHR 0x0A, CHR 0x09, CHR 0x09] @ ''SELECT column_name, ordinal_position, is_nullable, column_type'' @ [CHR 0x0A, CHR 0x09, CHR 0x09] @ ''FROM information_schema.columns'' @ [CHR 0x0A, CHR 0x09, CHR 0x09] @ ''WHERE table_schema = DATABASE() AND table_name = ?'' @ [CHR 0x0A, CHR 0x09, CHR 0x09] @ ''ORDER BY ordinal_position'' @ [CHR 0x0A, CHR 0x09])"

definition attribute_type :: "string \<Rightarrow> int" where
  "attribute_type colType =
    (if HasPrefix colType ''int'' then 23
     else if HasPrefix colType ''bigint'' then 20
     else if HasPrefix colType ''smallint'' then 21
     else if HasPrefix colType ''float'' then 701
     else if HasPrefix colType ''double'' then 701
     else if HasPrefix colType ''decimal'' \<or> HasPrefix colType ''numeric'' then 1700
     else if colType = ''json'' then 114
     else if HasPrefix colType ''datetime'' then 1114
     else if HasPrefix colType ''varchar'' then 1043
     else if colType = ''tinyint(1)'' then 16
     else 25)"

text \<open>\<open>colRows.Scan\<close> fills the variables from left to right and stops at the first that does not
  convert; its error is dropped. The position is a 16-bit value of its own Go type.\<close>

definition scan_column :: "gval list res \<Rightarrow> string \<times> int \<times> string \<times> string" where
  "scan_column row = (case row of
       Ok [a, b, c, d] \<Rightarrow>
         (case scan_string a of None \<Rightarrow> ([], 0, [], []) | Some name \<Rightarrow>
         (case scan_int b of None \<Rightarrow> (name, 0, [], []) | Some pos \<Rightarrow>
         (case scan_string c of None \<Rightarrow> (name, pos, [], []) | Some nullable \<Rightarrow>
         (case scan_string d of None \<Rightarrow> (name, pos, nullable, []) | Some t \<Rightarrow> (name, pos, nullable, t)))))
     | _ \<Rightarrow> ([], 0, [], []))"

definition pg_attribute_row :: "int \<Rightarrow> gval list res \<Rightarrow> gval list" where
  "pg_attribute_row oid row = (let (name, pos, nullable, colType) = scan_column row in
    [gint oid, GString name, gint (attribute_type colType), GInt (-1), GInt (-1),
     GOther (int_dec (sint (word_of_int pos :: 16 word))), GInt 0, GInt (-1), GInt (-1),
     GBool False, GString ''x'', GString ''i'', GBool (nullable = ''NO''), GBool False, GBool False,
     GString [], GString [], GBool False, GBool True, GInt 0, GInt 0, GNil, GNil, GNil])"

definition attrelid_re :: re where
  "attrelid_re = (seqR [ilit ''attrelid'', many space, lit ''='', many space, RGroup 1 (some1 digit)])"

definition handlePGAttribute :: "'d mysql \<Rightarrow> string \<Rightarrow> ('d, answer) act" where
  "handlePGAttribute db query = (case FindSubmatch attrelid_re query of
       None \<Rightarrow> ret (Some (pg_attribute_columns, []))
     | Some m \<Rightarrow>
        (let oid = Sscanf_d (m 1) in
         bindM (pool_Query db tables_query []) (\<lambda>rows.
           (let tableName = table_of_oid (names_of rows) 16384 oid in
            if tableName = [] then ret (Some (pg_attribute_columns, []))
            else bindM (pool_Query db columns_query [GString tableName]) (\<lambda>colRows.
              ret (Some (pg_attribute_columns, map (pg_attribute_row oid) (scans colRows))))))))"

text \<open>Indexes: the rows of \<open>information_schema.statistics\<close>, grouped by table and index name in
  the order of their first row. The groups are a Go map, so that their order in the answer
  is any order, the parameter \<open>perm\<close>.\<close>

record idx_info =
  idx_oid :: int
  idx_tableOid :: int
  idx_cols :: "int list"
  idx_unique :: bool
  idx_primary :: bool

definition statistics_query :: string where
  "statistics_query = ([CHR 0x0A, CHR 0x09, CHR 0x09] @ ''SELECT TABLE_NAME, INDEX_NAME, NON_UNIQUE, COLUMN_NAME, SEQ_IN_INDEX'' @ [CHR 0x0A, CHR 0x09, CHR 0x09] @ ''FROM information_schema.statistics'' @ [CHR 0x0A, CHR 0x09, CHR 0x09] @ ''WHERE table_schema = DATABASE()'' @ [CHR 0x0A, CHR 0x09, CHR 0x09] @ ''ORDER BY TABLE_NAME, INDEX_NAME, SEQ_IN_INDEX'' @ [CHR 0x0A, CHR 0x09])"

definition unordered_tables_query :: string where
  "unordered_tables_query = ([CHR 0x0A, CHR 0x09, CHR 0x09] @ ''SELECT table_name FROM information_schema.tables'' @ [CHR 0x0A, CHR 0x09, CHR 0x09] @ ''WHERE table_schema = DATABASE() AND table_type = 'BASE TABLE'' @ [CHR 0x27, CHR 0x0A, CHR 0x09])"

definition scan_statistics :: "gval list res \<Rightarrow> string \<times> string \<times> int \<times> int" where
  "scan_statistics row = (case row of
       Ok [a, b, c, d, e] \<Rightarrow>
         (case scan_string a of None \<Rightarrow> ([], [], 0, 0) | Some table \<Rightarrow>
         (case scan_string b of None \<Rightarrow> (table, [], 0, 0) | Some index \<Rightarrow>
         (case scan_int c of None \<Rightarrow> (table, index, 0, 0) | Some nonUnique \<Rightarrow>
         (case scan_string d of None \<Rightarrow> (table, index, nonUnique, 0) | Some col \<Rightarrow>
         (case scan_int e of None \<Rightarrow> (table, index, nonUnique, 0) | Some seq \<Rightarrow> (table, index, nonUnique, seq))))))
     | _ \<Rightarrow> ([], [], 0, 0))"

fun table_numbers :: "string option list \<Rightarrow> int \<Rightarrow> (string \<Rightarrow> int option) \<Rightarrow> string \<Rightarrow> int option" where
  "table_numbers [] cur m = m"
| "table_numbers (n # ns) cur m =
     table_numbers ns (cur + 1) (m((case n of Some name \<Rightarrow> name | None \<Rightarrow> []) \<mapsto> cur))"

definition index_of :: "(string \<Rightarrow> int option) \<Rightarrow> string \<Rightarrow> int" where
  "index_of m name = (case m name of Some n \<Rightarrow> n | None \<Rightarrow> 0)"

text \<open>One row: a new group with the next number, or another column of a group.\<close>

definition add_statistics ::
    "(string \<Rightarrow> int option) \<Rightarrow> (string \<times> idx_info) list \<times> int \<Rightarrow> gval list res \<Rightarrow> (string \<times> idx_info) list \<times> int" where
  "add_statistics oids st row =
    (let (indexes, indexOid) = st;
         (table, index, nonUnique, seq) = scan_statistics row;
         key = table @ ''.'' @ index;
         (indexes', indexOid') = (if map_of indexes key = None
            then (indexes @ [(key, \<lparr>idx_oid = indexOid, idx_tableOid = index_of oids table, idx_cols = [],
                   idx_unique = (nonUnique = 0), idx_primary = (index = ''PRIMARY'')\<rparr>)], indexOid + 1)
            else (indexes, indexOid))
     in (map (\<lambda>(k, i). (k, if k = key then i\<lparr>idx_cols := idx_cols i @ [seq]\<rparr> else i)) indexes', indexOid'))"

definition pg_index_row :: "idx_info \<Rightarrow> gval list" where
  "pg_index_row i =
    [gint (idx_oid i), gint (idx_tableOid i), gint (int (length (idx_cols i))), gint (int (length (idx_cols i))),
     GBool (idx_unique i), GBool (idx_primary i), GBool False, GBool True, GBool False, GBool True,
     GBool False, GBool True, GBool True, GBool False, GString (Join (map int_dec (idx_cols i)) '' ''),
     GNil, GNil, GNil, GNil, GNil]"

definition handlePGIndex :: "((string \<times> idx_info) list \<Rightarrow> (string \<times> idx_info) list) \<Rightarrow> 'd mysql \<Rightarrow> ('d, answer) act" where
  "handlePGIndex perm db = bindM (pool_Query db statistics_query []) (\<lambda>rows.
     bindM (orElse (\<lambda>_. None) (bindM (pool_Query db unordered_tables_query []) (\<lambda>tableRows.
        ret (table_numbers (names_of tableRows) 16384 (\<lambda>_. None))))) (\<lambda>oids.
     (let (indexes, _) = foldl (add_statistics oids) ([], 30000) (scans rows)
      in ret (Some (pg_index_columns, map (\<lambda>(k, i). pg_index_row i) (perm indexes))))))"

section \<open>Dispatch\<close>

definition HandleCatalogQuery ::
    "((string \<times> idx_info) list \<Rightarrow> (string \<times> idx_info) list) \<Rightarrow> 'd mysql \<Rightarrow> string \<Rightarrow> ('d, answer) act" where
  "HandleCatalogQuery perm db sql =
    (let upper = ToUpper sql in
     if Contains upper ''PG_TYPE'' then ret (handlePGType sql)
     else if Contains upper ''PG_CLASS'' then handlePGClass db
     else if Contains upper ''PG_ATTRIBUTE'' then handlePGAttribute db sql
     else if Contains upper ''PG_NAMESPACE'' then ret handlePGNamespace
     else if Contains upper ''PG_INDEX'' then handlePGIndex perm db
     else if Contains upper ''PG_PROC'' then ret handlePGProc
     else if Contains upper ''PG_ENUM'' then ret (handlePGEnum sql)
     else if Contains upper ''PG_CONSTRAINT'' then ret handlePGConstraint
     else if Contains upper ''PG_DESCRIPTION'' then ret handlePGDescription
     else if Contains upper ''PG_DATABASE'' then ret handlePGDatabase
     else if Contains upper ''PG_EXTENSION'' then ret handlePGExtension
     else if Contains upper ''INFORMATION_SCHEMA'' then ret None
     else failM (ErrorText ''unsupported catalog query''))"

section \<open>Column types\<close>

definition mysqlDataTypeToPGOID :: "string \<Rightarrow> 32 word" where
  "mysqlDataTypeToPGOID dt = (let t = ToUpper dt in
     if t = ''TINYINT'' \<or> t = ''SMALLINT'' then 21
     else if t \<in> set [''INT'', ''INTEGER'', ''MEDIUMINT''] then 23
     else if t = ''BIGINT'' then 20
     else if t = ''FLOAT'' then 700
     else if t = ''DOUBLE'' then 701
     else if t \<in> set [''DECIMAL'', ''NUMERIC''] then 25
     else if t = ''DATE'' then 1082
     else if t = ''TIME'' then 1083
     else if t \<in> set [''DATETIME'', ''TIMESTAMP''] then 25
     else if t \<in> set [''VARCHAR'', ''CHAR'', ''TEXT'', ''TINYTEXT'', ''MEDIUMTEXT'', ''LONGTEXT''] then 25
     else if t = ''JSON'' then 1009
     else if t \<in> set [''BLOB'', ''TINYBLOB'', ''MEDIUMBLOB'', ''LONGBLOB'', ''BINARY'', ''VARBINARY''] then 17
     else 25)"

type_synonym type_cache = "(string \<times> string) \<Rightarrow> 32 word option"

definition data_type_query :: string where
  "data_type_query = ''SELECT DATA_TYPE FROM information_schema.COLUMNS WHERE TABLE_SCHEMA = DATABASE() AND TABLE_NAME = ? AND COLUMN_NAME = ?''"

text \<open>The state is the cache and the database; a column that MySQL does not know is 0 and is
  asked for again the next time.\<close>

definition GetColumnPGOID :: "'d mysql \<Rightarrow> string \<Rightarrow> string \<Rightarrow> type_cache \<times> 'd \<Rightarrow> 32 word \<times> type_cache \<times> 'd" where
  "GetColumnPGOID db tableName colName st =
    (let (cache, d) = st; key = (ToLower tableName, ToLower colName) in
     case cache key of
       Some oid \<Rightarrow> (oid, cache, d)
     | None \<Rightarrow> (case pool_Query db data_type_query [GString tableName, GString colName] d of
           (Ok rows, d') \<Rightarrow> (case Option.bind (first_value rows) scan_string of
               Some dataType \<Rightarrow> (let oid = mysqlDataTypeToPGOID dataType in (oid, cache(key \<mapsto> oid), d'))
             | None \<Rightarrow> (0, cache, d'))
         | (_, d') \<Rightarrow> (0, cache, d')))"

section \<open>Properties\<close>

text \<open>A database whose calls return: a value or an error, never a panic.\<close>

definition returns :: "'d mysql \<Rightarrow> bool" where
  "returns db \<longleftrightarrow> (\<forall>q args d p d'. pool_Query db q args d \<noteq> (Panic p, d') \<and> pool_Exec db q args d \<noteq> (Panic p, d'))"

lemma ask_Ok: "returns db \<Longrightarrow> \<exists>v d'. ask db q args d = (Ok v, d')"
  by (cases "pool_Query db q args d"; cases "fst (pool_Query db q args d)")
     (auto simp: ask_def orElse_def bindM_def ret_def returns_def)

lemma class_rows_numbers:
  assumes "returns db"
  shows "\<exists>data d'. class_rows db (map Some ns) oid d = (Ok data, d') \<and> length data = length ns
    \<and> (\<forall>i < length ns. data ! i ! 0 = gint (oid + int i) \<and> data ! i ! 1 = GString (ns ! i))"
proof (induction ns arbitrary: oid d)
  case Nil
  show ?case by (simp add: ret_def)
next
  case (Cons n ns)
  obtain v d1 where v: "ask db natts_query [GString n] d = (Ok v, d1)" using ask_Ok [OF assms] by blast
  obtain w d2 where w: "ask db pk_query [GString n] d1 = (Ok w, d2)" using ask_Ok [OF assms] by blast
  obtain data d3 where d3: "class_rows db (map Some ns) (oid + 1) d2 = (Ok data, d3)" "length data = length ns"
      "\<forall>i < length ns. data ! i ! 0 = gint (oid + 1 + int i) \<and> data ! i ! 1 = GString (ns ! i)"
    using Cons.IH by blast
  let ?row = "pg_class_row oid n (int_or_0 v) (bool_or_false w)"
  have "class_rows db (map Some (n # ns)) oid d = (Ok (?row # data), d3)"
    by (simp add: bindM_def v w d3(1) ret_def)
  moreover have "(?row # data) ! i ! 0 = gint (oid + int i) \<and> (?row # data) ! i ! 1 = GString ((n # ns) ! i)"
    if "i < length (n # ns)" for i
    using that d3(3) by (cases i) (simp_all add: pg_class_row_def algebra_simps)
  ultimately show ?case using d3(2) by (intro exI [of _ "?row # data"]) auto
qed

lemma table_of_oid_nth:
  "i < length ns \<Longrightarrow> table_of_oid (map Some ns) cur (cur + int i) = ns ! i"
proof (induction ns arbitrary: i cur)
  case (Cons n ns)
  show ?case
  proof (cases i)
    case (Suc j)
    with Cons.prems Cons.IH [of j "cur + 1"] show ?thesis by (simp add: algebra_simps)
  qed simp
qed simp

text \<open>
  \<open>pg_class\<close> and \<open>pg_attribute\<close> agree on the numbers of tables: the row of the
  \<open>i\<close>-th table in \<open>pg_class\<close> has the number from which \<open>handlePGAttribute\<close> finds that
  table again.
\<close>

theorem table_numbers_agree:
  assumes "returns db" and "i < length ns"
  shows "\<exists>data d'. class_rows db (map Some ns) 16384 d = (Ok data, d') \<and> length data = length ns
    \<and> data ! i ! 1 = GString (ns ! i)
    \<and> (\<exists>oid. data ! i ! 0 = gint oid \<and> table_of_oid (map Some ns) 16384 oid = ns ! i)"
  using class_rows_numbers [OF assms(1), of ns 16384 d] assms(2) table_of_oid_nth [OF assms(2), of 16384]
  by blast

definition empty_mysql :: "unit mysql" where
  "empty_mysql = \<lparr>pool_Query = \<lambda>q args. ret \<lparr>col_types = Ok [], col_names = Ok [], scans = [], iter_err = None\<rparr>,
     pool_Exec = \<lambda>q args. ret 0\<rparr>"

theorem table_numbers_agree_witness:
  "\<exists>data d'. class_rows empty_mysql (map Some [''traces'', ''users'']) 16384 () = (Ok data, d')
    \<and> length data = length [''traces'', ''users''] \<and> data ! 1 ! 1 = GString ([''traces'', ''users''] ! 1)
    \<and> (\<exists>oid. data ! 1 ! 0 = gint oid
        \<and> table_of_oid (map Some [''traces'', ''users'']) 16384 oid = [''traces'', ''users''] ! 1)"
proof -
  have h: "returns empty_mysql" "1 < length [''traces'', ''users'']"
    by (auto simp: returns_def empty_mysql_def)
  show ?thesis by (rule table_numbers_agree [OF h])
qed

text \<open>
  The rows of the fixed tables have one cell for each column, the numbers in \<open>pg_type\<close>
  are distinct, and every array type names its element type in the column \<open>typrelid\<close>
  and leaves \<open>typelem\<close>, the column that clients read for it, 0.
\<close>

theorem fixed_tables_shape:
  "list_all (\<lambda>r. length r = length pg_type_columns) pg_types
   \<and> list_all (\<lambda>r. length r = length pg_proc_columns) pg_procs
   \<and> list_all (\<lambda>r. length r = length pg_enum_columns) pg_enums
   \<and> list_all (\<lambda>r. length r = length pg_database_columns) pg_databases
   \<and> list_all (\<lambda>r. length r = length pg_extension_columns) pg_extensions
   \<and> distinct (map hd pg_types)
   \<and> pg_type_columns ! 5 = ''typrelid'' \<and> pg_type_columns ! 6 = ''typelem''
   \<and> list_all (\<lambda>r. r ! 5 \<noteq> GInt 0 \<and> r ! 6 = GInt 0) (filter (\<lambda>r. r ! 4 = GString ''A'') pg_types)"
  by code_simp

definition handled_words :: "string list" where
  "handled_words = [''PG_TYPE'', ''PG_CLASS'', ''PG_ATTRIBUTE'', ''PG_NAMESPACE'', ''PG_INDEX'', ''PG_PROC'',
     ''PG_ENUM'', ''PG_CONSTRAINT'', ''PG_DESCRIPTION'', ''PG_DATABASE'', ''PG_EXTENSION'', ''INFORMATION_SCHEMA'']"

lemma HandleCatalogQuery_unsupported:
  "\<not> list_ex (\<lambda>w. Contains (ToUpper sql) w) handled_words \<Longrightarrow>
     HandleCatalogQuery perm db sql d = (Err (ErrorText ''unsupported catalog query''), d)"
  by (simp add: HandleCatalogQuery_def Let_def failM_def handled_words_def)

lemma unhandled_words:
  "list_all (\<lambda>w. w \<in> set catalog_words
     \<and> \<not> list_ex (\<lambda>v. Contains (ToUpper (''SELECT * FROM '' @ w)) v) handled_words)
     [''PG_SETTINGS'', ''PG_AM'', ''PG_OPCLASS'', ''PG_OPERATOR'', ''PG_SECLABEL'', ''PG_TRIGGER'', ''PG_RANGE'']"
  by code_simp

text \<open>
  A query that is taken for a catalog query, but names none of the eleven tables with a
  handler nor \<open>information_schema\<close>, fails; \<open>pg_settings\<close> and six other tables that
  \<open>IsCatalogQuery\<close> looks for are such tables.
\<close>

theorem unsupported_catalog:
  assumes "IsCatalogQuery sql" and "\<not> list_ex (\<lambda>w. Contains (ToUpper sql) w) handled_words"
  shows "HandleCatalogQuery perm db sql d = (Err (ErrorText ''unsupported catalog query''), d)
   \<and> list_all (\<lambda>w. w \<in> set catalog_words \<and> HandleCatalogQuery perm db (''SELECT * FROM '' @ w) d
        = (Err (ErrorText ''unsupported catalog query''), d))
      [''PG_SETTINGS'', ''PG_AM'', ''PG_OPCLASS'', ''PG_OPERATOR'', ''PG_SECLABEL'', ''PG_TRIGGER'', ''PG_RANGE'']"
proof
  show "HandleCatalogQuery perm db sql d = (Err (ErrorText ''unsupported catalog query''), d)"
    by (rule HandleCatalogQuery_unsupported [OF assms(2)])
  show "list_all (\<lambda>w. w \<in> set catalog_words \<and> HandleCatalogQuery perm db (''SELECT * FROM '' @ w) d
        = (Err (ErrorText ''unsupported catalog query''), d))
      [''PG_SETTINGS'', ''PG_AM'', ''PG_OPCLASS'', ''PG_OPERATOR'', ''PG_SECLABEL'', ''PG_TRIGGER'', ''PG_RANGE'']"
    using unhandled_words by (rule list.pred_mono_strong) (simp add: HandleCatalogQuery_unsupported)
qed

theorem unsupported_catalog_witness:
  "HandleCatalogQuery (\<lambda>x. x) empty_mysql ''SELECT setting FROM pg_settings'' ()
     = (Err (ErrorText ''unsupported catalog query''), ())"
proof -
  have h: "IsCatalogQuery ''SELECT setting FROM pg_settings''"
    "\<not> list_ex (\<lambda>w. Contains (ToUpper ''SELECT setting FROM pg_settings'') w) handled_words"
    by code_simp+
  show ?thesis by (rule unsupported_catalog [OF h, THEN conjunct1])
qed

lemma lower_char_idem [simp]: "lower_char (lower_char c) = lower_char c"
  by (auto simp: lower_char_def Let_def of_char_of)

lemma ToLower_idem [simp]: "ToLower (ToLower s) = ToLower s"
  by (simp add: ToLower_def)

text \<open>
  Looking up a column's type either fails and leaves the cache as it was, or the answer
  is cached: the same lookup, also with the names in lower case, gives it again without
  asking MySQL, whatever happened to the table in between.
\<close>

theorem GetColumnPGOID_cached:
  "case GetColumnPGOID db t c (cache, d) of (oid, cache', d') \<Rightarrow>
     (oid = 0 \<and> cache' = cache) \<or>
     (GetColumnPGOID db t c (cache', d'') = (oid, cache', d'')
      \<and> GetColumnPGOID db (ToLower t) (ToLower c) (cache', d'') = (oid, cache', d''))"
  by (auto simp: GetColumnPGOID_def Let_def split: option.splits prod.splits res.splits)

end

