(* ===== verification/PgTranslator.thy ===== *)
theory PgTranslator
  imports GoRegexp
begin

text \<open>
  \<open>internal/proxy/postgresql/translator.go\<close>: the rewriting of PostgreSQL text into MySQL
  text. \<open>Translate\<close> is a fixed sequence of passes over the query; each pass is one
  definition here, its patterns written as the source's regular expressions. The scanner of
  double-quoted identifiers is a three-state machine over the characters.

  \<open>rand.IntN\<close> makes the names of temporary tables: \<open>rnd i\<close> is the number that the
  \<open>i\<close>-th call returns.
\<close>

record translator =
  arrayColumnMode :: string
  fulltextMode :: string

section \<open>Double-quoted identifiers\<close>

text \<open>The identifier between double quotes; a \<open>public\<close> schema before its last dot is dropped.\<close>

definition backtick :: "string \<Rightarrow> string" where
  "backtick s = ''`'' @ s @ ''`''"

definition quoted_ident :: "string \<Rightarrow> string" where
  "quoted_ident ident = backtick (case LastIndex ident ''.'' of
       None \<Rightarrow> ident
     | Some idx \<Rightarrow> if Trim (take idx ident) ''`'' = ''public'' then drop (idx + 1) ident else ident)"

text \<open>The scanner: in code, in a string literal (where a doubled quote and a backslash pair
  stay inside), in an identifier.\<close>

fun dq_code :: "string \<Rightarrow> string"
  and dq_str :: "string \<Rightarrow> string"
  and dq_quote :: "string \<Rightarrow> string"
  and dq_escape :: "string \<Rightarrow> string"
  and dq_ident :: "string \<Rightarrow> string \<Rightarrow> string" where
  "dq_code [] = []"
| "dq_code (ch # s) =
     (if ch = CHR 0x27 then ch # dq_str s
      else if ch = CHR 0x22 then dq_ident [] s
      else ch # dq_code s)"
| "dq_str [] = []"
| "dq_str (ch # s) =
     (if ch = CHR 0x27 then CHR 0x27 # dq_quote s
      else if ch = CHR 0x5C \<and> s \<noteq> [] then ch # dq_escape s
      else ch # dq_str s)"
| "dq_quote [] = []"
| "dq_quote (ch # s) =
     (if ch = CHR 0x27 then CHR 0x27 # dq_str s
      else if ch = CHR 0x22 then dq_ident [] s
      else ch # dq_code s)"
| "dq_escape [] = []"
| "dq_escape (ch # s) = ch # dq_str s"
| "dq_ident acc [] = quoted_ident (rev acc)"
| "dq_ident acc (ch # s) =
     (if ch = CHR 0x22 then quoted_ident (rev acc) @ dq_code s else dq_ident (ch # acc) s)"

definition translateDoubleQuotes :: "string \<Rightarrow> string" where
  "translateDoubleQuotes sql = ReplaceAll (dq_code sql) ''`public`.'' []"

section \<open>Casts, patterns and comparisons with NULL\<close>

definition translateTypeCasts :: "string \<Rightarrow> string" where
  "translateTypeCasts sql =
    (let sql = ReplaceAllString (seqR [lit ''::'', RGroup 1 (altR [seqR [lit [CHR 0x22], RGroup 2 (some1 (none_of [CHR 0x22])), lit [CHR 0x22]], seqR [lit [CHR 0x27], RGroup 3 (some1 (none_of [CHR 0x27])), lit [CHR 0x27]]])]) sql [];
         sql = ReplaceAllString (seqR [lit ''::'', RGroup 1 (some1 word)]) sql []
     in ReplaceAllString
          (seqR [lit ''CAST('', RGroup 1 (some1 (none_of '')'')), some1 space, lit ''AS'', some1 space, altR [lit ''text'', seqR [lit ''varchar'', many (none_of '')'')], lit ''integer'', lit ''int'', lit ''bigint'', lit ''boolean'', seqR [lit ''timestamp'', many (none_of '')'')], lit ''date'', seqR [lit ''numeric'', many (none_of '')'')], lit ''uuid''], lit '')''])
          sql ''$1'')"

definition translateILIKE :: "string \<Rightarrow> string" where
  "translateILIKE sql =
    (let sql = ReplaceAllString (seqR [RBound, ilit ''NOT'', some1 space, ilit ''ILIKE'', RBound]) sql ''NOT LIKE COLLATE utf8mb4_general_ci''
     in ReplaceAllString (seqR [RBound, ilit ''ILIKE'', RBound]) sql ''LIKE COLLATE utf8mb4_general_ci'')"

definition translateLimitNull :: "string \<Rightarrow> string" where
  "translateLimitNull sql = ReplaceAllString (seqR [some1 space, ilit ''LIMIT'', some1 space, ilit ''NULL'', many space, REnd]) sql []"

definition translateEqualsNull :: "string \<Rightarrow> string" where
  "translateEqualsNull sql =
    (let sql = ReplaceAllString (seqR [RGroup 1 (seqR [word, many (RChar (\<lambda>c. is_word c \<or> c \<in> set ''.`'')), many space]), lit ''='', many space, ilit ''NULL'', RBound]) sql ''${1}IS NULL''
     in ReplaceAllString (seqR [RGroup 1 (seqR [word, many (RChar (\<lambda>c. is_word c \<or> c \<in> set ''.`'')), many space]), lit ''!='', many space, ilit ''NULL'', RBound]) sql ''${1}IS NOT NULL'')"

section \<open>UNION, RETURNING, ON CONFLICT\<close>

text \<open>One part of a UNION: the separator before it, and parentheses where it has a LIMIT or an
  ORDER BY and is not the last part.\<close>

definition union_part :: "string list \<Rightarrow> nat \<Rightarrow> nat \<Rightarrow> string \<Rightarrow> string" where
  "union_part seps n i part =
    (let trimmed = TrimSpace part;
         tu = ToUpper trimmed;
         needsWrap = (Contains tu '' LIMIT '' \<or> Contains tu '' ORDER BY '') \<and> i \<noteq> n - 1
     in if trimmed = [] then []
        else (if i > 0 \<and> length seps > i - 1 then '' '' @ seps ! (i - 1) @ '' '' else [])
          @ (if needsWrap \<and> HasPrefix tu ''SELECT'' then ''('' @ trimmed @ '')'' else trimmed))"

definition union_re :: re where
  "union_re = (seqR [RBound, RGroup 1 (altR [seqR [ilit ''UNION'', some1 space, ilit ''ALL''], ilit ''UNION'']), RBound])"

definition translateUnionLimit :: "string \<Rightarrow> string" where
  "translateUnionLimit sql =
    (if \<not> Contains (ToUpper sql) ''UNION'' then sql
     else let parts = SplitAll union_re sql;
              seps = FindAllString union_re sql
          in if length parts \<le> 1 then sql
             else concat (map (\<lambda>(i, part). union_part seps (length parts) i part) (enumerate 0 parts)))"

definition parseColumns :: "string \<Rightarrow> string list" where
  "parseColumns cols = map TrimSpace (Split cols CHR '','')"

definition wrapReturningSelect :: "string \<Rightarrow> string \<Rightarrow> string" where
  "wrapReturningSelect mainSQL returningCols = mainSQL"

definition returning_re :: re where
  "returning_re = (seqR [RBegin, RGroup 1 (seqR [many space, altR [ilit ''INSERT'', ilit ''UPDATE'', ilit ''DELETE''], RBound, lazy1 dot]), some1 space, ilit ''RETURNING'', some1 space, RGroup 2 (some1 dot), REnd])"

definition translateReturning :: "(nat \<Rightarrow> nat) \<Rightarrow> string \<Rightarrow> string" where
  "translateReturning rnd sql = (case FindSubmatch returning_re sql of
       None \<Rightarrow> sql
     | Some m \<Rightarrow>
        (let mainSQL = m 1; returningCols = m 2; upper = ToUpper (TrimSpace mainSQL) in
         if HasPrefix upper ''INSERT'' then
           (let cols = parseColumns returningCols in
            if length cols = 1 \<and> (EqualFold (hd cols) ''id'' \<or> HasSuffix (ToLower (hd cols)) ''_id'')
            then (let tmpTable = ''_ret_'' @ nat_dec (rnd 0) in
              ''CREATE TEMPORARY TABLE IF NOT EXISTS '' @ tmpTable @ '' (id VARCHAR(36)); '' @ mainSQL
              @ ''; INSERT INTO '' @ tmpTable @ '' VALUES (LAST_INSERT_ID()); SELECT id FROM '' @ tmpTable
              @ ''; DROP TEMPORARY TABLE '' @ tmpTable)
            else wrapReturningSelect mainSQL returningCols)
         else wrapReturningSelect mainSQL returningCols))"

text \<open>\<open>excluded.col\<close> in the update clause becomes \<open>VALUES(col)\<close>.\<close>

definition excluded_ref :: "string \<Rightarrow> string" where
  "excluded_ref m =
    (let parts = Split m CHR ''.'' in
     if length parts = 2 \<and> EqualFold (hd parts) ''excluded'' then ''VALUES('' @ parts ! 1 @ '')'' else m)"

definition conflict_re :: re where
  "conflict_re = (seqR [many space, ilit ''ON'', some1 space, ilit ''CONFLICT'', many space, lit ''('', RGroup 1 (some1 (none_of '')'')), lit '')'', many space, ilit ''DO'', some1 space, ilit ''UPDATE'', some1 space, ilit ''SET'', some1 space, RGroup 2 (some1 dot)])"

definition translateOnConflict :: "string \<Rightarrow> string" where
  "translateOnConflict sql =
    (if \<not> Contains (ToUpper sql) ''ON CONFLICT'' then sql
     else case FindSubmatch conflict_re sql of
       Some m \<Rightarrow>
         (let updateClause = ReplaceAllFunc (seqR [RGroup 1 (some1 word), lit ''.'', RGroup 2 (some1 word)]) excluded_ref (m 2)
          in ReplaceAllString conflict_re sql ('' ON DUPLICATE KEY UPDATE '' @ updateClause))
     | None \<Rightarrow>
         (let nothing_re = (seqR [many space, ilit ''ON'', some1 space, ilit ''CONFLICT'', RBound, lazy1 dot, ilit ''DO'', some1 space, ilit ''NOTHING'']) in
          if MatchString nothing_re sql
          then ReplaceAllString nothing_re (ReplaceFirst sql ''INSERT '' ''INSERT IGNORE '') []
          else sql))"

section \<open>Dates and intervals\<close>

definition date_trunc_re :: re where
  "date_trunc_re = (seqR [ilit ''date_trunc'', many space, lit ''('', many space, lit [CHR 0x27], RGroup 1 (some1 word), lit [CHR 0x27], many space, lit '','', many space, RGroup 2 (some1 (none_of '')'')), many space, lit '')''])"

definition date_trunc_call :: "string \<Rightarrow> string" where
  "date_trunc_call match = (case FindSubmatch date_trunc_re match of
       None \<Rightarrow> match
     | Some m \<Rightarrow>
        (let unit = ToLower (m 1); col = m 2 in
         if unit = ''second'' then ''DATE_FORMAT('' @ col @ '', '%Y-%m-%d %H:%i:%s')''
         else if unit = ''minute'' then ''DATE_FORMAT('' @ col @ '', '%Y-%m-%d %H:%i:00')''
         else if unit = ''hour'' then ''DATE_FORMAT('' @ col @ '', '%Y-%m-%d %H:00:00')''
         else if unit = ''day'' then ''DATE('' @ col @ '')''
         else if unit = ''week'' then ''DATE_SUB('' @ col @ '', INTERVAL WEEKDAY('' @ col @ '') DAY)''
         else if unit = ''month'' then ''DATE_FORMAT('' @ col @ '', '%Y-%m-01')''
         else if unit = ''quarter'' then
           ''MAKEDATE(YEAR('' @ col @ ''), 1) + INTERVAL (QUARTER('' @ col @ '')-1)*3 MONTH''
         else if unit = ''year'' then ''MAKEDATE(YEAR('' @ col @ ''), 1)''
         else ''DATE('' @ col @ '')''))"

definition translateDateTrunc :: "string \<Rightarrow> string" where
  "translateDateTrunc sql = ReplaceAllFunc date_trunc_re date_trunc_call sql"

definition translateExtractEpoch :: "string \<Rightarrow> string" where
  "translateExtractEpoch sql =
     ReplaceAllString (seqR [ilit ''EXTRACT'', many space, lit ''('', many space, ilit ''EPOCH'', some1 space, ilit ''FROM'', some1 space, RGroup 1 (some1 (none_of '')'')), many space, lit '')'']) sql ''UNIX_TIMESTAMP($1)''"

definition translateIntervalArith :: "string \<Rightarrow> string" where
  "translateIntervalArith sql =
     ReplaceAllString (seqR [lit ''INTERVAL'', some1 space, lit [CHR 0x27], RGroup 1 (some1 digit), lit [CHR 0x27], some1 space, RGroup 2 (some1 word)]) sql ''INTERVAL $1 $2''"

definition series_re :: re where
  "series_re = (seqR [ilit ''GENERATE_SERIES'', many space, lit ''('', many space, RGroup 1 (some1 (none_of '','')), many space, lit '','', many space, RGroup 2 (some1 (none_of '','')), many space, optional (seqR [lit '','', many space, RGroup 3 (some1 (none_of '')'')), many space]), lit '')''])"

definition series_call :: "nat \<Rightarrow> string \<Rightarrow> string" where
  "series_call rn match = (case FindSubmatch series_re match of
       None \<Rightarrow> match
     | Some m \<Rightarrow>
        (let start = TrimSpace (m 1); stop = TrimSpace (m 2);
             step = (if m 3 \<noteq> [] then TrimSpace (m 3) else ''1'');
             cteName = ''gs_'' @ nat_dec rn
         in ''(WITH RECURSIVE '' @ cteName @ ''(n) AS (SELECT '' @ start @ '' UNION ALL SELECT n + '' @ step
            @ '' FROM '' @ cteName @ '' WHERE n + '' @ step @ '' <= '' @ stop @ '') SELECT n FROM ''
            @ cteName @ '')''))"

text \<open>Every match draws a number of its own.\<close>

definition translateGenerateSeries :: "(nat \<Rightarrow> nat) \<Rightarrow> string \<Rightarrow> string" where
  "translateGenerateSeries rnd sql =
    (let (ms, tail) = scan_all series_re sql in
     concat (map (\<lambda>(i, gap, d). gap @ series_call (rnd (Suc i)) (submatch d 0)) (enumerate 0 ms)) @ tail)"

section \<open>JSON and arrays\<close>

definition translateJSONBFunctions :: "string \<Rightarrow> string" where
  "translateJSONBFunctions sql =
    (let sql = ReplaceAllString (seqR [ilit ''jsonb_set'', many space, lit ''('']) sql ''JSON_SET('';
         sql = ReplaceAllString (seqR [ilit ''jsonb_agg'', many space, lit ''('']) sql ''JSON_ARRAYAGG('';
         sql = ReplaceAllString (seqR [ilit ''jsonb_object_agg'', many space, lit ''('']) sql ''JSON_OBJECTAGG('';
         sql = ReplaceAllString (seqR [ilit ''jsonb_build_object'', many space, lit ''('']) sql ''JSON_OBJECT('';
         sql = ReplaceAllString (seqR [ilit ''jsonb_build_array'', many space, lit ''('']) sql ''JSON_ARRAY('';
         sql = ReplaceAllString (seqR [ilit ''jsonb_array_length'', many space, lit ''('']) sql ''JSON_LENGTH('';
         sql = ReplaceAllString (seqR [ilit ''jsonb_typeof'', many space, lit ''('']) sql ''JSON_TYPE('';
         sql = ReplaceAllString (seqR [ilit ''jsonb_array_elements'', many space, lit ''('', RGroup 1 (some1 (none_of '')'')), lit '')'']) sql
           ''JSON_TABLE($1, '$[*]' COLUMNS (value TEXT PATH '$'))'';
         sql = ReplaceAllString (seqR [RGroup 1 (some1 word), many space, lit ''->>'', many space, lit [CHR 0x27], RGroup 2 (some1 (none_of [CHR 0x27])), lit [CHR 0x27]]) sql
           ''JSON_UNQUOTE(JSON_EXTRACT($1, '$.$2'))''
     in ReplaceAllString (seqR [RGroup 1 (some1 word), many space, lit ''->'', many space, lit [CHR 0x27], RGroup 2 (some1 (none_of [CHR 0x27])), lit [CHR 0x27]]) sql ''JSON_EXTRACT($1, '$.$2')'')"

definition translateArrayFunctions :: "string \<Rightarrow> string" where
  "translateArrayFunctions sql =
    (let sql = ReplaceAllString (seqR [lit [CHR 0x27], RGroup 1 (many (none_of [CHR 0x27])), lit [CHR 0x27], many space, lit ''='', many space, ilit ''ANY'', many space, lit ''('', RGroup 2 (some1 word), lit '')'']) sql
           (''JSON_CONTAINS($2, '' @ [CHR 0x27, CHR 0x22] @ ''$1'' @ [CHR 0x22, CHR 0x27] @ '')'');
         sql = ReplaceAllString (seqR [RGroup 1 (some1 word), many space, lit ''&&'', many space, RGroup 2 (seqR [lit ''$'', some1 digit])]) sql ''JSON_OVERLAPS($1, $2)'';
         sql = ReplaceAllString (seqR [ilit ''cardinality'', many space, lit ''('', RGroup 1 (some1 (none_of '')'')), lit '')'']) sql ''JSON_LENGTH($1)''
     in ReplaceAllString (seqR [ilit ''unnest'', many space, lit ''('', RGroup 1 (some1 (none_of '')'')), lit '')'']) sql
           ''JSON_TABLE($1, '$[*]' COLUMNS (value TEXT PATH '$'))'')"

section \<open>LIMIT BY, lateral joins and text search\<close>

definition limit1by_re :: re where
  "limit1by_re = (seqR [some1 space, ilit ''LIMIT'', some1 space, RGroup 1 (some1 digit), some1 space, ilit ''BY'', some1 space, RGroup 2 (lazy1 dot), many space, REnd])"

definition translateLimit1By :: "string \<Rightarrow> string" where
  "translateLimit1By sql = (case FindSubmatch limit1by_re sql of
       Some m \<Rightarrow>
         ''SELECT * FROM (SELECT t.*, ROW_NUMBER() OVER (PARTITION BY '' @ TrimSpace (m 2)
         @ '') AS _rn FROM ('' @ ReplaceAllString limit1by_re sql [] @ '') t) _sq WHERE _rn <= '' @ m 1
     | None \<Rightarrow> ReplaceAllString (seqR [some1 space, ilit ''LIMIT'', some1 space, some1 digit, some1 space, ilit ''BY'', some1 space, some1 (RChar (\<lambda>c. \<not> (re_space c \<or> c \<in> set '';'')))]) sql [])"

definition lateral_re :: re where
  "lateral_re = (seqR [optional (RGroup 1 (seqR [ilit ''LEFT'', some1 space])), ilit ''JOIN'', some1 space, ilit ''LATERAL'', some1 space, lit ''('', RGroup 2 (lazy1 dot), lit '')'', some1 space, RGroup 3 (some1 word), some1 space, ilit ''ON'', some1 space, RGroup 4 (some1 dot)])"

definition lateral_keyword_re :: re where
  "lateral_keyword_re =
     (seqR [some1 space, RGroup 1 (altR [ilit ''LEFT'', ilit ''RIGHT'', ilit ''INNER'', ilit ''CROSS'', ilit ''JOIN'', ilit ''WHERE'', seqR [ilit ''GROUP'', some1 space, ilit ''BY''], seqR [ilit ''ORDER'', some1 space, ilit ''BY''], ilit ''HAVING'', ilit ''LIMIT'', ilit ''UNION'']), RBound])"

definition translateLateralJoin :: "string \<Rightarrow> string" where
  "translateLateralJoin sql = (case FindSubmatch lateral_re sql of
       None \<Rightarrow> sql
     | Some m \<Rightarrow>
        (let joinType = m 1; subquery = m 2; alias = m 3; remainder = m 4;
             parts = SplitTwo lateral_keyword_re remainder;
             onClause = TrimSpace (hd parts);
             trailing = (if length parts = 2
               then (case Index remainder (parts ! 1) of Some idx \<Rightarrow> drop idx remainder | None \<Rightarrow> [])
               else []);
             newSubquery = ''('' @ subquery @ '' ORDER BY 1 LIMIT 1) AS '' @ alias;
             replacement = (if joinType \<noteq> [] then ''LEFT JOIN '' else ''JOIN '') @ newSubquery
               @ '' ON '' @ onClause
         in ReplaceFirst sql (m 0) (replacement @ trailing)))"

definition translateToTsVector :: "translator \<Rightarrow> string \<Rightarrow> string" where
  "translateToTsVector t sql =
    (if fulltextMode t = ''like'' then
       (let sql = ReplaceAllString (seqR [ilit ''plainto_tsquery'', many space, lit ''('', many (none_of '',''), lit '','', many space, lit [CHR 0x27], RGroup 1 (some1 (none_of [CHR 0x27])), lit ([CHR 0x27] @ '')'')]) sql ([CHR 0x27] @ ''%$1%'' @ [CHR 0x27]);
            sql = ReplaceAllString (seqR [ilit ''to_tsvector'', many space, lit ''('', many (none_of '',''), lit '','', many space, RGroup 1 (some1 (none_of ''(),'')), lit '')'']) sql ''$1''
        in ReplaceAllString (seqR [RGroup 1 (some1 word), many space, lit ''@@'', some1 space, lit ([CHR 0x27] @ ''%''), RGroup 2 (some1 (none_of [CHR 0x27])), lit (''%'' @ [CHR 0x27])]) sql (''$1 LIKE '%$2%'' @ [CHR 0x27]))
     else
       (let sql = ReplaceAllString (seqR [ilit ''plainto_tsquery'', many space, lit ''('', many (none_of '',''), lit '','', many space, lit [CHR 0x27], RGroup 1 (some1 (none_of [CHR 0x27])), lit ([CHR 0x27] @ '')'')]) sql ([CHR 0x27] @ ''$1'' @ [CHR 0x27])
        in ReplaceAllString (seqR [ilit ''to_tsvector'', many space, lit ''('', many (none_of '',''), lit '','', many space, RGroup 1 (some1 (none_of ''(),'')), lit '')'', many space, lit ''@@'', many space, lit [CHR 0x27], RGroup 2 (some1 (none_of [CHR 0x27])), lit [CHR 0x27]]) sql
             ''MATCH($1) AGAINST('$2' IN BOOLEAN MODE)''))"

section \<open>ANY, FINAL, map access\<close>

text \<open>An element of an ARRAY literal gets quotes unless it has one in front.\<close>

definition quote_element :: "string \<Rightarrow> string" where
  "quote_element p = (if HasPrefix (TrimSpace p) [CHR 0x27] then p
     else [CHR 0x27] @ TrimSpace p @ [CHR 0x27])"

definition array_call :: "re \<Rightarrow> string \<Rightarrow> string \<Rightarrow> string" where
  "array_call r fn match = (case FindSubmatch r match of
       None \<Rightarrow> match
     | Some m \<Rightarrow> fn @ ''('' @ m 1 @ '', '['' @ Join (map quote_element (Split (m 2) CHR '','')) '','' @ '']')'')"

definition overlaps_re :: re where
  "overlaps_re = (seqR [RGroup 1 (some1 word), many space, lit ''&&'', many space, ilit ''ARRAY['', RGroup 2 (many (none_of '']'')), lit '']''])"

definition contains_re :: re where
  "contains_re = (seqR [RGroup 1 (some1 word), many space, lit ''@>'', many space, ilit ''ARRAY['', RGroup 2 (many (none_of '']'')), lit '']''])"

definition translateAnyArray :: "string \<Rightarrow> string" where
  "translateAnyArray sql =
    (let sql = ReplaceAllFunc overlaps_re (array_call overlaps_re ''JSON_OVERLAPS'') sql
     in ReplaceAllFunc contains_re (array_call contains_re ''JSON_CONTAINS'') sql)"

definition translateAny :: "string \<Rightarrow> string" where
  "translateAny sql =
    (let sql = ReplaceAllString (seqR [RGroup 1 (seqR [word, many (RChar (\<lambda>c. is_word c \<or> c \<in> set (''.'' @ [CHR 0x22] @ ''`'')))]), many space, lit ''='', many space, ilit ''ANY'', many space, lit ''('', many space, ilit ''NULL'', many space, lit '')'']) sql ''1=0''
     in ReplaceAllString (seqR [RGroup 1 (seqR [word, many (RChar (\<lambda>c. is_word c \<or> c \<in> set (''.'' @ [CHR 0x22] @ ''`'')))]), many space, lit ''='', many space, ilit ''ANY'', many space, lit ''('', many space, lit ''$'', RGroup 2 (some1 digit), many space, lit '')'']) sql ''${1} = ${2}'')"

definition translateFinalKeyword :: "string \<Rightarrow> string" where
  "translateFinalKeyword sql = ReplaceAllString (seqR [RBound, ilit ''FINAL'', RBound]) sql []"

definition translateMapAccess :: "string \<Rightarrow> string" where
  "translateMapAccess sql =
    (let sql = ReplaceAllString (seqR [RGroup 1 (some1 word), lit (''['' @ [CHR 0x27]), RGroup 2 (some1 (none_of [CHR 0x27])), lit ([CHR 0x27] @ '']'')]) sql ''JSON_UNQUOTE(JSON_EXTRACT($1, '$.$2'))''
     in ReplaceAllString (seqR [RGroup 1 (some1 word), lit (''['' @ [CHR 0x22]), RGroup 2 (some1 (none_of [CHR 0x22])), lit ([CHR 0x22] @ '']'')]) sql ''JSON_UNQUOTE(JSON_EXTRACT($1, '$.$2'))'')"

section \<open>Parameters, aggregates, operators\<close>

definition dollar_re :: re where
  "dollar_re = (seqR [lit ''$'', some1 digit])"

definition translateDollarParams :: "string \<Rightarrow> string" where
  "translateDollarParams sql = ReplaceAllString dollar_re sql ''?''"

definition string_agg_re :: re where
  "string_agg_re = (seqR [ilit ''string_agg'', many space, lit ''('', RGroup 1 (some1 (none_of '','')), lit '','', many space, lit [CHR 0x27], RGroup 2 (many (none_of [CHR 0x27])), lit [CHR 0x27], many space, optional (seqR [ilit ''ORDER'', some1 space, ilit ''BY'', some1 space, some1 (none_of '')'')]), lit '')''])"

definition string_agg_call :: "string \<Rightarrow> string" where
  "string_agg_call match = (case FindSubmatch string_agg_re match of
       None \<Rightarrow> match
     | Some m \<Rightarrow> ''GROUP_CONCAT('' @ m 1 @ ('' SEPARATOR '' @ [CHR 0x27]) @ m 2 @ ([CHR 0x27] @ '')''))"

definition translateStringAgg :: "string \<Rightarrow> string" where
  "translateStringAgg sql = ReplaceAllFunc string_agg_re string_agg_call sql"

definition bool_literal :: "string \<Rightarrow> string" where
  "bool_literal match = (if HasSuffix (ToUpper match) ''TRUE''
     then take (length match - 4) match @ ''1''
     else take (length match - 5) match @ ''0'')"

definition translateBoolOperators :: "string \<Rightarrow> string" where
  "translateBoolOperators sql =
    (let sql = ReplaceAllString (seqR [lit ''!!'', many space, RGroup 1 (some1 word)]) sql ''NOT $1''
     in ReplaceAllFunc (seqR [altR [seqR [lit ''='', many space], seqR [ilit ''IS'', some1 space]], RGroup 1 (altR [ilit ''true'', ilit ''false'']), RBound]) bool_literal sql)"

definition translateCoalesceInterval :: "string \<Rightarrow> string" where
  "translateCoalesceInterval sql =
     ReplaceAllFunc (seqR [ilit ''make_interval'', many space, lit ''('', RGroup 1 (some1 (none_of '')'')), lit '')'']) (\<lambda>_. ''INTERVAL 0 SECOND'') sql"

section \<open>The translation\<close>

definition Translate :: "translator \<Rightarrow> (nat \<Rightarrow> nat) \<Rightarrow> string \<Rightarrow> string" where
  "Translate t rnd sql =
    (let result = sql;
         result = translateDoubleQuotes result;
         result = translateTypeCasts result;
         result = translateILIKE result;
         result = translateLimitNull result;
         result = translateEqualsNull result;
         result = translateUnionLimit result;
         result = translateReturning rnd result;
         result = translateOnConflict result;
         result = translateDateTrunc result;
         result = translateExtractEpoch result;
         result = translateIntervalArith result;
         result = translateGenerateSeries rnd result;
         result = translateJSONBFunctions result;
         result = translateArrayFunctions result;
         result = translateLimit1By result;
         result = translateLateralJoin result;
         result = translateToTsVector t result;
         result = translateAnyArray result;
         result = translateAny result;
         result = translateFinalKeyword result;
         result = translateMapAccess result;
         result = translateDollarParams result;
         result = translateStringAgg result;
         result = translateBoolOperators result;
         result = translateCoalesceInterval result
     in result)"

definition TranslateDDL :: "string \<Rightarrow> string" where
  "TranslateDDL sql =
    (let result = sql;
         result = ReplaceAllString (seqR [RBound, ilit ''SERIAL'', RBound]) result ''BIGINT AUTO_INCREMENT'';
         result = ReplaceAllString (seqR [RBound, ilit ''TEXT[]'']) result ''JSON'';
         result = ReplaceAllString (seqR [RBound, ilit ''VARCHAR'', many space, lit ''('', many space, some1 digit, many space, lit '')[]'']) result ''JSON'';
         result = ReplaceAllString (seqR [RBound, ilit ''INT[]'']) result ''JSON'';
         result = ReplaceAllString (seqR [RBound, ilit ''INTEGER[]'']) result ''JSON'';
         result = ReplaceAllString (seqR [RBound, ilit ''JSONB'', RBound]) result ''JSON'';
         result = ReplaceAllString (seqR [RBound, ilit ''UUID'', RBound]) result ''VARCHAR(36)'';
         result = ReplaceAllString (seqR [RBound, ilit ''TIMESTAMP'', many space, ilit ''WITH'', many space, ilit ''TIME'', many space, ilit ''ZONE'', RBound]) result ''DATETIME(3)'';
         result = ReplaceAllString (seqR [RBound, ilit ''TIMESTAMPTZ'', RBound]) result ''DATETIME(3)'';
         result = ReplaceAllString (seqR [RBound, ilit ''BOOLEAN'', RBound]) result ''TINYINT(1)'';
         result = ReplaceAllString (seqR [RBound, ilit ''GENERATED'', some1 space, ilit ''ALWAYS'', some1 space, ilit ''AS'', some1 space, ilit ''IDENTITY'', RBound]) result ''AUTO_INCREMENT'';
         result = ReplaceAllString (seqR [RBound, ilit ''USING'', some1 space, ilit ''GIN'', RBound]) result []
     in result)"

section \<open>Queries the translation leaves alone\<close>

text \<open>Every pass looks for one of these characters or words.\<close>

definition trigger_chars :: string where
  "trigger_chars = [CHR 0x27, CHR 0x22, CHR 0x60] @ '':$&@[!''"

definition trigger_words :: "string list" where
  "trigger_words = [''ILIKE'', ''NULL'', ''UNION'', ''RETURNING'', ''ON CONFLICT'', ''CAST('', ''EPOCH'',
     ''GENERATE_SERIES'', ''JSONB_'', ''CARDINALITY'', ''UNNEST'', ''LIMIT'', ''LATERAL'', ''TO_TSVECTOR'',
     ''FINAL'', ''TRUE'', ''FALSE'', ''MAKE_INTERVAL'']"

definition plain_sql :: "string \<Rightarrow> bool" where
  "plain_sql sql \<longleftrightarrow> list_all (\<lambda>c. c \<notin> set trigger_chars) sql
     \<and> list_all (\<lambda>w. \<not> Contains (ToUpper sql) w) trigger_words"

definition trigger_lit :: "string \<Rightarrow> bool" where
  "trigger_lit w \<longleftrightarrow> list_ex (\<lambda>c. c \<in> set trigger_chars) w"

definition trigger_word :: "string \<Rightarrow> bool" where
  "trigger_word w \<longleftrightarrow> list_ex (\<lambda>v. Contains (ToUpper w) v) trigger_words"

lemma plain_lit: "plain_sql sql \<Longrightarrow> trigger_lit w \<Longrightarrow> \<not> occurs (lit w) sql"
  by (auto simp: plain_sql_def trigger_lit_def list_all_iff list_ex_iff dest: char_not_occurs)

lemma plain_word: "plain_sql sql \<Longrightarrow> trigger_word w \<Longrightarrow> \<not> occurs (ilit w) sql"
  using word_not_occurs [of sql w]
  by (auto simp: plain_sql_def trigger_word_def list_all_iff list_ex_iff Contains_iff
    dest: sublist_order.order_trans)

lemma trigger_lits:
  "trigger_lit ''::''"
  "trigger_lit [CHR 0x27]"
  "trigger_lit ''$''"
  "trigger_lit ''&&''"
  "trigger_lit ''@@''"
  "trigger_lit ''@>''"
  "trigger_lit ''!!''"
  "trigger_lit [CHR ''['', CHR 0x27]"
  "trigger_lit [CHR ''['', CHR 0x22]"
  by code_simp+

lemma trigger_ilits:
  "trigger_word ''ILIKE''"
  "trigger_word ''NULL''"
  "trigger_word ''UNION''"
  "trigger_word ''RETURNING''"
  "trigger_word ''LIMIT''"
  "trigger_word ''EPOCH''"
  "trigger_word ''GENERATE_SERIES''"
  "trigger_word ''jsonb_set''"
  "trigger_word ''jsonb_agg''"
  "trigger_word ''jsonb_object_agg''"
  "trigger_word ''jsonb_build_object''"
  "trigger_word ''jsonb_build_array''"
  "trigger_word ''jsonb_array_length''"
  "trigger_word ''jsonb_typeof''"
  "trigger_word ''jsonb_array_elements''"
  "trigger_word ''cardinality''"
  "trigger_word ''unnest''"
  "trigger_word ''LATERAL''"
  "trigger_word ''to_tsvector''"
  "trigger_word ''FINAL''"
  "trigger_word ''true''"
  "trigger_word ''false''"
  "trigger_word ''make_interval''"
  by code_simp+

lemma plain_quiet:
  assumes "plain_sql sql"
  shows "c \<in> set trigger_chars \<Longrightarrow> c \<notin> set sql"
    and "w \<in> set trigger_words \<Longrightarrow> \<not> Contains (ToUpper sql) w"
  using assms by (auto simp: plain_sql_def list_all_iff)

text \<open>\<open>CAST(\<close> is the one keyword the patterns match in upper case only.\<close>

lemma plain_cast: "plain_sql sql \<Longrightarrow> \<not> occurs (lit ''CAST('') sql"
proof -
  assume "plain_sql sql"
  then have "\<not> Contains (ToUpper sql) ''CAST(''" by (rule plain_quiet) (simp add: trigger_words_def)
  moreover have "ToUpper ''CAST('' = ''CAST(''" by code_simp
  ultimately show ?thesis using sublist_ToUpper [of "''CAST(''" sql] by (auto simp: occurs_lit Contains_iff)
qed

lemma dq_code_plain: "CHR 0x27 \<notin> set s \<Longrightarrow> CHR 0x22 \<notin> set s \<Longrightarrow> dq_code (s @ t) = s @ dq_code t"
  by (induction s) auto

lemma plain_translateDoubleQuotes: "plain_sql sql \<Longrightarrow> translateDoubleQuotes sql = sql"
proof -
  assume p: "plain_sql sql"
  then have "CHR 0x27 \<notin> set sql" "CHR 0x22 \<notin> set sql" "CHR 0x60 \<notin> set sql"
    by (auto dest: plain_quiet(1) simp: trigger_chars_def)
  then show ?thesis
    using dq_code_plain [of sql "[]"] by (simp add: translateDoubleQuotes_def ReplaceAll_id_char [of "CHR 0x60"])
qed

lemmas plain_rules = ReplaceAllString_id ReplaceAllFunc_id FindSubmatch_None MatchString_False
  not_occurs plain_lit plain_word plain_cast trigger_lits trigger_ilits

lemma plain_translateTypeCasts: "plain_sql sql \<Longrightarrow> translateTypeCasts sql = sql"
  unfolding translateTypeCasts_def Let_def by (simp add: plain_rules)

lemma plain_translateILIKE: "plain_sql sql \<Longrightarrow> translateILIKE sql = sql"
  unfolding translateILIKE_def Let_def by (simp add: plain_rules)

lemma plain_translateLimitNull: "plain_sql sql \<Longrightarrow> translateLimitNull sql = sql"
  unfolding translateLimitNull_def Let_def by (simp add: plain_rules)

lemma plain_translateEqualsNull: "plain_sql sql \<Longrightarrow> translateEqualsNull sql = sql"
  unfolding translateEqualsNull_def Let_def by (simp add: plain_rules)

lemma plain_translateReturning: "plain_sql sql \<Longrightarrow> translateReturning rnd sql = sql"
  unfolding translateReturning_def Let_def by (simp add: returning_re_def plain_rules)

lemma plain_translateDateTrunc: "plain_sql sql \<Longrightarrow> translateDateTrunc sql = sql"
  unfolding translateDateTrunc_def Let_def by (simp add: date_trunc_re_def plain_rules)

lemma plain_translateExtractEpoch: "plain_sql sql \<Longrightarrow> translateExtractEpoch sql = sql"
  unfolding translateExtractEpoch_def Let_def by (simp add: plain_rules)

lemma plain_translateIntervalArith: "plain_sql sql \<Longrightarrow> translateIntervalArith sql = sql"
  unfolding translateIntervalArith_def Let_def by (simp add: plain_rules)

lemma plain_translateJSONBFunctions: "plain_sql sql \<Longrightarrow> translateJSONBFunctions sql = sql"
  unfolding translateJSONBFunctions_def Let_def by (simp add: plain_rules)

lemma plain_translateArrayFunctions: "plain_sql sql \<Longrightarrow> translateArrayFunctions sql = sql"
  unfolding translateArrayFunctions_def Let_def by (simp add: plain_rules)

lemma plain_translateLimit1By: "plain_sql sql \<Longrightarrow> translateLimit1By sql = sql"
  unfolding translateLimit1By_def Let_def by (simp add: limit1by_re_def plain_rules)

lemma plain_translateLateralJoin: "plain_sql sql \<Longrightarrow> translateLateralJoin sql = sql"
  unfolding translateLateralJoin_def Let_def by (simp add: lateral_re_def plain_rules)

lemma plain_translateToTsVector: "plain_sql sql \<Longrightarrow> translateToTsVector t sql = sql"
  unfolding translateToTsVector_def Let_def by (simp add: plain_rules)

lemma plain_translateAnyArray: "plain_sql sql \<Longrightarrow> translateAnyArray sql = sql"
  unfolding translateAnyArray_def Let_def by (simp add: overlaps_re_def contains_re_def plain_rules)

lemma plain_translateAny: "plain_sql sql \<Longrightarrow> translateAny sql = sql"
  unfolding translateAny_def Let_def by (simp add: plain_rules)

lemma plain_translateFinalKeyword: "plain_sql sql \<Longrightarrow> translateFinalKeyword sql = sql"
  unfolding translateFinalKeyword_def Let_def by (simp add: plain_rules)

lemma plain_translateMapAccess: "plain_sql sql \<Longrightarrow> translateMapAccess sql = sql"
  unfolding translateMapAccess_def Let_def by (simp add: plain_rules)

lemma plain_translateDollarParams: "plain_sql sql \<Longrightarrow> translateDollarParams sql = sql"
  unfolding translateDollarParams_def Let_def by (simp add: dollar_re_def plain_rules)

lemma plain_translateStringAgg: "plain_sql sql \<Longrightarrow> translateStringAgg sql = sql"
  unfolding translateStringAgg_def Let_def by (simp add: string_agg_re_def plain_rules)

lemma plain_translateBoolOperators: "plain_sql sql \<Longrightarrow> translateBoolOperators sql = sql"
  unfolding translateBoolOperators_def Let_def by (simp add: plain_rules)

lemma plain_translateCoalesceInterval: "plain_sql sql \<Longrightarrow> translateCoalesceInterval sql = sql"
  unfolding translateCoalesceInterval_def Let_def by (simp add: plain_rules)

lemma plain_guarded:
  assumes p: "plain_sql sql"
  shows "translateUnionLimit sql = sql" "translateOnConflict sql = sql"
    "translateGenerateSeries rnd sql = sql"
proof -
  have "\<not> Contains (ToUpper sql) ''UNION''" "\<not> Contains (ToUpper sql) ''ON CONFLICT''"
    using p by (auto dest: plain_quiet(2) simp: trigger_words_def)
  then show "translateUnionLimit sql = sql" "translateOnConflict sql = sql"
    by (simp_all add: translateUnionLimit_def translateOnConflict_def)
  have "scan_all series_re sql = ([], sql)"
    using p by (intro scan_not_occurs) (simp add: series_re_def plain_rules)
  then show "translateGenerateSeries rnd sql = sql"
    by (simp add: translateGenerateSeries_def enumerate_eq_zip)
qed

lemmas plain_passes = plain_translateDoubleQuotes plain_translateTypeCasts plain_translateILIKE plain_translateLimitNull plain_translateEqualsNull plain_translateReturning plain_translateDateTrunc plain_translateExtractEpoch plain_translateIntervalArith plain_translateJSONBFunctions plain_translateArrayFunctions plain_translateLimit1By plain_translateLateralJoin plain_translateToTsVector plain_translateAnyArray plain_translateAny plain_translateFinalKeyword plain_translateMapAccess plain_translateDollarParams plain_translateStringAgg plain_translateBoolOperators plain_translateCoalesceInterval plain_guarded

section \<open>Numbered parameters\<close>

text \<open>A greedy repetition of a class, before a continuation that cannot fail, takes the longest run.\<close>

definition advance :: "string \<Rightarrow> cfg \<Rightarrow> cfg" where
  "advance t c = c\<lparr>seen := rev t @ seen c, ahead := drop (length t) (ahead c)\<rparr>"

lemma advance_end: "ahead c = [] \<Longrightarrow> advance [] c = c"
  by (cases c) (simp add: advance_def)

lemma star_run_class:
  assumes "\<And>d. k d \<noteq> None"
    and f: "\<And>k c. f k c = (case ahead c of [] \<Rightarrow> None
      | x # xs \<Rightarrow> if p x then k (c\<lparr>seen := x # seen c, ahead := xs\<rparr>) else None)"
  shows "length (ahead c) \<le> length fuel \<Longrightarrow>
    star_run True f fuel k c = k (advance (takeWhile p (ahead c)) c)"
proof (induction fuel arbitrary: c)
  case Nil
  then show ?case by (simp add: advance_end)
next
  case (Cons x fuel)
  show ?case
  proof (cases "ahead c")
    case Nil
    then show ?thesis by (simp add: advance_end f)
  next
    case (Cons y ys)
    let ?d = "c\<lparr>seen := y # seen c, ahead := ys\<rparr>"
    have "p y \<Longrightarrow> star_run True f fuel k ?d = k (advance (takeWhile p ys) ?d)"
      using Cons.IH [of ?d] Cons.prems Cons by simp
    moreover have "advance (takeWhile p ys) ?d = advance (y # takeWhile p ys) c"
      by (simp add: advance_def Cons)
    ultimately show ?thesis
      by (simp add: Cons f [of _ c] assms(1) split: option.split) (simp add: advance_def assms(1))
  qed
qed

lemma dollar_here:
  assumes "ds \<noteq> []" and "list_all is_digit ds" and "rest = [] \<or> \<not> is_digit (hd rest)"
  shows "\<exists>d. match_here dollar_re sn (CHR ''$'' # ds @ rest) = Some d \<and> ahead d = rest"
proof -
  obtain x xs where ds: "ds = x # xs" using assms(1) by (cases ds) auto
  have tw: "takeWhile is_digit (xs @ rest) = xs" "is_digit x"
    using assms by (auto simp: ds takeWhile_append list_all_iff takeWhile_eq_Nil_iff)
  show ?thesis
    unfolding match_here_def dollar_re_def
    by (simp add: seqR.simps lit.simps ds tw advance_def capture_def star_run_class [where p = is_digit])
qed

lemma search_skip:
  assumes "\<And>c sn s. c \<in> set g \<Longrightarrow> match_here r sn (c # s) = None" and "s \<noteq> [] \<or> g = []"
  shows "search r sn (g @ s)
    = (case search r (rev g @ sn) s of None \<Rightarrow> None | Some (gap, d) \<Rightarrow> Some (g @ gap, d))"
  using assms
proof (induction g arbitrary: sn)
  case Nil
  show ?case by (simp split: option.split)
next
  case (Cons c g)
  then show ?case by (simp split: option.split)
qed

text \<open>A query with its placeholders: the text before the first, and each number with the text
  behind it.\<close>

definition numbered :: "string \<Rightarrow> (nat \<times> string) list \<Rightarrow> string" where
  "numbered g ps = g @ concat (map (\<lambda>(n, t). CHR ''$'' # nat_dec n @ t) ps)"

definition unnumbered :: "string \<Rightarrow> (nat \<times> string) list \<Rightarrow> string" where
  "unnumbered g ps = g @ concat (map (\<lambda>(n, t). CHR ''?'' # t) ps)"

definition no_dollar :: "string \<Rightarrow> (nat \<times> string) list \<Rightarrow> bool" where
  "no_dollar g ps \<longleftrightarrow> CHR ''$'' \<notin> set g
     \<and> list_all (\<lambda>(n, t). CHR ''$'' \<notin> set t \<and> (t = [] \<or> \<not> is_digit (hd t))) ps"

text \<open>A pattern that stands for a placeholder: it starts with the dollar, takes all the digits, and
  notes what \<open>noted\<close> says of them.\<close>

locale placeholder_pattern =
  fixes r :: re and noted :: "string \<Rightarrow> cfg \<Rightarrow> bool"
  assumes here: "ds \<noteq> [] \<Longrightarrow> list_all is_digit ds \<Longrightarrow> rest = [] \<or> \<not> is_digit (hd rest) \<Longrightarrow>
      \<exists>d. match_here r sn (CHR ''$'' # ds @ rest) = Some d \<and> ahead d = rest \<and> noted ds d"
    and elsewhere: "CHR ''$'' \<noteq> c \<Longrightarrow> match_here r sn (c # s) = None"
    and at_end: "match_here r sn [] = None"
begin

lemma not_found: "CHR ''$'' \<notin> set s \<Longrightarrow> search r sn s = None"
  by (induction s arbitrary: sn) (auto simp: elsewhere at_end)

lemma scan_numbered:
  "no_dollar g ps \<Longrightarrow> length ps < n \<Longrightarrow>
     \<exists>ds. scan n r sn (numbered g ps) = (zip (butlast (g # map snd ps)) ds, last (g # map snd ps))
       \<and> list_all2 (\<lambda>p d. noted (nat_dec (fst p)) d) ps ds"
proof (induction ps arbitrary: g n sn)
  case Nil
  then obtain m where "n = Suc m" by (cases n) auto
  with Nil show ?case by (simp add: numbered_def no_dollar_def not_found)
next
  case (Cons p ps)
  obtain i t where p: "p = (i, t)" by (cases p)
  obtain m where m: "n = Suc m" using Cons.prems by (cases n) auto
  let ?s = "CHR ''$'' # nat_dec i @ numbered t ps"
  have s: "numbered g (p # ps) = g @ ?s" by (simp add: numbered_def p)
  have "numbered t ps = [] \<or> \<not> is_digit (hd (numbered t ps))"
    using Cons.prems p by (cases t; cases ps) (auto simp: numbered_def no_dollar_def is_digit_def)
  then obtain d where d: "match_here r (rev g @ sn) ?s = Some d" "ahead d = numbered t ps" "noted (nat_dec i) d"
    using here [of "nat_dec i" "numbered t ps" "rev g @ sn"]
    by (auto simp: list_all_iff nat_dec_digits)
  have skip: "match_here r sn' (c # s') = None" if "c \<in> set g" for c sn' s'
    using that Cons.prems(1) by (intro elsewhere) (auto simp: no_dollar_def)
  have "search r sn (g @ ?s) = Some (g, d)"
    using search_skip [of g r ?s sn, OF skip] d(1) by simp
  moreover have "no_dollar t ps" "length ps < m" using Cons.prems by (auto simp: p m no_dollar_def)
  from Cons.IH [OF this, of "seen d"] obtain ds
    where "scan m r (seen d) (numbered t ps) = (zip (butlast (t # map snd ps)) ds, last (t # map snd ps))"
      "list_all2 (\<lambda>p d. noted (nat_dec (fst p)) d) ps ds" by blast
  ultimately show ?case
    by (intro exI [of _ "d # ds"]) (simp add: m s [unfolded p] d(2,3) p)
qed

lemma scan_all_numbered:
  assumes "no_dollar g ps"
  obtains ds where "scan_all r (numbered g ps) = (zip (butlast (g # map snd ps)) ds, last (g # map snd ps))"
    and "list_all2 (\<lambda>p d. noted (nat_dec (fst p)) d) ps ds"
proof -
  have "length ps < Suc (length (numbered g ps))"
    unfolding numbered_def by (induction ps) (auto simp: numbered_def)
  from scan_numbered [OF assms this, of "[]"] that show thesis unfolding scan_all_def by blast
qed

end

interpretation dollar: placeholder_pattern dollar_re "\<lambda>_ _. True"
  by unfold_locales (simp_all add: dollar_here, simp_all add: match_here_def dollar_re_def seqR.simps lit.simps)

lemma translateDollarParams_numbered:
  assumes "no_dollar g ps"
  shows "translateDollarParams (numbered g ps) = unnumbered g ps"
proof -
  from dollar.scan_all_numbered [OF assms] obtain ds
    where ds: "scan_all dollar_re (numbered g ps) = (zip (butlast (g # map snd ps)) ds, last (g # map snd ps))"
      "length ds = length ps" by (metis list_all2_lengthD)
  have "expand 1 ''?'' d = ''?''" for d by (rule expand_plain) auto
  then have e: "expand (length ''?'') ''?'' d = ''?''" for d by simp
  have "concat (map (\<lambda>(gap, d). gap @ ''?'') (zip (butlast (g # map snd ps)) ds)) @ last (g # map snd ps)
      = unnumbered g ps"
    using ds(2)
  proof (induction ps arbitrary: g ds)
    case Nil
    then show ?case by (simp add: unnumbered_def)
  next
    case (Cons p ps)
    then obtain d ds' where "ds = d # ds'" by (cases ds) auto
    with Cons.IH [of ds' "snd p"] Cons.prems show ?case by (cases p) (simp add: unnumbered_def)
  qed
  then show ?thesis
    by (simp only: translateDollarParams_def ReplaceAllString_def replace_with_def ds e Let_def prod.case)
qed

section \<open>The scanner on tokens\<close>

text \<open>A query as tokens: code without quotes, a string literal, a quoted identifier. A literal
  doubles its quotes; backslashes are left to the scanner's own rule.\<close>

datatype token = Code string | Literal string | Ident string

definition doubled :: "string \<Rightarrow> string" where
  "doubled s = concat (map (\<lambda>c. if c = CHR 0x27 then [c, c] else [c]) s)"

primrec pg_token :: "token \<Rightarrow> string" where
  "pg_token (Code s) = s"
| "pg_token (Literal s) = CHR 0x27 # doubled s @ [CHR 0x27]"
| "pg_token (Ident s) = CHR 0x22 # s @ [CHR 0x22]"

primrec mysql_token :: "token \<Rightarrow> string" where
  "mysql_token (Code s) = s"
| "mysql_token (Literal s) = CHR 0x27 # doubled s @ [CHR 0x27]"
| "mysql_token (Ident s) = quoted_ident s"

definition pg_text :: "token list \<Rightarrow> string" where
  "pg_text ts = concat (map pg_token ts)"

primrec token_ok :: "token \<Rightarrow> bool" where
  "token_ok (Code s) \<longleftrightarrow> CHR 0x27 \<notin> set s \<and> CHR 0x22 \<notin> set s"
| "token_ok (Literal s) \<longleftrightarrow> CHR 0x5C \<notin> set s"
| "token_ok (Ident s) \<longleftrightarrow> CHR 0x22 \<notin> set s"

text \<open>A quote right behind a literal would continue it.\<close>

fun tokens_ok :: "token list \<Rightarrow> bool" where
  "tokens_ok [] \<longleftrightarrow> True"
| "tokens_ok (Literal s # ts) \<longleftrightarrow> token_ok (Literal s) \<and> tokens_ok ts
     \<and> \<not> HasPrefix (pg_text ts) [CHR 0x27]"
| "tokens_ok (t # ts) \<longleftrightarrow> token_ok t \<and> tokens_ok ts"

lemma dq_ident_end:
  "CHR 0x22 \<notin> set s \<Longrightarrow> dq_ident acc (s @ CHR 0x22 # rest) = quoted_ident (rev acc @ s) @ dq_code rest"
  by (induction s arbitrary: acc) auto

lemma dq_str_doubled:
  "CHR 0x5C \<notin> set s \<Longrightarrow> dq_str (doubled s @ CHR 0x27 # rest) = doubled s @ CHR 0x27 # dq_quote rest"
  by (induction s) (auto simp: doubled_def)

lemma dq_quote_code: "\<not> HasPrefix s [CHR 0x27] \<Longrightarrow> dq_quote s = dq_code s"
  by (cases s) (auto simp: HasPrefix_def)

lemma dq_code_tokens: "tokens_ok ts \<Longrightarrow> dq_code (pg_text ts) = concat (map mysql_token ts)"
  by (induction ts rule: tokens_ok.induct)
     (simp_all add: pg_text_def dq_code_plain dq_ident_end dq_str_doubled dq_quote_code)

lemma plain_Translate:
  assumes "plain_sql sql"
  shows "Translate t rnd sql = sql"
  unfolding Translate_def Let_def using assms by (simp add: plain_translateDoubleQuotes plain_passes)

section \<open>Properties\<close>

text \<open>
  C35: a query in which none of the characters and words occurs that the passes look for is
  the same in MySQL: no pass changes it.
\<close>

theorem Translate_plain:
  assumes "plain_sql sql"
  shows "Translate t rnd sql = sql"
  using assms by (rule plain_Translate)

theorem Translate_plain_witness:
  "Translate \<lparr>arrayColumnMode = ''json'', fulltextMode = ''like''\<rparr> (\<lambda>i. i) ''SELECT id, count(*) FROM users WHERE age > 3 GROUP BY id''
     = ''SELECT id, count(*) FROM users WHERE age > 3 GROUP BY id''"
proof -
  have h: "plain_sql ''SELECT id, count(*) FROM users WHERE age > 3 GROUP BY id''" by code_simp
  show ?thesis by (rule Translate_plain [OF h])
qed

text \<open>
  C34: on a query made of code, string literals and quoted identifiers, the scanner of double
  quotes copies code and literals and puts each identifier between backticks, without a
  \<open>public\<close> schema inside it; then the text \<open>`public`.\<close> is removed everywhere.
\<close>

theorem translateDoubleQuotes_tokens:
  assumes "tokens_ok ts"
  shows "translateDoubleQuotes (pg_text ts) = ReplaceAll (concat (map mysql_token ts)) ''`public`.'' []"
  using dq_code_tokens [OF assms] by (simp add: translateDoubleQuotes_def)

theorem translateDoubleQuotes_tokens_witness:
  "translateDoubleQuotes (pg_text [Code ''SELECT '', Ident ''id'', Code '' FROM '', Ident ''public'',
       Code ''.'', Ident ''user'', Code '' WHERE name = '', Literal ([CHR 0x22] @ ''O'' @ [CHR 0x27, CHR 0x22])])
     = ''SELECT `id` FROM `user` WHERE name = '' @ [CHR 0x27, CHR 0x22] @ ''O'' @ [CHR 0x27, CHR 0x27, CHR 0x22, CHR 0x27]"
    (is "translateDoubleQuotes (pg_text ?ts) = _")
proof -
  have h: "tokens_ok ?ts" by code_simp
  have e: "ReplaceAll (concat (map mysql_token ?ts)) ''`public`.'' []
      = ''SELECT `id` FROM `user` WHERE name = '' @ [CHR 0x27, CHR 0x22] @ ''O'' @ [CHR 0x27, CHR 0x27, CHR 0x22, CHR 0x27]"
    by code_simp
  show ?thesis using translateDoubleQuotes_tokens [OF h] by (simp only: e)
qed

text \<open>
  C40: the placeholders of PostgreSQL are numbered, those of MySQL are not; the translation
  forgets the numbers, so that two queries that differ only in their numbers (\<open>$1, $2\<close> and
  \<open>$2, $1\<close>, or a number used twice) become the same MySQL query.
\<close>

theorem translateDollarParams_forgets:
  assumes "no_dollar g ps" and "no_dollar g qs" and "map snd ps = map snd qs"
  shows "translateDollarParams (numbered g ps) = unnumbered g ps
    \<and> translateDollarParams (numbered g qs) = translateDollarParams (numbered g ps)"
proof -
  have "unnumbered g ps = g @ concat (map (\<lambda>t. CHR ''?'' # t) (map snd ps))" for ps
    by (simp add: unnumbered_def comp_def case_prod_beta')
  then show ?thesis
    by (simp only: translateDollarParams_numbered [OF assms(1)] translateDollarParams_numbered [OF assms(2)]
      assms(3) simp_thms)
qed

theorem translateDollarParams_forgets_witness:
  "translateDollarParams (numbered ''a = '' [(2, '' AND b = ''), (1, [])])
     = translateDollarParams (numbered ''a = '' [(1, '' AND b = ''), (2, [])])"
proof -
  have h: "no_dollar ''a = '' [(1, '' AND b = ''), (2, [])]" "no_dollar ''a = '' [(2, '' AND b = ''), (1, [])]"
    "map snd [(1 :: nat, '' AND b = ''), (2, [])] = map snd [(2 :: nat, '' AND b = ''), (1, [])]"
    by code_simp+
  show ?thesis using translateDollarParams_forgets [OF h] by blast
qed

text \<open>
  Four passes change the meaning of ordinary queries. An assignment of NULL becomes a
  comparison; the placeholders of an upsert are taken for groups of the replacement
  template, so that \<open>$2\<close> pulls the whole update clause in; \<open>= ANY($1)\<close> becomes a
  comparison with the number 1; the keyword behind a lateral join is lost.
\<close>

theorem passes_change_meaning:
  "translateEqualsNull ''UPDATE t SET a = NULL WHERE id = 3'' = ''UPDATE t SET a IS NULL WHERE id = 3''
   \<and> translateOnConflict ''INSERT INTO t (id, n) VALUES ($1, $2) ON CONFLICT (id) DO UPDATE SET n = $2''
       = ''INSERT INTO t (id, n) VALUES ($1, $2) ON DUPLICATE KEY UPDATE n = n = $2''
   \<and> translateAny ''SELECT a FROM t WHERE id = ANY($1)'' = ''SELECT a FROM t WHERE id = 1''
   \<and> translateLateralJoin ''SELECT * FROM a JOIN LATERAL (SELECT 1) x ON true WHERE a.b = 2''
       = ''SELECT * FROM a JOIN (SELECT 1 ORDER BY 1 LIMIT 1) AS x ON true a.b = 2''"
proof (intro conjI)
  show "translateEqualsNull ''UPDATE t SET a = NULL WHERE id = 3'' = ''UPDATE t SET a IS NULL WHERE id = 3''"
    by code_simp
  show "translateOnConflict ''INSERT INTO t (id, n) VALUES ($1, $2) ON CONFLICT (id) DO UPDATE SET n = $2''
       = ''INSERT INTO t (id, n) VALUES ($1, $2) ON DUPLICATE KEY UPDATE n = n = $2''"
    by code_simp
  show "translateAny ''SELECT a FROM t WHERE id = ANY($1)'' = ''SELECT a FROM t WHERE id = 1''"
    by code_simp
  show "translateLateralJoin ''SELECT * FROM a JOIN LATERAL (SELECT 1) x ON true WHERE a.b = 2''
       = ''SELECT * FROM a JOIN (SELECT 1 ORDER BY 1 LIMIT 1) AS x ON true a.b = 2''"
    by code_simp
qed

end
