(* ===== verification/PgQuery.thy ===== *)
theory PgQuery
  imports PgCatalog PgTranslator
begin

text \<open>
  The functions of \<open>internal/proxy/postgresql/server.go\<close> that work on query text and on
  parameters alone: how a query is recognised, the column lists of \<open>SELECT\<close>, \<open>INSERT\<close>
  and \<open>RETURNING\<close>, placeholders, MySQL's column types as PostgreSQL numbers, command
  tags, and the conversion of bound parameters, binary arrays included. The handlers that
  use them are in \<open>PgServer\<close>.
\<close>

section \<open>Recognising a query\<close>

definition normalizeQuery :: "string \<Rightarrow> string" where
  "normalizeQuery q =
    (let q = (if q \<noteq> [] \<and> last q = CHR 0x00 then butlast q else q) in ToLower (TrimSpace q))"

text \<open>\<open>len(q) >= n && q[:n] == p\<close>, with the \<open>n\<close> of the source.\<close>

definition has_start :: "nat \<Rightarrow> string \<Rightarrow> string \<Rightarrow> bool" where
  "has_start n q p \<longleftrightarrow> n \<le> length q \<and> take n q = p"

definition isSelectQuery :: "string \<Rightarrow> bool" where
  "isSelectQuery q = has_start 6 (normalizeQuery q) ''select''"

definition isWriteQuery :: "string \<Rightarrow> bool" where
  "isWriteQuery q = (let upper = ToUpper (TrimSpace q) in
     HasPrefix upper ''INSERT'' \<or> HasPrefix upper ''UPDATE'' \<or> HasPrefix upper ''DELETE''
     \<or> HasPrefix upper ''CREATE'' \<or> HasPrefix upper ''ALTER'' \<or> HasPrefix upper ''DROP'')"

definition getCommandTag :: "string \<Rightarrow> 64 word \<Rightarrow> string" where
  "getCommandTag query affected = (let upper = ToUpper (TrimSpace query); n = int_dec (sint affected) in
     if HasPrefix upper ''INSERT'' then ''INSERT '' @ n
     else if HasPrefix upper ''UPDATE'' then ''UPDATE '' @ n
     else if HasPrefix upper ''DELETE'' then ''DELETE '' @ n
     else if HasPrefix upper ''CREATE'' then ''CREATE TABLE''
     else if HasPrefix upper ''ALTER'' then ''ALTER TABLE''
     else if HasPrefix upper ''DROP'' then ''DROP TABLE''
     else ''OK'')"

definition is_advisory_lock :: "string \<Rightarrow> bool" where
  "is_advisory_lock nq \<longleftrightarrow> Contains nq ''pg_advisory_lock'' \<or> Contains nq ''pg_advisory_unlock''"

definition is_prisma_startup :: "string \<Rightarrow> bool" where
  "is_prisma_startup nq \<longleftrightarrow> Contains nq ''pg_namespace'' \<and> Contains nq ''version()'' \<and> Contains nq ''current_setting''"

definition is_version_query :: "string \<Rightarrow> bool" where
  "is_version_query nq \<longleftrightarrow> nq = ''select version()'' \<or> has_start 14 nq ''select version''"

section \<open>Types\<close>

definition canBinaryEncode :: "32 word \<Rightarrow> bool" where
  "canBinaryEncode oid \<longleftrightarrow> oid \<in> set [16, 21, 23, 20, 700, 701, 1114]"

definition mysqlTypeToPGOID :: "string \<Rightarrow> 32 word" where
  "mysqlTypeToPGOID t =
    (if t = ''TINYINT'' \<or> t = ''SMALLINT'' then 21
     else if t \<in> set [''INT'', ''INTEGER'', ''MEDIUMINT''] then 23
     else if t = ''BIGINT'' then 20
     else if t = ''FLOAT'' then 700
     else if t = ''DOUBLE'' then 701
     else if t \<in> set [''DECIMAL'', ''NUMERIC''] then 25
     else if t = ''DATE'' then 1082
     else if t = ''TIME'' then 1083
     else if t \<in> set [''DATETIME'', ''TIMESTAMP''] then 25
     else if t \<in> set [''VARCHAR'', ''CHAR'', ''TEXT'', ''TINYTEXT'', ''MEDIUMTEXT'', ''LONGTEXT''] then 25
     else if t = ''JSON'' then 3802
     else if t \<in> set [''BLOB'', ''TINYBLOB'', ''MEDIUMBLOB'', ''LONGBLOB'', ''BINARY'', ''VARBINARY''] then 17
     else 25)"

definition catalogColumnOIDs :: "(string \<times> 32 word) list" where
  "catalogColumnOIDs =
    [(''oid'', 23), (''typnamespace'', 23), (''typrelid'', 23), (''typelem'', 23),
     (''typarray'', 23), (''typbasetype'', 23), (''typtypmod'', 23), (''typndims'', 23),
     (''typcollation'', 23), (''relnamespace'', 23), (''reltype'', 23), (''reloftype'', 23),
     (''relowner'', 23), (''relam'', 23), (''relfilenode'', 23), (''reltablespace'', 23),
     (''relpages'', 23), (''reltuples'', 701), (''relallvisible'', 23), (''reltoastrelid'', 23),
     (''relnatts'', 23), (''relchecks'', 23), (''attrelid'', 23), (''atttypid'', 23),
     (''indexrelid'', 23), (''indrelid'', 23), (''indnatts'', 23), (''indnkeyatts'', 23),
     (''pronamespace'', 23), (''proowner'', 23), (''prolang'', 23), (''provariadic'', 23),
     (''pronargs'', 21), (''pronargdefaults'', 21), (''prorettype'', 23), (''enumtypid'', 23),
     (''connamespace'', 23), (''conrelid'', 23), (''contypid'', 23), (''conindid'', 23),
     (''confrelid'', 23), (''datdba'', 23), (''extowner'', 23), (''extnamespace'', 23),
     (''typnotnull'', 16), (''relhasindex'', 16), (''relisshared'', 16), (''relhaspkey'', 16),
     (''attnotnull'', 16), (''atthasdef'', 16), (''indisunique'', 16), (''indisprimary'', 16),
     (''typname'', 25), (''typtype'', 25), (''typcategory'', 25), (''typinput'', 25),
     (''typoutput'', 25), (''typalign'', 25), (''typstorage'', 25), (''relname'', 25),
     (''relkind'', 25), (''relpersistence'', 25), (''attname'', 25), (''attstorage'', 25),
     (''attalign'', 25), (''indkey'', 25), (''nspname'', 25), (''conname'', 25),
     (''contype'', 25), (''proname'', 25), (''prokind'', 25), (''enumlabel'', 25),
     (''datname'', 25), (''extname'', 25), (''extversion'', 25), (''procost'', 701),
     (''prorows'', 701), (''enumsortorder'', 701)]"

definition catalog_oid :: "string \<Rightarrow> 32 word" where
  "catalog_oid col = (case map_of catalogColumnOIDs col of Some oid \<Rightarrow> if oid = 0 then 25 else oid | None \<Rightarrow> 25)"

text \<open>A column as the proxy describes it: no table, size \<open>-1\<close> unless given.\<close>

definition text_field :: "string \<Rightarrow> 32 word \<Rightarrow> 16 word \<Rightarrow> field_description" where
  "text_field name oid sz = \<lparr>fd_Name = name, TableOID = 0, TableAttrNumber = 0, TypeOID = oid,
     TypeSize = sz, TypeModifier = 0, FormatCode = 0\<rparr>"

section \<open>Placeholders\<close>

definition substituteParams :: "string \<Rightarrow> string" where
  "substituteParams query = ReplaceAllString (seqR [lit ''$'', some1 digit]) query ''NULL''"

definition count_re :: re where
  "count_re = (seqR [lit ''$'', RGroup 1 (some1 digit)])"

text \<open>A slice of zeros as long as the largest number; \<open>make\<close> panics on one that cannot be had.\<close>

definition countParams :: "string \<Rightarrow> 32 word list res" where
  "countParams query =
    (let maxParam = fold max (map (\<lambda>m. Sscanf_d (m 1)) (FindAllSubmatch count_re query)) 0 in
     if max_alloc < 4 * nat maxParam then Panic MakeSliceLen else Ok (replicate (nat maxParam) 0))"

section \<open>Column lists\<close>

fun split_columns :: "int \<Rightarrow> string \<Rightarrow> string \<Rightarrow> string list" where
  "split_columns depth cur [] = (if cur = [] then [] else [rev cur])"
| "split_columns depth cur (ch # s) =
     (if ch = CHR ''('' then split_columns (depth + 1) (ch # cur) s
      else if ch = CHR '')'' then split_columns (depth - 1) (ch # cur) s
      else if ch = CHR '','' \<and> depth = 0 then rev cur # split_columns depth [] s
      else split_columns depth (ch # cur) s)"

definition splitColumnList :: "string \<Rightarrow> string list" where
  "splitColumnList s = split_columns 0 [] s"

definition parseReturningColumns :: "string \<Rightarrow> string list" where
  "parseReturningColumns cols = map (\<lambda>p.
     (let p = TrimSpace p;
          p = (case LastIndex p ''.'' of Some idx \<Rightarrow> drop (idx + 1) p | None \<Rightarrow> p);
          p = Trim p [CHR 0x22, CHR 0x60]
      in (case Index (ToUpper p) '' AS '' of Some idx \<Rightarrow> take idx p | None \<Rightarrow> p))) (Split cols CHR '','')"

definition extractColumnName :: "string \<Rightarrow> string" where
  "extractColumnName expr =
    (let expr = TrimSpace expr in
     case LastIndex (ToUpper expr) '' AS '' of
       Some asIdx \<Rightarrow> TrimSpace (drop (asIdx + 4) expr)
     | None \<Rightarrow> (case LastIndex expr ''.'' of Some dotIdx \<Rightarrow> drop (dotIdx + 1) expr | None \<Rightarrow> expr))"

definition sql_space :: "char \<Rightarrow> bool" where
  "sql_space c \<longleftrightarrow> c = CHR '' '' \<or> c = newline \<or> c = CHR 0x09"

text \<open>The first \<open>FROM\<close> outside parentheses; the scan stops four characters before the end.\<close>

fun find_from :: "char option \<Rightarrow> int \<Rightarrow> nat \<Rightarrow> string \<Rightarrow> nat option" where
  "find_from prev depth i [] = None"
| "find_from prev depth i (c # s) =
     (if length s < 4 then None
      else if c = CHR ''('' then find_from (Some c) (depth + 1) (Suc i) s
      else if c = CHR '')'' then find_from (Some c) (depth - 1) (Suc i) s
      else if depth = 0 \<and> take 4 (c # s) = ''FROM''
          \<and> (case prev of None \<Rightarrow> True | Some p \<Rightarrow> sql_space p) \<and> sql_space ((c # s) ! 4)
        then Some i
      else find_from (Some c) depth (Suc i) s)"

definition findTopLevelFrom :: "string \<Rightarrow> nat option" where
  "findTopLevelFrom upper = find_from None 0 0 upper"

fun split_select :: "int \<Rightarrow> string \<Rightarrow> string \<Rightarrow> string list" where
  "split_select depth cur [] = [rev cur]"
| "split_select depth cur (ch # s) =
     (if ch = CHR ''('' then split_select (depth + 1) (ch # cur) s
      else if ch = CHR '')'' then split_select (depth - 1) (ch # cur) s
      else if ch = CHR '','' \<and> depth = 0 then rev cur # split_select depth [] s
      else split_select depth (ch # cur) s)"

definition parseSelectColumns :: "string \<Rightarrow> string list option" where
  "parseSelectColumns query = (case Index (ToUpper query) ''SELECT '' of
       None \<Rightarrow> None
     | Some selectIdx \<Rightarrow>
        (let afterSelect = drop (selectIdx + 7) query in
         case findTopLevelFrom (ToUpper afterSelect) of
           None \<Rightarrow> None
         | Some fromIdx \<Rightarrow>
            (let colPart = TrimSpace (take fromIdx afterSelect) in
             if colPart = ''*'' then None else Some (map extractColumnName (split_select 0 [] colPart)))))"

section \<open>Tables of a statement\<close>

definition returning_cols_re :: re where
  "returning_cols_re = (seqR [ilit ''RETURNING'', some1 space, RGroup 1 (some1 dot), REnd])"

definition write_table_re :: re where
  "write_table_re = (seqR [altR [seqR [ilit ''INSERT'', some1 space, ilit ''INTO''], ilit ''UPDATE''], some1 space, optional (lit [CHR 0x22]), many word, optional (lit [CHR 0x22]), lit ''.'', optional (lit [CHR 0x22]), RGroup 1 (some1 word), optional (lit [CHR 0x22])])"

definition insert_values_re :: re where
  "insert_values_re = (seqR [ilit ''INSERT'', some1 space, ilit ''INTO'', some1 space, optional (lit [CHR 0x22]), many word, optional (lit [CHR 0x22]), lit ''.'', optional (lit [CHR 0x22]), RGroup 1 (some1 word), optional (lit [CHR 0x22]), many space, lit ''('', RGroup 2 (some1 (none_of '')'')), lit '')'', many space, ilit ''VALUES'', many space, lit ''('', RGroup 3 (some1 (none_of '')'')), lit '')''])"

definition param_re :: re where
  "param_re = (seqR [RBegin, lit ''$'', RGroup 1 (some1 digit), REnd])"

section \<open>Bound parameters\<close>

text \<open>The elements of a binary array, from an offset on: one that does not fit ends the loop, a
  length below \<open>-1\<close> makes a slice whose end is before its start.\<close>

definition json_escape :: "string \<Rightarrow> string" where
  "json_escape s = ReplaceAll (ReplaceAll s [CHR 0x5C] [CHR 0x5C, CHR 0x5C]) [CHR 0x22] [CHR 0x5C, CHR 0x22]"

definition is_null_bit :: "byte list \<Rightarrow> nat \<Rightarrow> bool" where
  "is_null_bit nullBitmap i \<longleftrightarrow> i div 8 < length nullBitmap \<and> \<not> bit (nullBitmap ! (i div 8)) (i mod 8)"

fun array_elements :: "byte list \<Rightarrow> byte list \<Rightarrow> nat list \<Rightarrow> nat \<Rightarrow> string list res" where
  "array_elements data nullBitmap [] offset = Ok []"
| "array_elements data nullBitmap (i # is) offset =
     (if is_null_bit nullBitmap i
      then bind_res (array_elements data nullBitmap is offset) (\<lambda>es. Ok (''null'' # es))
      else if length data < offset + 4 then Ok []
      else (let elemLen = sint (be_word (take 4 (drop offset data)) :: 32 word); offset = offset + 4 in
        if elemLen = -1 then bind_res (array_elements data nullBitmap is offset) (\<lambda>es. Ok (''null'' # es))
        else if int (length data) < int offset + elemLen then Ok []
        else if elemLen < 0 then Panic SliceBounds
        else (let elemData = to_str (take (nat elemLen) (drop offset data)) in
          bind_res (array_elements data nullBitmap is (offset + nat elemLen))
            (\<lambda>es. Ok (([CHR 0x22] @ json_escape elemData @ [CHR 0x22]) # es)))))"

definition be_nat :: "byte list \<Rightarrow> nat \<Rightarrow> nat" where
  "be_nat data i = unat (be_word (take 4 (drop i data)) :: 32 word)"

definition pgBinaryArrayToJSON :: "byte list \<Rightarrow> string res" where
  "pgBinaryArrayToJSON data =
    (if data = [] then Ok ''[]''
     else if length data < 4 then Panic SliceBounds
     else if be_nat data 0 = 0 then Ok ''[]''
     else if length data < 12 then Panic SliceBounds
     else if be_nat data 0 \<noteq> 1 then Ok ''[]''
     else if length data < 20 then Panic SliceBounds
     else (let len = be_nat data 12; nullBitmapSize = (len + 7) div 8 in
       if length data < 20 + nullBitmapSize then Panic SliceBounds
       else bind_res (array_elements data (take nullBitmapSize (drop 20 data)) [0..<len] (20 + nullBitmapSize))
              (\<lambda>es. Ok (''['' @ Join es '','' @ '']''))))"

definition convertPGParam :: "byte list option \<Rightarrow> 16 word \<Rightarrow> 32 word \<Rightarrow> gval res" where
  "convertPGParam param formatCode paramOID = (case param of
       None \<Rightarrow> Ok GNil
     | Some data \<Rightarrow>
         if formatCode = 0 then Ok (GString (to_str data))
         else if 1000 \<le> paramOID \<and> 12 < length data
           then bind_res (pgBinaryArrayToJSON data) (\<lambda>j. Ok (GString j))
         else Ok (GString (to_str data)))"

text \<open>The text a parameter is replaced with in a catalog query: binary integers by the first
  format code and their length, everything else a quoted literal.\<close>

definition catalog_param :: "16 word list \<Rightarrow> byte list option \<Rightarrow> string" where
  "catalog_param formatCodes param = (case param of
       None \<Rightarrow> ''NULL''
     | Some raw \<Rightarrow>
         (let binary = (formatCodes \<noteq> [] \<and> hd formatCodes = 1) in
          if binary \<and> length raw = 4 then nat_dec (unat (be_word raw :: 32 word))
          else if binary \<and> length raw = 2 then nat_dec (unat (be_word raw :: 16 word))
          else if binary \<and> length raw = 8 then nat_dec (unat (be_word raw :: 64 word))
          else [CHR 0x27] @ ReplaceAll (to_str raw) [CHR 0x27] [CHR 0x27, CHR 0x27] @ [CHR 0x27]))"

text \<open>The parameters are substituted from the last to the first.\<close>

definition substitute_catalog :: "16 word list \<Rightarrow> byte list option list \<Rightarrow> string \<Rightarrow> string" where
  "substitute_catalog formatCodes params query =
     foldr (\<lambda>(i, p) q. ReplaceAll q (''$'' @ nat_dec (i + 1)) (catalog_param formatCodes p)) (enumerate 0 params) query"

section \<open>Binary arrays\<close>

text \<open>A one-dimensional array without nulls as PostgreSQL's binary format has it: dimensions, the
  flag for nulls, the type of the elements, length and lower bound, and the elements, each
  with its length. The format has no bitmap of nulls; a null is an element of length \<open>-1\<close>.\<close>

definition pg_binary_array :: "32 word \<Rightarrow> byte list list \<Rightarrow> byte list" where
  "pg_binary_array oid es = be_bytes 4 (1 :: 32 word) @ be_bytes 4 (0 :: 32 word) @ be_bytes 4 oid
     @ be_bytes 4 (word_of_nat (length es) :: 32 word) @ be_bytes 4 (1 :: 32 word)
     @ concat (map (\<lambda>e. be_bytes 4 (word_of_nat (length e) :: 32 word) @ e) es)"

lemma array_elements_null:
  "list_all (is_null_bit nb) is \<Longrightarrow> array_elements data nb is off = Ok (replicate (length is) ''null'')"
  by (induction "is") simp_all

lemma be_nat_here:
  "length pre = i \<Longrightarrow> be_nat (pre @ be_bytes 4 (w :: 32 word) @ rest) i = unat w"
  by (simp add: be_nat_def be_word_be_bytes)

lemma be_first_zero:
  assumes "n < 2 ^ 24"
  shows "hd (be_bytes 4 (word_of_nat n :: 32 word)) = 0"
proof -
  have "be_bytes 4 w = [ucast (drop_bit 24 w), ucast (drop_bit 16 w), ucast (drop_bit 8 w), ucast w]" for w :: "32 word"
    by (simp add: be_bytes_def numeral_eq_Suc drop_bit_drop_bit)
  moreover have "drop_bit 24 (word_of_nat n :: 32 word) = 0"
    using assms by (simp add: drop_bit_eq_div word_unat_eq_iff unat_div unat_of_nat)
  ultimately show ?thesis by simp
qed

text \<open>
  An array parameter in binary form, of up to eight elements, reaches MySQL as a list of
  nulls: the bytes after the header, the length of the first element, are taken as a bitmap of
  nulls, and its first byte is zero for any element below 16 MB.
\<close>

theorem binary_arrays_become_nulls:
  assumes "es \<noteq> []" and "length es \<le> 8" and "length (hd es) < 2 ^ 24" and "1000 \<le> paramOID"
  shows "convertPGParam (Some (pg_binary_array oid es)) 1 paramOID
    = Ok (GString (''['' @ Join (replicate (length es) ''null'') '','' @ '']''))"
proof -
  let ?data = "pg_binary_array oid es"
  obtain e r where es: "es = e # r" using assms(1) by (cases es) auto
  have l: "24 \<le> length ?data" by (simp add: pg_binary_array_def es)
  have d: "be_nat ?data 0 = 1" using be_nat_here [of "[]" 0 1] by (simp add: pg_binary_array_def)
  have n: "be_nat ?data 12 = length es"
    using be_nat_here [of "be_bytes 4 (1 :: 32 word) @ be_bytes 4 (0 :: 32 word) @ be_bytes 4 oid" 12
      "word_of_nat (length es)"] assms(2) by (simp add: pg_binary_array_def unat_of_nat)
  have one: "(length es + 7) div 8 = 1" using assms(2) es by simp
  have "take 1 (drop 20 ?data) = [hd (drop 20 ?data)]" using l by (cases "drop 20 ?data") auto
  also have "hd (drop 20 ?data) = hd (be_bytes 4 (word_of_nat (length e) :: 32 word))"
    by (simp add: pg_binary_array_def es hd_append)
  also have "\<dots> = 0" using assms(3) es by (simp add: be_first_zero)
  finally have nb: "take 1 (drop 20 ?data) = [0]" .
  have "list_all (is_null_bit [0]) [0..<length es]"
    using assms(2) by (auto simp: list_all_iff is_null_bit_def)
  then have "array_elements ?data [0] [0..<length es] 21 = Ok (replicate (length es) ''null'')"
    by (simp add: array_elements_null)
  then have "pgBinaryArrayToJSON ?data = Ok (''['' @ Join (replicate (length es) ''null'') '','' @ '']'')"
    using l nb by (auto simp: pgBinaryArrayToJSON_def d n one Let_def)
  then show ?thesis using l assms(4) by (simp add: convertPGParam_def)
qed

theorem binary_arrays_become_nulls_witness:
  "convertPGParam (Some (pg_binary_array 25 [[97], [98, 99]])) 1 1009 = Ok (GString ''[null,null]'')"
proof -
  have "convertPGParam (Some (pg_binary_array 25 [[97], [98, 99]])) 1 1009
      = Ok (GString (''['' @ Join (replicate (length [[97], [98, 99 :: byte]]) ''null'') '','' @ '']''))"
    by (rule binary_arrays_become_nulls) simp_all
  moreover have "''['' @ Join (replicate (length [[97], [98, 99 :: byte]]) ''null'') '','' @ '']'' = ''[null,null]''"
    by (simp add: numeral_2_eq_2)
  ultimately show ?thesis by simp
qed

end
