(* ===== verification/PgServer.thy ===== *)
theory PgServer
  imports PgQuery Steps
begin

text \<open>
  \<open>internal/proxy/postgresql/server.go\<close>: a PostgreSQL connection. Its state (\<open>conn\<close>) has
  the transaction flags, the prepared statements, the portals, the output written so far
  and the database behind the proxy; every handler is an action on it. Prepared
  statements are reached through pointers (a portal keeps the statement it was bound to,
  \<open>Describe\<close> changes a statement that portals share): they live in a heap,
  \<open>stmt_heap\<close>, and the map holds indexes into it.

  What the code takes from outside is the environment: MySQL, the random numbers of the
  translator, the formatting of floats and times, and the orders in which Go walks its maps.
\<close>

section \<open>State\<close>

record prepared_stmt =
  ps_name :: string
  ps_query :: string
  paramOIDs :: "32 word list"

record portal =
  po_name :: string
  po_stmt :: nat
  po_params :: "byte list option list"
  po_formatCodes :: "16 word list"
  po_resultFormatCodes :: "16 word list"
  po_described :: bool

record 'd conn =
  inTransaction :: bool
  transactionFailed :: bool
  preparedStatements :: "string \<Rightarrow> nat option"
  stmt_heap :: "prepared_stmt list"
  portals :: "string \<Rightarrow> portal option"
  describedPortals :: "string \<Rightarrow> bool"
  conn_pid :: "32 word"
  conn_secret :: "32 word"
  conn_parameters :: param_map
  conn_w :: sink
  conn_db :: 'd
  conn_cache :: type_cache
  draws :: nat

record 'd env =
  mysql_pool :: "'d mysql"
  pg_translator :: translator
  randomness :: "nat \<Rightarrow> nat \<Rightarrow> nat"
  floats :: go_float
  index_order :: "(string \<times> idx_info) list \<Rightarrow> (string \<times> idx_info) list"
  field_order :: "(byte \<times> string) list \<Rightarrow> (byte \<times> string) list"
  status_order :: "(string \<times> string) list \<Rightarrow> (string \<times> string) list"

type_synonym ('d, 'a) handler = "('d conn, 'a) act"

section \<open>Steps\<close>

definition send :: "writer \<Rightarrow> ('d, unit) handler" where
  "send w s = (case w (conn_w s) of (r, k) \<Rightarrow> (r, s\<lparr>conn_w := k\<rparr>))"

definition on_db :: "('d, 'a) act \<Rightarrow> ('d, 'a) handler" where
  "on_db m s = (case m (conn_db s) of (r, d) \<Rightarrow> (r, s\<lparr>conn_db := d\<rparr>))"

definition queryM :: "'d env \<Rightarrow> string \<Rightarrow> gval list \<Rightarrow> ('d, mysql_rows) handler" where
  "queryM env q args = on_db (pool_Query (mysql_pool env) q args)"

definition execM :: "'d env \<Rightarrow> string \<Rightarrow> gval list \<Rightarrow> ('d, 64 word) handler" where
  "execM env q args = on_db (pool_Exec (mysql_pool env) q args)"

definition translateM :: "'d env \<Rightarrow> string \<Rightarrow> ('d, string) handler" where
  "translateM env q s =
     (Ok (Translate (pg_translator env) (randomness env (draws s)) q), s\<lparr>draws := Suc (draws s)\<rparr>)"

definition complete :: "string \<Rightarrow> ('d, unit) handler" where
  "complete tag = send (SendCommandComplete tag)"

definition with_query :: "string \<Rightarrow> string \<Rightarrow> go_err \<Rightarrow> go_err" where
  "with_query msg q e = ErrorText (msg @ error_text e @ '' (query: '' @ q @ '')'')"

definition getTransactionStatus :: "'d conn \<Rightarrow> byte" where
  "getTransactionStatus s =
    (if transactionFailed s then StatusInFailedTx
     else if inTransaction s then StatusInTrans
     else StatusIdle)"

definition ready :: "('d, unit) handler" where
  "ready = getM (\<lambda>s. send (SendReadyForQuery (getTransactionStatus s)))"

section \<open>Result sets\<close>

text \<open>\<open>colNames[i]\<close> for every column type.\<close>

definition column_fields :: "string list \<Rightarrow> string list \<Rightarrow> field_description list res" where
  "column_fields names types =
    (if length names < length types then Panic IndexRange
     else Ok (map (\<lambda>(n, t). text_field n (mysqlTypeToPGOID t) (-1)) (zip names types)))"

primrec send_rows :: "'d env \<Rightarrow> 16 word list \<Rightarrow> 32 word list \<Rightarrow> gval list res list \<Rightarrow> ('d, unit) handler" where
  "send_rows env fmts oids [] = ret ()"
| "send_rows env fmts oids (r # rs) =
     bindM (liftR r) (\<lambda>values.
     bindM (send (SendDataRow (floats env) values fmts oids)) (\<lambda>_. send_rows env fmts oids rs))"

definition end_of_rows :: "mysql_rows \<Rightarrow> ('d, unit) handler" where
  "end_of_rows rows = (case iter_err rows of Some e \<Rightarrow> failM e | None \<Rightarrow> ret ())"

text \<open>The columns of a result set; with \<open>binary\<close>, those that can be are marked binary.\<close>

definition result_columns :: "bool \<Rightarrow> mysql_rows \<Rightarrow> ('d, field_description list) handler" where
  "result_columns binary rows =
     bindM (liftR (col_types rows)) (\<lambda>types.
     bindM (liftR (col_names rows)) (\<lambda>names.
     bindM (liftR (column_fields names types)) (\<lambda>columns.
       ret (if binary
         then map (\<lambda>c. if canBinaryEncode (TypeOID c) then c\<lparr>FormatCode := 1\<rparr> else c) columns
         else columns))))"

definition reply_rows ::
    "'d env \<Rightarrow> bool \<Rightarrow> field_description list \<Rightarrow> 16 word list \<Rightarrow> 32 word list \<Rightarrow> mysql_rows \<Rightarrow> ('d, unit) handler" where
  "reply_rows env described columns fmts oids rows =
     bindM (if described then ret () else send (SendRowDescription columns)) (\<lambda>_.
     bindM (send_rows env fmts oids (scans rows)) (\<lambda>_.
     bindM (end_of_rows rows) (\<lambda>_. complete (''SELECT '' @ nat_dec (length (scans rows))))))"

definition wants_binary :: "16 word list \<Rightarrow> bool" where
  "wants_binary codes \<longleftrightarrow> codes \<noteq> [] \<and> hd codes = 1"

definition executeMySQLQuery :: "'d env \<Rightarrow> string \<Rightarrow> portal option \<Rightarrow> ('d, unit) handler" where
  "executeMySQLQuery env query p =
    (if isWriteQuery query then
       bindM (catchM (execM env query []) (\<lambda>e. failM (with_query ''exec: '' query e))) (\<lambda>affected.
         complete (getCommandTag query affected))
     else
       bindM (catchM (queryM env query []) (\<lambda>e. failM (with_query ''query: '' query e))) (\<lambda>rows.
       bindM (result_columns (case p of Some po \<Rightarrow> wants_binary (po_resultFormatCodes po) | None \<Rightarrow> False) rows)
         (\<lambda>columns.
           reply_rows env (case p of Some po \<Rightarrow> po_described po | None \<Rightarrow> False) columns
             (map FormatCode columns)
             (case p of Some _ \<Rightarrow> map TypeOID columns | None \<Rightarrow> []) rows)))"

section \<open>Statements with parameters\<close>

text \<open>Every parameter is read by the first format code.\<close>

fun convert_params :: "16 word list \<Rightarrow> 32 word list \<Rightarrow> nat \<Rightarrow> byte list option list \<Rightarrow> gval list res" where
  "convert_params codes oids i [] = Ok []"
| "convert_params codes oids i (p # ps) =
     bind_res (convertPGParam p (if codes \<noteq> [] then hd codes else 0) (nth_default 0 oids i)) (\<lambda>v.
     bind_res (convert_params codes oids (Suc i) ps) (\<lambda>vs. Ok (v # vs)))"

definition portal_stmt :: "'d conn \<Rightarrow> portal \<Rightarrow> prepared_stmt" where
  "portal_stmt s p = stmt_heap s ! po_stmt p"

definition portal_args :: "portal \<Rightarrow> ('d, gval list) handler" where
  "portal_args p = getM (\<lambda>s. liftR (convert_params (po_formatCodes p) (paramOIDs (portal_stmt s p)) 0 (po_params p)))"

definition executeParameterizedMySQLQuery :: "'d env \<Rightarrow> string \<Rightarrow> portal \<Rightarrow> ('d, unit) handler" where
  "executeParameterizedMySQLQuery env query p =
     bindM (portal_args p) (\<lambda>args.
       (let exec = bindM (catchM (execM env query args) (\<lambda>e. failM (with_query ''exec parameterized: '' query e)))
              (\<lambda>affected. complete (getCommandTag query affected))
        in if isWriteQuery query then exec
           else bindM (catchM (bindM (queryM env query args) (\<lambda>rows. ret (Some rows))) (\<lambda>_. ret None)) (\<lambda>r.
             case r of
               None \<Rightarrow> exec
             | Some rows \<Rightarrow>
                 bindM (result_columns (wants_binary (po_resultFormatCodes p)) rows) (\<lambda>columns.
                   reply_rows env (po_described p) columns
                     (if wants_binary (po_resultFormatCodes p) then po_resultFormatCodes p else [])
                     (map TypeOID columns) rows))))"

definition returning_value :: "go_float \<Rightarrow> gval \<Rightarrow> gval" where
  "returning_value fl v = (case v of
       GNil \<Rightarrow> GNil
     | GBytes b \<Rightarrow> GString (to_str b)
     | GTime t layout \<Rightarrow> GString layout
     | _ \<Rightarrow> GString (Sprintf_v fl v))"

definition quoted_columns :: "string list \<Rightarrow> string" where
  "quoted_columns cols = Join (map backtick cols) '', ''"

text \<open>The rows that scan; without column types no row does.\<close>

definition returning_rows :: "go_float \<Rightarrow> mysql_rows \<Rightarrow> gval list list" where
  "returning_rows fl rows = (case col_types rows of
       Ok _ \<Rightarrow> concat (map (\<lambda>r. case r of Ok vs \<Rightarrow> [map (returning_value fl) vs] | _ \<Rightarrow> []) (scans rows))
     | _ \<Rightarrow> [])"

definition executeWriteReturning :: "'d env \<Rightarrow> string \<Rightarrow> string \<Rightarrow> portal \<Rightarrow> ('d, unit) handler" where
  "executeWriteReturning env translated origQuery p =
     bindM (portal_args p) (\<lambda>args.
     bindM (catchM (execM env translated args)
        (\<lambda>e. failM (with_query ''exec parameterized: '' translated e))) (\<lambda>_.
       (case (FindSubmatch returning_cols_re origQuery, FindSubmatch write_table_re origQuery, po_params p) of
         (Some m, Some tm, param # _) \<Rightarrow>
           (let cols = parseReturningColumns (m 1);
                idVal = (case param of Some b \<Rightarrow> to_str b | None \<Rightarrow> []);
                selectQuery = ''SELECT '' @ quoted_columns cols @ '' FROM `'' @ tm 1 @ ''` WHERE `id` = ?''
            in bindM (catchM (bindM (queryM env selectQuery [GString idVal]) (\<lambda>rows. ret (Some rows)))
                 (\<lambda>_. ret None)) (\<lambda>r.
               case r of
                 None \<Rightarrow> complete ''INSERT 0 1''
               | Some rows \<Rightarrow>
                   bindM (send_rows env [] [] (map Ok (returning_rows (floats env) rows)))
                     (\<lambda>_. complete ''INSERT 0 1'')))
       | _ \<Rightarrow> complete ''INSERT 0 1'')))"

section \<open>Catalog queries\<close>

definition column_positions :: "string list \<Rightarrow> string list \<Rightarrow> nat option list" where
  "column_positions cols wanted = map (map_of (rev (zip cols [0..<length cols]))) wanted"

definition pick_cells :: "nat option list \<Rightarrow> gval list \<Rightarrow> gval list" where
  "pick_cells idxs row = map (\<lambda>i. case i of Some n \<Rightarrow> nth_default GNil row n | None \<Rightarrow> GNil) idxs"

definition executeCatalogQuery :: "'d env \<Rightarrow> string \<Rightarrow> bool \<Rightarrow> ('d, unit) handler" where
  "executeCatalogQuery env query described =
     bindM (on_db (HandleCatalogQuery (index_order env) (mysql_pool env) query)) (\<lambda>answer.
       case answer of
         None \<Rightarrow> executeMySQLQuery env query None
       | Some (allColumns, data) \<Rightarrow>
          (let wanted = map_option (map ToLower) (parseSelectColumns query);
               columns = (case wanted of Some cols \<Rightarrow> cols | None \<Rightarrow> allColumns);
               rows = (case wanted of
                   Some cols \<Rightarrow> map (pick_cells (column_positions allColumns cols)) data
                 | None \<Rightarrow> data)
           in bindM (if described then ret ()
                else send (SendRowDescription (map (\<lambda>c. text_field c (catalog_oid c) (-1)) columns))) (\<lambda>_.
              bindM (send_rows env [] [] (map Ok rows)) (\<lambda>_.
                complete (''SELECT '' @ nat_dec (length data))))))"

definition executeCatalogQueryExtended :: "'d env \<Rightarrow> portal \<Rightarrow> ('d, unit) handler" where
  "executeCatalogQueryExtended env p = getM (\<lambda>s.
     executeCatalogQuery env
       (substitute_catalog (po_formatCodes p) (po_params p) (ps_query (portal_stmt s p))) (po_described p))"

text \<open>The columns of a catalog query on its own (no caller uses it).\<close>

definition describeCatalogQuery :: "'d env \<Rightarrow> string \<Rightarrow> ('d, field_description list option) handler" where
  "describeCatalogQuery env query =
     catchM (bindM (on_db (HandleCatalogQuery (index_order env) (mysql_pool env) query)) (\<lambda>answer.
       ret (case answer of
           None \<Rightarrow> None
         | Some (allColumns, data) \<Rightarrow>
            (let selectedCols = (case parseSelectColumns query of Some cols \<Rightarrow> cols | None \<Rightarrow> allColumns)
             in Some (map (\<lambda>col. text_field (ToLower col) (catalog_oid (ToLower col)) (-1)) selectedCols)))))
       (\<lambda>_. ret None)"

section \<open>Queries the proxy answers itself\<close>

definition lock_field :: field_description where
  "lock_field = text_field ''pg_advisory_lock'' 16 1"

definition version_field :: field_description where
  "version_field = text_field ''version'' 25 (-1)"

definition prisma_fields :: "field_description list" where
  "prisma_fields = [text_field ''exists'' 25 (-1), version_field, text_field ''numeric_version'' 25 (-1)]"

definition pg_version :: string where
  "pg_version = ''PostgreSQL 14.0 on x86_64-pc-linux-gnu, compiled by gcc, 64-bit''"

definition describe_unless :: "bool \<Rightarrow> field_description list \<Rightarrow> ('d, unit) handler" where
  "describe_unless described fds = (if described then ret () else send (SendRowDescription fds))"

definition handlePrismaStartupQuery :: "'d env \<Rightarrow> portal \<Rightarrow> ('d, unit) handler" where
  "handlePrismaStartupQuery env p = seqM
     [describe_unless (po_described p) prisma_fields,
      (let schemaExists = (case po_params p of
           Some b # _ \<Rightarrow> ToLower (to_str b) = ''public'' \<or> ToLower (to_str b) = ''pg_catalog''
         | _ \<Rightarrow> True)
       in send (SendDataRow (floats env)
            [GString (if schemaExists then ''true'' else ''false''), GString pg_version, GString ''140000''] [] [])),
      complete ''SELECT 1'']"

definition showResponses :: "(string \<times> string) list" where
  "showResponses =
    [(''show server_version'', ''14.0 (AgentX Proxy)''),
     (''show server_version_num'', ''140000''),
     (''show standard_conforming_strings'', ''on''),
     (''show timezone'', ''UTC''),
     (''show datestyle'', ''ISO, MDY''),
     (''show transaction isolation level'', ''read committed'')]"

definition handleShowCommand :: "'d env \<Rightarrow> string \<Rightarrow> ('d, unit) handler" where
  "handleShowCommand env query = (let q = normalizeQuery query in
     case map_of showResponses q of
       Some resp \<Rightarrow> seqM
         [ignoreM (send (SendRowDescription [text_field (drop 5 q) 25 (-1)])),
          ignoreM (send (SendDataRow (floats env) [GString resp] [] [])),
          complete ''SHOW 1'']
     | None \<Rightarrow> executeMySQLQuery env query None)"

section \<open>Simple queries\<close>

text \<open>The transaction commands run their statement on the pool and keep the two flags.\<close>

definition fail_tx :: "go_err \<Rightarrow> ('d, 'a) handler" where
  "fail_tx e = bindM (modifyM (\<lambda>s. s\<lparr>transactionFailed := True\<rparr>)) (\<lambda>_. failM e)"

definition beginCommand :: "'d env \<Rightarrow> ('d, unit) handler" where
  "beginCommand env = getM (\<lambda>s.
     if inTransaction s then ret ()
     else bindM (modifyM (\<lambda>s. s\<lparr>inTransaction := True, transactionFailed := False\<rparr>)) (\<lambda>_.
          bindM (catchM (execM env ''BEGIN'' []) fail_tx) (\<lambda>_. complete ''BEGIN'')))"

definition commitCommand :: "'d env \<Rightarrow> ('d, unit) handler" where
  "commitCommand env = getM (\<lambda>s.
     if \<not> inTransaction s then ret ()
     else bindM (catchM (bindM (execM env ''COMMIT'' []) (\<lambda>_. ret None)) (\<lambda>e. ret (Some e))) (\<lambda>err.
          bindM (modifyM (\<lambda>s. s\<lparr>inTransaction := False\<rparr>)) (\<lambda>_.
            case err of
              Some e \<Rightarrow> bindM (modifyM (\<lambda>s. s\<lparr>transactionFailed := False\<rparr>)) (\<lambda>_. failM e)
            | None \<Rightarrow> complete ''COMMIT'')))"

definition rollbackCommand :: "'d env \<Rightarrow> ('d, unit) handler" where
  "rollbackCommand env = getM (\<lambda>s.
     if \<not> inTransaction s then ret ()
     else bindM (catchM (bindM (execM env ''ROLLBACK'' []) (\<lambda>_. ret None)) (\<lambda>e. ret (Some e))) (\<lambda>err.
          bindM (modifyM (\<lambda>s. s\<lparr>inTransaction := False, transactionFailed := False\<rparr>)) (\<lambda>_.
            case err of Some e \<Rightarrow> failM e | None \<Rightarrow> complete ''ROLLBACK'')))"

definition savepointCommand :: "'d env \<Rightarrow> string \<Rightarrow> ('d, unit) handler" where
  "savepointCommand env query =
     bindM (modifyM (\<lambda>s. s\<lparr>inTransaction := True\<rparr>)) (\<lambda>_.
     bindM (catchM (execM env query []) fail_tx) (\<lambda>_. complete ''SAVEPOINT''))"

definition txCommand :: "'d env \<Rightarrow> string \<Rightarrow> string \<Rightarrow> ('d, unit) handler" where
  "txCommand env query tag = bindM (catchM (execM env query []) fail_tx) (\<lambda>_. complete tag)"

definition versionQuery :: "'d env \<Rightarrow> ('d, unit) handler" where
  "versionQuery env = seqM
     [ignoreM (send (SendRowDescription [version_field])),
      ignoreM (send (SendDataRow (floats env) [GString ''14.0 (AgentX Proxy)''] [] [])),
      complete ''SELECT 1'']"

text \<open>What is left after the commands: the catalog, the version, MySQL.\<close>

definition forwardQuery :: "'d env \<Rightarrow> string \<Rightarrow> ('d, unit) handler" where
  "forwardQuery env query =
    (if IsCatalogQuery query then executeCatalogQuery env query False
     else if normalizeQuery query = ''select version()''
         \<or> (15 \<le> length query \<and> EqualFold (take 14 query) ''select version'')
       then versionQuery env
     else bindM (translateM env query) (\<lambda>translated. executeMySQLQuery env translated None))"

definition executeQuery :: "'d env \<Rightarrow> string \<Rightarrow> ('d, unit) handler" where
  "executeQuery env query =
    (let q = normalizeQuery query in
     if q = [] \<or> HasPrefix q ''--'' then send SendEmptyQueryResponse
     else if HasPrefix q ''create schema'' then complete ''CREATE SCHEMA''
     else if HasPrefix q ''do'' then complete ''DO''
     else if is_advisory_lock q then seqM
       [send (SendRowDescription [lock_field]),
        send (SendDataRow (floats env) [GBool True] [] []),
        complete ''SELECT 1'']
     else if q = ''begin'' then beginCommand env
     else if q = ''commit'' \<or> q = ''commit work'' \<or> q = ''end'' then commitCommand env
     else if q = ''rollback'' \<or> q = ''rollback work'' then rollbackCommand env
     else if has_start 9 q ''savepoint'' then savepointCommand env query
     else if has_start 17 q ''release savepoint'' then txCommand env query ''RELEASE''
     else if has_start 22 q ''rollback to savepoint'' then txCommand env query ''ROLLBACK TO SAVEPOINT''
     else if q = (''set session character set to 'utf8'' @ [CHR 0x27]) \<or> q = (''set client_encoding to 'utf8'' @ [CHR 0x27])
         \<or> has_start 18 q ''set session_replica''
       then complete ''SET''
     else if has_start 11 q ''deallocate '' then complete ''DEALLOCATE''
     else if has_start 4 q ''set '' then
       (if Contains q ''isolation level'' then complete ''SET''
        else bindM (ignoreM (bindM (execM env query []) (\<lambda>_. ret ()))) (\<lambda>_. complete ''SET''))
     else if q = ''show transaction isolation level'' then complete ''SHOW''
     else if has_start 5 q ''show '' then handleShowCommand env q
     else forwardQuery env query)"

definition handleSimpleQuery :: "'d env \<Rightarrow> byte list \<Rightarrow> ('d, unit) handler" where
  "handleSimpleQuery env body =
     bindM (liftR (ParseQuery body)) (\<lambda>m.
       (let query = TrimRight (q_String m) [CHR 0x00] in
        bindM (executeQuery env query) (\<lambda>_.
          if has_start 11 (normalizeQuery query) ''deallocate '' then ret () else ready)))"

section \<open>The extended protocol\<close>

definition handleParse :: "byte list \<Rightarrow> ('d, unit) handler" where
  "handleParse body =
     bindM (liftR (ParseParse body)) (\<lambda>m.
     bindM (modifyM (\<lambda>s. s\<lparr>
         preparedStatements := (preparedStatements s)(parse_Name m \<mapsto> length (stmt_heap s)),
         stmt_heap := stmt_heap s @
           [\<lparr>ps_name = parse_Name m, ps_query = parse_Query m, paramOIDs = ParameterOIDs m\<rparr>]\<rparr>)) (\<lambda>_.
       send SendParseComplete))"

definition not_found :: "string \<Rightarrow> string \<Rightarrow> go_err" where
  "not_found what name = ErrorText (what @ go_quote name @ '' not found'')"

definition handleBind :: "byte list \<Rightarrow> ('d, unit) handler" where
  "handleBind body =
     bindM (liftR (ParseBind body)) (\<lambda>m. getM (\<lambda>s.
       case preparedStatements s (PreparedStatement m) of
         None \<Rightarrow> failM (not_found ''prepared statement '' (PreparedStatement m))
       | Some stmt \<Rightarrow>
           bindM (modifyM (\<lambda>s. s\<lparr>portals := (portals s)(bind_Portal m \<mapsto>
               \<lparr>po_name = bind_Portal m, po_stmt = stmt, po_params = bind_Parameters m,
                po_formatCodes = ParameterFormatCodes m, po_resultFormatCodes = ResultFormatCodes m,
                po_described = describedPortals s (PreparedStatement m)\<rparr>)\<rparr>)) (\<lambda>_.
             send SendBindComplete)))"

definition executePreparedStatement :: "'d env \<Rightarrow> portal \<Rightarrow> ('d, unit) handler" where
  "executePreparedStatement env p = getM (\<lambda>s.
    (let query = ps_query (portal_stmt s p); nq = normalizeQuery query in
     if is_advisory_lock nq then seqM
       [describe_unless (po_described p) [lock_field],
        send (SendDataRow (floats env) [GBool True] [] []),
        complete ''SELECT 1'']
     else if is_prisma_startup nq then handlePrismaStartupQuery env p
     else if is_version_query nq then seqM
       [catchM (describe_unless (po_described p) [version_field])
          (\<lambda>e. failM (ErrorText (''send row desc: '' @ error_text e))),
        catchM (send (SendDataRow (floats env) [GString pg_version] [] []))
          (\<lambda>e. failM (ErrorText (''send data row: '' @ error_text e))),
        catchM (complete ''SELECT 1'') (\<lambda>e. failM (ErrorText (''send command complete: '' @ error_text e)))]
     else if IsCatalogQuery query then executeCatalogQueryExtended env p
     else bindM (translateM env query) (\<lambda>translated.
       if Contains (ToUpper query) ''RETURNING'' \<and> isWriteQuery translated
         then executeWriteReturning env translated query p
       else if po_params p \<noteq> [] then executeParameterizedMySQLQuery env translated p
       else executeMySQLQuery env translated (Some p))))"

definition handleExecute :: "'d env \<Rightarrow> byte list \<Rightarrow> ('d, unit) handler" where
  "handleExecute env body =
     bindM (liftR (ParseExecute body)) (\<lambda>m. getM (\<lambda>s.
       case portals s (exec_Portal m) of
         None \<Rightarrow> failM (not_found ''portal '' (exec_Portal m))
       | Some p \<Rightarrow> executePreparedStatement env p))"

definition handleClose :: "byte list \<Rightarrow> ('d, unit) handler" where
  "handleClose body =
     bindM (liftR (ParseClose body)) (\<lambda>m.
     bindM (modifyM (\<lambda>s. if target_Type m = 83
         then s\<lparr>preparedStatements := (preparedStatements s)(target_Name m := None)\<rparr>
         else s\<lparr>portals := (portals s)(target_Name m := None)\<rparr>)) (\<lambda>_.
       send SendCloseComplete))"

section \<open>Describe\<close>

definition describeSelectColumns :: "'d env \<Rightarrow> string \<Rightarrow> ('d, unit) handler" where
  "describeSelectColumns env query =
    (let uq = ToUpper query in
     if Contains uq ''PG_TYPE'' \<and> Contains uq ''TYPTYPE'' then
       send (SendRowDescription [text_field ''typname'' 19 64, text_field ''typtype'' 18 1,
         text_field ''typelem'' 26 4, text_field ''typbasetype'' 26 4, text_field ''typrelid'' 26 4])
     else bindM (translateM env query) (\<lambda>translated.
       (let translated = (if Contains (ToUpper translated) '' LIMIT '' then translated
                          else translated @ '' LIMIT 0'')
        in bindM (queryM env translated []) (\<lambda>rows.
           bindM (result_columns False rows) (\<lambda>columns. send (SendRowDescription columns))))))"

definition describeReturningColumns :: "'d env \<Rightarrow> string \<Rightarrow> ('d, unit) handler" where
  "describeReturningColumns env query = (case FindSubmatch returning_cols_re query of
       None \<Rightarrow> failM (ErrorText ''no RETURNING clause found'')
     | Some m \<Rightarrow> (case FindSubmatch write_table_re query of
         None \<Rightarrow> failM (ErrorText ''could not extract table name'')
       | Some tm \<Rightarrow> describeSelectColumns env
           (''SELECT '' @ quoted_columns (parseReturningColumns (m 1)) @ '' FROM `'' @ tm 1 @ ''` LIMIT 0'')))"

definition columnOIDM :: "'d env \<Rightarrow> string \<Rightarrow> string \<Rightarrow> ('d, 32 word) handler" where
  "columnOIDM env table col s =
    (case GetColumnPGOID (mysql_pool env) table col (conn_cache s, conn_db s) of
       (oid, cache, d) \<Rightarrow> (Ok oid, s\<lparr>conn_cache := cache, conn_db := d\<rparr>))"

text \<open>The numbers of the placeholders that stand for a column whose type is known.\<close>

fun inferred_params :: "'d env \<Rightarrow> string \<Rightarrow> (string \<times> string) list \<Rightarrow> ('d, (nat \<times> 32 word) list) handler" where
  "inferred_params env table [] = ret []"
| "inferred_params env table ((col, v) # cvs) = (case FindSubmatch param_re (TrimSpace v) of
       None \<Rightarrow> inferred_params env table cvs
     | Some mm \<Rightarrow>
         bindM (columnOIDM env table (Trim (TrimSpace col) [CHR 0x22])) (\<lambda>oid.
         bindM (inferred_params env table cvs) (\<lambda>rest.
           ret (if oid = 0 then rest else (nat (Sscanf_d (mm 1)), oid) # rest))))"

definition inferInsertParamTypes :: "'d env \<Rightarrow> string \<Rightarrow> ('d, 32 word list option) handler" where
  "inferInsertParamTypes env query = (case FindSubmatch insert_values_re query of
       None \<Rightarrow> ret None
     | Some m \<Rightarrow>
        (let cols = splitColumnList (m 2); vals = splitColumnList (m 3) in
         if length cols \<noteq> length vals then ret None
         else bindM (inferred_params env (Trim (m 1) [CHR 0x22]) (zip cols vals)) (\<lambda>found.
           if found = [] then ret None
           else (let maxParam = fold max (map fst found) 0 in
             if max_alloc < 4 * maxParam then liftR (Panic MakeSliceLen)
             else ret (Some (map (\<lambda>i. case map_of (rev found) i of Some oid \<Rightarrow> oid | None \<Rightarrow> 0)
               [1..<Suc maxParam]))))))"

text \<open>Types for the placeholders that have none: from the columns, then text.\<close>

definition fill_oids :: "32 word list \<Rightarrow> 32 word list \<Rightarrow> 32 word list" where
  "fill_oids inferred oids =
     map (\<lambda>(i, oid). if oid = 0 then nth_default 0 inferred i else oid) (enumerate 0 oids)"

definition default_oids :: "32 word list \<Rightarrow> 32 word list" where
  "default_oids oids = map (\<lambda>oid. if oid = 0 then 25 else oid) oids"

definition set_stmt_oids :: "nat \<Rightarrow> 32 word list \<Rightarrow> ('d, unit) handler" where
  "set_stmt_oids i oids = modifyM (\<lambda>s. s\<lparr>stmt_heap := (stmt_heap s)[i := (stmt_heap s ! i)\<lparr>paramOIDs := oids\<rparr>]\<rparr>)"

text \<open>The parameter types of a statement: a slice of the statement itself, changed in place, or
  a new one (\<open>fresh\<close>), stored only after it was sent.\<close>

definition describeParams :: "'d env \<Rightarrow> nat \<Rightarrow> ('d, unit) handler" where
  "describeParams env i = getM (\<lambda>s.
    (let stmt = stmt_heap s ! i; uq = ToUpper (ps_query stmt) in
     bindM (if paramOIDs stmt = [] then liftR (countParams (ps_query stmt)) else ret (paramOIDs stmt)) (\<lambda>oids.
       (let (oids, fresh) =
            (if oids = [0] \<and> Contains uq ''PG_TYPE'' \<and> Contains uq ''.OID'' then ([26], True)
             else (oids, paramOIDs stmt = []))
        in bindM (if Contains uq ''INSERT INTO'' then inferInsertParamTypes env (ps_query stmt) else ret None) (\<lambda>inferred.
           (let oids = default_oids (case inferred of Some known \<Rightarrow> fill_oids known oids | None \<Rightarrow> oids)
            in bindM (if fresh then ret () else set_stmt_oids i oids) (\<lambda>_.
               bindM (send (SendParameterDescription oids)) (\<lambda>_. set_stmt_oids i oids))))))))"

definition mark_described :: "string \<Rightarrow> ('d, unit) handler" where
  "mark_described name = modifyM (\<lambda>s. s\<lparr>describedPortals := (describedPortals s)(name := True)\<rparr>)"

definition describe_or_no_data :: "('d, unit) handler \<Rightarrow> string \<Rightarrow> ('d, unit) handler" where
  "describe_or_no_data m name = bindM (catchM (bindM m (\<lambda>_. ret True)) (\<lambda>_. ret False)) (\<lambda>ok.
     if ok then mark_described name else ignoreM (send SendNoData))"

definition describeStatement :: "'d env \<Rightarrow> string \<Rightarrow> nat \<Rightarrow> ('d, unit) handler" where
  "describeStatement env name i = bindM (describeParams env i) (\<lambda>_. getM (\<lambda>s.
    (let query = ps_query (stmt_heap s ! i); uq = ToUpper query; nq = normalizeQuery query in
     if is_version_query nq then
       bindM (send (SendRowDescription [version_field])) (\<lambda>_. mark_described name)
     else if is_prisma_startup nq then
       bindM (send (SendRowDescription prisma_fields)) (\<lambda>_. mark_described name)
     else if isSelectQuery query then
       describe_or_no_data (describeSelectColumns env (substituteParams query)) name
     else if Contains uq ''RETURNING'' \<and> (Contains uq ''INSERT INTO'' \<or> Contains uq ''UPDATE'') then
       describe_or_no_data (describeReturningColumns env query) name
     else ignoreM (send SendNoData))))"

definition handleDescribe :: "'d env \<Rightarrow> byte list \<Rightarrow> ('d, unit) handler" where
  "handleDescribe env body =
     bindM (liftR (ParseDescribe body)) (\<lambda>m. getM (\<lambda>s.
       if target_Type m = 83 then
         (case preparedStatements s (target_Name m) of
            None \<Rightarrow> failM (not_found ''prepared statement '' (target_Name m))
          | Some i \<Rightarrow> describeStatement env (target_Name m) i)
       else ignoreM (send SendNoData)))"

section \<open>Messages and connections\<close>

definition handleMessage :: "'d env \<Rightarrow> byte \<Rightarrow> byte list \<Rightarrow> ('d, unit) handler" where
  "handleMessage env msgType body =
    (if msgType = MsgClientQuery then handleSimpleQuery env body
     else if msgType = MsgClientParse then handleParse body
     else if msgType = MsgClientBind then handleBind body
     else if msgType = MsgClientExecute then handleExecute env body
     else if msgType = MsgClientDescribe then handleDescribe env body
     else if msgType = MsgClientSync then ready
     else if msgType = MsgClientFlush then ret ()
     else if msgType = MsgClientClose then handleClose body
     else if msgType = MsgClientTerminate then ret ()
     else if msgType = MsgClientPassword then ret ()
     else ret ())"

text \<open>One round of the message loop: an error of the handler becomes an error response and, when
  that can be written, a \<open>ReadyForQuery\<close> whose own error is dropped.\<close>

definition error_fields :: "'d env \<Rightarrow> go_err \<Rightarrow> (byte \<times> string) list" where
  "error_fields env e = field_order env
     [(FieldSeverity, ''ERROR''), (FieldCode, ''XX000''), (FieldMessage, error_text e)]"

definition serveMessage :: "'d env \<Rightarrow> byte \<times> byte list \<Rightarrow> ('d, unit) handler" where
  "serveMessage env m = catchM (handleMessage env (fst m) (snd m)) (\<lambda>e.
     bindM (send (SendErrorResponse (error_fields env e))) (\<lambda>_. ignoreM ready))"

lemma ReadMessage_shorter: "ReadMessage inp = (Ok m, rest) \<Longrightarrow> length rest < length inp"
  by (auto simp: ReadMessage_def ReadUint32_def readBody_def bindM_eq_Ok ReadFull_def makeBytes_def
    split: if_splits)

function serve :: "'d env \<Rightarrow> byte list \<Rightarrow> 'd conn \<Rightarrow> ending \<times> 'd conn" where
  "serve env inp s = (case ReadMessage inp of
       (Ok m, rest) \<Rightarrow> (case serveMessage env m s of
           (Ok _, s') \<Rightarrow> serve env rest s'
         | (Err _, s') \<Rightarrow> (Closed, s')
         | (Panic p, s') \<Rightarrow> (Crashed p, s'))
     | (Err _, rest) \<Rightarrow> (Closed, s)
     | (Panic p, rest) \<Rightarrow> (Crashed p, s))"
  by auto
termination
  by (relation "measure (\<lambda>(env, inp, s). length inp)") (auto dest!: ReadMessage_shorter [OF sym])

declare serve.simps [simp del]

definition status_params :: "(string \<times> string) list" where
  "status_params =
    [(''server_version'', ''14.0 (AgentX Proxy)''),
     (''server_encoding'', ''UTF8''),
     (''client_encoding'', ''UTF8''),
     (''application_name'', ''agentx-proxy''),
     (''DateStyle'', ''ISO, MDY''),
     (''IntervalStyle'', ''postgres''),
     (''TimeZone'', ''UTC''),
     (''integer_datetimes'', ''on''),
     (''standard_conforming_strings'', ''on'')]"

definition sslCode :: "32 word" where
  "sslCode = (push_bit 16 1234) OR 5679"

text \<open>The probe: eight bytes, after a denied SSL request eight more, then the rest of the
  start-up message. Reads are on the input, the denial is on the output.\<close>

definition readStartup :: "byte list \<Rightarrow> 'd conn \<Rightarrow> param_map res \<times> byte list \<times> 'd conn" where
  "readStartup inp s = (case ReadFull 8 inp of
       (Ok buf, rest) \<Rightarrow>
        (let ssl = (be_word (drop 4 buf) = sslCode);
             s = (if ssl then snd (send (WriteBytes [78]) s) else s);
             (r, rest) = (if ssl then ReadFull 8 rest else (Ok buf, rest))
         in (case bind_res r (\<lambda>buf.
               (let startupLen = be_word (take 4 buf) :: 32 word in
                if startupLen < 8 then Err (ErrorText ''invalid startup length'') else Ok startupLen)) of
             Ok startupLen \<Rightarrow> (case ReadFull (unat startupLen - 8) rest of
                 (r, rest) \<Rightarrow> (bind_res r (\<lambda>remaining. Ok (parseParams remaining)), rest, s))
           | Err e \<Rightarrow> (Err e, rest, s)
           | Panic p \<Rightarrow> (Panic p, rest, s)))
     | (Err e, rest) \<Rightarrow> (Err e, rest, s)
     | (Panic p, rest) \<Rightarrow> (Panic p, rest, s))"

definition sendStatus :: "string \<times> string \<Rightarrow> ('d, unit) handler" where
  "sendStatus kv = bindM (ignoreM (send (SendParameterStatus (fst kv) (snd kv)))) (\<lambda>_.
     modifyM (\<lambda>s. s\<lparr>conn_parameters := (conn_parameters s)(fst kv \<mapsto> snd kv)\<rparr>))"

definition greet :: "'d env \<Rightarrow> param_map \<Rightarrow> ('d, unit) handler" where
  "greet env params = seqM
    ([modifyM (\<lambda>s. s\<lparr>conn_parameters := params\<rparr>), send AuthenticationOK]
     @ map sendStatus (status_order env status_params)
     @ [getM (\<lambda>s. ignoreM (send (SendBackendKeyData (conn_pid s) (conn_secret s)))),
        ignoreM (send (SendReadyForQuery StatusIdle))])"

definition new_conn :: "sink \<Rightarrow> 'd \<Rightarrow> type_cache \<Rightarrow> 32 word \<Rightarrow> 32 word \<Rightarrow> 'd conn" where
  "new_conn w d cache pid secret = \<lparr>inTransaction = False, transactionFailed = False,
     preparedStatements = Map.empty, stmt_heap = [], portals = Map.empty, describedPortals = (\<lambda>_. False),
     conn_pid = pid, conn_secret = secret, conn_parameters = Map.empty, conn_w = w,
     conn_db = d, conn_cache = cache, draws = 0\<rparr>"

definition handleConn :: "'d env \<Rightarrow> byte list \<Rightarrow> 'd conn \<Rightarrow> ending \<times> 'd conn" where
  "handleConn env inp s = (case readStartup inp s of
       (Ok params, rest, s) \<Rightarrow> (case greet env params s of
           (Ok _, s) \<Rightarrow> serve env rest s
         | (Err _, s) \<Rightarrow> (Closed, s)
         | (Panic p, s) \<Rightarrow> (Crashed p, s))
     | (Err _, rest, s) \<Rightarrow> (Closed, s)
     | (Panic p, rest, s) \<Rightarrow> (Crashed p, s))"

end
