(* ===== verification/PgSession.thy ===== *)
theory PgSession
  imports PgServer
begin

text \<open>
  What holds of a PostgreSQL connection. The handlers of \<open>PgServer\<close> are built from a few
  kinds of steps; the locale \<open>step_relation\<close> states what a relation between states needs
  so that it holds across every action made of such steps, and each invariant below is an
  interpretation: output and cache only grow and pointers stay valid (\<open>progress\<close>), the
  transaction flags stay (\<open>same_tx\<close>).
\<close>

section \<open>Relations kept by actions\<close>

text \<open>The cache of column types only grows.\<close>

lemma GetColumnPGOID_grows: "GetColumnPGOID db t c (cache, d) = (oid, cache', d') \<Longrightarrow> cache \<subseteq>\<^sub>m cache'"
  by (auto simp: GetColumnPGOID_def Let_def map_le_def split: option.splits prod.splits res.splits)

locale step_relation = kept_relation R for R :: "'d conn \<Rightarrow> 'd conn \<Rightarrow> bool" +
  assumes R_write: "grows (conn_w s) k \<Longrightarrow> R s (s\<lparr>conn_w := k\<rparr>)"
    and R_db: "R s (s\<lparr>conn_db := d\<rparr>)"
    and R_cache: "conn_cache s \<subseteq>\<^sub>m c \<Longrightarrow> R s (s\<lparr>conn_cache := c, conn_db := d\<rparr>)"
    and R_draws: "R s (s\<lparr>draws := n\<rparr>)"
begin

lemma send_keep: "(\<And>k. grows k (snd (w k))) \<Longrightarrow> within R (send w)"
  unfolding within_def send_def using R_write by (auto split: prod.split) (metis snd_conv)

lemma on_db_keep: "within R (on_db m)"
  by (auto simp: within_def on_db_def R_db split: prod.split)

lemma translate_keep: "within R (translateM env q)"
  by (simp add: within_def translateM_def R_draws)

lemma column_keep: "within R (columnOIDM env t c)"
  by (auto simp: within_def columnOIDM_def intro: R_cache GetColumnPGOID_grows split: prod.split)

lemma inferred_keep: "within R (inferred_params env t cvs)"
  by (induction env t cvs rule: inferred_params.induct)
     (auto intro!: bind_keep column_keep pure_ret split: option.split)

end

section \<open>Writers append\<close>

definition appends :: "writer \<Rightarrow> bool" where
  "appends w \<longleftrightarrow> (\<forall>k. grows k (snd (w k)))"

lemma appends_WriteBytes: "appends (WriteBytes bs)"
  by (auto simp: appends_def WriteBytes_def grows_def split: option.split)

lemma appends_message: "appends (writeMessage ty body)"
  by (simp add: writeMessage_frame appends_WriteBytes)

lemmas sends = SendCommandComplete_def SendRowDescription_def SendDataRow_def SendReadyForQuery_def
  SendEmptyQueryResponse_def SendParseComplete_def SendBindComplete_def SendCloseComplete_def
  SendNoData_def SendErrorResponse_def SendParameterDescription_def SendParameterStatus_def
  SendBackendKeyData_def AuthenticationOK_def

lemma appends_sends:
  "appends (SendCommandComplete a)" "appends (SendRowDescription b)" "appends (SendDataRow c d e f)"
  "appends (SendReadyForQuery g)" "appends SendEmptyQueryResponse" "appends SendParseComplete"
  "appends SendBindComplete" "appends SendCloseComplete" "appends SendNoData"
  "appends (SendErrorResponse h)" "appends (SendParameterDescription i)"
  "appends (SendParameterStatus j k)" "appends (SendBackendKeyData l m)" "appends AuthenticationOK"
  by (simp_all add: sends appends_message)

context step_relation
begin

lemma send_appends: "appends w \<Longrightarrow> within R (send w)"
  by (rule send_keep) (simp add: appends_def)

lemmas steps = control on_db_keep
  translate_keep column_keep inferred_keep send_appends appends_sends

lemma complete_keep: "within R (complete tag)"
  unfolding complete_def by (intro steps)

lemma ready_keep: "within R ready"
  unfolding ready_def by (intro steps)

lemma rows_keep: "within R (send_rows env fm oi rs)"
  by (induction rs) (auto intro!: steps)

lemma reply_keep: "within R (reply_rows env b cols fm oi rows)"
  unfolding reply_rows_def end_of_rows_def
  by (auto intro!: steps rows_keep complete_keep split: option.split)

lemma result_columns_keep: "within R (result_columns b rows)"
  unfolding result_columns_def by (intro steps)

lemma mysql_keep: "within R (executeMySQLQuery env q p)"
  unfolding executeMySQLQuery_def execM_def queryM_def
  by (auto intro!: steps complete_keep reply_keep result_columns_keep)

lemma parameterized_keep: "within R (executeParameterizedMySQLQuery env q p)"
  unfolding executeParameterizedMySQLQuery_def execM_def queryM_def portal_args_def Let_def
  by (auto intro!: steps complete_keep reply_keep result_columns_keep split: option.split)

lemma returning_keep: "within R (executeWriteReturning env t q p)"
  unfolding executeWriteReturning_def execM_def queryM_def portal_args_def Let_def
  by (auto intro!: steps complete_keep rows_keep split: option.split list.split)

lemma catalog_keep: "within R (executeCatalogQuery env q b)"
  unfolding executeCatalogQuery_def Let_def
  by (auto intro!: steps complete_keep rows_keep mysql_keep split: option.split)

lemma catalog_extended_keep: "within R (executeCatalogQueryExtended env p)"
  unfolding executeCatalogQueryExtended_def by (intro get_keep catalog_keep)

lemma describe_unless_keep: "within R (describe_unless b fds)"
  by (auto simp: describe_unless_def intro!: steps)

lemma prisma_keep: "within R (handlePrismaStartupQuery env p)"
  unfolding handlePrismaStartupQuery_def Let_def
  by (rule seq_keep) (auto intro!: steps complete_keep describe_unless_keep)

lemma show_keep: "within R (handleShowCommand env q)"
  unfolding handleShowCommand_def Let_def
  by (auto intro!: seq_keep steps complete_keep mysql_keep split: option.split)

lemma version_keep: "within R (versionQuery env)"
  unfolding versionQuery_def by (rule seq_keep) (auto intro!: steps complete_keep)

lemma forward_keep: "within R (forwardQuery env q)"
  unfolding forwardQuery_def by (auto intro!: steps catalog_keep version_keep mysql_keep)

lemma prepared_keep: "within R (executePreparedStatement env p)"
  unfolding executePreparedStatement_def Let_def
  by (auto intro!: steps seq_keep complete_keep describe_unless_keep prisma_keep catalog_extended_keep
    returning_keep parameterized_keep mysql_keep)

lemma execute_keep: "within R (handleExecute env body)"
  unfolding handleExecute_def by (auto intro!: steps prepared_keep split: option.split)

lemma describe_select_keep: "within R (describeSelectColumns env q)"
  unfolding describeSelectColumns_def queryM_def Let_def
  by (auto intro!: steps result_columns_keep)

lemma describe_returning_keep: "within R (describeReturningColumns env q)"
  unfolding describeReturningColumns_def
  by (auto intro!: steps describe_select_keep split: option.split)

lemma infer_keep: "within R (inferInsertParamTypes env q)"
  unfolding inferInsertParamTypes_def Let_def by (auto intro!: steps split: option.split)

end

section \<open>Progress: output and cache grow, pointers stay valid\<close>

definition conn_wf :: "'d conn \<Rightarrow> bool" where
  "conn_wf s \<longleftrightarrow> (\<forall>n i. preparedStatements s n = Some i \<longrightarrow> i < length (stmt_heap s))
     \<and> (\<forall>n p. portals s n = Some p \<longrightarrow> po_stmt p < length (stmt_heap s))"

definition progress :: "'d conn \<Rightarrow> 'd conn \<Rightarrow> bool" where
  "progress s t \<longleftrightarrow> grows (conn_w s) (conn_w t)
     \<and> conn_cache s \<subseteq>\<^sub>m conn_cache t
     \<and> length (stmt_heap s) \<le> length (stmt_heap t)
     \<and> (\<forall>i < length (stmt_heap s). ps_query (stmt_heap t ! i) = ps_query (stmt_heap s ! i))
     \<and> (conn_wf s \<longrightarrow> conn_wf t)"

interpretation prog: step_relation progress
proof
  fix s t u :: "'a conn"
  assume "progress s t" "progress t u"
  then show "progress s u"
    unfolding progress_def by (auto dest: grows_trans map_le_trans)
qed (auto simp: progress_def conn_wf_def)

definition same_tx :: "'d conn \<Rightarrow> 'd conn \<Rightarrow> bool" where
  "same_tx s t \<longleftrightarrow> inTransaction t = inTransaction s \<and> transactionFailed t = transactionFailed s"

interpretation tx: step_relation same_tx
  by unfold_locales (auto simp: same_tx_def)

lemma flags_progress [simp]: "progress s (s\<lparr>inTransaction := a, transactionFailed := b\<rparr>)"
    "progress s (s\<lparr>inTransaction := a\<rparr>)" "progress s (s\<lparr>transactionFailed := b\<rparr>)"
  by (auto simp: progress_def conn_wf_def)

lemma commands_progress:
  "within progress (beginCommand env)" "within progress (commitCommand env)"
  "within progress (rollbackCommand env)" "within progress (savepointCommand env q)"
  "within progress (txCommand env q t)"
  unfolding beginCommand_def commitCommand_def rollbackCommand_def savepointCommand_def txCommand_def
    execM_def fail_tx_def
  by (auto intro!: prog.steps prog.complete_keep modify_keep split: option.split)

lemma query_progress: "within progress (executeQuery env q)"
  unfolding executeQuery_def execM_def Let_def
  by (intro prog.steps prog.complete_keep commands_progress prog.show_keep prog.forward_keep)
     (rule prog.seq_keep, auto intro!: prog.steps prog.complete_keep)

lemma simple_progress: "within progress (handleSimpleQuery env body)"
  unfolding handleSimpleQuery_def Let_def by (auto intro!: prog.steps query_progress prog.ready_keep)

lemma parse_progress: "within progress (handleParse body)"
  unfolding handleParse_def
  by (intro prog.steps modify_keep)
     (auto simp: progress_def conn_wf_def nth_append less_Suc_eq intro: less_SucI)

lemma parse_tx: "within same_tx (handleParse body)"
  unfolding handleParse_def by (intro tx.steps modify_keep) (simp add: same_tx_def)

lemma close_progress: "within progress (handleClose body)"
  unfolding handleClose_def
  by (intro prog.steps modify_keep) (auto simp: progress_def conn_wf_def)

lemma close_tx: "within same_tx (handleClose body)"
  unfolding handleClose_def by (intro tx.steps modify_keep) (simp add: same_tx_def)

lemma same_query: "j < length xs \<Longrightarrow> ps_query (xs[i := (xs ! i)\<lparr>paramOIDs := oids\<rparr>] ! j) = ps_query (xs ! j)"
  by (cases "i = j") auto

lemma oids_progress: "within progress (set_stmt_oids i oids)"
  unfolding set_stmt_oids_def
  by (intro modify_keep) (simp add: progress_def conn_wf_def same_query)

lemma oids_tx: "within same_tx (set_stmt_oids i oids)"
  unfolding set_stmt_oids_def by (intro modify_keep) (simp add: same_tx_def)

lemma mark_progress: "within progress (mark_described n)"
  unfolding mark_described_def by (intro modify_keep) (auto simp: progress_def conn_wf_def)

lemma mark_tx: "within same_tx (mark_described n)"
  unfolding mark_described_def by (intro modify_keep) (simp add: same_tx_def)

lemma describe_progress: "within progress (handleDescribe env body)"
  unfolding handleDescribe_def describeStatement_def describeParams_def describe_or_no_data_def Let_def
  by (auto intro!: prog.steps oids_progress mark_progress prog.describe_select_keep
    prog.describe_returning_keep prog.infer_keep split: option.split prod.split)

lemma describe_tx: "within same_tx (handleDescribe env body)"
  unfolding handleDescribe_def describeStatement_def describeParams_def describe_or_no_data_def Let_def
  by (auto intro!: tx.steps oids_tx mark_tx tx.describe_select_keep
    tx.describe_returning_keep tx.infer_keep split: option.split prod.split)

lemma bind_tx: "within same_tx (handleBind body)"
  unfolding handleBind_def
  by (auto intro!: tx.steps modify_keep simp: same_tx_def split: option.split)

lemma bind_progress: "within progress (handleBind body)"
  unfolding within_def
proof
  fix s :: "'a conn"
  show "progress s (snd (handleBind body s))"
  proof (cases "ParseBind body")
    case (Ok m)
    show ?thesis
    proof (cases "preparedStatements s (PreparedStatement m)")
      case None
      then show ?thesis
        by (simp add: handleBind_def Ok bindM_def liftR_def getM_def failM_def prog.R_refl)
    next
      case (Some i)
      define t where "t = s\<lparr>portals := (portals s)(bind_Portal m \<mapsto>
               \<lparr>po_name = bind_Portal m, po_stmt = i, po_params = bind_Parameters m,
                po_formatCodes = ParameterFormatCodes m, po_resultFormatCodes = ResultFormatCodes m,
                po_described = describedPortals s (PreparedStatement m)\<rparr>)\<rparr>"
      have "handleBind body s = send SendBindComplete t"
        by (simp add: handleBind_def Ok bindM_def liftR_def getM_def modifyM_def Some t_def)
      moreover have "progress s t" using Some by (auto simp: t_def progress_def conn_wf_def)
      moreover have "progress t (snd (send SendBindComplete t))"
        by (rule withinD [OF prog.send_appends [OF appends_sends(7)]])
      ultimately show ?thesis using prog.R_trans by auto
    qed
  qed (simp_all add: handleBind_def bindM_def liftR_def prog.R_refl)
qed

lemma message_progress: "within progress (handleMessage env ty body)"
  unfolding handleMessage_def
  by (auto intro!: simple_progress parse_progress bind_progress prog.execute_keep describe_progress
    prog.ready_keep close_progress prog.pure_ret)

lemma message_tx: "ty \<noteq> MsgClientQuery \<Longrightarrow> within same_tx (handleMessage env ty body)"
  unfolding handleMessage_def
  by (auto intro!: parse_tx bind_tx tx.execute_keep describe_tx tx.ready_keep close_tx tx.pure_ret)

lemma serve_message_progress: "within progress (serveMessage env m)"
  unfolding serveMessage_def by (intro prog.steps message_progress prog.ready_keep)

lemma serve_progress: "progress s (snd (serve env inp s))"
proof (induction env inp s rule: serve.induct)
  case (1 env inp s)
  show ?case
  proof (cases "ReadMessage inp")
    case (Pair r rest)
    show ?thesis
    proof (cases r)
      case (Ok m)
      obtain a t where st: "serveMessage env m s = (a, t)" by (cases "serveMessage env m s")
      have step: "progress s t" using withinD [OF serve_message_progress, of s env m] by (simp add: st)
      moreover have "progress t (snd (serve env rest t))" if "a = Ok u" for u
        by (rule 1 [OF Pair [symmetric] Ok st [symmetric] that])
      ultimately show ?thesis
        by (cases a) (auto simp: serve.simps [of env inp] Pair Ok st intro: prog.R_trans)
    qed (simp_all add: serve.simps [of env inp] Pair prog.R_refl)
  qed
qed

lemma greet_progress: "within progress (greet env params)"
  unfolding greet_def
  by (rule prog.seq_keep)
     (auto intro!: prog.steps modify_keep simp: sendStatus_def progress_def conn_wf_def)

lemma startup_progress: "readStartup inp s = (r, rest, t) \<Longrightarrow> progress s t"
proof -
  assume r: "readStartup inp s = (r, rest, t)"
  have "progress s (snd (send (WriteBytes [78]) s))"
    by (rule withinD [OF prog.send_appends [OF appends_WriteBytes]])
  with r show ?thesis
    by (auto simp: readStartup_def Let_def prog.R_refl split: prod.splits res.splits if_splits)
qed

lemma conn_progress: "progress s (snd (handleConn env inp s))"
proof -
  obtain r rest t where st: "readStartup inp s = (r, rest, t)" by (cases "readStartup inp s") auto
  have a: "progress s t" by (rule startup_progress [OF st])
  show ?thesis
  proof (cases r)
    case (Ok params)
    obtain g u where gr: "greet env params t = (g, u)" by (cases "greet env params t")
    have "progress t u" using withinD [OF greet_progress, of t env params] by (simp add: gr)
    with a have "progress s u" by (rule prog.R_trans)
    moreover have "progress u (snd (serve env rest u))" by (rule serve_progress)
    ultimately show ?thesis
      by (cases g) (auto simp: handleConn_def st Ok gr intro: prog.R_trans)
  qed (use a in \<open>simp_all add: handleConn_def st\<close>)
qed

end
