(* ===== verification/PgTransaction.thy ===== *)
theory PgTransaction
  imports PgSession
begin

text \<open>
  The transaction state of a PostgreSQL connection against an abstract machine. The machine
  has the two flags, the commands that act on them and the outcome of the statement that the
  proxy runs for a command; \<open>executeQuery\<close> refines it for every query, and the extended
  protocol never moves it. From the machine: which pairs of flags a connection can be in, and
  that a transaction that failed and then commits leaves the connection reported as failed.
\<close>

section \<open>The machine\<close>

datatype tx_command = TxBegin | TxCommit | TxRollback | TxSavepoint | TxRelease | TxNone

type_synonym tx_flags = "bool \<times> bool"

fun tx_next :: "tx_command \<Rightarrow> 'a res \<Rightarrow> tx_flags \<Rightarrow> tx_flags" where
  "tx_next TxBegin r (inT, failed) =
     (if inT then (inT, failed) else (True, case r of Err _ \<Rightarrow> True | _ \<Rightarrow> False))"
| "tx_next TxCommit r (inT, failed) =
     (if \<not> inT then (inT, failed)
      else case r of Ok _ \<Rightarrow> (False, failed) | Err _ \<Rightarrow> (False, False) | Panic _ \<Rightarrow> (inT, failed))"
| "tx_next TxRollback r (inT, failed) =
     (if \<not> inT then (inT, failed) else case r of Panic _ \<Rightarrow> (inT, failed) | _ \<Rightarrow> (False, False))"
| "tx_next TxSavepoint r (inT, failed) = (True, case r of Err _ \<Rightarrow> True | _ \<Rightarrow> failed)"
| "tx_next TxRelease r (inT, failed) = (inT, case r of Err _ \<Rightarrow> True | _ \<Rightarrow> failed)"
| "tx_next TxNone r (inT, failed) = (inT, failed)"

definition tx_class :: "string \<Rightarrow> tx_command" where
  "tx_class query = (let q = normalizeQuery query in
     if q = [] \<or> HasPrefix q ''--'' \<or> HasPrefix q ''create schema'' \<or> HasPrefix q ''do'' \<or> is_advisory_lock q
       then TxNone
     else if q = ''begin'' then TxBegin
     else if q = ''commit'' \<or> q = ''commit work'' \<or> q = ''end'' then TxCommit
     else if q = ''rollback'' \<or> q = ''rollback work'' then TxRollback
     else if has_start 9 q ''savepoint'' then TxSavepoint
     else if has_start 17 q ''release savepoint'' then TxRelease
     else TxNone)"

definition tx_statement :: "string \<Rightarrow> string" where
  "tx_statement query = (case tx_class query of
     TxBegin \<Rightarrow> ''BEGIN'' | TxCommit \<Rightarrow> ''COMMIT'' | TxRollback \<Rightarrow> ''ROLLBACK'' | _ \<Rightarrow> query)"

definition exec_result :: "'d env \<Rightarrow> string \<Rightarrow> 'd conn \<Rightarrow> 64 word res" where
  "exec_result env q s = fst (pool_Exec (mysql_pool env) q [] (conn_db s))"

definition flags :: "'d conn \<Rightarrow> tx_flags" where
  "flags s = (inTransaction s, transactionFailed s)"

section \<open>The commands refine it\<close>

lemma same_tx_flags: "same_tx s t \<longleftrightarrow> flags t = flags s"
  by (simp add: same_tx_def flags_def)

lemma has_start_longer: "length p < n \<Longrightarrow> \<not> has_start n q p"
  by (auto simp: has_start_def)

lemma exec_flags:
  "execM env q args s = (r, t) \<Longrightarrow>
     fst (pool_Exec (mysql_pool env) q args (conn_db s)) = r \<and> flags t = flags s"
  by (auto simp: execM_def on_db_def flags_def split: prod.splits)

lemma complete_flags: "flags (snd (complete tag s)) = flags s"
  using withinD [OF tx.complete_keep] by (simp add: same_tx_flags)

lemma begin_flags:
  "flags (snd (beginCommand env s)) = tx_next TxBegin (exec_result env ''BEGIN'' s) (flags s)"
proof (cases "inTransaction s")
  case False
  let ?s = "s\<lparr>inTransaction := True, transactionFailed := False\<rparr>"
  obtain r t where x: "execM env ''BEGIN'' [] ?s = (r, t)" by (cases "execM env ''BEGIN'' [] ?s")
  have "exec_result env ''BEGIN'' s = r" and "flags t = (True, False)"
    using exec_flags [OF x] by (simp_all add: exec_result_def flags_def)
  then show ?thesis using False x complete_flags [of "''BEGIN''" t]
    by (cases r) (auto simp: beginCommand_def getM_def bindM_def modifyM_def catchM_def fail_tx_def
      failM_def flags_def)
qed (simp add: beginCommand_def getM_def ret_def flags_def)

lemma commit_flags:
  "flags (snd (commitCommand env s)) = tx_next TxCommit (exec_result env ''COMMIT'' s) (flags s)"
proof (cases "inTransaction s")
  case True
  obtain r t where x: "execM env ''COMMIT'' [] s = (r, t)" by (cases "execM env ''COMMIT'' [] s")
  have "exec_result env ''COMMIT'' s = r" and "flags t = flags s"
    using exec_flags [OF x] by (simp_all add: exec_result_def)
  then show ?thesis using True x complete_flags [of "''COMMIT''" "t\<lparr>inTransaction := False\<rparr>"]
    by (cases r) (auto simp: commitCommand_def getM_def bindM_def modifyM_def catchM_def
      failM_def ret_def flags_def)
qed (simp add: commitCommand_def getM_def ret_def flags_def)

lemma rollback_flags:
  "flags (snd (rollbackCommand env s)) = tx_next TxRollback (exec_result env ''ROLLBACK'' s) (flags s)"
proof (cases "inTransaction s")
  case True
  obtain r t where x: "execM env ''ROLLBACK'' [] s = (r, t)" by (cases "execM env ''ROLLBACK'' [] s")
  have "exec_result env ''ROLLBACK'' s = r" and "flags t = flags s"
    using exec_flags [OF x] by (simp_all add: exec_result_def)
  then show ?thesis
    using True x complete_flags [of "''ROLLBACK''" "t\<lparr>inTransaction := False, transactionFailed := False\<rparr>"]
    by (cases r) (auto simp: rollbackCommand_def getM_def bindM_def modifyM_def catchM_def
      failM_def ret_def flags_def)
qed (simp add: rollbackCommand_def getM_def ret_def flags_def)

lemma tx_command_flags:
  "flags (snd (txCommand env q tag s)) = tx_next TxRelease (exec_result env q s) (flags s)"
proof -
  obtain r t where x: "execM env q [] s = (r, t)" by (cases "execM env q [] s")
  have "exec_result env q s = r" and "flags t = flags s"
    using exec_flags [OF x] by (simp_all add: exec_result_def)
  then show ?thesis using x complete_flags [of tag t]
    by (cases r) (auto simp: txCommand_def getM_def bindM_def modifyM_def catchM_def fail_tx_def
      failM_def flags_def)
qed

lemma savepoint_flags:
  "flags (snd (savepointCommand env q s)) = tx_next TxSavepoint (exec_result env q s) (flags s)"
proof -
  let ?s = "s\<lparr>inTransaction := True\<rparr>"
  have "savepointCommand env q s = txCommand env q ''SAVEPOINT'' ?s"
    by (simp add: savepointCommand_def txCommand_def bindM_def modifyM_def)
  then show ?thesis
    using tx_command_flags [of env q "''SAVEPOINT''" ?s]
    by (simp_all add: exec_result_def flags_def)
qed

text \<open>Everything else \<open>executeQuery\<close> does leaves the flags.\<close>

lemma other_commands_tx:
  "within same_tx (handleShowCommand env q)" "within same_tx (forwardQuery env q)"
  "within same_tx (complete tag)" "within same_tx (send SendEmptyQueryResponse)"
  "within same_tx (seqM [send (SendRowDescription a), send (SendDataRow f b c d), complete e])"
  "within same_tx (bindM (ignoreM (bindM (execM env q x) (\<lambda>_. ret ()))) (\<lambda>_. complete tag))"
  by (rule tx.show_keep tx.forward_keep tx.complete_keep)+
     (auto simp: execM_def intro!: tx.steps tx.seq_keep tx.complete_keep)

lemma execute_class:
  "executeQuery env query =
    (case tx_class query of
       TxBegin \<Rightarrow> beginCommand env
     | TxCommit \<Rightarrow> commitCommand env
     | TxRollback \<Rightarrow> rollbackCommand env
     | TxSavepoint \<Rightarrow> savepointCommand env query
     | TxRelease \<Rightarrow> txCommand env query ''RELEASE''
     | TxNone \<Rightarrow> executeQuery env query)"
  by (simp add: tx_class_def executeQuery_def Let_def)

lemma execute_none:
  assumes "tx_class query = TxNone"
  shows "within same_tx (executeQuery env query)"
  by (insert assms, unfold tx_class_def executeQuery_def Let_def, intro if_cases)
     (rule other_commands_tx | simp add: has_start_longer)+

lemma query_flags:
  "flags (snd (executeQuery env query s))
     = tx_next (tx_class query) (exec_result env (tx_statement query) s) (flags s)"
proof (cases "tx_class query = TxNone")
  case True
  then show ?thesis
    using withinD [OF execute_none [OF True], of s env] by (simp add: same_tx_flags flags_def)
next
  case False
  then show ?thesis
    by (subst execute_class, cases "tx_class query")
       (simp_all add: begin_flags commit_flags rollback_flags savepoint_flags tx_command_flags tx_statement_def)
qed

text \<open>
  C2: the transaction state of a connection is that of the abstract machine: for every query,
  the two flags after \<open>executeQuery\<close> are the machine's, from the flags before it and the
  outcome of the statement the proxy runs on MySQL. The commands are those of \<open>tx_class\<close>;
  nothing else a query does, whatever it sends or fails with, moves the flags.
\<close>

theorem executeQuery_refines_tx:
  "flags (snd (executeQuery env query s))
     = tx_next (tx_class query) (exec_result env (tx_statement query) s) (flags s)"
  by (rule query_flags)

section \<open>Consequences\<close>

text \<open>A database that accepts everything and answers with no rows, for the witnesses.\<close>

definition calm_mysql :: "unit mysql" where
  "calm_mysql = \<lparr>pool_Query = (\<lambda>q args. ret \<lparr>col_types = Ok [], col_names = Ok [], scans = [], iter_err = None\<rparr>),
     pool_Exec = (\<lambda>q args. ret 0)\<rparr>"

definition calm_env :: "unit env" where
  "calm_env = \<lparr>mysql_pool = calm_mysql,
     pg_translator = \<lparr>arrayColumnMode = [], fulltextMode = []\<rparr>, randomness = (\<lambda>_ _. 0),
     floats = plain_float, index_order = (\<lambda>xs. xs), field_order = (\<lambda>xs. xs), status_order = (\<lambda>xs. xs)\<rparr>"

definition calm_conn :: "unit conn" where
  "calm_conn = new_conn (open_sink []) () Map.empty 1 2"

lemma tx_classes [simp]:
  "tx_class ''commit'' = TxCommit" "tx_class ''rollback'' = TxRollback" "tx_class ''BEGIN'' = TxBegin"
  "tx_class ''select 1'' = TxNone" "tx_class ''BEGIN;'' = TxNone"
  by code_simp+

lemma not_tx: "tx_next TxRollback r (False, b) = (False, b)" "tx_next TxCommit r (False, b) = (False, b)"
  by simp_all

text \<open>
  C27: when a transaction in which a statement failed is ended with \<open>COMMIT\<close> and MySQL
  accepts it, the proxy leaves the transaction but keeps reporting a failed one, and goes on
  doing so: another \<open>COMMIT\<close> or \<open>ROLLBACK\<close> changes nothing and is not even answered
  with a command tag, and every query that is not a \<open>BEGIN\<close> or a \<open>SAVEPOINT\<close> leaves the state
  as it is.
\<close>

theorem commit_leaves_failed:
  assumes "flags s = (True, True)" and "tx_class commit = TxCommit"
    and "exec_result env ''COMMIT'' s = Ok n"
    and "tx_class again = TxRollback"
    and "tx_class other \<noteq> TxBegin" and "tx_class other \<noteq> TxSavepoint"
  shows "getTransactionStatus (snd (executeQuery env commit s)) = StatusInFailedTx
    \<and> executeQuery env again (snd (executeQuery env commit s)) = (Ok (), snd (executeQuery env commit s))
    \<and> flags (snd (executeQuery env other (snd (executeQuery env commit s)))) = (False, True)"
proof -
  let ?t = "snd (executeQuery env commit s)"
  have fl: "flags ?t = (False, True)"
    using query_flags [of env commit s] assms(1-3) by (simp add: tx_statement_def)
  have "executeQuery env again ?t = rollbackCommand env ?t"
    by (subst execute_class) (simp add: assms(4))
  then have "executeQuery env again ?t = (Ok (), ?t)"
    using fl by (simp add: rollbackCommand_def getM_def ret_def flags_def)
  moreover have "flags (snd (executeQuery env other ?t)) = (False, True)"
    using query_flags [of env other ?t] fl assms(5,6)
    by (cases "tx_class other") (simp_all split: res.splits)
  moreover have "getTransactionStatus ?t = StatusInFailedTx"
    using fl by (simp add: getTransactionStatus_def flags_def)
  ultimately show ?thesis by blast
qed

theorem commit_leaves_failed_witness:
  "getTransactionStatus (snd (executeQuery calm_env ''commit''
      (calm_conn\<lparr>inTransaction := True, transactionFailed := True\<rparr>))) = StatusInFailedTx"
proof -
  have "exec_result calm_env ''COMMIT'' (calm_conn\<lparr>inTransaction := True, transactionFailed := True\<rparr>) = Ok 0"
    by (simp add: exec_result_def calm_env_def calm_mysql_def ret_def)
  from commit_leaves_failed [OF _ _ this, of "''commit''" "''rollback''" "''select 1''"]
  show ?thesis by (simp add: flags_def)
qed

text \<open>
  C25: the extended protocol never touches the transaction state: whatever messages other than
  simple queries a client sends, transaction commands prepared and executed among them, the
  flags at the end are those at the start, so that the proxy reports the connection idle.
\<close>

theorem extended_protocol_untracked:
  assumes "list_all frame_ok msgs" and "list_all (\<lambda>m. fst m \<noteq> MsgClientQuery) msgs"
  shows "flags (snd (serve env (concat (map (\<lambda>m. frame (fst m) (snd m)) msgs)) s)) = flags s"
  using assms
proof (induction msgs arbitrary: s)
  case Nil
  then show ?case
    by (simp add: serve.simps [of env "[]"] ReadMessage_def ReadFull_def bindM_def)
next
  case (Cons m msgs)
  let ?rest = "concat (map (\<lambda>m. frame (fst m) (snd m)) msgs)"
  have rd: "ReadMessage (frame (fst m) (snd m) @ ?rest) = (Ok m, ?rest)"
    using pg_frame.dec_enc [of m ?rest] Cons.prems(1) by (simp add: case_prod_beta)
  obtain r t where st: "serveMessage env m s = (r, t)" by (cases "serveMessage env m s")
  have "within same_tx (serveMessage env m)"
    unfolding serveMessage_def using Cons.prems(2) by (intro tx.steps message_tx tx.ready_keep) simp
  then have fl: "flags t = flags s" using withinD [of same_tx "serveMessage env m" s] st by (simp add: same_tx_flags)
  with rd st Cons show ?case
    by (cases r) (simp_all add: serve.simps [of env "frame (fst m) (snd m) @ ?rest"])
qed

theorem extended_protocol_untracked_witness:
  "flags (snd (serve calm_env (concat (map (\<lambda>m. frame (fst m) (snd m))
      [(MsgClientParse, to_bytes ''s'' @ [0] @ to_bytes ''BEGIN'' @ [0, 0, 0]), (MsgClientSync, [])])) calm_conn))
    = (False, False)"
proof -
  have "flags calm_conn = (False, False)" by (simp add: calm_conn_def flags_def new_conn_def)
  then show ?thesis
    using extended_protocol_untracked [of "[(MsgClientParse, to_bytes ''s'' @ [0] @ to_bytes ''BEGIN'' @ [0, 0, 0]), (MsgClientSync, [])]"
      calm_env calm_conn]
    by (simp add: frame_ok_def MsgClientParse_def MsgClientSync_def MsgClientQuery_def)
qed

end
