(* ===== verification/PgProtocol.thy ===== *)
theory PgProtocol
  imports PgTransaction
begin

text \<open>
  What a PostgreSQL client sees: how a round of the message loop ends, the life of prepared
  statements and portals, and the queries that are answered without MySQL.
\<close>

section \<open>Writing to a client that takes everything\<close>

definition wrote :: "'d conn \<Rightarrow> byte list \<Rightarrow> 'd conn" where
  "wrote s bs = s\<lparr>conn_w := (conn_w s)\<lparr>out := out (conn_w s) @ bs\<rparr>\<rparr>"

definition listening :: "'d conn \<Rightarrow> bool" where
  "listening s \<longleftrightarrow> room (conn_w s) = None"

lemma wrote_simps [simp]:
  "listening (wrote s bs) = listening s" "wrote (wrote s bs) cs = wrote s (bs @ cs)"
  "flags (wrote s bs) = flags s" "getTransactionStatus (wrote s bs) = getTransactionStatus s"
  "stmt_heap (wrote s bs) = stmt_heap s" "portals (wrote s bs) = portals s"
  "preparedStatements (wrote s bs) = preparedStatements s"
  by (simp_all add: wrote_def listening_def flags_def getTransactionStatus_def)

lemma send_message: "listening s \<Longrightarrow> send (writeMessage ty body) s = (Ok (), wrote s (frame ty body))"
  by (simp add: send_def writeMessage_frame listening_def wrote_def)

lemma listening_progress: "within progress m \<Longrightarrow> m s = (r, t) \<Longrightarrow> listening s \<Longrightarrow> listening t"
  using withinD [of progress m s] by (auto simp: progress_def grows_def listening_def)

definition ready_bytes :: "'d conn \<Rightarrow> byte list" where
  "ready_bytes s = frame MsgReadyForQuery [getTransactionStatus s]"

definition error_bytes :: "'d env \<Rightarrow> go_err \<Rightarrow> byte list" where
  "error_bytes env e = frame MsgErrorResponse (notice_body (error_fields env e))"

lemma ready_open: "listening s \<Longrightarrow> ready s = (Ok (), wrote s (ready_bytes s))"
  by (simp add: ready_def getM_def SendReadyForQuery_def send_message ready_bytes_def)

section \<open>How a round ends\<close>

lemma serve_message_open:
  assumes "listening s"
  shows "serveMessage env m s = (case handleMessage env (fst m) (snd m) s of
      (Err e, t) \<Rightarrow> (Ok (), wrote t (error_bytes env e @ ready_bytes t))
    | (r, t) \<Rightarrow> (r, t))"
proof -
  obtain r t where h: "handleMessage env (fst m) (snd m) s = (r, t)"
    by (cases "handleMessage env (fst m) (snd m) s")
  have "listening t" by (rule listening_progress [OF message_progress h assms])
  then show ?thesis
    by (cases r) (simp_all add: serveMessage_def catchM_def h bindM_def ignoreM_def send_message
      SendErrorResponse_def ready_open error_bytes_def ready_bytes_def)
qed

definition skips_ready :: "string \<Rightarrow> bool" where
  "skips_ready query = has_start 11 (normalizeQuery query) ''deallocate ''"

lemma simple_query_round:
  assumes "ParseQuery body = Ok msg" and "listening s"
  shows "serveMessage env (MsgClientQuery, body) s =
    (case executeQuery env (TrimRight (q_String msg) [CHR 0x00]) s of
       (Ok _, t) \<Rightarrow> (Ok (), if skips_ready (TrimRight (q_String msg) [CHR 0x00]) then t else wrote t (ready_bytes t))
     | (Err e, t) \<Rightarrow> (Ok (), wrote t (error_bytes env e @ ready_bytes t))
     | (Panic p, t) \<Rightarrow> (Panic p, t))"
proof -
  let ?q = "TrimRight (q_String msg) [CHR 0x00]"
  obtain r t where x: "executeQuery env ?q s = (r, t)" by (cases "executeQuery env ?q s")
  have "listening t" by (rule listening_progress [OF query_progress x assms(2)])
  moreover have "handleMessage env MsgClientQuery body s
      = bindM (executeQuery env ?q) (\<lambda>_. if skips_ready ?q then ret () else ready) s"
    by (simp add: handleMessage_def handleSimpleQuery_def assms(1) bindM_def liftR_def Let_def skips_ready_def)
  ultimately show ?thesis
    by (cases r) (simp_all add: serve_message_open [OF assms(2)] bindM_def x ready_open ret_def)
qed

text \<open>
  C8: a simple query, answered. When the client reads everything, the output of the query is
  followed by a \<open>ReadyForQuery\<close> that carries the transaction status after it; an
  error is first turned into one error response; a panic ends the process. The exception is
  \<open>DEALLOCATE\<close>, after which the client is never told that the proxy is ready.
\<close>

theorem simple_query_reply:
  assumes "ParseQuery body = Ok msg" and "listening s"
  shows "serveMessage env (MsgClientQuery, body) s =
    (case executeQuery env (TrimRight (q_String msg) [CHR 0x00]) s of
       (Ok _, t) \<Rightarrow> (Ok (), if skips_ready (TrimRight (q_String msg) [CHR 0x00]) then t else wrote t (ready_bytes t))
     | (Err e, t) \<Rightarrow> (Ok (), wrote t (error_bytes env e @ ready_bytes t))
     | (Panic p, t) \<Rightarrow> (Panic p, t))"
  by (rule simple_query_round [OF assms])

theorem simple_query_reply_witness:
  "serveMessage calm_env (MsgClientQuery, to_bytes ''DEALLOCATE x'' @ [0]) calm_conn
     = (Ok (), wrote calm_conn (frame MsgCommandComplete (to_bytes ''DEALLOCATE'' @ [0])))"
proof -
  have p: "ParseQuery (to_bytes ''DEALLOCATE x'' @ [0]) = Ok \<lparr>q_String = ''DEALLOCATE x''\<rparr>"
    by code_simp
  have l: "listening calm_conn" by (simp add: listening_def calm_conn_def new_conn_def open_sink_def)
  have k: "skips_ready ''DEALLOCATE x''" "TrimRight ''DEALLOCATE x'' [CHR 0x00] = ''DEALLOCATE x''"
    by code_simp+
  have "executeQuery calm_env ''DEALLOCATE x'' = complete ''DEALLOCATE''"
  proof -
    have n: "normalizeQuery ''DEALLOCATE x'' = ''deallocate x''" by code_simp
    have "\<not> is_advisory_lock ''deallocate x''" by code_simp
    then show ?thesis by (simp add: executeQuery_def n Let_def HasPrefix_def has_start_def)
  qed
  then show ?thesis
    using simple_query_reply [OF p l, of calm_env] k l
    by (simp add: complete_def SendCommandComplete_def send_message)
qed

text \<open>
  C26: an error in the extended protocol. The proxy answers at once with an error response and
  \<open>ReadyForQuery\<close> and reads on: it does not skip to the next \<open>Sync\<close>, so the \<open>Sync\<close> the client
  sends after its failed message is answered with a second \<open>ReadyForQuery\<close>.
\<close>

theorem error_answered_twice:
  assumes "handleMessage env ty body s = (Err e, t)" and "listening s" and "frame_ok (ty, body)"
  shows "serve env (frame ty body @ frame MsgClientSync []) s
    = (Closed, wrote t (error_bytes env e @ ready_bytes t @ ready_bytes t))"
proof -
  have lt: "listening t" by (rule listening_progress [OF message_progress assms(1,2)])
  let ?u = "wrote t (error_bytes env e @ ready_bytes t)"
  have "serveMessage env (ty, body) s = (Ok (), ?u)"
    by (simp add: serve_message_open assms(1,2))
  moreover have "serveMessage env (MsgClientSync, []) ?u = (Ok (), wrote ?u (ready_bytes t))"
    using lt by (simp add: serve_message_open handleMessage_def ready_open ready_bytes_def
      MsgClientSync_def MsgClientQuery_def MsgClientParse_def MsgClientBind_def MsgClientExecute_def
      MsgClientDescribe_def)
  moreover have "ReadMessage (frame ty body @ frame MsgClientSync []) = (Ok (ty, body), frame MsgClientSync [])"
    using pg_frame.dec_enc [of "(ty, body)" "frame MsgClientSync []"] assms(3) by simp
  moreover have "ReadMessage (frame MsgClientSync []) = (Ok (MsgClientSync, []), [])"
    using pg_frame.dec_enc [of "(MsgClientSync, [])" "[]"] by (simp add: frame_ok_def)
  moreover have "serve env [] v = (Closed, v)" for v :: "'a conn"
    by (simp add: serve.simps [of env "[]"] ReadMessage_def ReadFull_def bindM_def)
  ultimately show ?thesis
    by (simp add: serve.simps [of env "frame ty body @ frame MsgClientSync []"]
      serve.simps [of env "frame MsgClientSync []"])
qed

theorem error_answered_twice_witness:
  "serve calm_env (frame MsgClientExecute [0, 0, 0, 0, 0] @ frame MsgClientSync []) calm_conn
    = (Closed, wrote calm_conn (error_bytes calm_env (not_found ''portal '' [])
        @ ready_bytes calm_conn @ ready_bytes calm_conn))"
proof -
  have p: "ParseExecute [0, 0, 0, 0, 0] = Ok \<lparr>exec_Portal = [], MaxRows = 0\<rparr>" by code_simp
  have "handleMessage calm_env MsgClientExecute [0, 0, 0, 0, 0] calm_conn = (Err (not_found ''portal '' []), calm_conn)"
    by (simp add: handleMessage_def MsgClientQuery_def MsgClientParse_def MsgClientBind_def MsgClientExecute_def
      handleExecute_def p bindM_def liftR_def getM_def failM_def calm_conn_def new_conn_def)
  then show ?thesis
    by (rule error_answered_twice) (simp_all add: listening_def calm_conn_def new_conn_def open_sink_def frame_ok_def)
qed

section \<open>Statements and portals\<close>

text \<open>
  C21: a portal keeps the statement it was bound to. Whatever messages follow, a new \<open>Parse\<close>
  under the same name and \<open>Close\<close> among them, the query behind the pointer of a portal is the
  one it was bound with, and the pointers of the connection stay valid.
\<close>

theorem portal_keeps_query:
  assumes "conn_wf s" and "portals s n = Some p"
  shows "ps_query (portal_stmt (snd (serve env inp s)) p) = ps_query (portal_stmt s p)
    \<and> conn_wf (snd (serve env inp s))"
  using serve_progress [of s env inp] assms by (auto simp: progress_def conn_wf_def portal_stmt_def)

definition one_portal :: "unit conn" where
  "one_portal = calm_conn\<lparr>stmt_heap := [\<lparr>ps_name = ''s'', ps_query = ''select 1'', paramOIDs = []\<rparr>],
     portals := [''p'' \<mapsto> \<lparr>po_name = ''p'', po_stmt = 0, po_params = [], po_formatCodes = [],
       po_resultFormatCodes = [], po_described = False\<rparr>]\<rparr>"

theorem portal_keeps_query_witness:
  "ps_query (portal_stmt (snd (serve calm_env (frame MsgClientClose [83, 115, 0]) one_portal))
     (the (portals one_portal ''p''))) = ''select 1''"
proof -
  have w: "conn_wf one_portal" by (simp add: conn_wf_def one_portal_def calm_conn_def new_conn_def)
  have p: "portals one_portal ''p'' = Some (the (portals one_portal ''p''))" by (simp add: one_portal_def)
  show ?thesis
    using portal_keeps_query [OF w p, of calm_env "frame MsgClientClose [83, 115, 0]"]
    by (simp add: one_portal_def portal_stmt_def)
qed

text \<open>
  C9: prepare and execute. After \<open>Parse\<close> and \<open>Bind\<close>, \<open>Execute\<close> of the portal runs the query
  that was parsed with the parameters and the format codes of the \<open>Bind\<close> message; the client
  gets the two confirmations first.
\<close>

theorem parse_bind_execute:
  assumes "ParseParse pb = Ok pm" and "ParseBind bb = Ok bm" and "ParseExecute eb = Ok em"
    and "PreparedStatement bm = parse_Name pm" and "exec_Portal em = bind_Portal bm"
    and "listening s"
  shows "\<exists>t p. bindM (handleParse pb) (\<lambda>_. handleBind bb) s = (Ok (), t)
    \<and> handleExecute env eb t = executePreparedStatement env p t
    \<and> portal_stmt t p = \<lparr>ps_name = parse_Name pm, ps_query = parse_Query pm, paramOIDs = ParameterOIDs pm\<rparr>
    \<and> po_params p = bind_Parameters bm \<and> po_formatCodes p = ParameterFormatCodes bm
    \<and> po_resultFormatCodes p = ResultFormatCodes bm
    \<and> out (conn_w t) = out (conn_w s) @ frame MsgParseComplete [] @ frame MsgBindComplete []"
proof -
  let ?stmt = "\<lparr>ps_name = parse_Name pm, ps_query = parse_Query pm, paramOIDs = ParameterOIDs pm\<rparr>"
  let ?s = "s\<lparr>preparedStatements := (preparedStatements s)(parse_Name pm \<mapsto> length (stmt_heap s)),
      stmt_heap := stmt_heap s @ [?stmt]\<rparr>"
  let ?p = "\<lparr>po_name = bind_Portal bm, po_stmt = length (stmt_heap s), po_params = bind_Parameters bm,
      po_formatCodes = ParameterFormatCodes bm, po_resultFormatCodes = ResultFormatCodes bm,
      po_described = describedPortals s (PreparedStatement bm)\<rparr>"
  let ?u = "wrote ?s (frame MsgParseComplete [])"
  let ?t = "wrote (?u\<lparr>portals := (portals s)(bind_Portal bm \<mapsto> ?p)\<rparr>) (frame MsgBindComplete [])"
  have ls: "listening ?s" using assms(6) by (simp add: listening_def)
  have a: "handleParse pb s = (Ok (), ?u)"
    using ls by (simp add: handleParse_def assms(1) bindM_def liftR_def modifyM_def SendParseComplete_def send_message)
  have lu: "listening (?u\<lparr>portals := (portals s)(bind_Portal bm \<mapsto> ?p)\<rparr>)"
    using assms(6) by (simp add: listening_def wrote_def)
  have b: "handleBind bb ?u = (Ok (), ?t)"
    using send_message [OF lu, of MsgBindComplete "[]"] assms(4)
    by (simp add: handleBind_def assms(2) bindM_def liftR_def getM_def modifyM_def SendBindComplete_def wrote_def)
  have "handleExecute env eb ?t = executePreparedStatement env ?p ?t"
    by (simp add: handleExecute_def assms(3,5) bindM_def liftR_def getM_def)
  moreover have "bindM (handleParse pb) (\<lambda>_. handleBind bb) s = (Ok (), ?t)"
    using a b by (simp add: bindM_def)
  moreover have "portal_stmt ?t ?p = ?stmt" by (simp add: portal_stmt_def)
  moreover have "out (conn_w ?t) = out (conn_w s) @ frame MsgParseComplete [] @ frame MsgBindComplete []"
    by (simp add: wrote_def)
  ultimately show ?thesis by (intro exI [of _ ?t] exI [of _ ?p]) simp
qed

theorem parse_bind_execute_witness:
  "\<exists>t p. bindM (handleParse [0, 83, 0, 0, 0]) (\<lambda>_. handleBind [0, 0, 0, 0, 0, 0, 0, 0]) calm_conn = (Ok (), t)
    \<and> handleExecute calm_env [0, 0, 0, 0, 0] t = executePreparedStatement calm_env p t
    \<and> portal_stmt t p = \<lparr>ps_name = [], ps_query = ''S'', paramOIDs = []\<rparr>"
proof -
  have a: "ParseParse [0, 83, 0, 0, 0] = Ok \<lparr>parse_Name = [], parse_Query = ''S'', ParameterOIDs = []\<rparr>"
    by code_simp
  have b: "ParseBind [0, 0, 0, 0, 0, 0, 0, 0] = Ok \<lparr>bind_Portal = [], PreparedStatement = [],
      ParameterFormatCodes = [], bind_Parameters = [], ResultFormatCodes = []\<rparr>"
    by code_simp
  have c: "ParseExecute [0, 0, 0, 0, 0] = Ok \<lparr>exec_Portal = [], MaxRows = 0\<rparr>" by code_simp
  have l: "listening calm_conn" by (simp add: listening_def calm_conn_def new_conn_def open_sink_def)
  show ?thesis using parse_bind_execute [OF a b c _ _ l, of calm_env] by auto
qed

text \<open>
  \<open>ROLLBACK TO SAVEPOINT\<close> is not handled as a transaction command: the branch for it compares
  22 characters with a text of 21 and is never taken. The query is forwarded like any other
  statement, so that its failure does not mark the transaction failed.
\<close>

theorem rollback_to_savepoint_forwarded:
  assumes "HasPrefix (normalizeQuery query) ''rollback to savepoint''"
    and "\<not> is_advisory_lock (normalizeQuery query)"
  shows "executeQuery env query = forwardQuery env query
    \<and> flags (snd (executeQuery env query s)) = flags s"
proof -
  obtain r where q: "normalizeQuery query = ''rollback to savepoint'' @ r"
    using assms(1) by (metis HasPrefix_def append_take_drop_id)
  have never: "\<not> has_start 22 (normalizeQuery query) ''rollback to savepoint''"
    by (simp add: has_start_longer)
  have "executeQuery env query = forwardQuery env query"
    using assms(2) never by (cases r) (simp_all add: executeQuery_def Let_def q HasPrefix_def has_start_def)
  moreover have "flags (snd (forwardQuery env query s)) = flags s"
    using withinD [OF tx.forward_keep] by (simp add: same_tx_flags)
  ultimately show ?thesis by simp
qed

theorem rollback_to_savepoint_forwarded_witness:
  "executeQuery calm_env ''ROLLBACK TO SAVEPOINT a'' = forwardQuery calm_env ''ROLLBACK TO SAVEPOINT a''"
proof -
  have "HasPrefix (normalizeQuery ''ROLLBACK TO SAVEPOINT a'') ''rollback to savepoint''" by code_simp
  moreover have "\<not> is_advisory_lock (normalizeQuery ''ROLLBACK TO SAVEPOINT a'')" by code_simp
  ultimately show ?thesis by (rule rollback_to_savepoint_forwarded [THEN conjunct1])
qed

end
