(* ===== verification/GoJson.thy ===== *)
theory GoJson
  imports PgWriter "HOL-Library.List_Lexorder"
begin

text \<open>
  What the proxy uses of \<open>encoding/json\<close>: \<open>json.Marshal\<close> of strings, of values that come
  from MySQL, and of a map, whose keys are written in order. Bytes from 128 on are those of
  valid UTF-8 and are copied; the text of floats and times is a parameter.
\<close>

record go_json =
  json_float :: "64 word \<Rightarrow> string option"
  json_time :: "string \<Rightarrow> string"

definition json_char :: "char \<Rightarrow> string" where
  "json_char c = (let n = (of_char c :: nat) in
     if c = CHR 0x22 \<or> c = CHR 0x5C then [CHR 0x5C, c]
     else if c = CHR 0x08 then [CHR 0x5C, CHR ''b'']
     else if c = CHR 0x0C then [CHR 0x5C, CHR ''f'']
     else if c = CHR 0x0A then [CHR 0x5C, CHR ''n'']
     else if c = CHR 0x0D then [CHR 0x5C, CHR ''r'']
     else if c = CHR 0x09 then [CHR 0x5C, CHR ''t'']
     else if n < 32 \<or> c = CHR ''<'' \<or> c = CHR ''>'' \<or> c = CHR 0x26
       then [CHR 0x5C] @ ''u00'' @ [hex_digit (n div 16), hex_digit (n mod 16)]
     else [c])"

definition json_string :: "string \<Rightarrow> string" where
  "json_string s = [CHR 0x22] @ concat (map json_char s) @ [CHR 0x22]"

text \<open>A nil slice is \<open>null\<close>.\<close>

definition json_list :: "string list \<Rightarrow> string" where
  "json_list vs = (if vs = [] then ''null'' else ''['' @ Join vs '','' @ '']'')"

definition marshal_strings :: "string list \<Rightarrow> string" where
  "marshal_strings xs = json_list (map json_string xs)"

text \<open>A byte slice is written in base 64.\<close>

definition base64_alphabet :: string where
  "base64_alphabet = ''ABCDEFGHIJKLMNOPQRSTUVWXYZabcdefghijklmnopqrstuvwxyz0123456789+/''"

definition sextet :: "nat \<Rightarrow> char" where
  "sextet n = base64_alphabet ! (n mod 64)"

fun base64 :: "byte list \<Rightarrow> string" where
  "base64 [] = []"
| "base64 [a] = [sextet (unat a div 4), sextet (unat a * 16), CHR ''='', CHR ''='']"
| "base64 [a, b] = [sextet (unat a div 4), sextet (unat a * 16 + unat b div 16), sextet (unat b * 4), CHR ''='']"
| "base64 (a # b # c # bs) =
     [sextet (unat a div 4), sextet (unat a * 16 + unat b div 16), sextet (unat b * 4 + unat c div 64), sextet (unat c)]
     @ base64 bs"

definition marshal_value :: "go_json \<Rightarrow> gval \<Rightarrow> string option" where
  "marshal_value js v = (case v of
       GNil \<Rightarrow> Some ''null''
     | GBytes b \<Rightarrow> Some (json_string (base64 b))
     | GString s \<Rightarrow> Some (json_string s)
     | GInt i \<Rightarrow> Some (int_dec (sint i))
     | GUint u \<Rightarrow> Some (nat_dec (unat u))
     | GFloat f \<Rightarrow> json_float js f
     | GBool b \<Rightarrow> Some (if b then ''true'' else ''false'')
     | GTime t layout \<Rightarrow> Some (json_string (json_time js t))
     | GOther s \<Rightarrow> Some s)"

definition marshal_map :: "go_json \<Rightarrow> (string \<times> gval) list \<Rightarrow> string option" where
  "marshal_map js kvs =
     map_option (\<lambda>es. [CHR 0x7B] @ Join es '','' @ [CHR 0x7D])
       (those (map (\<lambda>k. map_option (\<lambda>v. json_string k @ '':'' @ v)
          (Option.bind (map_of (rev kvs) k) (marshal_value js))) (sort (remdups (map fst kvs)))))"

end
