(* ===== verification/PgArray.thy ===== *)
theory PgArray
  imports GoJson
begin

text \<open>
  \<open>internal/proxy/postgresql/array.go\<close>: PostgreSQL array literals to JSON and back, with what
  it uses of \<open>json.Unmarshal\<close>: the syntax of JSON and the two targets, a slice of strings and a
  slice of anything. (Numbers are within the range of a double, nesting is within Go's limit,
  and bytes from 128 on are valid UTF-8, copied as they are.)
\<close>

section \<open>Reading JSON\<close>

datatype json = JNull | JBool bool | JNum string | JStr string | JArr "json list" | JObj "(string \<times> json) list"

definition json_space :: "char \<Rightarrow> bool" where
  "json_space c \<longleftrightarrow> c = CHR '' '' \<or> c = CHR 0x09 \<or> c = CHR 0x0A \<or> c = CHR 0x0D"

definition skip_ws :: "string \<Rightarrow> string" where
  "skip_ws = dropWhile json_space"

definition hex_val :: "char \<Rightarrow> nat option" where
  "hex_val c = (let n = (of_char c :: nat) in
     if 48 \<le> n \<and> n \<le> 57 then Some (n - 48)
     else if 97 \<le> n \<and> n \<le> 102 then Some (n - 87)
     else if 65 \<le> n \<and> n \<le> 70 then Some (n - 55) else None)"

definition hex4 :: "string \<Rightarrow> (nat \<times> string) option" where
  "hex4 s = (case those (map hex_val (take 4 s)) of
       Some [a, b, c, d] \<Rightarrow> Some (((a * 16 + b) * 16 + c) * 16 + d, drop 4 s)
     | _ \<Rightarrow> None)"

text \<open>A code point in UTF-8.\<close>

definition utf8 :: "nat \<Rightarrow> string" where
  "utf8 n = map char_of
    (if n < 0x80 then [n]
     else if n < 0x800 then [0xC0 + n div 64, 0x80 + n mod 64]
     else if n < 0x10000 then [0xE0 + n div 4096, 0x80 + n div 64 mod 64, 0x80 + n mod 64]
     else [0xF0 + n div 262144, 0x80 + n div 4096 mod 64, 0x80 + n div 64 mod 64, 0x80 + n mod 64])"

text \<open>\<open>\u\<close> and four digits: a pair of surrogates is one code point, a single one the
  replacement character.\<close>

definition json_unicode :: "string \<Rightarrow> (string \<times> string) option" where
  "json_unicode s = (case hex4 s of
       None \<Rightarrow> None
     | Some (u, r) \<Rightarrow>
        if u < 0xD800 \<or> 0xDFFF < u then Some (utf8 u, r)
        else if u < 0xDC00 \<and> HasPrefix r [CHR 0x5C, CHR ''u''] then
          (case hex4 (drop 2 r) of
             Some (v, r') \<Rightarrow> if 0xDC00 \<le> v \<and> v \<le> 0xDFFF
               then Some (utf8 (0x10000 + (u - 0xD800) * 1024 + (v - 0xDC00)), r') else Some (utf8 0xFFFD, r)
           | None \<Rightarrow> Some (utf8 0xFFFD, r))
        else Some (utf8 0xFFFD, r))"

definition simple_escapes :: "(char \<times> char) list" where
  "simple_escapes =
    [(CHR 0x22, CHR 0x22), (CHR 0x5C, CHR 0x5C), (CHR ''/'', CHR ''/''), (CHR ''b'', CHR 0x08),
     (CHR ''f'', CHR 0x0C), (CHR ''n'', CHR 0x0A), (CHR ''r'', CHR 0x0D), (CHR ''t'', CHR 0x09)]"

definition json_unescape :: "string \<Rightarrow> (string \<times> string) option" where
  "json_unescape s = (case s of
       [] \<Rightarrow> None
     | c # r \<Rightarrow> (case map_of simple_escapes c of
           Some d \<Rightarrow> Some ([d], r)
         | None \<Rightarrow> if c = CHR ''u'' then json_unicode r else None))"

text \<open>The rest of a string after its quote. The fuel of these readers is the length of the
  text: every step takes a character.\<close>

fun json_chars :: "nat \<Rightarrow> string \<Rightarrow> (string \<times> string) option" where
  "json_chars 0 s = None"
| "json_chars (Suc n) s = (case s of
       [] \<Rightarrow> None
     | c # r \<Rightarrow>
        if c = CHR 0x22 then Some ([], r)
        else if c = CHR 0x5C then
          (case json_unescape r of
             Some (d, r') \<Rightarrow> map_option (\<lambda>(t, u). (d @ t, u)) (json_chars n r')
           | None \<Rightarrow> None)
        else if (of_char c :: nat) < 32 then None
        else map_option (\<lambda>(t, u). (c # t, u)) (json_chars n r))"

text \<open>A number: sign, digits without a leading zero, fraction, exponent.\<close>

definition json_digits :: "string \<Rightarrow> (string \<times> string) option" where
  "json_digits s = (let ds = takeWhile is_digit s in if ds = [] then None else Some (ds, drop (length ds) s))"

definition json_int :: "string \<Rightarrow> (string \<times> string) option" where
  "json_int s = (case s of
       CHR ''0'' # r \<Rightarrow> Some (''0'', r)
     | _ \<Rightarrow> json_digits s)"

definition json_fraction :: "string \<Rightarrow> (string \<times> string) option" where
  "json_fraction s = (if HasPrefix s ''.''
     then map_option (\<lambda>(d, r). (CHR ''.'' # d, r)) (json_digits (tl s)) else Some ([], s))"

definition json_exponent :: "string \<Rightarrow> (string \<times> string) option" where
  "json_exponent s = (if HasPrefix s ''e'' \<or> HasPrefix s ''E'' then
     (let sg = (if HasPrefix (tl s) ''+'' \<or> HasPrefix (tl s) ''-'' then [hd (tl s)] else []) in
      map_option (\<lambda>(d, r). (hd s # sg @ d, r)) (json_digits (drop (length sg) (tl s))))
     else Some ([], s))"

definition json_number :: "string \<Rightarrow> (string \<times> string) option" where
  "json_number s = (let sg = (if HasPrefix s ''-'' then ''-'' else []) in
     Option.bind (json_int (drop (length sg) s)) (\<lambda>(i, r).
     Option.bind (json_fraction r) (\<lambda>(f, r).
     map_option (\<lambda>(e, r). (sg @ i @ f @ e, r)) (json_exponent r))))"

definition json_literal :: "string \<Rightarrow> (json \<times> string) option" where
  "json_literal s =
    (if HasPrefix s ''null'' then Some (JNull, drop 4 s)
     else if HasPrefix s ''true'' then Some (JBool True, drop 4 s)
     else if HasPrefix s ''false'' then Some (JBool False, drop 5 s)
     else map_option (\<lambda>(t, r). (JNum t, r)) (json_number s))"

fun json_value :: "nat \<Rightarrow> string \<Rightarrow> (json \<times> string) option"
  and json_items :: "nat \<Rightarrow> string \<Rightarrow> (json list \<times> string) option"
  and json_members :: "nat \<Rightarrow> string \<Rightarrow> ((string \<times> json) list \<times> string) option" where
  "json_value 0 s = None"
| "json_value (Suc n) s = (case skip_ws s of
       [] \<Rightarrow> None
     | c # r \<Rightarrow>
        if c = CHR 0x22 then map_option (\<lambda>(t, u). (JStr t, u)) (json_chars (length r) r)
        else if c = CHR ''['' then
          (if HasPrefix (skip_ws r) '']'' then Some (JArr [], tl (skip_ws r))
           else map_option (\<lambda>(vs, u). (JArr vs, u)) (json_items n r))
        else if c = CHR 0x7B then
          (if HasPrefix (skip_ws r) [CHR 0x7D] then Some (JObj [], tl (skip_ws r))
           else map_option (\<lambda>(ms, u). (JObj ms, u)) (json_members n r))
        else json_literal (c # r))"
| "json_items 0 s = None"
| "json_items (Suc n) s = (case json_value n s of
       None \<Rightarrow> None
     | Some (v, r) \<Rightarrow> (case skip_ws r of
           [] \<Rightarrow> None
         | c # r' \<Rightarrow>
            if c = CHR '']'' then Some ([v], r')
            else if c = CHR '','' then map_option (\<lambda>(vs, u). (v # vs, u)) (json_items n r')
            else None))"
| "json_members 0 s = None"
| "json_members (Suc n) s = (case skip_ws s of
       [] \<Rightarrow> None
     | q # r \<Rightarrow>
        if q \<noteq> CHR 0x22 then None
        else (case json_chars (length r) r of
           None \<Rightarrow> None
         | Some (k, r) \<Rightarrow>
            if \<not> HasPrefix (skip_ws r) '':'' then None
            else (case json_value n (tl (skip_ws r)) of
               None \<Rightarrow> None
             | Some (v, r) \<Rightarrow> (case skip_ws r of
                   [] \<Rightarrow> None
                 | c # r' \<Rightarrow>
                    if c = CHR 0x7D then Some ([(k, v)], r')
                    else if c = CHR '','' then map_option (\<lambda>(ms, u). ((k, v) # ms, u)) (json_members n r')
                    else None))))"

text \<open>Twice the length is enough for the readers that call each other.\<close>

definition parse_json :: "string \<Rightarrow> json option" where
  "parse_json s = (case json_value (Suc (2 * length s)) s of
       Some (v, r) \<Rightarrow> if skip_ws r = [] then Some v else None
     | None \<Rightarrow> None)"

definition json_syntax_error :: go_err where
  "json_syntax_error = ErrorText ''invalid JSON''"

definition json_type_error :: go_err where
  "json_type_error = ErrorText ''json: cannot unmarshal into Go value''"

text \<open>Into a slice of strings: \<open>null\<close> leaves a zero value and is no error; an element of another
  type is an error, but the slice keeps its length and the elements that did convert.\<close>

definition json_text :: "json \<Rightarrow> string" where
  "json_text v = (case v of JStr s \<Rightarrow> s | _ \<Rightarrow> [])"

definition json_stringy :: "json \<Rightarrow> bool" where
  "json_stringy v \<longleftrightarrow> (case v of JStr s \<Rightarrow> True | JNull \<Rightarrow> True | _ \<Rightarrow> False)"

definition Unmarshal_strings :: "string \<Rightarrow> go_err option \<times> string list" where
  "Unmarshal_strings s = (case parse_json s of
       None \<Rightarrow> (Some json_syntax_error, [])
     | Some JNull \<Rightarrow> (None, [])
     | Some (JArr vs) \<Rightarrow> (if list_all json_stringy vs then None else Some json_type_error, map json_text vs)
     | Some _ \<Rightarrow> (Some json_type_error, []))"

text \<open>Into a slice of anything, and \<open>%v\<close> of its elements. An object is a map: the last value of
  a key counts, and the keys are printed in order.\<close>

definition Unmarshal_any :: "string \<Rightarrow> json list option" where
  "Unmarshal_any s = (case parse_json s of
       Some JNull \<Rightarrow> Some []
     | Some (JArr vs) \<Rightarrow> Some vs
     | _ \<Rightarrow> None)"

fun json_print :: "go_float \<Rightarrow> json \<Rightarrow> string" where
  "json_print fl JNull = ''<nil>''"
| "json_print fl (JBool b) = (if b then ''true'' else ''false'')"
| "json_print fl (JNum t) = FormatG fl (ParseFloat64 fl t)"
| "json_print fl (JStr s) = s"
| "json_print fl (JArr vs) = ''['' @ Join (map (json_print fl) vs) '' '' @ '']''"
| "json_print fl (JObj ms) =
     (let es = map (\<lambda>(k, v). (k, json_print fl v)) ms in
      ''map['' @ Join (map (\<lambda>k. k @ '':'' @ the (map_of (rev es) k)) (sort (remdups (map fst es)))) '' '' @ '']'')"

section \<open>The converter\<close>

record array_converter =
  mode :: string

definition NewArrayConverter :: "string \<Rightarrow> array_converter" where
  "NewArrayConverter m = \<lparr>mode = (if m = [] then ''json'' else m)\<rparr>"

text \<open>An element ends at a comma or at the end of the text: trimmed, and without its quotes.\<close>

definition array_element :: "string \<Rightarrow> string" where
  "array_element current = (let elem = TrimSpace current in
     if 2 \<le> length elem \<and> hd elem = CHR 0x22 \<and> last elem = CHR 0x22
     then ReplaceAll (butlast (tl elem)) [CHR 0x22, CHR 0x22] [CHR 0x22] else elem)"

definition end_element :: "string \<Rightarrow> string list \<Rightarrow> string list" where
  "end_element current elements =
    (if array_element current \<noteq> [] \<or> current \<noteq> [] then elements @ [array_element current] else elements)"

fun array_scan :: "string \<Rightarrow> string list \<Rightarrow> string \<Rightarrow> bool \<Rightarrow> bool \<Rightarrow> string list" where
  "array_scan [] elements current inQuotes escaped = end_element current elements"
| "array_scan (ch # cs) elements current inQuotes escaped =
    (if escaped then array_scan cs elements (current @ [ch]) inQuotes False
     else if ch = CHR 0x5C then array_scan cs elements current inQuotes True
     else if ch = CHR 0x22 then array_scan cs elements (current @ [ch]) (\<not> inQuotes) False
     else if ch = CHR '','' then
       if inQuotes then array_scan cs elements (current @ [ch]) inQuotes False
       else array_scan cs (end_element current elements) [] inQuotes False
     else array_scan cs elements (current @ [ch]) inQuotes False)"

definition parsePGArrayElements :: "string \<Rightarrow> string list" where
  "parsePGArrayElements inner = array_scan inner [] [] False False"

text \<open>Marshalling strings has no error. In either mode the result is JSON.\<close>

definition ToMySQL :: "array_converter \<Rightarrow> string \<Rightarrow> string" where
  "ToMySQL c pgArray = (let pgArray = TrimSpace pgArray in
     if HasPrefix pgArray [CHR 0x7B] \<and> HasSuffix pgArray [CHR 0x7D] then
       let inner = butlast (tl pgArray) in
         if inner = [] then ''[]'' else marshal_strings (parsePGArrayElements inner)
     else if HasPrefix pgArray ''['' then pgArray
     else ''['' @ go_quote pgArray @ '']'')"

definition ToPG :: "go_float \<Rightarrow> array_converter \<Rightarrow> string \<Rightarrow> string res" where
  "ToPG fl c jsonStr = (let jsonStr = TrimSpace jsonStr in
     if jsonStr = ''[]'' \<or> jsonStr = [] then Ok [CHR 0x7B, CHR 0x7D]
     else if mode c = ''delimited'' then
       (case Unmarshal_strings jsonStr of
          (Some e, _) \<Rightarrow> Err e
        | (None, elements) \<Rightarrow> Ok (Join elements '',''))
     else (case Unmarshal_strings jsonStr of
          (None, elements) \<Rightarrow> Ok ([CHR 0x7B] @ Join elements '','' @ [CHR 0x7D])
        | (Some e, elements) \<Rightarrow> (case Unmarshal_any jsonStr of
              None \<Rightarrow> Ok jsonStr
            | Some raw \<Rightarrow> Ok ([CHR 0x7B] @ Join (elements @ map (json_print fl) raw) '','' @ [CHR 0x7D]))))"

definition TranslateQueryInPlace :: "array_converter \<Rightarrow> string \<Rightarrow> string" where
  "TranslateQueryInPlace c sql = sql"

section \<open>Literals\<close>

text \<open>An array as PostgreSQL prints it with every element quoted: quotes and backslashes inside
  get a backslash.\<close>

definition pg_quoted :: "string \<Rightarrow> string" where
  "pg_quoted e = [CHR 0x22]
     @ concat (map (\<lambda>c. if c = CHR 0x22 \<or> c = CHR 0x5C then [CHR 0x5C, c] else [c]) e) @ [CHR 0x22]"

definition pg_array :: "string list \<Rightarrow> string" where
  "pg_array es = [CHR 0x7B] @ Join (map pg_quoted es) '','' @ [CHR 0x7D]"

definition undouble :: "string \<Rightarrow> string" where
  "undouble e = ReplaceAll e [CHR 0x22, CHR 0x22] [CHR 0x22]"

lemma scan_inside:
  "array_scan (concat (map (\<lambda>c. if c = CHR 0x22 \<or> c = CHR 0x5C then [CHR 0x5C, c] else [c]) e) @ rest) els cur True False
    = array_scan rest els (cur @ e) True False"
  by (induction e arbitrary: cur) auto

lemma scan_quoted:
  "array_scan (pg_quoted e @ rest) els [] False False
    = array_scan rest els ([CHR 0x22] @ e @ [CHR 0x22]) False False"
  by (simp add: pg_quoted_def scan_inside)

lemma array_element_quoted: "array_element (CHR 0x22 # e @ [CHR 0x22]) = undouble e"
proof -
  have "\<not> is_space CHR 0x22" by code_simp
  then have "TrimSpace (CHR 0x22 # e @ [CHR 0x22]) = CHR 0x22 # e @ [CHR 0x22]"
    unfolding TrimSpace_def by (intro trim_by_none) simp_all
  then show ?thesis by (simp add: array_element_def undouble_def Let_def butlast_append)
qed

lemma scan_elements:
  "es \<noteq> [] \<Longrightarrow> array_scan (Join (map pg_quoted es) '','') els [] False False = els @ map undouble es"
proof (induction es arbitrary: els)
  case (Cons e es)
  then show ?case
    using scan_quoted [of e "[]" els] scan_quoted [of e "'','' @ Join (map pg_quoted es) '',''" els]
    by (cases "es = []") (simp_all add: Join_Cons end_element_def array_element_quoted)
qed simp

text \<open>
  The parser of array literals reads what PostgreSQL prints: from quoted elements, whatever
  commas, braces, quotes and backslashes they have, it returns the elements, except that two
  quotes in a row in an element become one.
\<close>

theorem array_literal_parsed:
  "parsePGArrayElements (Join (map pg_quoted es) '','') = map undouble es"
  using scan_elements [of es "[]"] by (cases "es = []") (simp_all add: parsePGArrayElements_def end_element_def array_element_def TrimSpace_def trim_by_def)

section \<open>JSON and back\<close>

lemma hex_val_digit: "n < 16 \<Longrightarrow> hex_val (hex_digit n) = Some n"
  by (auto simp: hex_val_def hex_digit_def digit_char_def Let_def of_char_of)

lemma json_unicode_ascii:
  assumes "n < 128"
  shows "json_unicode (''00'' @ [hex_digit (n div 16), hex_digit (n mod 16)] @ r) = Some ([char_of n], r)"
proof -
  have "hex_val CHR ''0'' = Some 0" by code_simp
  moreover have "hex_val (hex_digit (n div 16)) = Some (n div 16)" "hex_val (hex_digit (n mod 16)) = Some (n mod 16)"
    using assms by (simp_all add: hex_val_digit less_mult_imp_div_less)
  ultimately have "hex4 (''00'' @ [hex_digit (n div 16), hex_digit (n mod 16)] @ r) = Some (n, r)"
    by (simp add: hex4_def)
  then show ?thesis using assms by (simp add: json_unicode_def utf8_def)
qed

lemma json_char_read:
  "json_chars (Suc n) (json_char c @ r) = map_option (\<lambda>(t, u). (c # t, u)) (json_chars n r)"
proof -
  have e: "list_all (\<lambda>(e, d). map_of simple_escapes e = Some d) simple_escapes" "map_of simple_escapes CHR ''u'' = None"
    by code_simp+
  consider (esc) d where "json_char c = [CHR 0x5C, d]" "map_of simple_escapes d = Some c"
    | (uni) "json_char c = [CHR 0x5C] @ ''u00'' @ [hex_digit (of_char c div 16), hex_digit (of_char c mod 16)]"
        "(of_char c :: nat) < 128"
    | (plain) "json_char c = [c]" "c \<noteq> CHR 0x22" "c \<noteq> CHR 0x5C" "32 \<le> (of_char c :: nat)"
  proof -
    have lt: "(of_char CHR ''<'' :: nat) < 128" "(of_char CHR ''>'' :: nat) < 128" "(of_char CHR 0x26 :: nat) < 128"
      by code_simp+
    show thesis
    proof (cases "c = CHR 0x22 \<or> c = CHR 0x5C \<or> c = CHR 0x08 \<or> c = CHR 0x0C \<or> c = CHR 0x0A \<or> c = CHR 0x0D \<or> c = CHR 0x09")
      case True
      have "list_all (\<lambda>c. \<exists>d \<in> set (map fst simple_escapes). json_char c = [CHR 0x5C, d] \<and> map_of simple_escapes d = Some c)
          [CHR 0x22, CHR 0x5C, CHR 0x08, CHR 0x0C, CHR 0x0A, CHR 0x0D, CHR 0x09]" by code_simp
      with True esc show thesis by (simp only: list.pred_inject) blast
    next
      case False
      show thesis
      proof (cases "(of_char c :: nat) < 32 \<or> c = CHR ''<'' \<or> c = CHR ''>'' \<or> c = CHR 0x26")
        case True
        with False have "json_char c = [CHR 0x5C] @ ''u00'' @ [hex_digit (of_char c div 16), hex_digit (of_char c mod 16)]"
          unfolding json_char_def Let_def by (simp only: if_True if_False simp_thms de_Morgan_disj)
        moreover have "(of_char c :: nat) < 128" using True lt by auto
        ultimately show thesis by (rule uni)
      next
        case other: False
        with False have "json_char c = [c]"
          unfolding json_char_def Let_def by (simp only: if_True if_False simp_thms de_Morgan_disj)
        with other False plain show thesis by (auto simp only: not_less de_Morgan_disj)
      qed
    qed
  qed
  then show ?thesis
  proof cases
    case esc
    then show ?thesis by (simp add: json_unescape_def)
  next
    case uni
    have "json_unescape (CHR ''u'' # ''00'' @ [hex_digit (of_char c div 16), hex_digit (of_char c mod 16)] @ r) = Some ([c], r)"
      using json_unicode_ascii [OF uni(2), of r] e(2) by (simp add: json_unescape_def)
    then show ?thesis by (simp add: uni(1))
  qed simp
qed

lemma json_chars_string:
  "length s < n \<Longrightarrow> json_chars n (concat (map json_char s) @ CHR 0x22 # r) = Some (s, r)"
proof (induction s arbitrary: n)
  case Nil
  then show ?case by (cases n) simp_all
next
  case (Cons c s)
  then obtain m where n: "n = Suc m" by (cases n) auto
  have "json_chars m (concat (map json_char s) @ CHR 0x22 # r) = Some (s, r)"
    using Cons.IH [of m] Cons.prems n by simp
  then show ?case by (simp add: n json_char_read del: json_chars.simps)
qed

lemma length_json_char: "1 \<le> length (json_char c)"
  by (simp add: json_char_def Let_def)

lemma length_json_chars: "length s \<le> length (concat (map json_char s))"
proof (induction s)
  case (Cons c s)
  then show ?case using length_json_char [of c] by simp
qed simp

lemma skip_ws_solid: "\<not> json_space c \<Longrightarrow> skip_ws (c # r) = c # r"
  by (simp add: skip_ws_def)

lemma json_value_string: "json_value (Suc n) (json_string s @ r) = Some (JStr s, r)"
proof -
  have "\<not> json_space CHR 0x22" by code_simp
  moreover have "length s < length (concat (map json_char s) @ CHR 0x22 # r)"
    using length_json_chars [of s] by simp
  ultimately show ?thesis
    by (simp add: json_string_def skip_ws_solid json_chars_string del: json_chars.simps)
qed

lemma json_items_strings:
  "ss \<noteq> [] \<Longrightarrow> length ss < n \<Longrightarrow>
     json_items n (Join (map json_string ss) '','' @ CHR '']'' # r) = Some (map JStr ss, r)"
proof (induction ss arbitrary: n)
  case (Cons s ss)
  then obtain m where n: "n = Suc (Suc m)" by (cases n; cases "n - 1") auto
  have sp: "\<not> json_space CHR '']''" "\<not> json_space CHR '',''" by code_simp+
  show ?case
  proof (cases "ss = []")
    case True
    then show ?thesis
      by (simp add: n json_value_string skip_ws_solid sp del: json_value.simps)
  next
    case False
    have "json_items (Suc m) (Join (map json_string ss) '','' @ CHR '']'' # r) = Some (map JStr ss, r)"
      using Cons False n by (intro Cons.IH) auto
    then show ?thesis using False
      by (simp add: n Join_Cons json_value_string skip_ws_solid sp del: json_value.simps json_items.simps(2))
         (simp add: json_value_string skip_ws_solid sp del: json_value.simps)
  qed
qed simp

lemma length_json_strings: "length ss \<le> length (Join (map json_string ss) '','')"
proof (induction ss)
  case (Cons s ss)
  then show ?case by (cases "ss = []") (simp_all add: Join_Cons json_string_def)
qed simp

lemma parse_strings: "ss \<noteq> [] \<Longrightarrow> parse_json (marshal_strings ss) = Some (JArr (map JStr ss))"
proof -
  assume ne: "ss \<noteq> []"
  let ?j = "Join (map json_string ss) '',''"
  have sp: "\<not> json_space CHR ''[''" "\<not> json_space CHR 0x22" by code_simp+
  have w: "marshal_strings ss = CHR ''['' # ?j @ '']''" using ne by (simp add: marshal_strings_def json_list_def)
  obtain c u where c: "?j = c # u" "c = CHR 0x22"
    using ne by (cases ss; cases "tl ss") (simp_all add: json_string_def)
  have "length ss < 2 * length (marshal_strings ss)" using length_json_strings [of ss] by (simp add: w)
  then have "json_items (2 * length (marshal_strings ss)) (?j @ '']'') = Some (map JStr ss, [])"
    using json_items_strings [OF ne, of _ "[]"] by simp
  moreover have "\<not> HasPrefix (skip_ws (?j @ '']'')) '']''" using c sp by (simp add: skip_ws_solid HasPrefix_iff)
  moreover have "json_value (Suc n) (CHR ''['' # r) = (if HasPrefix (skip_ws r) '']'' then Some (JArr [], tl (skip_ws r))
      else map_option (\<lambda>(vs, u). (JArr vs, u)) (json_items n r))" for n r
    by (simp add: skip_ws_solid sp)
  ultimately have "json_value (Suc (2 * length (marshal_strings ss))) (marshal_strings ss) = Some (JArr (map JStr ss), [])"
    unfolding w by (simp del: json_value.simps json_items.simps)
  then show ?thesis by (simp add: parse_json_def skip_ws_def)
qed

lemma Unmarshal_marshal: "Unmarshal_strings (marshal_strings ss) = (None, ss)"
proof (cases "ss = []")
  case True
  have "Unmarshal_strings ''null'' = (None, [])" by code_simp
  then show ?thesis using True by (simp add: marshal_strings_def json_list_def)
next
  case False
  then show ?thesis
    by (simp add: Unmarshal_strings_def parse_strings json_stringy_def list_all_iff json_text_def comp_def)
qed

text \<open>
  C36: an array that goes to MySQL and comes back has all its elements, in order (two quotes in a
  row are one), but none of its quoting: an element with a comma comes back as two elements,
  the empty one as nothing.
\<close>

theorem array_there_and_back:
  "ToPG fl (NewArrayConverter []) (ToMySQL (NewArrayConverter []) (pg_array es))
    = Ok ([CHR 0x7B] @ Join (map undouble es) '','' @ [CHR 0x7D])"
proof -
  have sp: "\<not> is_space CHR 0x7B" "\<not> is_space CHR 0x7D" "\<not> is_space CHR ''[''" "\<not> is_space CHR '']''" by code_simp+
  have t: "TrimSpace (pg_array es) = pg_array es"
    unfolding TrimSpace_def using sp by (intro trim_by_none) (simp_all add: pg_array_def)
  show ?thesis
  proof (cases "es = []")
    case True
    have "TrimSpace ''[]'' = ''[]''" by code_simp
    then show ?thesis using True t by (simp add: ToMySQL_def ToPG_def pg_array_def HasPrefix_iff HasSuffix_iff suffix_def)
  next
    case False
    let ?m = "marshal_strings (map undouble es)"
    have j: "Join (map pg_quoted es) '','' \<noteq> []"
      using False by (cases es; cases "tl es") (simp_all add: pg_quoted_def)
    have "ToMySQL (NewArrayConverter []) (pg_array es) = ?m"
      using array_literal_parsed [of es] j unfolding ToMySQL_def Let_def t
      by (simp add: pg_array_def HasPrefix_iff HasSuffix_iff suffix_def butlast_append)
    moreover have "TrimSpace ?m = ?m"
      unfolding TrimSpace_def using sp False by (intro trim_by_none) (simp_all add: marshal_strings_def json_list_def)
    moreover have "?m \<noteq> ''[]'' \<and> ?m \<noteq> []"
      using False by (cases es; cases "tl es") (simp_all add: marshal_strings_def json_list_def json_string_def)
    ultimately show ?thesis
      by (simp add: ToPG_def NewArrayConverter_def Unmarshal_marshal)
  qed
qed

text \<open>
  An array of numbers comes back with an empty element for each number before the numbers
  themselves: the first attempt, to read strings, fails but leaves a slice of that length
  behind, and the second appends to it.
\<close>

theorem number_arrays_padded:
  "ToPG fl (NewArrayConverter []) ''[1,2]''
    = Ok ([CHR 0x7B] @ '',,'' @ FormatG fl (ParseFloat64 fl ''1'') @ '','' @ FormatG fl (ParseFloat64 fl ''2'') @ [CHR 0x7D])"
proof -
  have "TrimSpace ''[1,2]'' = ''[1,2]''" "Unmarshal_strings ''[1,2]'' = (Some json_type_error, [[], []])"
    "Unmarshal_any ''[1,2]'' = Some [JNum ''1'', JNum ''2'']" by code_simp+
  then show ?thesis by (simp add: ToPG_def NewArrayConverter_def)
qed

text \<open>Array literals without elements but not empty become \<open>null\<close>, not an empty list.\<close>

theorem empty_elements_null:
  "ToMySQL c (pg_array []) = ''[]''
    \<and> ToMySQL c ([CHR 0x7B] @ '','' @ [CHR 0x7D]) = ''null'' \<and> ToMySQL c [CHR 0x7B, CHR 0x5C, CHR 0x7D] = ''null''"
proof -
  have "ToMySQL \<lparr>mode = []\<rparr> [CHR 0x7B, CHR 0x7D] = ''[]''"
    "ToMySQL \<lparr>mode = []\<rparr> ([CHR 0x7B] @ '','' @ [CHR 0x7D]) = ''null''"
    "ToMySQL \<lparr>mode = []\<rparr> [CHR 0x7B, CHR 0x5C, CHR 0x7D] = ''null''" by code_simp+
  then show ?thesis by (simp add: ToMySQL_def pg_array_def)
qed

end
