(* ===== verification/Runs.thy ===== *)
theory Runs
  imports Steps
begin

text \<open>
  Systems of events: a step function says what an event does to a state, or that it cannot
  happen there. The servers with their accept loops and the process as a whole are such systems,
  and what holds over all their runs is proved once for the locale \<open>event_system\<close>.
\<close>

type_synonym ('e, 's) system = "'e \<Rightarrow> 's \<Rightarrow> 's option"

primrec run_events :: "('e, 's) system \<Rightarrow> 'e list \<Rightarrow> 's \<Rightarrow> 's option" where
  "run_events step [] s = Some s"
| "run_events step (e # es) s = Option.bind (step e s) (run_events step es)"

lemma run_nil: "run_events step [] = Some"
  by (rule ext) simp

lemma run_append: "run_events step (es @ fs) s = Option.bind (run_events step es s) (run_events step fs)"
  by (induction es arbitrary: s) (auto split: Option.bind_split)

lemma run_snoc: "run_events step (es @ [e]) s = Option.bind (run_events step es s) (step e)"
  by (cases "run_events step es s") (simp_all add: run_append run_nil)

text \<open>An invariant of the steps holds at the end of every run.\<close>

lemma run_invariant:
  assumes "run_events step es s = Some t" and "I s"
    and "\<And>e u v. I u \<Longrightarrow> step e u = Some v \<Longrightarrow> I v"
  shows "I t"
  using assms(1,2)
  by (induction es arbitrary: s) (auto simp: bind_eq_Some_conv intro: assms(3))

text \<open>The same for an invariant that speaks of the events so far.\<close>

lemma run_history [consumes 1, case_names start step]:
  assumes "run_events step es s = Some t" and "I [] s"
    and "\<And>es e u v. run_events step es s = Some u \<Longrightarrow> I es u \<Longrightarrow> step e u = Some v \<Longrightarrow> I (es @ [e]) v"
  shows "I es t"
  using assms(1)
proof (induction es arbitrary: t rule: rev_induct)
  case Nil
  then show ?case using assms(2) by simp
next
  case (snoc e es)
  then show ?case by (auto simp: run_snoc bind_eq_Some_conv intro: assms(3))
qed

locale event_system = kept_relation R for R :: "'s \<Rightarrow> 's \<Rightarrow> bool" +
  fixes step :: "('e, 's) system"
  assumes step_keep: "step e s = Some t \<Longrightarrow> R s t"
begin

lemma run_keep: "run_events step es s = Some t \<Longrightarrow> R s t"
  by (induction es arbitrary: s) (auto simp: bind_eq_Some_conv R_refl intro: R_trans step_keep)

end

section \<open>Turns of a goroutine\<close>

text \<open>
  A goroutine that runs on its own: \<open>result\<close> is what it ends with, \<open>whole\<close> what the code says it
  comes to from a state. If a turn leaves what it will come to, and uses something up, then it comes
  to that in finitely many turns.
\<close>

locale turn_system =
  fixes turn :: "(unit, 's) system"
    and result :: "'s \<Rightarrow> 'r option"
    and whole :: "'s \<Rightarrow> 'r"
    and left :: "'s \<Rightarrow> nat"
  assumes turn_some: "result s = None \<Longrightarrow> \<exists>t. turn () s = Some t \<and> whole t = whole s \<and> left t < left s"
    and result_whole: "result s = Some r \<Longrightarrow> whole s = r"
begin

lemma comes_to:
  "\<exists>n t. run_events turn (replicate n ()) s = Some t \<and> result t = Some (whole s)"
proof (induction "left s" arbitrary: s rule: less_induct)
  case less
  show ?case
  proof (cases "result s")
    case None
    then obtain t where t: "turn () s = Some t" "whole t = whole s" "left t < left s"
      using turn_some by blast
    from less [OF t(3)] obtain n u where u: "run_events turn (replicate n ()) t = Some u" "result u = Some (whole t)"
      by blast
    have "run_events turn (replicate (Suc n) ()) s = Some u" using t(1) u(1) by simp
    then show ?thesis using u(2) t(2) by metis
  next
    case (Some r)
    then have "run_events turn (replicate 0 ()) s = Some s \<and> result s = Some (whole s)" using result_whole by simp
    then show ?thesis by blast
  qed
qed

end

end
