(* ===== verification/Listener.thy ===== *)
theory Listener
  imports Runs
begin

text \<open>
  The accept loop, \<open>Start\<close> of the PostgreSQL server and of the native ClickHouse server: until
  the context is cancelled, take the next connection, number it and start a goroutine for it.
  The loop is a state machine with a place in the code (before the first check of the context,
  in \<open>Accept\<close>, or at the check after an error); clients, faults of \<open>Accept\<close>, the cancellation and
  the closing of the listener come at any moment. Clients wait in the order in which they came; a
  closed listener drops those that wait, and \<open>Accept\<close> on it returns an error.
\<close>

section \<open>The loop\<close>

datatype loop_pc = Checking | Accepting | Rechecking | Ended "go_err option"

record 'c accept_loop =
  loop_at :: loop_pc
  ctx_done :: bool
  ln_closed :: bool
  backlog :: "'c list"
  connCount :: "64 word"
  spawned :: "(64 word \<times> 'c) list"

definition ctx_Err :: go_err where
  "ctx_Err = ErrorText ''context canceled''"

definition new_loop :: "'c accept_loop" where
  "new_loop = \<lparr>loop_at = Checking, ctx_done = False, ln_closed = False, backlog = [], connCount = 0, spawned = []\<rparr>"

text \<open>What the loop does next; \<open>None\<close> when it waits in \<open>Accept\<close> or has returned.\<close>

definition accept_turn :: "'c accept_loop \<Rightarrow> 'c accept_loop option" where
  "accept_turn s = (case loop_at s of
       Checking \<Rightarrow> Some (s\<lparr>loop_at := if ctx_done s then Ended (Some ctx_Err) else Accepting\<rparr>)
     | Accepting \<Rightarrow>
         if ln_closed s then Some (s\<lparr>loop_at := Rechecking\<rparr>)
         else (case backlog s of
             [] \<Rightarrow> None
           | c # cs \<Rightarrow> (let connID = connCount s + 1 in
               Some (s\<lparr>loop_at := Checking, backlog := cs, connCount := connID,
                 spawned := spawned s @ [(connID, c)]\<rparr>)))
     | Rechecking \<Rightarrow> Some (s\<lparr>loop_at := if ctx_done s then Ended None else Checking\<rparr>)
     | Ended r \<Rightarrow> None)"

text \<open>\<open>Close\<close> of the server closes the listener.\<close>

definition close_listener :: "'c accept_loop \<Rightarrow> 'c accept_loop" where
  "close_listener s = s\<lparr>ln_closed := True, backlog := []\<rparr>"

definition cancel_ctx :: "'c accept_loop \<Rightarrow> 'c accept_loop" where
  "cancel_ctx s = s\<lparr>ctx_done := True\<rparr>"

datatype 'c listen_event = Turn | Dial 'c | Fault | Cancel | Shut

fun listen_step :: "('c listen_event, 'c accept_loop) system" where
  "listen_step Turn s = accept_turn s"
| "listen_step (Dial c) s = (if ln_closed s then None else Some (s\<lparr>backlog := backlog s @ [c]\<rparr>))"
| "listen_step Fault s = (if loop_at s = Accepting then Some (s\<lparr>loop_at := Rechecking\<rparr>) else None)"
| "listen_step Cancel s = Some (cancel_ctx s)"
| "listen_step Shut s = Some (close_listener s)"

text \<open>The loop on its own, as long as it can go on, at most \<open>n\<close> turns.\<close>

primrec run_loop :: "nat \<Rightarrow> 'c accept_loop \<Rightarrow> 'c accept_loop" where
  "run_loop 0 s = s"
| "run_loop (Suc n) s = (case accept_turn s of None \<Rightarrow> s | Some t \<Rightarrow> run_loop n t)"

fun dialled :: "'c listen_event list \<Rightarrow> 'c list" where
  "dialled [] = []"
| "dialled (Dial c # es) = c # dialled es"
| "dialled (_ # es) = dialled es"

lemma dialled_append [simp]: "dialled (es @ fs) = dialled es @ dialled fs"
  by (induction es rule: dialled.induct) simp_all

lemmas loop_moves = accept_turn_def Let_def cancel_ctx_def close_listener_def

section \<open>Clients and goroutines\<close>

text \<open>A client: the bytes it sends, and how many it takes before its side is closed. The goroutine of
  its connection is in the start-up, in the loop over messages, or over.\<close>

record client =
  cl_in :: "byte list"
  cl_room :: "nat option"

datatype phase = Greeting | Serving | Over ending

section \<open>Numbers, order, and when it ends\<close>

definition numbered :: "'c accept_loop \<Rightarrow> bool" where
  "numbered s \<longleftrightarrow> map fst (spawned s) = map word_of_nat [1..<Suc (length (spawned s))]
     \<and> connCount s = word_of_nat (length (spawned s))"

lemma numbered_step: "numbered s \<Longrightarrow> listen_step e s = Some t \<Longrightarrow> numbered t"
  by (cases e) (auto simp: numbered_def loop_moves split: loop_pc.splits if_splits list.splits)

lemma ends_cancelled:
  "(\<exists>r. loop_at s = Ended r) \<longrightarrow> ctx_done s \<Longrightarrow> listen_step e s = Some t \<Longrightarrow> (\<exists>r. loop_at t = Ended r) \<longrightarrow> ctx_done t"
  by (cases e) (auto simp: loop_moves split: loop_pc.splits if_splits list.splits)

lemma queue_step:
  assumes "prefix (map snd (spawned s)) ds \<and> (\<not> ln_closed s \<longrightarrow> map snd (spawned s) @ backlog s = ds)
      \<and> (ln_closed s \<longrightarrow> backlog s = [])" (is "?q s ds")
    and "listen_step e s = Some t"
  shows "?q t (ds @ dialled [e])"
  using assms
  by (cases e) (auto simp: loop_moves prefix_def split: loop_pc.splits if_splits list.splits)

text \<open>
  C13: the accept loop, over any run of it: the connections are numbered from 1 in the order in
  which they came (the numbers are all different as long as the counter of 64 bits does not
  wrap), none is served twice or out of turn, none is lost while the listener is open; and the
  loop returns only after the context was cancelled.
\<close>

theorem accept_loop_serves_in_order:
  assumes "run_events listen_step es new_loop = Some s"
  shows "prefix (map snd (spawned s)) (dialled es)
    \<and> (\<not> ln_closed s \<longrightarrow> map snd (spawned s) @ backlog s = dialled es)
    \<and> map fst (spawned s) = map word_of_nat [1..<Suc (length (spawned s))]
    \<and> (length (spawned s) < 2 ^ 64 \<longrightarrow> distinct (map fst (spawned s)))
    \<and> (\<forall>r. loop_at s = Ended r \<longrightarrow> ctx_done s)"
proof -
  have num: "numbered s"
    by (rule run_invariant [OF assms _ numbered_step]) (simp_all add: numbered_def new_loop_def)
  have "prefix (map snd (spawned s)) (dialled es) \<and> (\<not> ln_closed s \<longrightarrow> map snd (spawned s) @ backlog s = dialled es)
      \<and> (ln_closed s \<longrightarrow> backlog s = [])"
    using assms
  proof (induction rule: run_history)
    case (step es e u v)
    then show ?case using queue_step [of u "dialled es" e v] by simp
  qed (simp add: new_loop_def)
  moreover have "(\<exists>r. loop_at s = Ended r) \<longrightarrow> ctx_done s"
    by (rule run_invariant [OF assms _ ends_cancelled]) (simp_all add: new_loop_def)
  moreover have "distinct (map word_of_nat [1..<Suc n] :: 64 word list)" if "n < 2 ^ 64" for n
    using that by (auto simp: distinct_map inj_on_def word_of_nat_eq_iff take_bit_nat_eq_self)
  ultimately show ?thesis using num by (auto simp: numbered_def)
qed

definition two_clients :: "string listen_event list" where
  "two_clients = [Dial ''a'', Turn, Turn, Dial ''b'', Turn, Fault, Cancel, Turn]"

theorem accept_loop_serves_in_order_witness:
  "case run_events listen_step two_clients new_loop of
     Some s \<Rightarrow> prefix (map snd (spawned s)) [''a'', ''b''] \<and> loop_at s = Ended None \<and> spawned s = [(1, ''a'')]
   | None \<Rightarrow> False"
proof -
  obtain s where s: "run_events listen_step two_clients new_loop = Some s" "loop_at s = Ended None" "spawned s = [(1, ''a'')]"
    by (simp add: two_clients_def new_loop_def loop_moves)
  then show ?thesis
    using accept_loop_serves_in_order [OF s(1)] by (simp add: two_clients_def)
qed

section \<open>Stopping\<close>

lemma same_place: "loop_at s = p \<Longrightarrow> s\<lparr>loop_at := p\<rparr> = s"
  by (cases s) simp

text \<open>At most one connection more after the cancellation: the loop was already in \<open>Accept\<close>.\<close>

definition late :: "'c accept_loop \<Rightarrow> nat" where
  "late s = (if loop_at s = Accepting then 1 else 0)"

lemma late_step:
  assumes "ctx_done s" and "listen_step e s = Some t"
  shows "ctx_done t \<and> length (spawned t) + late t \<le> length (spawned s) + late s"
  using assms by (cases e) (auto simp: loop_moves late_def split: loop_pc.splits if_splits list.splits)

definition winding_down :: "'c accept_loop \<Rightarrow> 'c accept_loop \<Rightarrow> bool" where
  "winding_down s t \<longleftrightarrow> (ctx_done s \<longrightarrow> ctx_done t \<and> length (spawned t) + late t \<le> length (spawned s) + late s)"

interpretation wd: event_system winding_down listen_step
  by unfold_locales (auto simp: winding_down_def dest: late_step)

lemma loop_returns:
  "(\<exists>r. loop_at (run_loop 2 (close_listener (cancel_ctx s))) = Ended r)
    \<and> spawned (run_loop 2 (close_listener (cancel_ctx s))) = spawned s"
  by (cases "loop_at s") (simp_all add: numeral_2_eq_2 loop_moves)

text \<open>
  C14: stopping the accept loop. Once the context is cancelled and the listener closed, as \<open>main\<close>
  does it, the loop returns within two of its own turns and starts nothing more. Cancelling
  alone does not stop a loop that waits for a client, and it may still start one connection. A
  loop whose listener was closed without the cancellation never returns: it runs in circles,
  an error each time.
\<close>

theorem accept_loop_stops:
  assumes "\<nexists>r. loop_at s = Ended r"
  shows "(\<exists>r. loop_at (run_loop 2 (close_listener (cancel_ctx s))) = Ended r)
    \<and> spawned (run_loop 2 (close_listener (cancel_ctx s))) = spawned s
    \<and> (loop_at s = Accepting \<and> backlog s = [] \<and> \<not> ln_closed s \<longrightarrow> accept_turn (cancel_ctx s) = None)
    \<and> (ctx_done s \<and> run_events listen_step es s = Some t \<longrightarrow> length (spawned t) \<le> Suc (length (spawned s)))
    \<and> (ln_closed s \<and> \<not> ctx_done s \<longrightarrow> run_loop (3 * n) s = s)"
proof -
  have "length (spawned t) \<le> Suc (length (spawned s))" if "ctx_done s" "run_events listen_step es s = Some t"
    using wd.run_keep [OF that(2)] that(1) by (auto simp: winding_down_def late_def split: if_splits)
  moreover have "run_loop (3 * n) s = s" if "ln_closed s" "\<not> ctx_done s"
  proof (induction n)
    case (Suc n)
    have "run_loop (3 + 3 * n) s = run_loop (3 * n) s"
      using that assms by (cases "loop_at s") (simp_all add: numeral_3_eq_3 loop_moves same_place)
    then show ?case using Suc by simp
  qed simp
  ultimately show ?thesis using loop_returns [of s] by (auto simp: loop_moves)
qed

theorem accept_loop_stops_witness:
  "loop_at (run_loop 2 (close_listener (cancel_ctx (new_loop :: string accept_loop)))) = Ended (Some ctx_Err)
    \<and> run_loop 30 ((new_loop :: string accept_loop)\<lparr>ln_closed := True\<rparr>) = new_loop\<lparr>ln_closed := True\<rparr>"
proof -
  let ?s = "(new_loop :: string accept_loop)\<lparr>ln_closed := True\<rparr>"
  have "\<nexists>r. loop_at ?s = Ended r" by (simp add: new_loop_def)
  from accept_loop_stops [OF this, of "[]" ?s 10]
  show ?thesis by (simp add: new_loop_def loop_moves numeral_2_eq_2)
qed

end
