(* ===== verification/PgListener.thy ===== *)
theory PgListener
  imports PgProtocol PgArray Listener
begin

text \<open>
  The PostgreSQL server as a whole (\<open>NewServer\<close>, \<open>Start\<close>, \<open>Close\<close> and the goroutines of
  \<open>handleConn\<close>): the accept loop of \<open>Listener\<close> and one session per connection. The sessions share
  the database, the cache of column types and the source of random numbers, and take turns in
  any order; a turn is the start-up or one message. A panic in any of them ends the process.
\<close>

section \<open>Sessions\<close>

record 'd session =
  se_phase :: phase
  se_in :: "byte list"
  se_conn :: "'d conn"

text \<open>One turn of a goroutine.\<close>

definition startup_turn :: "'d env \<Rightarrow> 'd session \<Rightarrow> 'd session" where
  "startup_turn env se = (case readStartup (se_in se) (se_conn se) of
       (Ok params, rest, s) \<Rightarrow> (case greet env params s of
           (Ok _, s) \<Rightarrow> \<lparr>se_phase = Serving, se_in = rest, se_conn = s\<rparr>
         | (Err _, s) \<Rightarrow> \<lparr>se_phase = Over Closed, se_in = rest, se_conn = s\<rparr>
         | (Panic p, s) \<Rightarrow> \<lparr>se_phase = Over (Crashed p), se_in = rest, se_conn = s\<rparr>)
     | (Err _, rest, s) \<Rightarrow> \<lparr>se_phase = Over Closed, se_in = rest, se_conn = s\<rparr>
     | (Panic p, rest, s) \<Rightarrow> \<lparr>se_phase = Over (Crashed p), se_in = rest, se_conn = s\<rparr>)"

definition message_turn :: "'d env \<Rightarrow> 'd session \<Rightarrow> 'd session" where
  "message_turn env se = (case ReadMessage (se_in se) of
       (Ok m, rest) \<Rightarrow> (case serveMessage env m (se_conn se) of
           (Ok _, s) \<Rightarrow> \<lparr>se_phase = Serving, se_in = rest, se_conn = s\<rparr>
         | (Err _, s) \<Rightarrow> \<lparr>se_phase = Over Closed, se_in = rest, se_conn = s\<rparr>
         | (Panic p, s) \<Rightarrow> \<lparr>se_phase = Over (Crashed p), se_in = rest, se_conn = s\<rparr>)
     | (Err _, rest) \<Rightarrow> se\<lparr>se_phase := Over Closed, se_in := rest\<rparr>
     | (Panic p, rest) \<Rightarrow> se\<lparr>se_phase := Over (Crashed p), se_in := rest\<rparr>)"

definition advance :: "'d env \<Rightarrow> (unit, 'd session) system" where
  "advance env u se = (case se_phase se of
       Greeting \<Rightarrow> Some (startup_turn env se)
     | Serving \<Rightarrow> Some (message_turn env se)
     | Over e \<Rightarrow> None)"

section \<open>The server\<close>

record 'd pg_server =
  sv_translator :: translator
  sv_arrayConv :: array_converter
  sv_loop :: "client accept_loop"
  sv_sessions :: "'d session list"
  sv_data :: 'd
  sv_cache :: type_cache
  sv_draws :: nat

definition NewTranslator :: "string \<Rightarrow> string \<Rightarrow> translator" where
  "NewTranslator amode fmode = \<lparr>arrayColumnMode = amode, fulltextMode = fmode\<rparr>"

definition NewCatalog :: type_cache where
  "NewCatalog = Map.empty"

definition NewServer :: "(string \<Rightarrow> go_err option) \<Rightarrow> config \<Rightarrow> 'd \<Rightarrow> 'd pg_server res" where
  "NewServer net_Listen cfg d = (case net_Listen (PostgreSQL (Listen cfg)) of
       Some e \<Rightarrow> Err (ErrorText (''listen on '' @ PostgreSQL (Listen cfg) @ '': '' @ error_text e))
     | None \<Rightarrow> (let pm = PGToMySQL (Proxy cfg) in Ok \<lparr>
         sv_translator = NewTranslator (ArrayColumnMode pm) (FulltextMode pm),
         sv_arrayConv = NewArrayConverter (ArrayColumnMode pm),
         sv_loop = new_loop, sv_sessions = [], sv_data = d, sv_cache = NewCatalog, sv_draws = 0\<rparr>))"

definition server_env :: "'d env \<Rightarrow> 'd pg_server \<Rightarrow> 'd env" where
  "server_env env s = env\<lparr>pg_translator := sv_translator s\<rparr>"

text \<open>\<open>go s.handleConn(conn, connID)\<close>: the state of a connection, with its two random numbers.\<close>

definition open_session :: "'d env \<Rightarrow> client \<Rightarrow> 'd pg_server \<Rightarrow> 'd pg_server" where
  "open_session env c s = (let rnd = randomness env (sv_draws s) in s\<lparr>
     sv_sessions := sv_sessions s @ [\<lparr>se_phase = Greeting, se_in = cl_in c,
       se_conn = new_conn \<lparr>out = [], room = cl_room c\<rparr> (sv_data s) (sv_cache s)
         (word_of_nat (rnd 0 mod 100000)) (word_of_nat (rnd 1 mod 100000))\<rparr>],
     sv_draws := Suc (sv_draws s)\<rparr>)"

text \<open>A step of the accept loop, with the goroutine it starts.\<close>

definition door_step :: "'d env \<Rightarrow> client listen_event \<Rightarrow> 'd pg_server \<Rightarrow> 'd pg_server option" where
  "door_step env e s = map_option (\<lambda>l. fold (\<lambda>(connID, c). open_session env c)
       (drop (length (spawned (sv_loop s))) (spawned l)) (s\<lparr>sv_loop := l\<rparr>)) (listen_step e (sv_loop s))"

text \<open>A session takes what is shared, and leaves it to the others.\<close>

definition load :: "'d pg_server \<Rightarrow> nat \<Rightarrow> 'd session" where
  "load s i = (let se = sv_sessions s ! i in
     se\<lparr>se_conn := (se_conn se)\<lparr>conn_db := sv_data s, conn_cache := sv_cache s, draws := sv_draws s\<rparr>\<rparr>)"

definition store_back :: "'d pg_server \<Rightarrow> nat \<Rightarrow> 'd session \<Rightarrow> 'd pg_server" where
  "store_back s i se = s\<lparr>sv_sessions := (sv_sessions s)[i := se], sv_data := conn_db (se_conn se),
     sv_cache := conn_cache (se_conn se), sv_draws := draws (se_conn se)\<rparr>"

definition crashed :: "'d session \<Rightarrow> bool" where
  "crashed se = (case se_phase se of Over (Crashed p) \<Rightarrow> True | _ \<Rightarrow> False)"

definition pg_alive :: "'d pg_server \<Rightarrow> bool" where
  "pg_alive s = (\<not> list_ex crashed (sv_sessions s))"

datatype pg_event = Door "client listen_event" | Attend nat

text \<open>Once a session has crashed, nothing happens any more.\<close>

fun pg_step :: "'d env \<Rightarrow> (pg_event, 'd pg_server) system" where
  "pg_step env (Door e) s = (if pg_alive s then door_step env e s else None)"
| "pg_step env (Attend i) s =
    (if pg_alive s \<and> i < length (sv_sessions s)
     then map_option (store_back s i) (advance (server_env env s) () (load s i)) else None)"

text \<open>\<open>Close\<close> of the server.\<close>

definition pg_Close :: "'d pg_server \<Rightarrow> 'd pg_server" where
  "pg_Close s = s\<lparr>sv_loop := close_listener (sv_loop s)\<rparr>"

section \<open>A session on its own is the connection\<close>

lemma load_store: "i < length (sv_sessions s) \<Longrightarrow> load (store_back s i se) i = se"
  by (simp add: load_def store_back_def Let_def)

lemma store_store: "store_back (store_back s i a) i b = store_back s i b"
  by (simp add: store_back_def)

lemma server_env_store [simp]: "server_env env (store_back s i se) = server_env env s"
  by (simp add: server_env_def store_back_def)

text \<open>What a session comes to, and what it ended with.\<close>

definition session_whole :: "'d env \<Rightarrow> 'd session \<Rightarrow> ending \<times> 'd conn" where
  "session_whole env se = (case se_phase se of
       Greeting \<Rightarrow> handleConn env (se_in se) (se_conn se)
     | Serving \<Rightarrow> serve env (se_in se) (se_conn se)
     | Over e \<Rightarrow> (e, se_conn se))"

definition session_result :: "'d session \<Rightarrow> (ending \<times> 'd conn) option" where
  "session_result se = (case se_phase se of Over e \<Rightarrow> Some (e, se_conn se) | _ \<Rightarrow> None)"

definition session_left :: "'d session \<Rightarrow> nat" where
  "session_left se = (case se_phase se of Greeting \<Rightarrow> length (se_in se) + 2 | Serving \<Rightarrow> length (se_in se) + 1 | Over e \<Rightarrow> 0)"

lemma startup_shorter: "readStartup inp s = (r, rest, t) \<Longrightarrow> length rest \<le> length inp"
  by (auto simp: readStartup_def ReadFull_def Let_def split: if_splits res.splits)

interpretation pg_turns: turn_system "advance env" session_result "session_whole env" session_left for env
proof
  fix se :: "'a session"
  assume "session_result se = None"
  then consider "se_phase se = Greeting" | "se_phase se = Serving"
    by (auto simp: session_result_def split: phase.splits)
  then show "\<exists>t. advance env () se = Some t \<and> session_whole env t = session_whole env se \<and> session_left t < session_left se"
  proof cases
    case 1
    then show ?thesis
      using startup_shorter [of "se_in se" "se_conn se"]
      by (auto simp: advance_def startup_turn_def session_whole_def session_left_def handleConn_def less_Suc_eq_le
        split: prod.splits res.splits)
  next
    case 2
    then show ?thesis
      using ReadMessage_shorter [of "se_in se"]
      by (auto simp: advance_def message_turn_def session_whole_def session_left_def serve.simps [of env "se_in se"]
        split: prod.splits res.splits)
  qed
qed (auto simp: session_result_def session_whole_def split: phase.splits)

definition others_fine :: "'d pg_server \<Rightarrow> nat \<Rightarrow> bool" where
  "others_fine s i \<longleftrightarrow> (\<forall>j < length (sv_sessions s). j \<noteq> i \<longrightarrow> \<not> crashed (sv_sessions s ! j))"

lemma others_fine_store [simp]: "others_fine (store_back s i se) i = others_fine s i"
  by (auto simp: others_fine_def store_back_def)

lemma attend_step:
  assumes "advance (server_env env s) () (load s i) = Some se"
    and "i < length (sv_sessions s)" and "others_fine s i"
  shows "pg_step env (Attend i) s = Some (store_back s i se)"
proof -
  have "\<not> crashed (sv_sessions s ! i)"
    using assms(1) by (auto simp: advance_def load_def crashed_def Let_def split: phase.splits)
  then have "pg_alive s"
    using assms(3) by (auto simp: pg_alive_def others_fine_def list_ex_length)
  with assms(1,2) show ?thesis by simp
qed

lemma attend_run:
  assumes "run_events (advance (server_env env s)) (replicate n ()) (load s i) = Some se"
    and "i < length (sv_sessions s)" and "others_fine s i" and "0 < n"
  shows "run_events (pg_step env) (replicate n (Attend i)) s = Some (store_back s i se)"
  using assms
proof (induction n arbitrary: s)
  case (Suc n)
  then obtain a where a: "advance (server_env env s) () (load s i) = Some a"
    and r: "run_events (advance (server_env env s)) (replicate n ()) a = Some se"
    by (auto simp: bind_eq_Some_conv)
  let ?t = "store_back s i a"
  have step: "pg_step env (Attend i) s = Some ?t" by (rule attend_step [OF a Suc.prems(2,3)])
  show ?case
  proof (cases n)
    case 0
    then show ?thesis using step r by simp
  next
    case (Suc m)
    then have "run_events (pg_step env) (replicate n (Attend i)) ?t = Some (store_back ?t i se)"
      by (intro Suc.IH) (use r Suc.prems(2,3) in \<open>simp_all add: load_store, simp_all add: store_back_def\<close>)
    then show ?thesis
      by (simp only: replicate.simps(2) run_events.simps step Option.bind.bind_lunit store_store)
  qed
qed simp

text \<open>
  The turns of a session are the connection: when the other sessions leave it alone, a
  session that has been accepted goes through its turns to the end of \<open>handleConn\<close>, with the same ending,
  the same output and the same state of the connection, and the database, the cache and the
  random numbers are left to the server as the connection left them.
\<close>

lemma attended_to_the_end:
  assumes "i < length (sv_sessions s)" and "others_fine s i" and "se_phase (sv_sessions s ! i) = Greeting"
    and "handleConn (server_env env s) (se_in (load s i)) (se_conn (load s i)) = (e, c)"
  shows "\<exists>n rest. run_events (pg_step env) (replicate n (Attend i)) s
    = Some (store_back s i \<lparr>se_phase = Over e, se_in = rest, se_conn = c\<rparr>)"
proof -
  let ?env = "server_env env s" and ?se = "load s i"
  have ph: "se_phase ?se = Greeting" using assms(3) by (simp add: load_def Let_def)
  then have w: "session_whole ?env ?se = (e, c)" using assms(4) by (simp add: session_whole_def)
  obtain n t where run: "run_events (advance ?env) (replicate n ()) ?se = Some t" and r: "session_result t = Some (e, c)"
    using pg_turns.comes_to [of ?env ?se] w by auto
  have "t = \<lparr>se_phase = Over e, se_in = se_in t, se_conn = c\<rparr>"
    using r by (cases t) (auto simp: session_result_def split: phase.splits)
  moreover have "0 < n" using run r ph by (cases n) (auto simp: session_result_def)
  ultimately show ?thesis using attend_run [OF run assms(1,2)] by metis
qed

definition one_session :: "byte list \<Rightarrow> unit pg_server" where
  "one_session inp = \<lparr>sv_translator = NewTranslator [] [], sv_arrayConv = NewArrayConverter [], sv_loop = new_loop,
     sv_sessions = [\<lparr>se_phase = Greeting, se_in = inp, se_conn = calm_conn\<rparr>],
     sv_data = (), sv_cache = Map.empty, sv_draws = 0\<rparr>"

section \<open>What every run keeps\<close>

definition sessions_wf :: "'d pg_server \<Rightarrow> bool" where
  "sessions_wf s \<longleftrightarrow> (\<forall>i < length (sv_sessions s). conn_wf (se_conn (sv_sessions s ! i)))"

definition session_kept :: "'d session \<Rightarrow> 'd session \<Rightarrow> bool" where
  "session_kept a b \<longleftrightarrow> grows (conn_w (se_conn a)) (conn_w (se_conn b))
     \<and> (conn_wf (se_conn a) \<longrightarrow> conn_wf (se_conn b)) \<and> (\<forall>e. se_phase a = Over e \<longrightarrow> b = a)"

definition server_kept :: "'d pg_server \<Rightarrow> 'd pg_server \<Rightarrow> bool" where
  "server_kept s t \<longleftrightarrow> sv_translator t = sv_translator s \<and> sv_cache s \<subseteq>\<^sub>m sv_cache t
     \<and> length (sv_sessions s) \<le> length (sv_sessions t)
     \<and> (\<forall>i < length (sv_sessions s). session_kept (sv_sessions s ! i) (sv_sessions t ! i))
     \<and> (sessions_wf s \<longrightarrow> sessions_wf t)"

lemma session_kept_refl: "session_kept a a"
  by (simp add: session_kept_def)

lemma session_kept_trans: "session_kept a b \<Longrightarrow> session_kept b c \<Longrightarrow> session_kept a c"
  by (auto simp: session_kept_def intro: grows_trans)

lemma turn_progress: "advance env u se = Some b \<Longrightarrow> progress (se_conn se) (se_conn b)"
  using serve_message_progress [of env, THEN within_run] greet_progress [of env, THEN within_run]
  by (auto simp: advance_def startup_turn_def message_turn_def prog.R_refl
    split: phase.splits prod.splits res.splits dest!: startup_progress)
     (metis prog.R_trans)+

lemma loop_kept: "server_kept s (s\<lparr>sv_loop := l\<rparr>)"
  by (simp add: server_kept_def sessions_wf_def session_kept_refl)

lemma open_kept: "server_kept s (open_session env c s)"
  by (auto simp: server_kept_def open_session_def Let_def nth_append session_kept_refl sessions_wf_def
    conn_wf_def new_conn_def less_Suc_eq)

lemma load_conn:
  "conn_w (se_conn (load s i)) = conn_w (se_conn (sv_sessions s ! i))"
  "conn_wf (se_conn (load s i)) = conn_wf (se_conn (sv_sessions s ! i))"
  "conn_cache (se_conn (load s i)) = sv_cache s" "se_phase (load s i) = se_phase (sv_sessions s ! i)"
  by (simp_all add: load_def Let_def conn_wf_def)

lemma attend_kept:
  assumes "advance env' u (load s i) = Some se" and "i < length (sv_sessions s)"
  shows "server_kept s (store_back s i se)"
proof -
  have p: "progress (se_conn (load s i)) (se_conn se)" by (rule turn_progress [OF assms(1)])
  have ph: "\<nexists>e. se_phase (sv_sessions s ! i) = Over e"
    using assms(1) load_conn(4) [of s i] by (auto simp: advance_def split: phase.splits)
  then have "session_kept (sv_sessions s ! i) se"
    using p by (auto simp: session_kept_def progress_def load_conn)
  moreover have "sv_cache s \<subseteq>\<^sub>m conn_cache (se_conn se)"
    using p by (simp add: progress_def load_conn)
  ultimately show ?thesis
    using assms(2) by (auto simp: server_kept_def store_back_def nth_list_update session_kept_refl
      sessions_wf_def session_kept_def)
qed

interpretation sk: kept_relation server_kept
proof
  fix s t u :: "'a pg_server"
  assume "server_kept s t" "server_kept t u"
  then show "server_kept s u"
    unfolding server_kept_def by (auto intro: map_le_trans session_kept_trans dest: less_le_trans)
qed (simp add: server_kept_def session_kept_refl)

lemma opens_kept: "server_kept s (fold (\<lambda>(connID, c). open_session env c) xs s)"
  by (induction xs arbitrary: s) (auto simp: sk.R_refl intro: sk.R_trans open_kept)

lemma pg_step_kept: "pg_step env e s = Some t \<Longrightarrow> server_kept s t"
  by (cases e) (auto simp: door_step_def split: if_splits intro: attend_kept sk.R_trans [OF loop_kept opens_kept])

interpretation sys: event_system server_kept "pg_step env" for env
  by unfold_locales (rule pg_step_kept)

text \<open>
  C19: over any run of the server, with any clients and their messages interleaved in any way: what
  a client was sent is never taken back, a session that is over stays so, every
  prepared statement and portal of every session points to a statement that exists, and a column type
  that the server knows stays known.
\<close>

theorem sessions_invariant:
  assumes "NewServer net cfg d = Ok s" and "run_events (pg_step env) (es @ fs) s = Some u"
  shows "\<exists>t. run_events (pg_step env) es s = Some t \<and> length (sv_sessions t) \<le> length (sv_sessions u)
    \<and> sv_cache t \<subseteq>\<^sub>m sv_cache u
    \<and> (\<forall>i < length (sv_sessions t).
          grows (conn_w (se_conn (sv_sessions t ! i))) (conn_w (se_conn (sv_sessions u ! i)))
          \<and> (\<forall>e. se_phase (sv_sessions t ! i) = Over e \<longrightarrow> sv_sessions u ! i = sv_sessions t ! i))
    \<and> (\<forall>se \<in> set (sv_sessions u). conn_wf (se_conn se))"
proof -
  obtain t where t: "run_events (pg_step env) es s = Some t" and u: "run_events (pg_step env) fs t = Some u"
    using assms(2) by (auto simp: run_append bind_eq_Some_conv)
  have "server_kept s u" by (rule sys.run_keep [OF assms(2)])
  moreover have "sessions_wf s"
    using assms(1) by (auto simp: NewServer_def sessions_wf_def Let_def split: option.splits)
  moreover have "server_kept t u" by (rule sys.run_keep [OF u])
  ultimately show ?thesis using t by (auto simp: server_kept_def session_kept_def sessions_wf_def all_set_conv_all_nth)
qed

definition any_port :: "string \<Rightarrow> go_err option" where
  "any_port addr = None"

definition calm_server :: "unit pg_server" where
  "calm_server = \<lparr>sv_translator = NewTranslator ''json'' ''match_against'', sv_arrayConv = NewArrayConverter ''json'',
     sv_loop = new_loop, sv_sessions = [], sv_data = (), sv_cache = Map.empty, sv_draws = 0\<rparr>"

lemma calm_server_new: "NewServer any_port DefaultConfig () = Ok calm_server"
  by (simp add: NewServer_def any_port_def DefaultConfig_def calm_server_def Let_def NewCatalog_def)

definition short_client :: client where
  "short_client = \<lparr>cl_in = [1], cl_room = None\<rparr>"

theorem sessions_invariant_witness:
  "case run_events (pg_step calm_env) ([Door (Dial short_client), Door Turn, Door Turn] @ [Attend 0]) calm_server of
     Some u \<Rightarrow> map se_phase (sv_sessions u) = [Over Closed] \<and> (\<forall>se \<in> set (sv_sessions u). conn_wf (se_conn se))
   | None \<Rightarrow> False"
proof -
  obtain u where u: "run_events (pg_step calm_env) ([Door (Dial short_client), Door Turn, Door Turn] @ [Attend 0]) calm_server = Some u"
    "map se_phase (sv_sessions u) = [Over Closed]"
    by (simp add: calm_server_def door_step_def new_loop_def loop_moves open_session_def pg_alive_def short_client_def
      calm_env_def crashed_def advance_def load_def startup_turn_def readStartup_def ReadFull_def store_back_def)
  then show ?thesis using sessions_invariant [OF calm_server_new u(1)] by auto
qed

text \<open>
  A column type, once asked for, is never asked for again: after any run of the server, with whatever statements
  the clients run on MySQL in between, an \<open>ALTER TABLE\<close> of that column among them, every session
  gets the type that was seen first, in upper or lower case, and MySQL is not consulted.
\<close>

theorem column_types_frozen:
  assumes "sv_cache s (ToLower tab, ToLower col) = Some oid"
    and "run_events (pg_step env) es s = Some t"
  shows "GetColumnPGOID (mysql_pool env) tab col (sv_cache t, sv_data t) = (oid, sv_cache t, sv_data t)"
proof -
  have "sv_cache s \<subseteq>\<^sub>m sv_cache t" using sys.run_keep [OF assms(2)] by (simp add: server_kept_def)
  then have "sv_cache t (ToLower tab, ToLower col) = Some oid"
    using assms(1) by (metis map_le_def domI)
  then show ?thesis by (simp add: GetColumnPGOID_def)
qed

theorem column_types_frozen_witness:
  "GetColumnPGOID calm_mysql ''T'' ''a'' ([(''t'', ''a'') \<mapsto> 23], ()) = (23, [(''t'', ''a'') \<mapsto> 23], ())"
proof -
  let ?s = "calm_server\<lparr>sv_cache := [(''t'', ''a'') \<mapsto> 23]\<rparr>"
  have "ToLower ''T'' = ''t''" "ToLower ''a'' = ''a''" by code_simp+
  then have "sv_cache ?s (ToLower ''T'', ToLower ''a'') = Some 23" by simp
  from column_types_frozen [OF this, of calm_env "[]" ?s] show ?thesis
    by (simp add: calm_server_def calm_env_def)
qed

text \<open>
  C23: one client can stop the server for all. A message of the parsers whose body has no NUL byte
  panics in the goroutine of its session, nothing recovers, and from then on no client is
  accepted and no session takes another turn. The client need not have logged in: there is no
  password.
\<close>

theorem one_message_stops_all:
  assumes "i < length (sv_sessions s)" and "pg_alive s" and "se_phase (sv_sessions s ! i) = Serving"
    and "se_in (sv_sessions s ! i) = frame ty body @ rest" and "frame_ok (ty, body)" and "0 \<notin> set body"
    and "ty \<in> {MsgClientQuery, MsgClientParse, MsgClientBind, MsgClientExecute}"
  shows "\<exists>t. pg_step env (Attend i) s = Some t \<and> (\<forall>e. pg_step env e t = None)"
proof -
  let ?se = "load s i" and ?env = "server_env env s"
  have rd: "ReadMessage (se_in ?se) = (Ok (ty, body), rest)"
    using pg_frame.dec_enc [of "(ty, body)" rest] assms(4,5) by (simp add: load_def Let_def)
  have "serveMessage ?env (ty, body) (se_conn ?se) = (Panic SliceBounds, se_conn ?se)"
    using assms(7) unterminated_body_panics [OF assms(6)]
    by (auto simp: serveMessage_def handleMessage_def handleSimpleQuery_def handleParse_def handleBind_def
      handleExecute_def catchM_def bindM_def liftR_def MsgClientQuery_def MsgClientParse_def MsgClientBind_def
      MsgClientExecute_def)
  with rd have "message_turn ?env ?se = \<lparr>se_phase = Over (Crashed SliceBounds), se_in = rest, se_conn = se_conn ?se\<rparr>"
    by (simp add: message_turn_def)
  then have "pg_step env (Attend i) s
      = Some (store_back s i \<lparr>se_phase = Over (Crashed SliceBounds), se_in = rest, se_conn = se_conn ?se\<rparr>)"
      (is "_ = Some ?t") using assms(1-3) by (simp add: advance_def load_conn)
  moreover have "\<not> pg_alive ?t"
    using assms(1) by (auto simp: pg_alive_def store_back_def list_ex_length crashed_def intro!: exI [of _ i])
  then have "pg_step env e ?t = None" for e by (cases e) simp_all
  ultimately show ?thesis by blast
qed

theorem one_message_stops_all_witness:
  "\<exists>t. pg_step calm_env (Attend 0) ((one_session (frame MsgClientQuery [65]))\<lparr>sv_sessions := [\<lparr>se_phase = Serving,
      se_in = frame MsgClientQuery [65] @ [], se_conn = calm_conn\<rparr>]\<rparr>) = Some t \<and> (\<forall>e. pg_step calm_env e t = None)"
  by (rule one_message_stops_all [where ty = MsgClientQuery and body = "[65]" and rest = "[]"])
     (simp_all add: pg_alive_def crashed_def frame_ok_def)

end
