(* ===== verification/PgPooled.thy ===== *)
theory PgPooled
  imports PgListener
begin

text \<open>
  Transactions over the connection pool. The proxy sends \<open>BEGIN\<close>, \<open>COMMIT\<close> and \<open>ROLLBACK\<close> to
  \<open>pool.Exec\<close>, and \<open>database/sql\<close> runs each call on any free connection to MySQL. Here MySQL is
  instantiated with such a pool: every connection has a transaction of its own or none, as MySQL
  documents (a \<open>BEGIN\<close> commits the transaction that is open on its connection, a statement outside a
  transaction is durable at once), and \<open>picks\<close> says which connection the n-th call gets.
\<close>

section \<open>A pool of MySQL connections\<close>

record sql_pool =
  durable :: "string list"
  pending :: "nat \<Rightarrow> string list option"
  picks :: "nat \<Rightarrow> nat"
  calls :: nat

definition held :: "sql_pool \<Rightarrow> nat \<Rightarrow> string list" where
  "held s c = (case pending s c of None \<Rightarrow> [] | Some qs \<Rightarrow> qs)"

definition run_on :: "string \<Rightarrow> nat \<Rightarrow> sql_pool \<Rightarrow> sql_pool" where
  "run_on q c s =
    (if q = ''BEGIN'' then s\<lparr>durable := durable s @ held s c, pending := (pending s)(c \<mapsto> [])\<rparr>
     else if q = ''COMMIT'' then s\<lparr>durable := durable s @ held s c, pending := (pending s)(c := None)\<rparr>
     else if q = ''ROLLBACK'' then s\<lparr>pending := (pending s)(c := None)\<rparr>
     else if pending s c = None then s\<lparr>durable := durable s @ [q]\<rparr>
     else s\<lparr>pending := (pending s)(c \<mapsto> held s c @ [q])\<rparr>)"

definition pooled_exec :: "string \<Rightarrow> sql_pool \<Rightarrow> sql_pool" where
  "pooled_exec q s = run_on q (picks s (calls s)) (s\<lparr>calls := Suc (calls s)\<rparr>)"

definition pooled_mysql :: "sql_pool mysql" where
  "pooled_mysql = \<lparr>
     pool_Query = (\<lambda>q args s. (Ok \<lparr>col_types = Ok [], col_names = Ok [], scans = [], iter_err = None\<rparr>,
       s\<lparr>calls := Suc (calls s)\<rparr>)),
     pool_Exec = (\<lambda>q args s. (Ok 1, pooled_exec q s))\<rparr>"

section \<open>What a client sends\<close>

definition query_frame :: "string \<Rightarrow> byte list" where
  "query_frame q = frame MsgClientQuery (cstring_bytes q)"

text \<open>An \<open>INSERT\<close> that the proxy passes on as it is.\<close>

definition plain_insert :: "string \<Rightarrow> bool" where
  "plain_insert q \<longleftrightarrow> has_start 7 (normalizeQuery q) ''insert '' \<and> HasPrefix (ToUpper (TrimSpace q)) ''INSERT''
     \<and> \<not> is_advisory_lock (normalizeQuery q) \<and> \<not> IsCatalogQuery q \<and> \<not> EqualFold (take 14 q) ''select version''
     \<and> plain_sql q \<and> no_nul q \<and> length q < 2 ^ 31"

definition tag_bytes :: "string \<Rightarrow> byte list" where
  "tag_bytes tag = frame MsgCommandComplete (cstring_bytes tag)"

lemma complete_open: "listening s \<Longrightarrow> complete tag s = (Ok (), wrote s (tag_bytes tag))"
  by (simp add: complete_def SendCommandComplete_def send_message tag_bytes_def cstring_bytes_def)

lemma exec_pooled:
  "mysql_pool env = pooled_mysql \<Longrightarrow> execM env q args s = (Ok 1, s\<lparr>conn_db := pooled_exec q (conn_db s)\<rparr>)"
  by (simp add: execM_def on_db_def pooled_mysql_def)

lemma begin_pooled:
  assumes "mysql_pool env = pooled_mysql" and "listening s" and "\<not> inTransaction s"
  shows "executeQuery env ''BEGIN'' s = (Ok (), wrote
    (s\<lparr>inTransaction := True, transactionFailed := False, conn_db := pooled_exec ''BEGIN'' (conn_db s)\<rparr>)
    (tag_bytes ''BEGIN''))"
  using assms
  by (subst execute_class) (simp add: beginCommand_def getM_def bindM_def modifyM_def catchM_def exec_pooled
    complete_open listening_def)

lemma rollback_pooled:
  assumes "mysql_pool env = pooled_mysql" and "listening s" and "inTransaction s"
  shows "executeQuery env ''ROLLBACK'' s = (Ok (), wrote
    (s\<lparr>conn_db := pooled_exec ''ROLLBACK'' (conn_db s), inTransaction := False, transactionFailed := False\<rparr>)
    (tag_bytes ''ROLLBACK''))"
proof -
  have c: "tx_class ''ROLLBACK'' = TxRollback" by code_simp
  show ?thesis
    using assms
    by (subst execute_class) (simp add: c rollbackCommand_def getM_def bindM_def modifyM_def catchM_def exec_pooled
      complete_open listening_def ret_def)
qed

lemma insert_pooled:
  assumes "mysql_pool env = pooled_mysql" and "listening s" and "plain_insert q"
  shows "executeQuery env q s = (Ok (), wrote
    (s\<lparr>draws := Suc (draws s), conn_db := pooled_exec q (conn_db s)\<rparr>) (tag_bytes ''INSERT 1''))"
proof -
  obtain xs where n: "normalizeQuery q = ''insert '' @ xs"
    using assms(3) by (auto simp: plain_insert_def has_start_def intro: that [of "drop 7 (normalizeQuery q)"])
      (metis append_take_drop_id append_Cons append_Nil)
  have w: "isWriteQuery q" and t: "getCommandTag q 1 = ''INSERT 1''"
    using assms(3) by (simp_all add: plain_insert_def isWriteQuery_def getCommandTag_def Let_def, code_simp)
  have "executeQuery env q = forwardQuery env q"
    using assms(3) n by (simp add: executeQuery_def n plain_insert_def has_start_def HasPrefix_def)
  moreover have "forwardQuery env q = bindM (translateM env q) (\<lambda>translated. executeMySQLQuery env translated None)"
    using assms(3) n by (simp add: forwardQuery_def plain_insert_def)
  ultimately show ?thesis
    using assms w t
    by (simp add: bindM_def translateM_def plain_Translate plain_insert_def executeMySQLQuery_def catchM_def
      exec_pooled complete_open listening_def)
qed

section \<open>Turns of the server\<close>

lemma no_skip: "\<not> skips_ready ''BEGIN''" "\<not> skips_ready ''ROLLBACK''" "no_nul ''BEGIN''" "no_nul ''ROLLBACK''"
  by code_simp+

lemma insert_no_skip: "plain_insert q \<Longrightarrow> \<not> skips_ready q"
  by (cases "normalizeQuery q") (auto simp: plain_insert_def skips_ready_def has_start_def)

lemma trim_no_nul: "no_nul q \<Longrightarrow> TrimRight q [CHR 0x00] = q"
  by (cases q rule: rev_cases) (auto simp: TrimRight_def no_nul_def)

definition asks :: "'d pg_server \<Rightarrow> nat \<Rightarrow> string \<Rightarrow> byte list \<Rightarrow> bool" where
  "asks s i q rest \<longleftrightarrow> i < length (sv_sessions s) \<and> se_phase (sv_sessions s ! i) = Serving
     \<and> se_in (sv_sessions s ! i) = query_frame q @ rest \<and> listening (se_conn (sv_sessions s ! i))"

lemma alive_store: "pg_alive s \<Longrightarrow> \<not> crashed se \<Longrightarrow> pg_alive (store_back s i se)"
  by (auto simp: pg_alive_def store_back_def list_ex_iff dest!: set_update_subset_insert [THEN subsetD])

lemma query_turn:
  assumes "pg_alive s" and "asks s i q rest" and "no_nul q" and "length q < 2 ^ 31" and "\<not> skips_ready q"
    and "executeQuery (server_env env s) q (se_conn (load s i)) = (Ok (), c)"
  shows "pg_step env (Attend i) s
    = Some (store_back s i \<lparr>se_phase = Serving, se_in = rest, se_conn = wrote c (ready_bytes c)\<rparr>)"
proof -
  let ?se = "load s i" and ?env = "server_env env s"
  have f: "frame_ok (MsgClientQuery, cstring_bytes q)"
    using assms(4) by (simp add: frame_ok_def cstring_bytes_def to_bytes_def)
  have se: "se_phase ?se = Serving" "se_in ?se = query_frame q @ rest" "listening (se_conn ?se)"
    using assms(2) by (simp_all add: asks_def load_def Let_def listening_def)
  have rd: "ReadMessage (se_in ?se) = (Ok (MsgClientQuery, cstring_bytes q), rest)"
    using pg_frame.dec_enc [OF f, of rest] se(2) by (simp add: query_frame_def)
  have "ParseQuery (cstring_bytes q) = Ok \<lparr>q_String = q\<rparr>"
    using assms(3) by (simp add: ParseQuery_iff)
  from simple_query_round [OF this se(3), of ?env]
  have "serveMessage ?env (MsgClientQuery, cstring_bytes q) (se_conn ?se) = (Ok (), wrote c (ready_bytes c))"
    by (simp add: trim_no_nul assms(3,5,6))
  with rd have "message_turn ?env ?se = \<lparr>se_phase = Serving, se_in = rest, se_conn = wrote c (ready_bytes c)\<rparr>"
    by (simp add: message_turn_def)
  then show ?thesis using assms(1,2) se(1) by (simp add: advance_def asks_def pg_step.simps)
qed

text \<open>A session after a query that was answered.\<close>

definition answered :: "sql_pool pg_server \<Rightarrow> nat \<Rightarrow> string \<Rightarrow> byte list \<Rightarrow> string \<Rightarrow> tx_flags \<Rightarrow> sql_pool session \<Rightarrow> bool" where
  "answered s i q rest tag fl se \<longleftrightarrow> se_phase se = Serving \<and> se_in se = rest \<and> listening (se_conn se)
     \<and> flags (se_conn se) = fl \<and> conn_db (se_conn se) = pooled_exec q (sv_data s)
     \<and> out (conn_w (se_conn se)) = out (conn_w (se_conn (sv_sessions s ! i)))
         @ tag_bytes tag @ frame MsgReadyForQuery [getTransactionStatus (se_conn se)]"

lemma attended [simp]:
  "sv_sessions (store_back s i se) = (sv_sessions s)[i := se]" "sv_data (store_back s i se) = conn_db (se_conn se)"
  by (simp_all add: store_back_def)

lemma load_simps [simp]:
  "conn_db (se_conn (load s i)) = sv_data s" "flags (se_conn (load s i)) = flags (se_conn (sv_sessions s ! i))"
  "listening (se_conn (load s i)) = listening (se_conn (sv_sessions s ! i))"
  "out (conn_w (se_conn (load s i))) = out (conn_w (se_conn (sv_sessions s ! i)))"
  by (simp_all add: load_def Let_def listening_def flags_def)

lemma pool_of_env [simp]: "mysql_pool (server_env env s) = mysql_pool env"
  by (simp add: server_env_def)

declare pg_step.simps [simp del]

lemma turn_answered:
  assumes "pg_alive s" and "asks s i q rest" and "no_nul q" and "length q < 2 ^ 31" and "\<not> skips_ready q"
    and "executeQuery (server_env env s) q (se_conn (load s i)) = (Ok (), wrote c (tag_bytes tag))"
    and "conn_w c = conn_w (se_conn (load s i))" and "conn_db c = pooled_exec q (sv_data s)" and "flags c = fl"
  shows "\<exists>se. pg_step env (Attend i) s = Some (store_back s i se) \<and> answered s i q rest tag fl se"
proof (intro exI conjI)
  show "pg_step env (Attend i) s = Some (store_back s i \<lparr>se_phase = Serving, se_in = rest,
      se_conn = wrote (wrote c (tag_bytes tag)) (ready_bytes (wrote c (tag_bytes tag)))\<rparr>)"
    by (rule query_turn [OF assms(1-6)])
  have "listening c" using assms(2,7) by (simp add: asks_def listening_def load_def Let_def)
  then show "answered s i q rest tag fl \<lparr>se_phase = Serving, se_in = rest,
      se_conn = wrote (wrote c (tag_bytes tag)) (ready_bytes (wrote c (tag_bytes tag)))\<rparr>"
    using assms(7-9) load_simps(4) [of s i] by (simp add: answered_def ready_bytes_def) (simp add: wrote_def)
qed

lemma turns:
  assumes "mysql_pool env = pooled_mysql" and "pg_alive s" and "asks s i q rest"
  shows "q = ''BEGIN'' \<Longrightarrow> flags (se_conn (sv_sessions s ! i)) = (False, f) \<Longrightarrow>
      \<exists>se. pg_step env (Attend i) s = Some (store_back s i se) \<and> answered s i q rest ''BEGIN'' (True, False) se"
    and "q = ''ROLLBACK'' \<Longrightarrow> flags (se_conn (sv_sessions s ! i)) = (True, f) \<Longrightarrow>
      \<exists>se. pg_step env (Attend i) s = Some (store_back s i se) \<and> answered s i q rest ''ROLLBACK'' (False, False) se"
    and "plain_insert q \<Longrightarrow> flags (se_conn (sv_sessions s ! i)) = fl \<Longrightarrow>
      \<exists>se. pg_step env (Attend i) s = Some (store_back s i se) \<and> answered s i q rest ''INSERT 1'' fl se"
proof -
  let ?c = "se_conn (load s i)" and ?env = "server_env env s"
  have l: "listening ?c" and p: "mysql_pool ?env = pooled_mysql" using assms(1,3) by (simp_all add: asks_def)
  have f: "flags ?c = flags (se_conn (sv_sessions s ! i))" by simp
  show "\<exists>se. pg_step env (Attend i) s = Some (store_back s i se) \<and> answered s i q rest ''BEGIN'' (True, False) se"
    if "q = ''BEGIN''" "flags (se_conn (sv_sessions s ! i)) = (False, f)"
    unfolding that(1) using that f no_skip
    by (intro turn_answered [OF assms(2) assms(3) [unfolded that(1)] _ _ _ begin_pooled [OF p l]]) (auto simp: flags_def)
  show "\<exists>se. pg_step env (Attend i) s = Some (store_back s i se) \<and> answered s i q rest ''ROLLBACK'' (False, False) se"
    if "q = ''ROLLBACK''" "flags (se_conn (sv_sessions s ! i)) = (True, f)"
    unfolding that(1) using that f no_skip
    by (intro turn_answered [OF assms(2) assms(3) [unfolded that(1)] _ _ _ rollback_pooled [OF p l]]) (auto simp: flags_def)
  show "\<exists>se. pg_step env (Attend i) s = Some (store_back s i se) \<and> answered s i q rest ''INSERT 1'' fl se"
    if "plain_insert q" "flags (se_conn (sv_sessions s ! i)) = fl"
    using that f insert_no_skip [OF that(1)]
    by (intro turn_answered [OF assms(2,3) _ _ _ insert_pooled [OF p l that(1)]])
       (auto simp: flags_def plain_insert_def)
qed

lemma next_turn:
  assumes "pg_alive s" and "answered s i q rest tag fl se" and "i < length (sv_sessions s)"
  shows "pg_alive (store_back s i se)" "rest = query_frame q' @ rest' \<Longrightarrow> asks (store_back s i se) i q' rest'"
    "asks s j q' r \<Longrightarrow> j \<noteq> i \<Longrightarrow> asks (store_back s i se) j q' r"
  using assms by (auto simp: answered_def asks_def crashed_def intro: alive_store)

section \<open>Transactions that are none\<close>

text \<open>The pool after three statements.\<close>

definition three :: "string \<Rightarrow> string \<Rightarrow> string \<Rightarrow> sql_pool \<Rightarrow> sql_pool" where
  "three p q r d = pooled_exec r (pooled_exec q (pooled_exec p d))"

lemma insert_not_command: "plain_insert q \<Longrightarrow> q \<noteq> ''BEGIN'' \<and> q \<noteq> ''COMMIT'' \<and> q \<noteq> ''ROLLBACK''"
proof -
  have "\<not> HasPrefix (ToUpper (TrimSpace ''BEGIN'')) ''INSERT''" "\<not> HasPrefix (ToUpper (TrimSpace ''COMMIT'')) ''INSERT''"
    "\<not> HasPrefix (ToUpper (TrimSpace ''ROLLBACK'')) ''INSERT''"
    by code_simp+
  then show "plain_insert q \<Longrightarrow> ?thesis" by (auto simp: plain_insert_def)
qed

lemma three_effect:
  assumes "plain_insert q" and "pending d = (\<lambda>_. None)"
  defines "a \<equiv> picks d (calls d)" and "b \<equiv> picks d (Suc (calls d))" and "c \<equiv> picks d (Suc (Suc (calls d)))"
  shows "durable (three ''BEGIN'' q ''ROLLBACK'' d) = durable d @ (if a = b then [] else [q])"
    and "pending (three ''BEGIN'' q ''ROLLBACK'' d) a = (if a = c then None else Some (if a = b then [q] else []))"
  using insert_not_command [OF assms(1)] assms(2)
  by (auto simp: three_def pooled_exec_def run_on_def held_def a_def b_def c_def)

text \<open>
  C11: a client's own transaction. It sends \<open>BEGIN\<close>, an \<open>INSERT\<close>, and \<open>ROLLBACK\<close>, with nobody else on
  the server, and is told that all three were done. But the \<open>INSERT\<close> is undone only if the pool
  happened to run it on the connection of the \<open>BEGIN\<close>; otherwise it is durable. And if the \<open>ROLLBACK\<close>
  ran elsewhere, the transaction stays open on its connection, with the \<open>INSERT\<close> if that was there.
\<close>

theorem rollback_needs_luck:
  assumes "mysql_pool env = pooled_mysql" and "pg_alive s" and "asks s i ''BEGIN'' (query_frame q @ query_frame ''ROLLBACK'')"
    and "flags (se_conn (sv_sessions s ! i)) = (False, f)" and "plain_insert q" and "pending (sv_data s) = (\<lambda>_. None)"
    and "picks (sv_data s) (calls (sv_data s)) = a" and "picks (sv_data s) (Suc (calls (sv_data s))) = b"
    and "picks (sv_data s) (Suc (Suc (calls (sv_data s)))) = c"
  shows "\<exists>t. run_events (pg_step env) [Attend i, Attend i, Attend i] s = Some t
    \<and> durable (sv_data t) = durable (sv_data s) @ (if a = b then [] else [q])
    \<and> pending (sv_data t) a = (if a = c then None else Some (if a = b then [q] else []))
    \<and> out (conn_w (se_conn (sv_sessions t ! i))) = out (conn_w (se_conn (sv_sessions s ! i)))
        @ tag_bytes ''BEGIN'' @ frame MsgReadyForQuery [StatusInTrans]
        @ tag_bytes ''INSERT 1'' @ frame MsgReadyForQuery [StatusInTrans]
        @ tag_bytes ''ROLLBACK'' @ frame MsgReadyForQuery [StatusIdle]"
proof -
  have len: "i < length (sv_sessions s)" using assms(3) by (simp add: asks_def)
  obtain x where x: "pg_step env (Attend i) s = Some (store_back s i x)"
    "answered s i ''BEGIN'' (query_frame q @ query_frame ''ROLLBACK'') ''BEGIN'' (True, False) x"
    using turns(1) [OF assms(1-3) refl assms(4)] by blast
  let ?s = "store_back s i x"
  have sx: "sv_sessions ?s ! i = x" "i < length (sv_sessions ?s)" using len by simp_all
  have "flags (se_conn (sv_sessions ?s ! i)) = (True, False)" using x(2) len by (simp add: answered_def)
  from turns(3) [OF assms(1) next_turn(1,2) [OF assms(2) x(2) len] assms(5) this] obtain y where
    y: "pg_step env (Attend i) ?s = Some (store_back ?s i y)"
    "answered ?s i q (query_frame ''ROLLBACK'' @ []) ''INSERT 1'' (True, False) y"
    by auto
  let ?t = "store_back ?s i y"
  have sy: "sv_sessions ?t ! i = y" using len by simp
  have fy: "flags (se_conn (sv_sessions ?t ! i)) = (True, False)" using y(2) len by (simp add: answered_def)
  have "pg_alive ?s" by (rule next_turn(1) [OF assms(2) x(2) len])
  from turns(2) [OF assms(1) next_turn(1,2) [OF this y(2) sx(2)] refl fy] obtain z where
    z: "pg_step env (Attend i) ?t = Some (store_back ?t i z)"
    "answered ?t i ''ROLLBACK'' [] ''ROLLBACK'' (False, False) z"
    by auto
  have d: "conn_db (se_conn z) = three ''BEGIN'' q ''ROLLBACK'' (sv_data s)"
    using x(2) y(2) z(2) by (simp add: answered_def three_def)
  have st: "getTransactionStatus (se_conn x) = StatusInTrans" "getTransactionStatus (se_conn y) = StatusInTrans"
    "getTransactionStatus (se_conn z) = StatusIdle"
    using x(2) y(2) z(2) by (simp_all add: answered_def getTransactionStatus_def flags_def)
  have "out (conn_w (se_conn z)) = out (conn_w (se_conn (sv_sessions s ! i)))
        @ tag_bytes ''BEGIN'' @ frame MsgReadyForQuery [StatusInTrans]
        @ tag_bytes ''INSERT 1'' @ frame MsgReadyForQuery [StatusInTrans]
        @ tag_bytes ''ROLLBACK'' @ frame MsgReadyForQuery [StatusIdle]"
    using x(2) y(2) z(2) unfolding answered_def st sx sy by simp
  then show ?thesis
    using three_effect [OF assms(5,6)] assms(7-9) len x(1) y(1) z(1) by (simp add: d)
qed

definition pool_env :: "sql_pool env" where
  "pool_env = \<lparr>mysql_pool = pooled_mysql, pg_translator = NewTranslator ''json'' ''match_against'', randomness = (\<lambda>_ _. 0),
     floats = plain_float, index_order = (\<lambda>xs. xs), field_order = (\<lambda>xs. xs), status_order = (\<lambda>xs. xs)\<rparr>"

definition new_pool :: "(nat \<Rightarrow> nat) \<Rightarrow> sql_pool" where
  "new_pool ps = \<lparr>durable = [], pending = (\<lambda>_. None), picks = ps, calls = 0\<rparr>"

text \<open>Clients that are past the start-up, with what they still send.\<close>

definition clients :: "sql_pool \<Rightarrow> byte list list \<Rightarrow> sql_pool pg_server" where
  "clients d inputs = \<lparr>sv_translator = NewTranslator ''json'' ''match_against'', sv_arrayConv = NewArrayConverter ''json'',
     sv_loop = new_loop, sv_sessions = map (\<lambda>inp. \<lparr>se_phase = Serving, se_in = inp,
       se_conn = new_conn (open_sink []) d Map.empty 1 2\<rparr>) inputs,
     sv_data = d, sv_cache = Map.empty, sv_draws = 0\<rparr>"

lemma clients_ask:
  "i < length inputs \<Longrightarrow> inputs ! i = query_frame q @ rest \<Longrightarrow> asks (clients d inputs) i q rest"
  "pg_alive (clients d inputs)" "sv_data (clients d inputs) = d"
  "i < length inputs \<Longrightarrow> flags (se_conn (sv_sessions (clients d inputs) ! i)) = (False, False)"
  by (simp_all add: asks_def clients_def listening_def new_conn_def open_sink_def pg_alive_def crashed_def
    list_ex_iff flags_def)

lemma insert_t: "plain_insert ''INSERT INTO t (a) VALUES (1)''"
  unfolding plain_insert_def
proof (intro conjI)
  show "length ''INSERT INTO t (a) VALUES (1)'' < 2 ^ 31" by simp
qed code_simp+

theorem rollback_needs_luck_witness:
  "\<exists>t. run_events (pg_step pool_env) [Attend 0, Attend 0, Attend 0] (clients (new_pool (\<lambda>n. n))
      [query_frame ''BEGIN'' @ query_frame ''INSERT INTO t (a) VALUES (1)'' @ query_frame ''ROLLBACK'']) = Some t
    \<and> durable (sv_data t) = [''INSERT INTO t (a) VALUES (1)'']"
proof -
  let ?q = "''INSERT INTO t (a) VALUES (1)''"
  let ?s = "clients (new_pool (\<lambda>n. n)) [query_frame ''BEGIN'' @ query_frame ?q @ query_frame ''ROLLBACK'']"
  have a: "asks ?s 0 ''BEGIN'' (query_frame ?q @ query_frame ''ROLLBACK'')" and f: "flags (se_conn (sv_sessions ?s ! 0)) = (False, False)"
    by (simp_all add: clients_ask)
  have "mysql_pool pool_env = pooled_mysql" "pending (sv_data ?s) = (\<lambda>_. None)"
    by (simp_all add: pool_env_def clients_ask new_pool_def)
  from rollback_needs_luck [OF this(1) clients_ask(2) a f insert_t this(2) refl refl refl]
  obtain t where t: "run_events (pg_step pool_env) [Attend 0, Attend 0, Attend 0] ?s = Some t"
    "durable (sv_data t) = durable (sv_data ?s) @ (if picks (sv_data ?s) (calls (sv_data ?s))
       = picks (sv_data ?s) (Suc (calls (sv_data ?s))) then [] else [?q])"
    by blast
  have "durable (sv_data t) = [?q]" unfolding t(2) by (simp add: clients_ask(3) new_pool_def)
  with t(1) show ?thesis by blast
qed

text \<open>
  C12: another client's write. Client \<open>a\<close> sends \<open>BEGIN\<close>, client \<open>b\<close>, who has no transaction, an \<open>INSERT\<close>, then \<open>a\<close>
  sends \<open>ROLLBACK\<close>. If the pool picks the same connection for the three, as it must when it is
  limited to one, the \<open>INSERT\<close> of \<open>b\<close> is lost, although \<open>b\<close> was told that one row was
  inserted and that it is not in a transaction.
\<close>

theorem rollback_undoes_other_client:
  assumes "mysql_pool env = pooled_mysql" and "pg_alive s" and "i \<noteq> j"
    and "asks s i ''BEGIN'' (query_frame ''ROLLBACK'' @ rest)" and "asks s j q rest'"
    and "flags (se_conn (sv_sessions s ! i)) = (False, f)" and "flags (se_conn (sv_sessions s ! j)) = (False, False)"
    and "plain_insert q" and "pending (sv_data s) = (\<lambda>_. None)"
    and "picks (sv_data s) (Suc (calls (sv_data s))) = picks (sv_data s) (calls (sv_data s))"
    and "picks (sv_data s) (Suc (Suc (calls (sv_data s)))) = picks (sv_data s) (calls (sv_data s))"
  shows "\<exists>t. run_events (pg_step env) [Attend i, Attend j, Attend i] s = Some t
    \<and> durable (sv_data t) = durable (sv_data s)
    \<and> pending (sv_data t) (picks (sv_data s) (calls (sv_data s))) = None
    \<and> out (conn_w (se_conn (sv_sessions t ! j))) = out (conn_w (se_conn (sv_sessions s ! j)))
        @ tag_bytes ''INSERT 1'' @ frame MsgReadyForQuery [StatusIdle]"
proof -
  have len: "i < length (sv_sessions s)" "j < length (sv_sessions s)" using assms(4,5) by (simp_all add: asks_def)
  obtain x where x: "pg_step env (Attend i) s = Some (store_back s i x)"
    "answered s i ''BEGIN'' (query_frame ''ROLLBACK'' @ rest) ''BEGIN'' (True, False) x"
    using turns(1) [OF assms(1,2,4) refl assms(6)] by blast
  let ?s = "store_back s i x"
  have s1: "pg_alive ?s" "asks ?s i ''ROLLBACK'' rest" "asks ?s j q rest'"
    using next_turn [OF assms(2) x(2) len(1)] assms(3,5) by blast+
  have "flags (se_conn (sv_sessions ?s ! j)) = (False, False)" using assms(3,7) by simp
  from turns(3) [OF assms(1) s1(1,3) assms(8) this] obtain y where
    y: "pg_step env (Attend j) ?s = Some (store_back ?s j y)" "answered ?s j q rest' ''INSERT 1'' (False, False) y"
    by blast
  let ?t = "store_back ?s j y"
  have t1: "pg_alive ?t" "asks ?t i ''ROLLBACK'' rest"
    using next_turn [OF s1(1) y(2)] s1(2) assms(3) len by simp_all
  have "flags (se_conn (sv_sessions ?t ! i)) = (True, False)" using x(2) len assms(3) by (simp add: answered_def)
  from turns(2) [OF assms(1) t1 refl this] obtain z where
    z: "pg_step env (Attend i) ?t = Some (store_back ?t i z)"
    "answered ?t i ''ROLLBACK'' rest ''ROLLBACK'' (False, False) z"
    by blast
  have d: "conn_db (se_conn z) = three ''BEGIN'' q ''ROLLBACK'' (sv_data s)"
    using x(2) y(2) z(2) by (simp add: answered_def three_def)
  have "getTransactionStatus (se_conn y) = StatusIdle"
    using y(2) by (simp add: answered_def getTransactionStatus_def flags_def)
  then show ?thesis
    using three_effect [OF assms(8,9)] assms(3,10,11) len x(1) y z(1) by (simp add: d answered_def)
qed

theorem rollback_undoes_other_client_witness:
  "\<exists>t. run_events (pg_step pool_env) [Attend 0, Attend 1, Attend 0] (clients (new_pool (\<lambda>n. 0))
      [query_frame ''BEGIN'' @ query_frame ''ROLLBACK'' @ [], query_frame ''INSERT INTO t (a) VALUES (1)'' @ []]) = Some t
    \<and> durable (sv_data t) = []"
proof -
  let ?q = "''INSERT INTO t (a) VALUES (1)''"
  let ?s = "clients (new_pool (\<lambda>n. 0)) [query_frame ''BEGIN'' @ query_frame ''ROLLBACK'' @ [], query_frame ?q @ []]"
  have a: "asks ?s 0 ''BEGIN'' (query_frame ''ROLLBACK'' @ [])" "asks ?s 1 ?q []"
    and f: "flags (se_conn (sv_sessions ?s ! 0)) = (False, False)" "flags (se_conn (sv_sessions ?s ! 1)) = (False, False)"
    by (simp_all add: clients_ask)
  have "mysql_pool pool_env = pooled_mysql" "pending (sv_data ?s) = (\<lambda>_. None)"
    by (simp_all add: pool_env_def clients_ask new_pool_def)
  from rollback_undoes_other_client [OF this(1) clients_ask(2) _ a f insert_t this(2)]
  obtain t where t: "run_events (pg_step pool_env) [Attend 0, Attend 1, Attend 0] ?s = Some t"
    "durable (sv_data t) = durable (sv_data ?s)"
    by (auto simp only: clients_ask(3) new_pool_def sql_pool.simps zero_neq_one)
  have "durable (sv_data t) = []" unfolding t(2) by (simp add: clients_ask(3) new_pool_def)
  with t(1) show ?thesis by blast
qed

end
