(* ===== verification/CatalogRace.thy ===== *)
theory CatalogRace
  imports PgListener
begin

text \<open>
  \<open>GetColumnPGOID\<close> (\<open>catalog.go\<close>) at the granularity of its accesses to the cache, a Go map that
  all connections share and nothing locks: look up, ask MySQL, store. Alone it is the
  function of \<open>PgCatalog\<close>; with two goroutines in it, one can be about to write the map while the other
  is about to touch it, which Go forbids and, when its run time notices, ends the process for.
\<close>

section \<open>Goroutines in the function\<close>

datatype fetch = LookUp | Ask | Keep "32 word" | Fetched "32 word"

record 'd fetching =
  ft_cache :: type_cache
  ft_data :: 'd
  ft_calls :: "((string \<times> string) \<times> fetch) list"

definition column_key :: "string \<times> string \<Rightarrow> string \<times> string" where
  "column_key tc = (ToLower (fst tc), ToLower (snd tc))"

text \<open>One access, to the cache or to MySQL.\<close>

definition access :: "'d mysql \<Rightarrow> string \<times> string \<Rightarrow> fetch \<Rightarrow> type_cache \<Rightarrow> 'd \<Rightarrow> (fetch \<times> type_cache \<times> 'd) option" where
  "access db tc f cache d = (case f of
       LookUp \<Rightarrow> Some (case cache (column_key tc) of Some oid \<Rightarrow> Fetched oid | None \<Rightarrow> Ask, cache, d)
     | Ask \<Rightarrow> (case pool_Query db data_type_query [GString (fst tc), GString (snd tc)] d of
           (Ok rows, d') \<Rightarrow> (case Option.bind (first_value rows) scan_string of
               Some dataType \<Rightarrow> Some (Keep (mysqlDataTypeToPGOID dataType), cache, d')
             | None \<Rightarrow> Some (Fetched 0, cache, d'))
         | (_, d') \<Rightarrow> Some (Fetched 0, cache, d'))
     | Keep oid \<Rightarrow> Some (Fetched oid, cache(column_key tc \<mapsto> oid), d)
     | Fetched oid \<Rightarrow> None)"

definition fetch_step :: "'d mysql \<Rightarrow> (nat, 'd fetching) system" where
  "fetch_step db i s = (if i < length (ft_calls s) then
       (case ft_calls s ! i of (tc, f) \<Rightarrow>
         map_option (\<lambda>(g, cache, d). s\<lparr>ft_cache := cache, ft_data := d, ft_calls := (ft_calls s)[i := (tc, g)]\<rparr>)
           (access db tc f (ft_cache s) (ft_data s)))
     else None)"

definition about_to_write :: "fetch \<Rightarrow> bool" where
  "about_to_write f = (case f of Keep oid \<Rightarrow> True | _ \<Rightarrow> False)"

definition about_to_touch :: "fetch \<Rightarrow> bool" where
  "about_to_touch f = (case f of Keep oid \<Rightarrow> True | LookUp \<Rightarrow> True | _ \<Rightarrow> False)"

definition data_race :: "'d fetching \<Rightarrow> bool" where
  "data_race s \<longleftrightarrow> (\<exists>i < length (ft_calls s). \<exists>j < length (ft_calls s). i \<noteq> j
     \<and> about_to_write (snd (ft_calls s ! i)) \<and> about_to_touch (snd (ft_calls s ! j)))"

section \<open>A call on its own\<close>

definition one_call :: "'d mysql \<Rightarrow> string \<times> string \<Rightarrow> (unit, fetch \<times> type_cache \<times> 'd) system" where
  "one_call db tc u st = (case st of (f, cache, d) \<Rightarrow> access db tc f cache d)"

definition call_result :: "fetch \<times> type_cache \<times> 'd \<Rightarrow> (32 word \<times> type_cache \<times> 'd) option" where
  "call_result st = (case st of (Fetched oid, cache, d) \<Rightarrow> Some (oid, cache, d) | _ \<Rightarrow> None)"

definition call_whole :: "'d mysql \<Rightarrow> string \<times> string \<Rightarrow> fetch \<times> type_cache \<times> 'd \<Rightarrow> 32 word \<times> type_cache \<times> 'd" where
  "call_whole db tc st = (case st of (f, cache, d) \<Rightarrow> (case f of
       LookUp \<Rightarrow> GetColumnPGOID db (fst tc) (snd tc) (cache, d)
     | Ask \<Rightarrow> (case access db tc Ask cache d of
           Some (Keep oid, cache, d) \<Rightarrow> (oid, cache(column_key tc \<mapsto> oid), d)
         | Some (_, cache, d) \<Rightarrow> (0, cache, d)
         | None \<Rightarrow> (0, cache, d))
     | Keep oid \<Rightarrow> (oid, cache(column_key tc \<mapsto> oid), d)
     | Fetched oid \<Rightarrow> (oid, cache, d)))"

fun call_left :: "fetch \<times> type_cache \<times> 'd \<Rightarrow> nat" where
  "call_left (f, cache, d) = (case f of LookUp \<Rightarrow> 3 | Ask \<Rightarrow> 2 | Keep oid \<Rightarrow> 1 | Fetched oid \<Rightarrow> 0)"

lemma lookup_whole:
  "call_whole db tc (LookUp, cache, d) = (case cache (column_key tc) of
     Some oid \<Rightarrow> (oid, cache, d) | None \<Rightarrow> call_whole db tc (Ask, cache, d))"
  by (auto simp: call_whole_def access_def GetColumnPGOID_def column_key_def Let_def split: option.splits prod.splits res.splits)

interpretation fetch: turn_system "one_call db tc" call_result "call_whole db tc" call_left for db tc
proof
  fix st :: "fetch \<times> type_cache \<times> 'a"
  obtain f cache d where st: "st = (f, cache, d)" by (cases st) auto
  assume "call_result st = None"
  then show "\<exists>t. one_call db tc () st = Some t \<and> call_whole db tc t = call_whole db tc st \<and> call_left t < call_left st"
  proof (cases f)
    case LookUp
    then show ?thesis unfolding st LookUp lookup_whole
      by (cases "cache (column_key tc)") (simp_all add: one_call_def access_def, simp add: call_whole_def)
  next
    case Ask
    then show ?thesis unfolding st
      by (auto simp: one_call_def access_def call_whole_def split: prod.splits res.splits option.splits)
  qed (simp_all add: st one_call_def access_def call_whole_def call_result_def)
qed (auto simp: call_result_def call_whole_def split: fetch.splits)

text \<open>
  A call that nobody interrupts is \<open>GetColumnPGOID\<close>: its accesses, one after the other, come to the
  same type, the same cache and the same database.
\<close>

theorem fetch_alone:
  "\<exists>n oid cache' d'. run_events (one_call db tc) (replicate n ()) (LookUp, cache, d) = Some (Fetched oid, cache', d')
     \<and> GetColumnPGOID db (fst tc) (snd tc) (cache, d) = (oid, cache', d')"
proof -
  obtain n t where t: "run_events (one_call db tc) (replicate n ()) (LookUp, cache, d) = Some t"
    "call_result t = Some (call_whole db tc (LookUp, cache, d))"
    using fetch.comes_to [of db tc "(LookUp, cache, d)"] by auto
  from t(2) obtain oid cache' d' where "t = (Fetched oid, cache', d')"
    "GetColumnPGOID db (fst tc) (snd tc) (cache, d) = (oid, cache', d')"
    by (auto simp: call_result_def call_whole_def split: prod.splits fetch.splits)
  then show ?thesis using t(1) by blast
qed

section \<open>Two calls at once\<close>

text \<open>
  C33: two connections that describe an \<open>INSERT\<close> at the same time. Whenever one call has not found its
  column in the cache and MySQL knows the column, two accesses of that call bring it to the point where it writes the
  map, while any other call that is still to look up its column is about to read it: a data
  race on a Go map, whatever the two columns are.
\<close>

theorem column_cache_races:
  assumes "i < length (ft_calls s)" and "j < length (ft_calls s)" and "i \<noteq> j"
    and "ft_calls s ! i = (tc, LookUp)" and "snd (ft_calls s ! j) = LookUp"
    and "ft_cache s (column_key tc) = None"
    and "pool_Query db data_type_query [GString (fst tc), GString (snd tc)] (ft_data s) = (Ok rows, d)"
    and "Option.bind (first_value rows) scan_string = Some dataType"
  shows "\<exists>t. run_events (fetch_step db) [i, i] s = Some t \<and> data_race t
    \<and> ft_calls t ! i = (tc, Keep (mysqlDataTypeToPGOID dataType)) \<and> ft_cache t = ft_cache s"
proof -
  let ?t = "s\<lparr>ft_data := d, ft_calls := (ft_calls s)[i := (tc, Keep (mysqlDataTypeToPGOID dataType))]\<rparr>"
  have "run_events (fetch_step db) [i, i] s = Some ?t"
    using assms by (simp add: fetch_step_def access_def)
  moreover have "data_race ?t"
    unfolding data_race_def using assms
    by (intro exI [of _ i] exI [of _ j] conjI) (simp_all add: about_to_write_def about_to_touch_def)
  ultimately show ?thesis using assms(1) by auto
qed

definition int_mysql :: "unit mysql" where
  "int_mysql = \<lparr>pool_Query = (\<lambda>q args. ret \<lparr>col_types = Ok [''VARCHAR''], col_names = Ok [''DATA_TYPE''],
       scans = [Ok [GString ''int'']], iter_err = None\<rparr>), pool_Exec = (\<lambda>q args. ret 0)\<rparr>"

theorem column_cache_races_witness:
  "\<exists>t. run_events (fetch_step int_mysql) [0, 0]
      \<lparr>ft_cache = Map.empty, ft_data = (), ft_calls = [((''t'', ''a''), LookUp), ((''u'', ''b''), LookUp)]\<rparr> = Some t \<and> data_race t"
proof -
  let ?s = "\<lparr>ft_cache = Map.empty, ft_data = (), ft_calls = [((''t'', ''a''), LookUp), ((''u'', ''b''), LookUp)]\<rparr>"
  have "pool_Query int_mysql data_type_query [GString (fst (''t'', ''a'')), GString (snd (''t'', ''a''))] (ft_data ?s)
      = (Ok \<lparr>col_types = Ok [''VARCHAR''], col_names = Ok [''DATA_TYPE''], scans = [Ok [GString ''int'']], iter_err = None\<rparr>, ())"
    by (simp add: int_mysql_def ret_def)
  from column_cache_races [OF _ _ _ _ _ _ this, of 0 1 "''int''"] show ?thesis
    by (auto simp: first_value_def first_column_def scan_string_def)
qed

end
