(* ===== verification/CatalogPool.thy ===== *)
theory CatalogPool
  imports PgCatalog Runs
begin

text \<open>
  \<open>handlePGClass\<close> (\<open>catalog.go\<close>) and the connections of the pool: the rows of the outer query stay
  open while two more queries run for every table, so that a call holds one connection and asks
  for a second. \<open>database/sql\<close> opens no more connections than \<open>SetMaxOpenConns\<close> of \<open>pool.go\<close> says
  (no limit when that is not positive), and a query without a deadline, as these are, waits for one.
\<close>

section \<open>Calls and connections\<close>

datatype demand = Take | Give

text \<open>What a call does to the pool, for the names its outer query returns.\<close>

primrec table_demands :: "string option list \<Rightarrow> demand list" where
  "table_demands [] = []"
| "table_demands (n # ns) = (case n of None \<Rightarrow> [] | Some name \<Rightarrow> [Take, Give, Take, Give]) @ table_demands ns"

definition class_demands :: "string option list \<Rightarrow> demand list" where
  "class_demands ns = Take # table_demands ns @ [Give]"

record pool_call =
  pc_held :: nat
  pc_todo :: "demand list"

definition new_call :: "string option list \<Rightarrow> pool_call" where
  "new_call ns = \<lparr>pc_held = 0, pc_todo = class_demands ns\<rparr>"

definition in_use :: "pool_call list \<Rightarrow> nat" where
  "in_use cs = sum_list (map pc_held cs)"

definition may_open :: "int \<Rightarrow> pool_call list \<Rightarrow> bool" where
  "may_open limit cs \<longleftrightarrow> limit \<le> 0 \<or> int (in_use cs) < limit"

definition pool_step :: "int \<Rightarrow> (nat, pool_call list) system" where
  "pool_step limit i cs = (if i < length cs then (case pc_todo (cs ! i) of
       [] \<Rightarrow> None
     | Take # r \<Rightarrow> if may_open limit cs then Some (cs[i := \<lparr>pc_held = pc_held (cs ! i) + 1, pc_todo = r\<rparr>]) else None
     | Give # r \<Rightarrow> Some (cs[i := \<lparr>pc_held = pc_held (cs ! i) - 1, pc_todo = r\<rparr>]))
     else None)"

text \<open>Nobody can go on, and somebody is not done.\<close>

definition stuck :: "int \<Rightarrow> pool_call list \<Rightarrow> bool" where
  "stuck limit cs \<longleftrightarrow> (\<exists>c \<in> set cs. pc_todo c \<noteq> []) \<and> (\<forall>i. pool_step limit i cs = None)"

section \<open>The queries of the handler\<close>

text \<open>A database that counts its queries: the handler takes a connection for each.\<close>

definition counting :: "'d mysql \<Rightarrow> ('d \<times> nat) mysql" where
  "counting db = \<lparr>
     pool_Query = (\<lambda>q args (d, n). case pool_Query db q args d of (r, d') \<Rightarrow> (r, d', Suc n)),
     pool_Exec = (\<lambda>q args (d, n). case pool_Exec db q args d of (r, d') \<Rightarrow> (r, d', n))\<rparr>"

lemma counting_returns: "returns db \<Longrightarrow> returns (counting db)"
  by (auto simp: returns_def counting_def split: prod.splits)

lemma counting_ask:
  assumes "returns db"
  shows "\<exists>v d'. ask (counting db) q args (d, n) = (Ok v, d', Suc n)"
proof -
  obtain r d' where r: "pool_Query db q args d = (r, d')" by (cases "pool_Query db q args d")
  then have "pool_Query (counting db) q args (d, n) = (r, d', Suc n)" by (simp add: counting_def)
  moreover have "r \<noteq> Panic p" for p using assms r by (auto simp: returns_def)
  ultimately show ?thesis by (cases r) (auto simp: ask_def orElse_def bindM_def ret_def)
qed

lemma class_rows_queries:
  assumes "returns db"
  shows "\<exists>data d'. class_rows (counting db) ns oid (d, n)
    = (Ok data, d', n + length (filter (\<lambda>x. x = Take) (table_demands ns)))"
proof (induction ns arbitrary: oid d n)
  case Nil
  show ?case by (simp add: ret_def)
next
  case (Cons m ns)
  show ?case
  proof (cases m)
    case None
    then show ?thesis using Cons.IH [of oid d n] by simp
  next
    case (Some name)
    obtain v d1 where v: "ask (counting db) natts_query [GString name] (d, n) = (Ok v, d1, Suc n)"
      using counting_ask [OF assms] by blast
    obtain w d2 where w: "ask (counting db) pk_query [GString name] (d1, Suc n) = (Ok w, d2, Suc (Suc n))"
      using counting_ask [OF assms] by blast
    show ?thesis using Cons.IH [of "oid + 1" d2 "Suc (Suc n)"]
      by (auto simp: Some bindM_def v w ret_def)
  qed
qed

theorem handlePGClass_demands:
  assumes "returns db" and "pool_Query db tables_query [] d = (Ok rows, d1)"
  shows "\<exists>a d'. handlePGClass (counting db) (d, 0)
    = (Ok a, d', length (filter (\<lambda>x. x = Take) (class_demands (names_of rows))))"
proof -
  have "pool_Query (counting db) tables_query [] (d, 0) = (Ok rows, d1, Suc 0)" using assms(2) by (simp add: counting_def)
  then show ?thesis
    using class_rows_queries [OF assms(1), of "names_of rows" 16384 d1 "Suc 0"]
    by (auto simp: handlePGClass_def class_demands_def bindM_def ret_def)
qed

section \<open>Deadlock\<close>

text \<open>What holds of a call at any time: it ends with nothing held and never asks for a third.\<close>

fun fits :: "nat \<Rightarrow> demand list \<Rightarrow> bool" where
  "fits h [] \<longleftrightarrow> h = 0"
| "fits h (Take # r) \<longleftrightarrow> h \<le> 1 \<and> fits (h + 1) r"
| "fits h (Give # r) \<longleftrightarrow> 0 < h \<and> fits (h - 1) r"

definition calls_fit :: "pool_call list \<Rightarrow> bool" where
  "calls_fit cs \<longleftrightarrow> list_all (\<lambda>c. fits (pc_held c) (pc_todo c)) cs"

lemma new_call_fits: "fits (pc_held (new_call ns)) (pc_todo (new_call ns))"
proof -
  have "fits 1 (table_demands ns @ [Give])" by (induction ns) (simp_all split: option.split)
  then show ?thesis by (simp add: new_call_def class_demands_def)
qed

lemma step_fits: "calls_fit cs \<Longrightarrow> pool_step limit i cs = Some t \<Longrightarrow> calls_fit t \<and> length t = length cs"
  by (fastforce simp: pool_step_def calls_fit_def list_all_length nth_list_update
    split: if_splits list.splits demand.splits)

lemma waiting_holds:
  assumes "calls_fit cs" and "\<forall>i. pool_step limit i cs = None"
  shows "in_use cs \<le> length cs"
proof -
  have "pc_held c \<le> 1" if c: "c \<in> set cs" for c
  proof -
    obtain i where i: "i < length cs" "cs ! i = c" using c by (auto simp: in_set_conv_nth)
    have "fits (pc_held c) (pc_todo c)" using assms(1) c by (simp add: calls_fit_def list_all_iff)
    moreover have "pool_step limit i cs = None" using assms(2) by simp
    ultimately show ?thesis using i
      by (cases "pc_todo c" rule: list.exhaust; cases "hd (pc_todo c)") (auto simp: pool_step_def)
  qed
  then have "sum_list (map pc_held cs) \<le> sum_list (map (\<lambda>_. 1) cs)" by (intro sum_list_mono) simp
  then show ?thesis by (simp add: in_use_def sum_list_triv)
qed

lemma no_deadlock:
  assumes "calls_fit cs" and "int (length cs) < limit \<or> limit \<le> 0" and "run_events (pool_step limit) es cs = Some t"
  shows "\<not> stuck limit t"
proof
  assume "stuck limit t"
  then obtain c where c: "c \<in> set t" "pc_todo c \<noteq> []" and none: "\<forall>i. pool_step limit i t = None"
    by (auto simp: stuck_def)
  have inv: "calls_fit t \<and> length t = length cs"
    using assms(3) by (rule run_invariant) (use assms(1) step_fits in auto)
  then have "may_open limit t"
    using waiting_holds [of t limit] none assms(2) by (auto simp: may_open_def)
  moreover obtain i where "i < length t" "t ! i = c" using c(1) by (auto simp: in_set_conv_nth)
  ultimately show False using c(2) none [THEN spec, of i]
    by (cases "pc_todo c"; cases "hd (pc_todo c)") (auto simp: pool_step_def)
qed


text \<open>The other way: each call opens its outer query.\<close>

definition opened_call :: "string option list \<Rightarrow> pool_call" where
  "opened_call ns = \<lparr>pc_held = 1, pc_todo = table_demands ns @ [Give]\<rparr>"

lemma in_use_simps: "in_use (map opened_call nss @ map new_call mss) = length nss"
  by (simp add: in_use_def opened_call_def new_call_def comp_def sum_list_triv)

lemma all_open:
  "k \<le> length nss \<Longrightarrow> int k \<le> limit \<Longrightarrow>
     run_events (pool_step limit) [0..<k] (map new_call nss) = Some (map opened_call (take k nss) @ map new_call (drop k nss))"
proof (induction k)
  case (Suc k)
  then have k: "k < length nss" by simp
  let ?cs = "map opened_call (take k nss) @ map new_call (drop k nss)"
  have at_k: "?cs ! k = new_call (nss ! k)" using k by (simp add: nth_append)
  have "?cs[k := opened_call (nss ! k)] = map opened_call (take (Suc k) nss) @ map new_call (drop (Suc k) nss)"
    using k by (simp add: list_update_append take_Suc_conv_app_nth drop_map [symmetric] Cons_nth_drop_Suc [symmetric])
  moreover have "pool_step limit k ?cs = Some (?cs[k := opened_call (nss ! k)])"
    using k Suc.prems in_use_simps [of "take k nss" "drop k nss"]
    by (simp add: pool_step_def at_k may_open_def new_call_def class_demands_def opened_call_def)
  ultimately show ?case using Suc by (simp add: run_snoc)
qed (simp add: run_nil)

lemma first_take: "\<exists>n \<in> set ns. n \<noteq> None \<Longrightarrow> \<exists>r. table_demands ns = Take # r"
  by (induction ns) (auto split: option.split)

lemma deadlock:
  assumes "0 < limit" and "limit \<le> int (length nss)" and "\<forall>ns \<in> set nss. \<exists>n \<in> set ns. n \<noteq> None"
  shows "\<exists>t. run_events (pool_step limit) [0..<nat limit] (map new_call nss) = Some t
    \<and> stuck limit t \<and> int (in_use t) = limit"
proof -
  let ?k = "nat limit"
  let ?t = "map opened_call (take ?k nss) @ map new_call (drop ?k nss)"
  have k: "?k \<le> length nss" "0 < ?k" using assms(1,2) by simp_all
  have u: "int (in_use ?t) = limit" using k assms(1) by (simp add: in_use_simps)
  have waits: "\<exists>r. pc_todo c = Take # r" if "c \<in> set ?t" for c
    using that first_take assms(3)
    by (auto simp: opened_call_def new_call_def class_demands_def dest!: in_set_takeD in_set_dropD) (metis append_Cons)
  have "pool_step limit i ?t = None" for i
  proof (cases "i < length ?t")
    case True
    then obtain r where "pc_todo (?t ! i) = Take # r" using waits nth_mem by blast
    then show ?thesis using u assms(1) by (simp add: pool_step_def may_open_def)
  qed (simp add: pool_step_def)
  moreover have "?t ! 0 \<in> set ?t" using k by (intro nth_mem) (cases nss; simp)
  then have "\<exists>c \<in> set ?t. pc_todo c \<noteq> []" using waits by (metis list.distinct(1))
  ultimately have "stuck limit ?t" by (simp add: stuck_def)
  moreover have "run_events (pool_step limit) [0..<?k] (map new_call nss) = Some ?t"
    using all_open [OF k(1), of limit] assms(1) by simp
  ultimately show ?thesis using u by blast
qed

text \<open>Without a deadlock every call is completed: each step uses up a demand.\<close>

definition demands_left :: "pool_call list \<Rightarrow> nat" where
  "demands_left cs = sum_list (map (\<lambda>c. length (pc_todo c)) cs)"

lemma step_uses:
  assumes "pool_step limit i cs = Some t"
  shows "demands_left t < demands_left cs"
proof -
  obtain d r h where i: "i < length cs" "pc_todo (cs ! i) = d # r" "t = cs[i := \<lparr>pc_held = h, pc_todo = r\<rparr>]"
    using assms by (auto simp: pool_step_def split: if_splits list.splits demand.splits)
  have "length (pc_todo (cs ! i)) \<le> demands_left cs"
    unfolding demands_left_def using i(1) by (intro member_le_sum_list) auto
  then show ?thesis using i
    by (simp add: demands_left_def map_update sum_list_update)
qed

definition all_done :: "pool_call list \<Rightarrow> bool" where
  "all_done cs \<longleftrightarrow> list_all (\<lambda>c. pc_todo c = []) cs"

lemma completes:
  assumes "calls_fit cs" and "int (length cs) < limit \<or> limit \<le> 0"
  shows "\<exists>fs u. run_events (pool_step limit) fs cs = Some u \<and> all_done u"
  using assms
proof (induction "demands_left cs" arbitrary: cs rule: less_induct)
  case less
  show ?case
  proof (cases "all_done cs")
    case True
    then have "run_events (pool_step limit) [] cs = Some cs \<and> all_done cs" by simp
    then show ?thesis by blast
  next
    case False
    then obtain c where "c \<in> set cs" "pc_todo c \<noteq> []" by (auto simp: all_done_def list_all_iff)
    moreover have "\<not> stuck limit cs" using no_deadlock [of cs limit "[]" cs] less.prems by simp
    ultimately obtain i t where t: "pool_step limit i cs = Some t" by (auto simp: stuck_def)
    then have "calls_fit t" "length t = length cs" using step_fits less.prems(1) by blast+
    with less.hyps [OF step_uses [OF t]] less.prems(2) obtain fs u
      where "run_events (pool_step limit) fs t = Some u" "all_done u" by auto
    then show ?thesis using t by (intro exI [of _ "i # fs"] exI [of _ u]) simp
  qed
qed

text \<open>
  C24: clients that ask for \<open>pg_class\<close> at the same time can block one another for ever. When the pool is
  limited and there are at least as many calls of \<open>handlePGClass\<close>, each on a schema with a table, as it has
  connections, a state can be reached in which none of them can go on and all connections are taken, so that
  no other query of the process gets one either; one client is enough for a pool of one. With fewer calls, or
  without a limit, every run of the calls can be continued until all are done.
\<close>

theorem catalog_calls_deadlock:
  assumes "\<forall>ns \<in> set nss. \<exists>n \<in> set ns. n \<noteq> None"
  shows "if 0 < limit \<and> limit \<le> int (length nss)
    then \<exists>es t. run_events (pool_step limit) es (map new_call nss) = Some t \<and> stuck limit t \<and> int (in_use t) = limit
    else \<forall>es t. run_events (pool_step limit) es (map new_call nss) = Some t
      \<longrightarrow> (\<exists>fs u. run_events (pool_step limit) fs t = Some u \<and> all_done u)"
proof (cases "0 < limit \<and> limit \<le> int (length nss)")
  case True
  then show ?thesis using deadlock [OF _ _ assms, of limit] by auto
next
  case False
  have fit: "calls_fit (map new_call nss)"
    by (simp add: calls_fit_def list_all_iff new_call_fits)
  have "\<exists>fs u. run_events (pool_step limit) fs t = Some u \<and> all_done u"
    if r: "run_events (pool_step limit) es (map new_call nss) = Some t" for es t
  proof -
    have "calls_fit t \<and> length t = length (map new_call nss)"
      using r by (rule run_invariant) (use fit step_fits in \<open>auto simp del: length_map\<close>)
    then show ?thesis using False by (intro completes) auto
  qed
  then show ?thesis using False by auto
qed

theorem catalog_calls_deadlock_witness:
  "\<exists>es t. run_events (pool_step 2) es (map new_call [[Some ''traces''], [Some ''traces'', None]]) = Some t
    \<and> stuck 2 t \<and> int (in_use t) = 2"
proof -
  have "\<forall>ns \<in> set [[Some ''traces''], [Some ''traces'', None]]. \<exists>n \<in> set ns. n \<noteq> None" by simp
  from catalog_calls_deadlock [OF this, of 2] show ?thesis by simp
qed

end
