(* ===== verification/PgReplies.thy ===== *)
theory PgReplies
  imports PgProtocol
begin

text \<open>
  The PostgreSQL protocol as a grammar over the types of the messages, and the proof that the
  server keeps to it: which messages answer which message of a client, where an answer may be
  cut short by an error, and where \<open>ReadyForQuery\<close> comes. Handlers are judged by the words they
  may emit, one language for those that succeed and one for those that do not.
\<close>

section \<open>The grammar\<close>

type_synonym message = "byte \<times> byte list"

definition stream :: "message list \<Rightarrow> byte list" where
  "stream ms = concat (map (\<lambda>m. frame (fst m) (snd m)) ms)"

definition rows_only :: "byte list \<Rightarrow> bool" where
  "rows_only ts \<longleftrightarrow> dropWhile (\<lambda>t. t = MsgDataRow) ts = []"

definition rows_complete :: "byte list \<Rightarrow> bool" where
  "rows_complete ts \<longleftrightarrow> dropWhile (\<lambda>t. t = MsgDataRow) ts = [MsgCommandComplete]"

definition described :: "(byte list \<Rightarrow> bool) \<Rightarrow> byte list \<Rightarrow> bool" where
  "described P ts \<longleftrightarrow> ts \<noteq> [] \<and> hd ts = MsgRowDescription \<and> P (tl ts)"










section \<open>Words that handlers emit\<close>

definition emits :: "(byte list \<Rightarrow> bool) \<Rightarrow> (byte list \<Rightarrow> bool) \<Rightarrow> ('d, 'a) handler \<Rightarrow> bool" where
  "emits L F m \<longleftrightarrow> (\<forall>s r t. listening s \<longrightarrow> m s = (r, t) \<longrightarrow> listening t
     \<and> (\<exists>ms. out (conn_w t) = out (conn_w s) @ stream ms
          \<and> (case r of Ok _ \<Rightarrow> L (map fst ms) | _ \<Rightarrow> F (map fst ms))))"

text \<open>What may follow every word of \<open>A\<close>.\<close>

definition after :: "(byte list \<Rightarrow> bool) \<Rightarrow> (byte list \<Rightarrow> bool) \<Rightarrow> byte list \<Rightarrow> bool" where
  "after A L ts \<longleftrightarrow> (\<forall>us. A us \<longrightarrow> L (us @ ts))"

definition only :: "byte list \<Rightarrow> byte list \<Rightarrow> bool" where
  "only ts us \<longleftrightarrow> us = ts"

lemma only_self [simp]: "only ts ts"
  by (simp add: only_def)

lemma after_only [simp]: "after (only ts) L = (\<lambda>us. L (ts @ us))"
  by (simp add: after_def only_def fun_eq_iff)

lemma stream_simps [simp]: "stream [] = []" "stream (m # ms) = frame (fst m) (snd m) @ stream ms"
  "stream (ms @ ns) = stream ms @ stream ns"
  by (simp_all add: stream_def)

lemma emitsD:
  assumes "emits L F m" and "listening s" and "m s = (r, t)"
  obtains ms where "listening t" and "out (conn_w t) = out (conn_w s) @ stream ms"
    and "case r of Ok _ \<Rightarrow> L (map fst ms) | _ \<Rightarrow> F (map fst ms)"
  using assms unfolding emits_def by blast


lemma emits_pure:
  "L [] \<Longrightarrow> emits L F (ret x)" "F [] \<Longrightarrow> emits L F (failM e)" "L [] \<Longrightarrow> F [] \<Longrightarrow> emits L F (liftR r)"
  by (auto simp: emits_def ret_def failM_def liftR_def intro!: exI [of _ "[]"] split: res.split)

text \<open>An action and what follows its success and its error.\<close>

definition eitherM :: "('s, 'a) act \<Rightarrow> ('a \<Rightarrow> ('s, 'b) act) \<Rightarrow> (go_err \<Rightarrow> ('s, 'b) act) \<Rightarrow> ('s, 'b) act" where
  "eitherM m f h s = (case m s of (Ok x, t) \<Rightarrow> f x t | (Err e, t) \<Rightarrow> h e t | (Panic p, t) \<Rightarrow> (Panic p, t))"

lemma emits_either:
  assumes m: "emits A B m" and f: "\<And>x. emits (after A L) (after A F) (f x)"
    and h: "\<And>e. emits (after B L) (after B F) (h e)" and B: "\<And>ts. B ts \<Longrightarrow> F ts"
  shows "emits L F (eitherM m f h)"
  unfolding emits_def
proof (intro allI impI)
  fix s r t assume ls: "listening s" and run: "eitherM m f h s = (r, t)"
  obtain a u where a: "m s = (a, u)" by (cases "m s")
  obtain ms where ms: "listening u" "out (conn_w u) = out (conn_w s) @ stream ms"
    "case a of Ok _ \<Rightarrow> A (map fst ms) | _ \<Rightarrow> B (map fst ms)"
    by (rule emitsD [OF m ls a])
  show "listening t \<and> (\<exists>ms. out (conn_w t) = out (conn_w s) @ stream ms
      \<and> (case r of Ok _ \<Rightarrow> L (map fst ms) | _ \<Rightarrow> F (map fst ms)))"
  proof (cases a)
    case (Ok x)
    then have "f x u = (r, t)" using run a by (simp add: eitherM_def)
    from emitsD [OF f ms(1) this] obtain ns where ns: "listening t" "out (conn_w t) = out (conn_w u) @ stream ns"
      "case r of Ok _ \<Rightarrow> after A L (map fst ns) | _ \<Rightarrow> after A F (map fst ns)" .
    then show ?thesis using ms Ok
      by (intro conjI exI [of _ "ms @ ns"]) (auto simp: after_def split: res.splits)
  next
    case (Err e)
    then have "h e u = (r, t)" using run a by (simp add: eitherM_def)
    from emitsD [OF h ms(1) this] obtain ns where ns: "listening t" "out (conn_w t) = out (conn_w u) @ stream ns"
      "case r of Ok _ \<Rightarrow> after B L (map fst ns) | _ \<Rightarrow> after B F (map fst ns)" .
    then show ?thesis using ms Err
      by (intro conjI exI [of _ "ms @ ns"]) (auto simp: after_def split: res.splits)
  qed (use run a ms B in \<open>auto simp: eitherM_def\<close>)
qed

lemma emits_bind:
  assumes "emits A B m" and "\<And>x. emits (after A L) (after A F) (f x)" and "\<And>ts. B ts \<Longrightarrow> F ts"
  shows "emits L F (bindM m f)"
proof -
  have "bindM m f = eitherM m f failM"
    by (simp add: fun_eq_iff bindM_def eitherM_def failM_def split: prod.split res.split)
  then show ?thesis using assms by (auto intro!: emits_either [where A = A and B = B] emits_pure simp: after_def)
qed

lemma emits_catch:
  assumes "emits L B m" and "\<And>e. emits (after B L) (after B F) (h e)" and "\<And>ts. B ts \<Longrightarrow> F ts"
  shows "emits L F (catchM m h)"
proof -
  have "catchM m h = eitherM m ret h"
    by (simp add: fun_eq_iff catchM_def eitherM_def ret_def split: prod.split res.split)
  then show ?thesis using assms by (auto intro!: emits_either [where A = L and B = B] emits_pure simp: after_def)
qed

lemma emits_get: "(\<And>s. emits L F (f s)) \<Longrightarrow> emits L F (getM f)"
  by (simp add: emits_def getM_def)


lemma emits_ignore: "emits L B m \<Longrightarrow> after B L [] \<Longrightarrow> (\<And>ts. B ts \<Longrightarrow> F ts) \<Longrightarrow> emits L F (ignoreM m)"
  unfolding ignoreM_def by (rule emits_catch [where B = B]) (auto intro: emits_pure)

text \<open>A message to a client that takes everything never fails.\<close>

definition never :: "byte list \<Rightarrow> bool" where
  "never ts \<longleftrightarrow> False"

lemma after_never [simp]: "after never L = (\<lambda>_. True)"
  by (simp add: after_def never_def fun_eq_iff)



abbreviation quiet :: "('d, 'a) handler \<Rightarrow> bool" where
  "quiet \<equiv> emits (only []) (only [])"

lemma quiet_same: "(\<And>s. conn_w (snd (m s)) = conn_w s) \<Longrightarrow> quiet m"
  unfolding emits_def
proof (intro allI impI)
  fix s r t
  assume m: "\<And>s. conn_w (snd (m s)) = conn_w s" and "listening s" "m s = (r, t)"
  then have "conn_w t = conn_w s" using m [of s] by simp
  then show "listening t \<and> (\<exists>ms. out (conn_w t) = out (conn_w s) @ stream ms
      \<and> (case r of Ok _ \<Rightarrow> only [] (map fst ms) | _ \<Rightarrow> only [] (map fst ms)))"
    using \<open>listening s\<close> by (auto simp: listening_def intro!: exI [of _ "[]"] split: res.split)
qed

lemma quiet_then:
  "quiet m \<Longrightarrow> (\<And>x. emits L F (f x)) \<Longrightarrow> F [] \<Longrightarrow> emits L F (bindM m f)"
  by (rule emits_bind [where A = "only []" and B = "only []"]) (simp_all add: only_def)




section \<open>The handlers\<close>

lemma server_kinds [simp]:
  "MsgCommandComplete \<noteq> MsgDataRow" "MsgRowDescription \<noteq> MsgDataRow"
  by (simp_all add: MsgCommandComplete_def MsgDataRow_def MsgRowDescription_def)

lemma grammar_simps [simp]:
  "described P (MsgRowDescription # ts) = P ts" "\<not> described P []"
  "rows_only []" "rows_only (MsgDataRow # ts) = rows_only ts"
  "rows_complete [MsgCommandComplete]" "rows_complete (MsgDataRow # ts) = rows_complete ts"
  by (simp_all add: described_def rows_only_def rows_complete_def)





lemma quiet_steps:
  "quiet (on_db m)" "quiet (queryM env q args)" "quiet (execM env q args)" "quiet (translateM env q)"
  "quiet (columnOIDM env t c)"
  by (auto intro!: quiet_same simp: queryM_def execM_def on_db_def translateM_def columnOIDM_def split: prod.split)

lemma quiet_modify: "(\<And>s. conn_w (f s) = conn_w s) \<Longrightarrow> quiet (modifyM f)"
  by (rule quiet_same) (simp add: modifyM_def)

lemma quiet_control:
  "quiet (ret x)" "quiet (failM e)" "quiet (liftR r)"
  "quiet m \<Longrightarrow> (\<And>x. quiet (f x)) \<Longrightarrow> quiet (bindM m f)"
  "quiet m \<Longrightarrow> (\<And>e. quiet (h e)) \<Longrightarrow> quiet (catchM m h)"
  by (auto intro: emits_pure quiet_then emits_catch [where B = "only []"])

lemma quiet_more:
  "quiet (fail_tx e)" "quiet (portal_args p)" "quiet (result_columns b rows)" "quiet (end_of_rows rows)"
  unfolding fail_tx_def portal_args_def result_columns_def end_of_rows_def
  by (auto intro!: quiet_control quiet_modify emits_get split: option.split)

lemmas quiet_all = quiet_control quiet_steps quiet_more


lemma rows_drop [simp]: "rows_only us \<Longrightarrow> rows_complete (us @ ts) = rows_complete ts"
  "rows_only us \<Longrightarrow> rows_only (us @ ts) = rows_only ts"
  by (simp_all add: rows_only_def rows_complete_def dropWhile_append3 dropWhile_eq_Nil_conv dropWhile_append2)


text \<open>The answer to a query with rows, its columns described or not.\<close>

definition table :: "bool \<Rightarrow> byte list \<Rightarrow> bool" where
  "table known ts \<longleftrightarrow> (if known then rows_complete ts else described rows_complete ts)"

definition table_cut :: "bool \<Rightarrow> byte list \<Rightarrow> bool" where
  "table_cut known ts \<longleftrightarrow> (if known then rows_only ts else ts = [] \<or> described rows_only ts)"

lemma table_simps [simp]:
  "table True = rows_complete" "table False = described rows_complete" "table_cut True = rows_only"
  "table_cut known []" "table_cut False (MsgRowDescription # ts) = rows_only ts"
  by (auto simp: table_def table_cut_def fun_eq_iff)

















text \<open>A portal: its rows, described in the answer or before.\<close>

definition execute_ok :: "byte list \<Rightarrow> bool" where
  "execute_ok ts \<longleftrightarrow> rows_complete ts \<or> described rows_complete ts"

definition execute_cut :: "byte list \<Rightarrow> bool" where
  "execute_cut ts \<longleftrightarrow> rows_only ts \<or> described rows_only ts"


lemma execute_simps [simp]: "execute_ok [MsgCommandComplete]" "execute_cut []"
  by (simp_all add: execute_ok_def execute_cut_def)







section \<open>Simple queries\<close>


lemma fail_tx_emit: "quiet (catchM (execM env q args) fail_tx)"
  by (intro quiet_all)




section \<open>The extended protocol\<close>









lemma mark_quiet: "quiet (mark_described n)"
  unfolding mark_described_def by (rule quiet_modify) simp











section \<open>A round of the message loop\<close>










section \<open>A whole connection\<close>









lemma wrote_fields [simp]: "conn_pid (wrote s bs) = conn_pid s" "conn_secret (wrote s bs) = conn_secret s"
  "out (conn_w (wrote s bs)) = out (conn_w s) @ bs"
  by (simp_all add: wrote_def)







end
