(* ===== verification/PgDescribe.thy ===== *)
theory PgDescribe
  imports PgProtocol
begin

text \<open>
  The parameter types of a described statement: how many placeholders the server finds in a
  query, and which type it tells the client for each.
\<close>

section \<open>Counting placeholders\<close>

lemma count_here:
  assumes "ds \<noteq> []" and "list_all is_digit ds" and "rest = [] \<or> \<not> is_digit (hd rest)"
  shows "\<exists>d. match_here count_re sn (CHR ''$'' # ds @ rest) = Some d \<and> ahead d = rest \<and> submatch d 1 = ds"
proof -
  obtain x xs where ds: "ds = x # xs" using assms(1) by (cases ds) auto
  have tw: "takeWhile is_digit (xs @ rest) = xs" "is_digit x"
    using assms by (auto simp: ds takeWhile_append list_all_iff takeWhile_eq_Nil_iff)
  show ?thesis
    unfolding match_here_def count_re_def
    by (simp add: seqR.simps lit.simps ds tw advance_def capture_def submatch_def consumed_def
      star_run_class [where p = is_digit] Suc_diff_le)
qed

interpretation counted: placeholder_pattern count_re "\<lambda>ds d. submatch d 1 = ds"
  by (unfold_locales, erule (2) count_here) (simp_all add: match_here_def count_re_def seqR.simps lit.simps)

definition largest :: "(nat \<times> string) list \<Rightarrow> nat" where
  "largest ps = foldr max (map fst ps) 0"

lemma largest_ge: "p \<in> set ps \<Longrightarrow> fst p \<le> largest ps"
  by (induction ps) (auto simp: largest_def max_def)

lemma Sscanf_nat_dec: "n < 2 ^ 63 \<Longrightarrow> Sscanf_d (nat_dec n) = int n"
proof -
  assume n: "n < 2 ^ 63"
  have d: "takeWhile is_digit (nat_dec n) = nat_dec n"
    by (rule takeWhile_eq_all_conv [THEN iffD2]) (simp add: nat_dec_digits)
  have "\<not> re_space (hd (nat_dec n))"
    using nat_dec_digits [of "hd (nat_dec n)" n] by (auto simp: re_space_def is_digit_def)
  then have w: "dropWhile re_space (nat_dec n) = nat_dec n"
    by (cases "nat_dec n") auto
  show ?thesis using n
    by (simp add: Sscanf_d_def w d nat_dec_hd Let_def del: nat_dec.simps)
qed

lemma fold_max_foldr: "fold max (map int ns) (int k) = int (max k (foldr max ns 0))"
  by (induction ns arbitrary: k) (simp_all add: of_nat_max [symmetric] max.assoc max.commute max.left_commute del: of_nat_max)

text \<open>As many as the largest number says, whether the smaller ones occur or not.\<close>

lemma countParams_numbered:
  assumes "no_dollar g ps" and "4 * largest ps \<le> max_alloc"
  shows "countParams (numbered g ps) = Ok (replicate (largest ps) 0)"
proof -
  obtain ds where ds: "scan_all count_re (numbered g ps) = (zip (butlast (g # map snd ps)) ds, last (g # map snd ps))"
    "list_all2 (\<lambda>p d. submatch d 1 = nat_dec (fst p)) ps ds"
    using counted.scan_all_numbered [OF assms(1)] .
  have n: "fst p < 2 ^ 63" if "p \<in> set ps" for p
    using largest_ge [OF that] assms(2) by (simp add: max_alloc_def)
  have "map (\<lambda>m. Sscanf_d (m 1)) (FindAllSubmatch count_re (numbered g ps)) = map (\<lambda>d. Sscanf_d (submatch d 1)) ds"
  proof -
    have "map snd (zip (butlast (g # map snd ps)) ds) = ds"
      using list_all2_lengthD [OF ds(2)] by (intro map_snd_zip) (subst length_butlast, simp)
    then have "map (\<lambda>d. Sscanf_d (submatch d 1)) ds
        = map (\<lambda>d. Sscanf_d (submatch d 1)) (map snd (zip (butlast (g # map snd ps)) ds))" by simp
    then show ?thesis by (simp add: FindAllSubmatch_def ds(1) comp_def case_prod_beta)
  qed
  also have "\<dots> = map int (map fst ps)"
    using ds(2) n by (induction rule: list_all2_induct) (simp_all add: Sscanf_nat_dec)
  finally have "fold max (map (\<lambda>m. Sscanf_d (m 1)) (FindAllSubmatch count_re (numbered g ps))) 0 = int (largest ps)"
    using fold_max_foldr [of "map fst ps" 0] by (simp add: largest_def)
  then show ?thesis using assms(2) by (simp add: countParams_def Let_def)
qed


section \<open>The types\<close>

text \<open>What the client is told: what it asked for itself, else the type of the column the parameter is
  inserted into, else text. \<open>wanted\<close> are the types of \<open>Parse\<close>, \<open>n\<close> is the largest number in the query,
  \<open>lookup\<close> a query for the number of a type.\<close>

definition param_types :: "bool \<Rightarrow> 32 word list \<Rightarrow> 32 word list \<Rightarrow> nat \<Rightarrow> 32 word list" where
  "param_types lookup wanted columns n =
    (let asked = (if wanted = [] then replicate n 0 else wanted) in
     if lookup \<and> asked = [0] then [26]
     else map (\<lambda>j. if asked ! j \<noteq> 0 then asked ! j
         else if j < length columns \<and> columns ! j \<noteq> 0 then columns ! j else 25) [0..<length asked])"

definition type_lookup :: "string \<Rightarrow> bool" where
  "type_lookup q \<longleftrightarrow> Contains (ToUpper q) ''PG_TYPE'' \<and> Contains (ToUpper q) ''.OID''"

definition params_body :: "32 word list \<Rightarrow> byte list" where
  "params_body oids = be_bytes 2 (word_of_nat (length oids) :: 16 word) @ concat (map (be_bytes 4) oids)"

definition column_types :: "'d env \<Rightarrow> string \<Rightarrow> ('d, 32 word list option) handler" where
  "column_types env q = (if Contains (ToUpper q) ''INSERT INTO'' then inferInsertParamTypes env q else ret None)"

lemma filled:
  "default_oids (case inferred of Some known \<Rightarrow> fill_oids known asked | None \<Rightarrow> asked)
     = map (\<lambda>j. if asked ! j \<noteq> 0 then asked ! j
         else if j < length (case_option [] id inferred) \<and> case_option [] id inferred ! j \<noteq> 0
           then case_option [] id inferred ! j else 25) [0..<length asked]"
  by (rule nth_equalityI)
     (auto simp: default_oids_def fill_oids_def nth_enumerate_eq nth_default_def split: option.split)

text \<open>Asking for column types changes the cache and the database only.\<close>

definition same_core :: "'d conn \<Rightarrow> 'd conn \<Rightarrow> bool" where
  "same_core s t \<longleftrightarrow> conn_w t = conn_w s \<and> stmt_heap t = stmt_heap s"

interpretation core: kept_relation same_core
  by unfold_locales (auto simp: same_core_def)

lemma columnOID_core: "within same_core (columnOIDM env t c)"
  by (auto simp: within_def columnOIDM_def same_core_def split: prod.split)

lemma inferred_core: "within same_core (inferred_params env t cvs)"
  by (induction env t cvs rule: inferred_params.induct)
     (auto intro!: core.control columnOID_core split: option.split)

lemma column_types_core: "within same_core (column_types env q)"
  unfolding column_types_def inferInsertParamTypes_def Let_def
  by (auto intro!: core.control inferred_core split: option.split)

lemma set_oids_run: "set_stmt_oids i oids s = (Ok (), s\<lparr>stmt_heap := (stmt_heap s)[i := (stmt_heap s ! i)\<lparr>paramOIDs := oids\<rparr>]\<rparr>)"
  by (simp add: set_stmt_oids_def modifyM_def)

lemma store_and_send:
  assumes "listening u" and "i < length (stmt_heap u)"
  shows "\<exists>t. bindM (if fresh then ret () else set_stmt_oids i oids) (\<lambda>_.
      bindM (send (SendParameterDescription oids)) (\<lambda>_. set_stmt_oids i oids)) u = (Ok (), t)
    \<and> paramOIDs (stmt_heap t ! i) = oids
    \<and> out (conn_w t) = out (conn_w u) @ frame MsgParameterDescription (params_body oids)"
proof -
  have "listening (u\<lparr>stmt_heap := h\<rparr>)" for h using assms(1) by (simp add: listening_def)
  then show ?thesis using assms
    by (cases fresh) (simp_all add: SendParameterDescription_def set_oids_run bindM_def send_message wrote_def params_body_def ret_def)
qed

lemma pair_if: "(case (if c then (a, b) else (x, y)) of (p, q) \<Rightarrow> f p q) = f (if c then a else x) (if c then b else y)"
  by simp

text \<open>
  C39: the types a statement is described with. For a query given as text with numbered
  placeholders, \<open>Describe\<close> sends one \<open>ParameterDescription\<close> and stores the same types with the statement: if
  \<open>Parse\<close> named no types, one for each number up to the largest in the query, otherwise exactly as
  many as \<open>Parse\<close> named, even when the query has more placeholders; a type that the client gave is
  kept, another is that of the column of an \<open>INSERT\<close>, or text, and no type is left open.
\<close>

theorem describe_types_parameters:
  assumes "i < length (stmt_heap s)" and "listening s" and "ps_query (stmt_heap s ! i) = numbered g ps"
    and "no_dollar g ps" and "4 * largest ps \<le> max_alloc"
    and "column_types env (numbered g ps) s = (Ok columns, u)"
    and "types = param_types (type_lookup (numbered g ps)) (paramOIDs (stmt_heap s ! i)) (case_option [] id columns) (largest ps)"
  shows "\<exists>t. describeParams env i s = (Ok (), t) \<and> paramOIDs (stmt_heap t ! i) = types
    \<and> out (conn_w t) = out (conn_w s) @ frame MsgParameterDescription (params_body types)
    \<and> length types = (if paramOIDs (stmt_heap s ! i) = [] then largest ps else length (paramOIDs (stmt_heap s ! i)))
    \<and> 0 \<notin> set types"
proof -
  let ?wanted = "paramOIDs (stmt_heap s ! i)"
  let ?asked = "if ?wanted = [] then replicate (largest ps) 0 else ?wanted"
  let ?lookup = "?asked = [0] \<and> type_lookup (numbered g ps)"
  let ?oids = "if ?lookup then [26] else ?asked"
  have u: "conn_w u = conn_w s" "stmt_heap u = stmt_heap s"
    using within_run [OF column_types_core assms(6)] by (simp_all add: same_core_def)
  have types: "types = default_oids (case columns of Some known \<Rightarrow> fill_oids known ?oids | None \<Rightarrow> ?oids)"
    unfolding filled assms(7) param_types_def Let_def by (auto simp: nth_Cons split: nat.split)
  have asked: "bindM (if ?wanted = [] then liftR (countParams (numbered g ps)) else ret ?wanted) f s = f ?asked s"
    for f :: "32 word list \<Rightarrow> ('a, unit) handler"
    by (simp add: countParams_numbered [OF assms(4,5)] liftR_def bindM_def ret_def)
  have known: "bindM (column_types env (numbered g ps)) f s = f columns u"
    for f :: "32 word list option \<Rightarrow> ('a, unit) handler"
    using assms(6) by (simp add: bindM_def)
  have "describeParams env i s = bindM (if (if ?lookup then True else ?wanted = []) then ret () else set_stmt_oids i types) (\<lambda>_.
      bindM (send (SendParameterDescription types)) (\<lambda>_. set_stmt_oids i types)) u"
    by (simp only: describeParams_def getM_def Let_def assms(3) column_types_def [symmetric] type_lookup_def [symmetric]
      asked pair_if known types)
  moreover have "listening u" "i < length (stmt_heap u)" using assms(1,2) u by (simp_all add: listening_def)
  ultimately have "\<exists>t. describeParams env i s = (Ok (), t) \<and> paramOIDs (stmt_heap t ! i) = types
    \<and> out (conn_w t) = out (conn_w s) @ frame MsgParameterDescription (params_body types)"
    using store_and_send [of u i "if ?lookup then True else ?wanted = []" types] u(1) by simp
  moreover have "length types = (if ?wanted = [] then largest ps else length ?wanted)" "0 \<notin> set types"
    unfolding assms(7) param_types_def Let_def by (auto split: if_splits dest: arg_cong [of _ _ length])
  ultimately show ?thesis by blast
qed

definition described_conn :: "unit conn" where
  "described_conn = calm_conn\<lparr>stmt_heap := [\<lparr>ps_name = [], ps_query = ''select $1, $2'', paramOIDs = [23]\<rparr>]\<rparr>"

theorem describe_types_parameters_witness:
  "\<exists>t. describeParams calm_env 0 described_conn = (Ok (), t) \<and> paramOIDs (stmt_heap t ! 0) = [23]
    \<and> out (conn_w t) = out (conn_w described_conn) @ frame MsgParameterDescription (params_body [23])"
proof -
  let ?ps = "[(1, '', ''), (2, [])]"
  have q: "numbered ''select '' ?ps = ''select $1, $2''" "no_dollar ''select '' ?ps" by code_simp+
  have "\<not> Contains (ToUpper ''select $1, $2'') ''INSERT INTO''" by code_simp
  then have c: "column_types calm_env (numbered ''select '' ?ps) described_conn = (Ok None, described_conn)"
    by (simp only: q column_types_def ret_def if_False)
  have l: "4 * largest ?ps \<le> max_alloc" by (simp add: largest_def max_alloc_def)
  have d: "0 < length (stmt_heap described_conn)" "listening described_conn"
    "ps_query (stmt_heap described_conn ! 0) = numbered ''select '' ?ps" "paramOIDs (stmt_heap described_conn ! 0) = [23]"
    unfolding q(1) by (simp_all add: described_conn_def listening_def calm_conn_def new_conn_def open_sink_def)
  have "[23] = param_types (type_lookup (numbered ''select '' ?ps)) (paramOIDs (stmt_heap described_conn ! 0))
      (case_option [] id None) (largest ?ps)"
    by (simp add: d(4) param_types_def)
  from describe_types_parameters [OF d(1-3) q(2) l c this] show ?thesis by blast
qed

end
