(* ===== verification/ChBuffer.thy ===== *)
theory ChBuffer
  imports MysqlPool
begin

text \<open>
  \<open>internal/proxy/clickhouse/buffer.go\<close>: the buffer that collects the \<open>INSERT\<close> statements of
  ClickHouse clients and runs them in batches. Its operations hold the mutex, so that each is
  one step on the buffer and the database; the ticker of \<open>flushLoop\<close> is the event \<open>Tick\<close>, and
  the events of a run come in any order.
\<close>

section \<open>The buffer\<close>

record 'd write_buffer =
  buffered :: "string list"
  maxSize :: int
  stopped :: bool
  wb_db :: 'd

text \<open>The pool as the buffer uses it: single statements and transactions.\<close>

record 'd buffer_pool =
  wb_pool :: "'d mysql"
  wb_tx :: "'d transactions"

text \<open>A capacity that is negative, or whose strings (16 bytes each) are more than the run time can
  address, panics here, an interval that is not positive in the goroutine.\<close>

definition NewWriteBuffer :: "int \<Rightarrow> int \<Rightarrow> 'd \<Rightarrow> 'd write_buffer res" where
  "NewWriteBuffer sz interval d =
    (if sz < 0 \<or> int max_alloc < 16 * sz then Panic MakeSliceLen
     else if interval \<le> 0 then Panic TickerInterval
     else Ok \<lparr>buffered = [], maxSize = sz, stopped = False, wb_db = d\<rparr>)"

text \<open>The statements one by one, errors logged.\<close>

definition exec_each :: "'d mysql \<Rightarrow> string list \<Rightarrow> ('d, unit) act" where
  "exec_each db queries = seqM (map (\<lambda>q. ignoreM (bindM (pool_Exec db q []) (\<lambda>_. ret ()))) queries)"

text \<open>The statements in a transaction: the first error rolls it back and ends the flush.\<close>

definition exec_tx :: "'d transactions \<Rightarrow> string list \<Rightarrow> ('d, unit) act" where
  "exec_tx tx queries =
     catchM (bindM (seqM (map (tx_Exec tx) queries)) (\<lambda>_. ignoreM (tx_Commit tx)))
       (\<lambda>_. ignoreM (tx_Rollback tx))"

definition run_batch :: "'d buffer_pool \<Rightarrow> string list \<Rightarrow> ('d, unit) act" where
  "run_batch p queries =
     bindM (catchM (bindM (tx_Begin (wb_tx p)) (\<lambda>_. ret True)) (\<lambda>_. ret False)) (\<lambda>began.
       if began then exec_tx (wb_tx p) queries else exec_each (wb_pool p) queries)"

definition flushLocked :: "'d buffer_pool \<Rightarrow> ('d write_buffer, unit) act" where
  "flushLocked p wb =
    (if buffered wb = [] then (Ok (), wb)
     else (case run_batch p (buffered wb) (wb_db wb) of
       (r, d) \<Rightarrow> (r, wb\<lparr>buffered := [], wb_db := d\<rparr>)))"

definition Enqueue :: "'d buffer_pool \<Rightarrow> string \<Rightarrow> ('d write_buffer, unit) act" where
  "Enqueue p sql wb =
    (let wb = wb\<lparr>buffered := buffered wb @ [sql]\<rparr> in
     if maxSize wb \<le> int (length (buffered wb)) then flushLocked p wb else (Ok (), wb))"

definition Flush :: "'d buffer_pool \<Rightarrow> ('d write_buffer, unit) act" where
  "Flush p = flushLocked p"

text \<open>Closing a channel twice panics.\<close>

definition Close :: "'d buffer_pool \<Rightarrow> ('d write_buffer, unit) act" where
  "Close p wb = (if stopped wb then (Panic ClosedChan, wb) else Flush p (wb\<lparr>stopped := True\<rparr>))"

section \<open>Runs\<close>

datatype buffer_event = Enq string | Tick | CloseBuffer

text \<open>The ticker may still fire once when the buffer is being closed.\<close>

fun buffer_step :: "'d buffer_pool \<Rightarrow> buffer_event \<Rightarrow> ('d write_buffer, unit) act" where
  "buffer_step p (Enq sql) = Enqueue p sql"
| "buffer_step p Tick = Flush p"
| "buffer_step p CloseBuffer = Close p"

definition buffer_run :: "'d buffer_pool \<Rightarrow> buffer_event list \<Rightarrow> ('d write_buffer, unit) act" where
  "buffer_run p es = seqM (map (buffer_step p) es)"

fun enqueued :: "buffer_event list \<Rightarrow> string list" where
  "enqueued [] = []"
| "enqueued (Enq sql # es) = sql # enqueued es"
| "enqueued (_ # es) = enqueued es"

section \<open>Combining statements\<close>

definition extractTableName :: "string \<Rightarrow> string" where
  "extractTableName query = (case Index (ToUpper query) ''INTO'' of
       None \<Rightarrow> []
     | Some intoIdx \<Rightarrow>
        (let rest = TrimSpace (drop (intoIdx + 4) query) in
         case IndexByte rest CHR ''('' of
           Some idx \<Rightarrow> TrimSpace (take idx rest)
         | None \<Rightarrow> (case Index (ToUpper rest) ''VALUES'' of
             Some idx \<Rightarrow> TrimSpace (take idx rest)
           | None \<Rightarrow> TrimSpace rest)))"

record insert_info =
  ins_prefix :: string
  ins_values :: "string list"

text \<open>The values of a statement after \<open>VALUES\<close>.\<close>

definition strip_values :: "string \<Rightarrow> string" where
  "strip_values s = (let s = TrimSpace s in
     if HasPrefix (ToUpper s) ''VALUES'' then TrimSpace (drop 6 s) else s)"

text \<open>One more statement for a table: the first one gives the text before the values.\<close>

primrec add_insert :: "string \<Rightarrow> string \<Rightarrow> string \<Rightarrow> (string \<times> insert_info) list \<Rightarrow> (string \<times> insert_info) list" where
  "add_insert table pre values [] = [(table, \<lparr>ins_prefix = pre, ins_values = [values]\<rparr>)]"
| "add_insert table pre values (e # es) =
     (if fst e = table then (table, (snd e)\<lparr>ins_values := ins_values (snd e) @ [values]\<rparr>) # es
      else e # add_insert table pre values es)"

definition collect_insert :: "string \<Rightarrow> (string \<times> insert_info) list \<Rightarrow> (string \<times> insert_info) list" where
  "collect_insert q m = (let upper = ToUpper q in
     if \<not> HasPrefix upper ''INSERT'' then m
     else case Index upper ''VALUES'' of
       None \<Rightarrow> m
     | Some valuesIdx \<Rightarrow>
         add_insert (extractTableName q) (take (valuesIdx + 6) q) (strip_values (drop (valuesIdx + 6) q)) m)"

text \<open>The tables are a Go map: \<open>order\<close> is the order it is walked in.\<close>

definition BatchInserts :: "((string \<times> insert_info) list \<Rightarrow> (string \<times> insert_info) list) \<Rightarrow> string list \<Rightarrow> string" where
  "BatchInserts order inserts =
     Join (map (\<lambda>(table, info). ins_prefix info @ '' '' @ Join (ins_values info) '', '')
            (order (fold collect_insert inserts []))) ''; ''"

section \<open>The bound of the buffer\<close>

text \<open>Between operations the buffer has fewer statements than its size, or none.\<close>

definition bounded :: "'d write_buffer \<Rightarrow> bool" where
  "bounded wb \<longleftrightarrow> int (length (buffered wb)) < max 1 (maxSize wb)"

definition stays_bounded :: "'d write_buffer \<Rightarrow> 'd write_buffer \<Rightarrow> bool" where
  "stays_bounded s t \<longleftrightarrow> maxSize t = maxSize s \<and> (bounded s \<longrightarrow> bounded t)"

interpretation bnd: kept_relation stays_bounded
  by unfold_locales (auto simp: stays_bounded_def)

lemma flush_result: "flushLocked p wb = (r, t) \<Longrightarrow> buffered t = [] \<and> maxSize t = maxSize wb"
  by (auto simp: flushLocked_def split: if_splits prod.splits)

lemma flush_bounded: "stays_bounded s (snd (flushLocked p s))"
  using flush_result [of p s "fst (flushLocked p s)" "snd (flushLocked p s)"]
  by (simp add: stays_bounded_def bounded_def)

lemma step_bounded: "within stays_bounded (buffer_step p e)"
  unfolding within_def
proof
  fix s
  show "stays_bounded s (snd (buffer_step p e s))"
  proof (cases e)
    case (Enq sql)
    let ?s = "s\<lparr>buffered := buffered s @ [sql]\<rparr>"
    show ?thesis
      using flush_result [of p ?s "fst (flushLocked p ?s)" "snd (flushLocked p ?s)"]
      by (auto simp: Enq Enqueue_def Let_def stays_bounded_def bounded_def)
  next
    case CloseBuffer
    then show ?thesis using flush_bounded [of "s\<lparr>stopped := True\<rparr>" p]
      by (auto simp: Close_def Flush_def stays_bounded_def bounded_def)
  qed (simp add: Flush_def flush_bounded)
qed

text \<open>
  The buffer is bounded: from a new buffer on, after any sequence of inserts, ticks and
  closes, it holds fewer statements than its configured size (none if the size is 0 or 1).
\<close>

theorem buffer_is_bounded:
  assumes "NewWriteBuffer sz interval d = Ok wb"
  shows "int (length (buffered (snd (buffer_run p es wb)))) < max 1 sz"
proof -
  have w: "buffered wb = []" "maxSize wb = sz"
    using assms by (auto simp: NewWriteBuffer_def split: if_splits)
  have "within stays_bounded (buffer_run p es)"
    unfolding buffer_run_def by (rule bnd.seq_keep) (auto simp: step_bounded)
  then show ?thesis using withinD [of stays_bounded "buffer_run p es" wb] w
    by (auto simp: stays_bounded_def bounded_def less_max_iff_disj)
qed

section \<open>A transactional database\<close>

text \<open>
  What a database with transactions promises: statements run in a transaction count when it
  commits, in order, and not at all when it does not. Which statements are refused in which
  state, and whether a transaction starts and commits, is left open.
\<close>

record store =
  committed :: "string list"
  opened :: "string list"

record store_policy =
  refuses :: "store \<Rightarrow> string \<Rightarrow> bool"
  may_begin :: "store \<Rightarrow> bool"
  may_commit :: "store \<Rightarrow> bool"

definition store_pool :: "store_policy \<Rightarrow> store buffer_pool" where
  "store_pool pol = \<lparr>
     wb_pool = \<lparr>pool_Query = (\<lambda>q args. failM WriteFailed),
       pool_Exec = (\<lambda>q args d. if refuses pol d q then (Err WriteFailed, d)
          else (Ok 1, d\<lparr>committed := committed d @ [q]\<rparr>))\<rparr>,
     wb_tx = \<lparr>
       tx_Begin = (\<lambda>d. if may_begin pol d then (Ok (), d\<lparr>opened := []\<rparr>) else (Err WriteFailed, d)),
       tx_Exec = (\<lambda>q d. if refuses pol d q then (Err WriteFailed, d) else (Ok (), d\<lparr>opened := opened d @ [q]\<rparr>)),
       tx_Commit = (\<lambda>d. if may_commit pol d then (Ok (), d\<lparr>committed := committed d @ opened d, opened := []\<rparr>)
          else (Err WriteFailed, d\<lparr>opened := []\<rparr>)),
       tx_Rollback = (\<lambda>d. (Ok (), d\<lparr>opened := []\<rparr>))\<rparr>\<rparr>"

text \<open>What is taken of a list of statements, one by one and inside a transaction.\<close>

fun taken :: "store_policy \<Rightarrow> store \<Rightarrow> string list \<Rightarrow> string list" where
  "taken pol d [] = []"
| "taken pol d (q # qs) = (if refuses pol d q then taken pol d qs
     else q # taken pol (d\<lparr>committed := committed d @ [q]\<rparr>) qs)"

fun tx_taken :: "store_policy \<Rightarrow> store \<Rightarrow> string list \<Rightarrow> string list" where
  "tx_taken pol d [] = []"
| "tx_taken pol d (q # qs) = (if refuses pol d q then [] else q # tx_taken pol (d\<lparr>opened := opened d @ [q]\<rparr>) qs)"

lemma taken_subseq: "subseq (taken pol d qs) qs"
  by (induction pol d qs rule: taken.induct) auto

lemma tx_taken_all: "refuses pol = (\<lambda>_ _. False) \<Longrightarrow> tx_taken pol d qs = qs"
  by (induction qs arbitrary: d) simp_all

lemma tx_taken_cut: "q \<in> set qs \<Longrightarrow> \<forall>d. refuses pol d q \<Longrightarrow> tx_taken pol d qs \<noteq> qs"
  by (induction qs arbitrary: d) auto

lemma exec_each_store:
  "exec_each (wb_pool (store_pool pol)) qs d = (Ok (), d\<lparr>committed := committed d @ taken pol d qs\<rparr>)"
  by (induction qs arbitrary: d)
     (simp_all add: exec_each_def store_pool_def ignoreM_def catchM_def bindM_def ret_def)

lemma tx_statements_store:
  "seqM (map (tx_Exec (wb_tx (store_pool pol))) qs) d =
    (if tx_taken pol d qs = qs then Ok () else Err WriteFailed, d\<lparr>opened := opened d @ tx_taken pol d qs\<rparr>)"
  by (induction qs arbitrary: d) (simp_all add: store_pool_def bindM_def ret_def)

lemma exec_tx_store:
  "exec_tx (wb_tx (store_pool pol)) qs d =
    (Ok (), d\<lparr>opened := [], committed := committed d @
       (if tx_taken pol d qs = qs \<and> may_commit pol (d\<lparr>opened := opened d @ qs\<rparr>) then opened d @ qs else [])\<rparr>)"
  by (simp add: exec_tx_def bindM_def catchM_def ignoreM_def tx_statements_store ret_def)
     (simp add: store_pool_def ret_def)

lemma run_batch_store:
  "\<exists>kept d'. run_batch (store_pool pol) qs d = (Ok (), d') \<and> committed d' = committed d @ kept \<and> subseq kept qs
    \<and> (may_begin pol d \<longrightarrow> kept = (if tx_taken pol (d\<lparr>opened := []\<rparr>) qs = qs \<and> may_commit pol (d\<lparr>opened := qs\<rparr>) then qs else []))"
proof (cases "may_begin pol d")
  case True
  then have "tx_Begin (wb_tx (store_pool pol)) d = (Ok (), d\<lparr>opened := []\<rparr>)" by (simp add: store_pool_def)
  then show ?thesis by (simp add: run_batch_def bindM_def catchM_def ret_def exec_tx_store True)
next
  case False
  then have "tx_Begin (wb_tx (store_pool pol)) d = (Err WriteFailed, d)" by (simp add: store_pool_def)
  then show ?thesis by (simp add: run_batch_def bindM_def catchM_def ret_def exec_each_store False taken_subseq)
qed

text \<open>What has reached the database or still waits.\<close>

definition accepted :: "store write_buffer \<Rightarrow> string list" where
  "accepted wb = committed (wb_db wb) @ buffered wb"

lemma flush_store:
  "\<exists>t. flushLocked (store_pool pol) wb = (Ok (), t) \<and> buffered t = [] \<and> stopped t = stopped wb
    \<and> prefix (committed (wb_db wb)) (committed (wb_db t)) \<and> subseq (accepted t) (accepted wb)
    \<and> ((\<exists>q \<in> set (buffered wb). \<forall>d. refuses pol d q) \<longrightarrow> may_begin pol (wb_db wb) \<longrightarrow> committed (wb_db t) = committed (wb_db wb))
    \<and> (refuses pol = (\<lambda>_ _. False) \<longrightarrow> (\<forall>d. may_begin pol d \<and> may_commit pol d) \<longrightarrow> accepted t = accepted wb)"
proof (cases "buffered wb = []")
  case False
  obtain kept d' where k: "run_batch (store_pool pol) (buffered wb) (wb_db wb) = (Ok (), d')"
      "committed d' = committed (wb_db wb) @ kept" "subseq kept (buffered wb)"
      "may_begin pol (wb_db wb) \<longrightarrow> kept = (if tx_taken pol (wb_db wb\<lparr>opened := []\<rparr>) (buffered wb) = buffered wb
          \<and> may_commit pol (wb_db wb\<lparr>opened := buffered wb\<rparr>) then buffered wb else [])"
    using run_batch_store [of pol "buffered wb" "wb_db wb"] by blast
  then show ?thesis using False
    by (auto simp: flushLocked_def accepted_def tx_taken_all tx_taken_cut intro: list_emb_append_mono)
qed (simp add: flushLocked_def accepted_def)

lemma subseq_extend: "subseq xs ys \<Longrightarrow> subseq (xs @ zs) (ys @ zs)"
  by (rule list_emb_append_mono) auto

lemma enqueue_store:
  "\<exists>t. Enqueue (store_pool pol) sql wb = (Ok (), t) \<and> subseq (accepted t) (accepted wb @ [sql])
    \<and> (refuses pol = (\<lambda>_ _. False) \<longrightarrow> (\<forall>d. may_begin pol d \<and> may_commit pol d) \<longrightarrow> accepted t = accepted wb @ [sql])"
proof -
  let ?wb = "wb\<lparr>buffered := buffered wb @ [sql]\<rparr>"
  have "accepted ?wb = accepted wb @ [sql]" by (simp add: accepted_def)
  then show ?thesis using flush_store [of pol ?wb] by (auto simp: Enqueue_def Let_def)
qed

lemma step_store:
  assumes "buffer_step (store_pool pol) e wb = (r, t)"
  shows "subseq (accepted t) (accepted wb @ enqueued [e])
    \<and> (r = Ok () \<longrightarrow> refuses pol = (\<lambda>_ _. False) \<longrightarrow> (\<forall>d. may_begin pol d \<and> may_commit pol d)
        \<longrightarrow> accepted t = accepted wb @ enqueued [e])"
proof (cases e)
  case (Enq sql)
  then show ?thesis using assms enqueue_store [of pol sql wb] by auto
next
  case Tick
  then show ?thesis using assms flush_store [of pol wb] by (auto simp: Flush_def)
next
  case CloseBuffer
  have "accepted (wb\<lparr>stopped := True\<rparr>) = accepted wb" by (simp add: accepted_def)
  then show ?thesis using assms flush_store [of pol "wb\<lparr>stopped := True\<rparr>"] CloseBuffer
    by (auto simp: Close_def Flush_def split: if_splits)
qed

lemma enqueued_Cons: "enqueued (e # es) = enqueued [e] @ enqueued es"
  by (cases e) simp_all

text \<open>
  C10: no insert is executed twice or out of order, whatever MySQL refuses: after any run, what
  is in the database and in the buffer is a subsequence of what was there and what came in.
\<close>

theorem inserts_at_most_once:
  "subseq (accepted (snd (buffer_run (store_pool pol) es wb))) (accepted wb @ enqueued es)"
proof (induction es arbitrary: wb)
  case Nil
  then show ?case by (simp add: buffer_run_def ret_def)
next
  case (Cons e es)
  obtain r t where st: "buffer_step (store_pool pol) e wb = (r, t)"
    by (cases "buffer_step (store_pool pol) e wb")
  have one: "subseq (accepted t @ enqueued es) (accepted wb @ enqueued (e # es))"
    using subseq_extend [OF conjunct1 [OF step_store [OF st]], of "enqueued es"]
    by (simp add: enqueued_Cons [of e es])
  have "subseq (accepted (snd (buffer_run (store_pool pol) (e # es) wb))) (accepted t @ enqueued es)"
    using Cons.IH [of t] by (cases r) (auto simp: buffer_run_def bindM_def st intro: list_emb_append2 prefix_imp_subseq)
  then show ?case using one by (rule subseq_order.order_trans)
qed

text \<open>
  C3: and none is lost when MySQL takes every statement and every transaction: after a run that
  ends with a flush the database has what it had, what was buffered and what came in, in order.
\<close>

theorem inserts_exactly_once:
  assumes "buffer_run (store_pool pol) es wb = (Ok (), t)"
    and "refuses pol = (\<lambda>_ _. False)" and "\<forall>d. may_begin pol d \<and> may_commit pol d"
  shows "committed (wb_db (snd (Flush (store_pool pol) t)))
    = committed (wb_db wb) @ buffered wb @ enqueued es"
proof -
  have "accepted t = accepted wb @ enqueued es"
    using assms(1)
  proof (induction es arbitrary: wb)
    case Nil
    then show ?case by (simp add: buffer_run_def)
  next
    case (Cons e es)
    obtain r u where st: "buffer_step (store_pool pol) e wb = (r, u)"
      by (cases "buffer_step (store_pool pol) e wb")
    with Cons.prems have r: "r = Ok ()" and rest: "buffer_run (store_pool pol) es u = (Ok (), t)"
      by (cases r; simp add: buffer_run_def bindM_def)+
    have "accepted u = accepted wb @ enqueued [e]" using step_store [OF st] r assms(2,3) by blast
    then show ?case using Cons.IH [OF rest] by (simp add: enqueued_Cons [of e es])
  qed
  moreover have "\<exists>v. flushLocked (store_pool pol) t = (Ok (), v) \<and> buffered v = [] \<and> accepted v = accepted t"
    using flush_store [of pol t] assms(2,3) by blast
  ultimately show ?thesis by (auto simp: Flush_def accepted_def)
qed

text \<open>
  C28: but one statement that MySQL refuses, in whatever state, loses the whole batch: the transaction is rolled back
  and the buffer is empty, so that inserts which would have succeeded, and were acknowledged to
  their clients, are gone; no error is returned.
\<close>

theorem refused_statement_loses_batch:
  assumes "q \<in> set (buffered wb)" and "\<forall>d. refuses pol d q" and "may_begin pol (wb_db wb)"
  shows "\<exists>t. Flush (store_pool pol) wb = (Ok (), t) \<and> buffered t = []
    \<and> committed (wb_db t) = committed (wb_db wb)"
  using flush_store [of pol wb] assms by (auto simp: Flush_def)

definition bad_policy :: store_policy where
  "bad_policy = \<lparr>refuses = (\<lambda>d q. q = ''bad''), may_begin = (\<lambda>_. True), may_commit = (\<lambda>_. True)\<rparr>"

definition good_policy :: store_policy where
  "good_policy = \<lparr>refuses = (\<lambda>_ _. False), may_begin = (\<lambda>_. True), may_commit = (\<lambda>_. True)\<rparr>"

definition empty_buffer :: "store write_buffer" where
  "empty_buffer = \<lparr>buffered = [], maxSize = 2, stopped = False, wb_db = \<lparr>committed = [], opened = []\<rparr>\<rparr>"

theorem refused_statement_loses_batch_witness:
  "\<exists>t. Flush (store_pool bad_policy) (empty_buffer\<lparr>buffered := [''good'', ''bad'']\<rparr>) = (Ok (), t) \<and> buffered t = []
    \<and> committed (wb_db t) = []"
  using refused_statement_loses_batch [of "''bad''" "empty_buffer\<lparr>buffered := [''good'', ''bad'']\<rparr>" bad_policy]
  by (simp add: bad_policy_def empty_buffer_def)

theorem inserts_exactly_once_witness:
  "committed (wb_db (snd (Flush (store_pool good_policy)
      (snd (buffer_run (store_pool good_policy) [Enq ''a'', Enq ''b'', Tick, Enq ''c''] empty_buffer)))))
    = [''a'', ''b'', ''c'']"
proof -
  have "buffer_run (store_pool good_policy) [Enq ''a'', Enq ''b'', Tick, Enq ''c''] empty_buffer
      = (Ok (), snd (buffer_run (store_pool good_policy) [Enq ''a'', Enq ''b'', Tick, Enq ''c''] empty_buffer))"
    by code_simp
  from inserts_exactly_once [OF this] show ?thesis
    by (simp add: good_policy_def empty_buffer_def)
qed

theorem buffer_is_bounded_witness:
  "int (length (buffered (snd (buffer_run (store_pool bad_policy) [Enq ''a'', Enq ''b'', Enq ''c'']
      \<lparr>buffered = [], maxSize = 2, stopped = False, wb_db = \<lparr>committed = [], opened = []\<rparr>\<rparr>)))) < 2"
  using buffer_is_bounded [of 2 1 "\<lparr>committed = [], opened = []\<rparr>" _ "store_pool bad_policy" "[Enq ''a'', Enq ''b'', Enq ''c'']"]
  by (simp add: NewWriteBuffer_def max_alloc_def)

section \<open>Combined statements\<close>

text \<open>
  Combining inserts groups them by table alone: two statements with different column lists
  become one under the columns of the first, so that the values of the second go into the
  wrong columns.
\<close>

theorem batch_mixes_columns:
  "BatchInserts (\<lambda>m. m)
      [''INSERT INTO t (a, b) VALUES (1, 2)'', ''INSERT INTO t (b, a) VALUES (3, 4)'']
    = ''INSERT INTO t (a, b) VALUES (1, 2), (3, 4)''"
  by code_simp

text \<open>
  Inserts with the same text up to the values, into one table, are combined into one
  statement that has that text and the values of all, in order.
\<close>

theorem batch_one_table:
  assumes "vs \<noteq> []"
    and "HasPrefix (ToUpper head) ''INSERT''"
    and "\<forall>v \<in> set vs. Index (ToUpper (head @ v)) ''VALUES'' = Some (length head - 6)"
    and "6 \<le> length head"
    and "\<forall>v \<in> set vs. extractTableName (head @ v) = table"
  shows "BatchInserts (\<lambda>m. m) (map (\<lambda>v. head @ v) vs)
    = head @ '' '' @ Join (map strip_values vs) '', ''"
proof -
  have one: "collect_insert (head @ v) m = add_insert table head (strip_values v) m" if "v \<in> set vs" for v m
    using assms(2-5) that
    by (auto simp: collect_insert_def Let_def HasPrefix_iff)
  have more: "fold collect_insert (map (\<lambda>v. head @ v) ws) [(table, \<lparr>ins_prefix = head, ins_values = us\<rparr>)]
      = [(table, \<lparr>ins_prefix = head, ins_values = us @ map strip_values ws\<rparr>)]"
    if "set ws \<subseteq> set vs" for ws us
    using that by (induction ws arbitrary: us) (auto simp: one)
  obtain v ws where vs: "vs = v # ws" using assms(1) by (cases vs) auto
  have "fold collect_insert (map (\<lambda>v. head @ v) vs) []
      = [(table, \<lparr>ins_prefix = head, ins_values = map strip_values vs\<rparr>)]"
    using more [of ws "[strip_values v]"] one [of v "[]"] vs by (simp add: subset_iff)
  then show ?thesis by (simp add: BatchInserts_def)
qed

theorem batch_one_table_witness:
  "BatchInserts (\<lambda>m. m) (map (\<lambda>v. ''INSERT INTO t (a) VALUES'' @ v) ['' (1)'', '' (2)''])
    = ''INSERT INTO t (a) VALUES'' @ '' '' @ Join (map strip_values ['' (1)'', '' (2)'']) '', ''"
proof (rule batch_one_table)
  show "HasPrefix (ToUpper ''INSERT INTO t (a) VALUES'') ''INSERT''" by code_simp
  have "list_all (\<lambda>v. Index (ToUpper (''INSERT INTO t (a) VALUES'' @ v)) ''VALUES''
      = Some (length ''INSERT INTO t (a) VALUES'' - 6)) ['' (1)'', '' (2)'']" by code_simp
  then show "\<forall>v \<in> set ['' (1)'', '' (2)'']. Index (ToUpper (''INSERT INTO t (a) VALUES'' @ v)) ''VALUES''
      = Some (length ''INSERT INTO t (a) VALUES'' - 6)" by (simp only: list_all_iff)
  have "list_all (\<lambda>v. extractTableName (''INSERT INTO t (a) VALUES'' @ v) = ''t'') ['' (1)'', '' (2)'']"
    by code_simp
  then show "\<forall>v \<in> set ['' (1)'', '' (2)'']. extractTableName (''INSERT INTO t (a) VALUES'' @ v) = ''t''"
    by (simp only: list_all_iff)
qed simp_all

end
