(* ===== verification/ChSystem.thy ===== *)
theory ChSystem
  imports MysqlPool GoJson
begin

text \<open>
  \<open>internal/proxy/clickhouse/system.go\<close>: ClickHouse's system tables, answered from MySQL's
  \<open>information_schema\<close>, the ClickHouse type of a MySQL column type, and the JSON form of rows.
\<close>

section \<open>Types\<close>

definition ch_types :: "(string \<times> string) list" where
  "ch_types =
    [(''tinyint(1)'', ''UInt8''), (''smallint'', ''Int16''), (''mediumint'', ''Int24''), (''bigint'', ''Int64''),
     (''int'', ''Int32''), (''integer'', ''Int32''), (''decimal'', ''Decimal64(12)''), (''float'', ''Float32''),
     (''double'', ''Float64''), (''datetime'', ''DateTime64(3)''), (''date'', ''Date''),
     (''json'', ''Map(LowCardinality(String), String)''), (''longtext'', ''String''), (''mediumtext'', ''String''),
     (''text'', ''String''), (''varchar'', ''String''), (''char'', ''String''), (''blob'', ''String'')]"

text \<open>The first word that the type contains decides.\<close>

definition mysqlToCHType :: "string \<Rightarrow> string" where
  "mysqlToCHType mysqlType =
    (case filter (\<lambda>(w, t). Contains mysqlType w) ch_types of (w, t) # _ \<Rightarrow> t | [] \<Rightarrow> ''String'')"

section \<open>Tables\<close>

definition system_tables_columns :: "string list" where
  "system_tables_columns =
    [''database'', ''name'', ''uuid'', ''engine'', ''engine_full'', ''sorting_key'',
     ''primary_key'', ''partition_key'', ''sampling_key'', ''storage_policy'',
     ''total_rows'', ''total_bytes'', ''lifetime_rows'', ''lifetime_bytes'',
     ''parts'', ''active_parts'', ''marks'']"

definition system_tables_query :: string where
  "system_tables_query = [CHR 0x0A, CHR 0x09, CHR 0x09]
     @ ''SELECT table_name, table_name, '' @ [CHR 0x27, CHR 0x27] @ '', 'MergeTree', 'MergeTree()', '' @
       Join (replicate 5 [CHR 0x27, CHR 0x27]) '', '' @ '','' @ [CHR 0x0A, CHR 0x09, CHR 0x09, CHR 0x09]
     @ ''0, 0, 0, 0, 0, 0, 0'' @ [CHR 0x0A, CHR 0x09, CHR 0x09]
     @ ''FROM information_schema.tables'' @ [CHR 0x0A, CHR 0x09, CHR 0x09]
     @ ''WHERE table_schema = DATABASE() AND table_type = 'BASE TABLE'' @ [CHR 0x27, CHR 0x0A, CHR 0x09]"

text \<open>A row that does not scan into the columns is skipped; the first cell is the database.\<close>

definition system_tables_rows :: "gval list res list \<Rightarrow> gval list list" where
  "system_tables_rows rows = concat (map (\<lambda>r. case r of
       Ok row \<Rightarrow> if length row = length system_tables_columns then [GString ''default'' # tl row] else []
     | _ \<Rightarrow> []) rows)"

definition QuerySystemTables :: "'d mysql \<Rightarrow> ('d, string list \<times> gval list list) act" where
  "QuerySystemTables db = bindM (pool_Query db system_tables_query []) (\<lambda>rows.
     ret (system_tables_columns, system_tables_rows (scans rows)))"

definition system_columns_columns :: "string list" where
  "system_columns_columns =
    [''database'', ''table'', ''name'', ''type'', ''position'', ''default_expression'',
     ''comment'', ''codec_expression'', ''default_type'']"

definition system_columns_query :: string where
  "system_columns_query = [CHR 0x0A, CHR 0x09, CHR 0x09]
     @ ''SELECT table_name, column_name, column_type, ordinal_position'' @ [CHR 0x0A, CHR 0x09, CHR 0x09]
     @ ''FROM information_schema.columns'' @ [CHR 0x0A, CHR 0x09, CHR 0x09]
     @ ''WHERE table_schema = DATABASE()'' @ [CHR 0x0A, CHR 0x09, CHR 0x09]
     @ ''ORDER BY table_name, ordinal_position'' @ [CHR 0x0A, CHR 0x09]"

definition system_columns_row :: "gval list \<Rightarrow> gval list option" where
  "system_columns_row row = (case row of
       [a, b, c, d] \<Rightarrow> (case (scan_string a, scan_string b, scan_string c, scan_int d) of
           (Some table, Some name, Some mysqlType, Some pos) \<Rightarrow>
             Some [GString ''default'', GString table, GString name, GString (mysqlToCHType mysqlType),
               GInt (word_of_int pos), GString [], GString [], GString [], GString []]
         | _ \<Rightarrow> None)
     | _ \<Rightarrow> None)"

definition system_columns_rows :: "gval list res list \<Rightarrow> gval list list" where
  "system_columns_rows rows = concat (map (\<lambda>r. case r of
       Ok row \<Rightarrow> (case system_columns_row row of Some cells \<Rightarrow> [cells] | None \<Rightarrow> [])
     | _ \<Rightarrow> []) rows)"

definition QuerySystemColumns :: "'d mysql \<Rightarrow> ('d, string list \<times> gval list list) act" where
  "QuerySystemColumns db = bindM (pool_Query db system_columns_query []) (\<lambda>rows.
     ret (system_columns_columns, system_columns_rows (scans rows)))"

definition system_parts_columns :: "string list" where
  "system_parts_columns =
    [''database'', ''table'', ''partition_id'', ''name'', ''active'', ''marks'',
     ''rows'', ''bytes_on_disk'', ''modification_time'', ''remove_time'']"

definition system_parts_query :: string where
  "system_parts_query = [CHR 0x0A, CHR 0x09, CHR 0x09]
     @ ''SELECT table_name'' @ [CHR 0x0A, CHR 0x09, CHR 0x09]
     @ ''FROM information_schema.tables'' @ [CHR 0x0A, CHR 0x09, CHR 0x09]
     @ ''WHERE table_schema = DATABASE() AND table_type = 'BASE TABLE'' @ [CHR 0x27, CHR 0x0A, CHR 0x09]"

text \<open>One part per table; here the error of a scan is dropped and the name is empty.\<close>

definition name_or_empty :: "gval option \<Rightarrow> string" where
  "name_or_empty v = (case Option.bind v scan_string of Some s \<Rightarrow> s | None \<Rightarrow> [])"

definition system_parts_row :: "string \<Rightarrow> gval list" where
  "system_parts_row table =
    [GString ''default'', GString table, GString ''all'', GString ''all_0'', GBool True, GInt 1, GInt 0, GInt 0,
     GString [], GString []]"

definition QuerySystemParts :: "'d mysql \<Rightarrow> ('d, string list \<times> gval list list) act" where
  "QuerySystemParts db = bindM (pool_Query db system_parts_query []) (\<lambda>rows.
     ret (system_parts_columns, map (\<lambda>v. system_parts_row (name_or_empty v)) (first_column rows)))"

definition QuerySystemProcesses :: "('d, string list \<times> gval list list) act" where
  "QuerySystemProcesses = ret
    ([''query_id'', ''address'', ''user'', ''initial_user'', ''query'',
      ''elapsed'', ''is_cancelled'', ''read_rows'', ''written_rows''], [])"

definition QuerySystemMetrics :: "('d, string list \<times> gval list list) act" where
  "QuerySystemMetrics = ret
    ([''metric'', ''value'', ''description''],
     [[GString ''Query'', GInt 0, GString ''Number of executing queries''],
      [GString ''Merge'', GInt 0, GString ''Number of executing background merges''],
      [GString ''PartMutation'', GInt 0, GString ''Number of mutations''],
      [GString ''ReplicatedFetch'', GInt 0, GString ''Number of data parts being fetched from replica''],
      [GString ''ReplicatedSend'', GInt 0, GString ''Number of data parts being sent to replicas'']])"

section \<open>JSON\<close>

text \<open>One object per row, in a list; a column without a cell is left out.\<close>

definition FormatJSON :: "go_json \<Rightarrow> string list \<Rightarrow> gval list list \<Rightarrow> string option" where
  "FormatJSON js columns rows = map_option json_list (those (map (\<lambda>row. marshal_map js (zip columns row)) rows))"

section \<open>Shape of the answers\<close>

text \<open>An answer with one cell for every column.\<close>

definition rectangular :: "string list \<times> gval list list \<Rightarrow> bool" where
  "rectangular a \<longleftrightarrow> list_all (\<lambda>row. length row = length (fst a)) (snd a)"

definition answers_rectangular :: "('d, string list \<times> gval list list) act \<Rightarrow> 'd \<Rightarrow> bool" where
  "answers_rectangular m d \<longleftrightarrow> (case m d of (Ok a, d') \<Rightarrow> rectangular a | _ \<Rightarrow> True)"

lemma tables_rectangular: "rectangular (system_tables_columns, system_tables_rows rows)"
  by (auto simp: rectangular_def list_all_iff system_tables_rows_def system_tables_columns_def split: res.splits if_splits)

lemma system_columns_row_length: "system_columns_row row = Some cells \<Longrightarrow> length cells = 9"
  by (auto simp: system_columns_row_def split: list.splits option.splits)

lemma columns_rectangular: "rectangular (system_columns_columns, system_columns_rows rows)"
  using system_columns_row_length
  by (fastforce simp: rectangular_def list_all_iff system_columns_rows_def system_columns_columns_def
    split: res.splits option.splits)

lemma parts_rectangular: "rectangular (system_parts_columns, map (\<lambda>v. system_parts_row (name_or_empty v)) vs)"
  by (simp add: rectangular_def list_all_iff system_parts_columns_def system_parts_row_def)

text \<open>
  Whatever MySQL returns, every row of a system table has one cell for every column of the
  answer.
\<close>

theorem system_tables_rectangular:
  "answers_rectangular (QuerySystemTables db) d \<and> answers_rectangular (QuerySystemColumns db) d
    \<and> answers_rectangular (QuerySystemParts db) d \<and> answers_rectangular QuerySystemProcesses d
    \<and> answers_rectangular QuerySystemMetrics d"
proof -
  have m: "answers_rectangular (bindM (pool_Query db q []) (\<lambda>rows. ret (f rows))) d"
    if "\<And>rows. rectangular (f rows)" for q f
    using that by (auto simp: answers_rectangular_def bindM_def ret_def split: prod.split res.split)
  show ?thesis
    by (simp add: QuerySystemTables_def QuerySystemColumns_def QuerySystemParts_def m
      tables_rectangular columns_rectangular parts_rectangular)
       (simp add: answers_rectangular_def QuerySystemProcesses_def QuerySystemMetrics_def ret_def rectangular_def)
qed

lemma upper_contains_no_lower:
  assumes "list_ex (\<lambda>c. 97 \<le> (of_char c :: nat) \<and> (of_char c :: nat) \<le> 122) w"
  shows "\<not> Contains (ToUpper t) w"
proof
  assume "Contains (ToUpper t) w"
  then have "set w \<subseteq> set (ToUpper t)" by (auto simp: Contains_iff sublist_def)
  with assms show False using upper_char_not_lower by (fastforce simp: list_ex_iff ToUpper_def)
qed

lemma ch_types_lower: "list_all (\<lambda>(w, t). list_ex (\<lambda>c. 97 \<le> (of_char c :: nat) \<and> (of_char c :: nat) \<le> 122) w) ch_types"
  by code_simp

text \<open>
  MySQL's driver gives the names of column types in upper case; for such a name the
  ClickHouse type is always \<open>String\<close>, while \<open>information_schema\<close> gives them in lower case and
  gets the intended types.
\<close>

theorem upper_case_types_are_strings:
  "mysqlToCHType (ToUpper t) = ''String''
    \<and> mysqlToCHType ''bigint(20)'' = ''Int64'' \<and> mysqlToCHType ''tinyint(1)'' = ''UInt8''
    \<and> mysqlToCHType ''datetime(3)'' = ''DateTime64(3)'' \<and> mysqlToCHType ''point'' = ''Int32''"
proof -
  have "filter (\<lambda>(w, ty). Contains (ToUpper t) w) ch_types = []"
    using ch_types_lower upper_contains_no_lower by (auto simp: filter_empty_conv list_all_iff)
  then have "mysqlToCHType (ToUpper t) = ''String''" by (simp add: mysqlToCHType_def)
  moreover have "mysqlToCHType ''bigint(20)'' = ''Int64''" "mysqlToCHType ''tinyint(1)'' = ''UInt8''"
    "mysqlToCHType ''datetime(3)'' = ''DateTime64(3)''" "mysqlToCHType ''point'' = ''Int32''"
    by code_simp+
  ultimately show ?thesis by simp
qed

end
