(* ===== verification/ChTranslator.thy ===== *)
theory ChTranslator
  imports GoRegexp
begin

text \<open>
  \<open>internal/proxy/clickhouse/translator.go\<close>: the rewriting of ClickHouse text into MySQL
  text, a fixed sequence of passes (\<open>ch_Translate\<close>), each a chain of replacements whose
  patterns are written as the source's regular expressions. The functions of this file
  carry the prefix \<open>ch_\<close>: both translators have passes of the same names.
\<close>

definition mysqlReservedWords :: "string list" where
  "mysqlReservedWords =
    [''release'', ''system'', ''groups'', ''status'', ''key'', ''value'', ''order'', ''group'',
     ''select'', ''from'', ''where'', ''having'', ''limit'', ''offset'', ''as'', ''on'', ''set'',
     ''into'', ''values'', ''update'', ''delete'', ''create'', ''drop'', ''alter'', ''index'',
     ''table'', ''column'', ''default'', ''null'', ''primary'', ''unique'', ''foreign'',
     ''references'', ''check'', ''constraint'', ''between'', ''like'', ''in'', ''is'', ''not'',
     ''and'', ''or'', ''exists'', ''case'', ''when'', ''then'', ''else'', ''end'', ''join'',
     ''inner'', ''left'', ''right'', ''outer'', ''cross'', ''natural'', ''using'', ''union'',
     ''all'', ''any'', ''some'', ''asc'', ''desc'', ''with'', ''recursive'', ''distinct'', ''if'',
     ''true'', ''false'', ''read'', ''write'', ''lock'', ''unlock'', ''action'', ''cascade'',
     ''restrict'', ''begin'', ''commit'', ''rollback'', ''database'', ''schema'', ''user'',
     ''grant'', ''revoke'', ''flush'', ''process'', ''rows'', ''row_count'']"

section \<open>The passes\<close>

definition ch_translateFinal :: "string \<Rightarrow> string" where
  "ch_translateFinal sql = ReplaceAllString (seqR [RBound, ilit ''FINAL'', RBound]) sql
           []"

definition ch_translateLimit1By :: "string \<Rightarrow> string" where
  "ch_translateLimit1By sql = TrimSpace (ReplaceAllString
     (seqR [many space, RBound, ilit ''LIMIT'', some1 space, some1 digit, some1 space, ilit ''BY'', some1 space, some1 (RChar (\<lambda>c. is_word c \<or> re_space c \<or> c \<in> set '',.`''))]) sql [])"

definition ch_translateMapAccess :: "string \<Rightarrow> string" where
  "ch_translateMapAccess sql =
    (let sql = ReplaceAllString (seqR [RGroup 1 (some1 word), lit (''['' @ [CHR 0x27]), RGroup 2 (some1 (none_of [CHR 0x27])), optional (lit [CHR 0x27]), lit '']'']) sql
           ''JSON_UNQUOTE(JSON_EXTRACT($1, '$.$2'))''
     in ReplaceAllString (seqR [RGroup 1 (some1 word), lit (''['' @ [CHR 0x22]), RGroup 2 (some1 (none_of [CHR 0x22])), optional (lit [CHR 0x22]), lit '']'']) sql
           ''JSON_UNQUOTE(JSON_EXTRACT($1, '$.$2'))'')"

definition ch_translateMapFunctions :: "string \<Rightarrow> string" where
  "ch_translateMapFunctions sql =
    (let sql = ReplaceAllString (seqR [ilit ''mapKeys'', many space, lit ''('', RGroup 1 (some1 (none_of '')'')), lit '')'']) sql
           ''JSON_KEYS($1)'';
         sql = ReplaceAllString (seqR [ilit ''mapValues'', many space, lit ''('', RGroup 1 (some1 (none_of '')'')), lit '')'']) sql
           ''JSON_EXTRACT($1, '$[*]')''
     in ReplaceAllString (seqR [ilit ''mapContains'', many space, lit ''('', RGroup 1 (some1 (none_of '','')), lit '','', many space, lit [CHR 0x27], RGroup 2 (some1 (none_of [CHR 0x27])), lit ([CHR 0x27] @ '')'')]) sql
           ''JSON_CONTAINS_PATH($1, 'one', '$.$2')'')"

definition ch_translateArrayFunctions :: "string \<Rightarrow> string" where
  "ch_translateArrayFunctions sql =
    (let sql = ReplaceAllString (seqR [ilit ''arrayJoin'', many space, lit ''('', RGroup 1 (some1 word), lit '')'']) sql
           ''JSON_TABLE($1, '$[*]' COLUMNS (value TEXT PATH '$'))'';
         sql = ReplaceAllString (seqR [ilit ''arraySum'', many space, lit ''('', RGroup 1 (some1 (none_of '')'')), lit '')'']) sql
           ''(SELECT SUM(CAST(value AS DECIMAL(65,12))) FROM JSON_TABLE($1, '$[*]' COLUMNS (value TEXT PATH '$')))'';
         sql = ReplaceAllString (seqR [ilit ''arrayFilter'', many space, lit ''('', some1 (none_of '',''), lit '','', many space, RGroup 1 (some1 word), lit '')'']) sql
           ''JSON_EXTRACT($1, '$[*]')'';
         sql = ReplaceAllString (seqR [ilit ''indexOf'', many space, lit ''('', RGroup 1 (some1 word), lit '','', many space, RGroup 2 (some1 (none_of '')'')), lit '')'']) sql
           ''(SELECT jt.idx FROM JSON_TABLE($1, '$[*]' COLUMNS (idx FOR ORDINALITY, val TEXT PATH '$')) jt WHERE jt.val = $2 LIMIT 1)'';
         sql = ReplaceAllString (seqR [ilit ''arrayElement'', many space, lit ''('', RGroup 1 (some1 word), lit '','', many space, RGroup 2 (some1 digit), lit '')'']) sql
           ''JSON_UNQUOTE(JSON_EXTRACT($1, concat('$[', $2 - 1, ']')))'';
         sql = ReplaceAll sql ([CHR 0x27] @ ''[]'' @ [CHR 0x27]) ([CHR 0x00] @ ''EMPTY_ARRAY'' @ [CHR 0x00]);
         sql = ReplaceAll sql ''[]'' ([CHR 0x27] @ ''[]'' @ [CHR 0x27]);
         sql = ReplaceAll sql ([CHR 0x00] @ ''EMPTY_ARRAY'' @ [CHR 0x00]) ([CHR 0x27] @ ''[]'' @ [CHR 0x27])
     in ReplaceAllFunc (seqR [lit ''['', RGroup 1 (altR [seqR [lit [CHR 0x27], many (altR [none_of [CHR 0x27, CHR 0x5C], seqR [lit [CHR 0x5C], dot]]), lit [CHR 0x27]], some1 (RChar (\<lambda>c. is_digit c \<or> c \<in> set ''.''))]), many (seqR [many space, lit '','', many space, RGroup 2 (altR [seqR [lit [CHR 0x27], many (altR [none_of [CHR 0x27, CHR 0x5C], seqR [lit [CHR 0x5C], dot]]), lit [CHR 0x27]], some1 (RChar (\<lambda>c. is_digit c \<or> c \<in> set ''.''))])]), lit '']'']) (\<lambda>match. match) sql)"

text \<open>The callbacks of the date functions; each matches its own text again.\<close>

definition interval_re :: re where
  "interval_re = (seqR [ilit ''toStartOfInterval'', many space, lit ''('', RGroup 1 (some1 (none_of '','')), lit '','', many space, ilit ''INTERVAL'', some1 space, RGroup 2 (some1 digit), some1 space, RGroup 3 (some1 word), lit '')''])"

definition interval_call :: "string \<Rightarrow> string" where
  "interval_call match = (case FindSubmatch interval_re match of
       None \<Rightarrow> match
     | Some m \<Rightarrow> ''DATE_SUB('' @ m 1 @ '', INTERVAL (TIMESTAMPDIFF('' @ ToUpper (m 3) @ '', '1970-01-01', ''
         @ m 1 @ '') % '' @ m 2 @ '') '' @ ToUpper (m 3) @ '')'')"

definition diff_call :: "re \<Rightarrow> string \<Rightarrow> string" where
  "diff_call r match = (case FindSubmatch r match of
       None \<Rightarrow> match
     | Some m \<Rightarrow>
        (let unit = ToUpper (m 1) in
         if unit = ''MILLISECOND'' then ''TIMESTAMPDIFF(MICROSECOND, '' @ m 2 @ '', '' @ m 3 @ '') / 1000''
         else ''TIMESTAMPDIFF('' @ unit @ '', '' @ m 2 @ '', '' @ m 3 @ '')''))"

definition dateDiff_re :: re where
  "dateDiff_re = (seqR [ilit ''dateDiff'', many space, lit ''('', many space, lit [CHR 0x27], RGroup 1 (some1 word), lit [CHR 0x27], many space, lit '','', many space, RGroup 2 (some1 (none_of '','')), many space, lit '','', many space, RGroup 3 (some1 (none_of '')'')), many space, lit '')''])"

definition date_diff_re :: re where
  "date_diff_re = (seqR [ilit ''date_diff'', many space, lit ''('', many space, lit [CHR 0x27], RGroup 1 (some1 word), lit [CHR 0x27], many space, lit '','', many space, RGroup 2 (some1 (none_of '','')), many space, lit '','', many space, RGroup 3 (some1 (none_of '')'')), many space, lit '')''])"

definition ch_translateCHDateFunctions :: "string \<Rightarrow> string" where
  "ch_translateCHDateFunctions sql =
    (let sql = ReplaceAllString (seqR [ilit ''toUnixTimestamp64Milli'', many space, lit ''('', RGroup 1 (some1 (none_of '')'')), lit '')'']) sql
           ''(UNIX_TIMESTAMP($1) * 1000)'';
         sql = ReplaceAllString (seqR [ilit ''toUnixTimestamp'', many space, lit ''('', RGroup 1 (some1 (none_of '')'')), lit '')'']) sql
           ''UNIX_TIMESTAMP($1)'';
         sql = ReplaceAllString (seqR [RBound, ilit ''toDate'', many space, lit ''('', RGroup 1 (some1 (none_of '')'')), lit '')'']) sql
           ''DATE($1)'';
         sql = ReplaceAllString (seqR [ilit ''toStartOfHour'', many space, lit ''('', RGroup 1 (some1 (none_of '')'')), lit '')'']) sql
           ''DATE_FORMAT($1, '%Y-%m-%d %H:00:00')'';
         sql = ReplaceAllString (seqR [ilit ''toStartOf'', altR [ilit ''Day'', ilit ''Date''], many space, lit ''('', RGroup 1 (some1 (none_of '')'')), lit '')'']) sql
           ''DATE($1)'';
         sql = ReplaceAllString (seqR [ilit ''toStartOfMonth'', many space, lit ''('', RGroup 1 (some1 (none_of '')'')), lit '')'']) sql
           ''DATE_FORMAT($1, '%Y-%m-01')'';
         sql = ReplaceAllString (seqR [ilit ''toStartOfYear'', many space, lit ''('', RGroup 1 (some1 (none_of '')'')), lit '')'']) sql
           ''MAKEDATE(YEAR($1), 1)'';
         sql = ReplaceAllString (seqR [ilit ''toStartOfMinute'', many space, lit ''('', RGroup 1 (some1 (none_of '')'')), lit '')'']) sql
           ''DATE_FORMAT($1, '%Y-%m-%d %H:%i:00')'';
         sql = ReplaceAllString (seqR [ilit ''toStartOfFiveMinutes'', many space, lit ''('', RGroup 1 (some1 (none_of '')'')), lit '')'']) sql
           ''DATE_FORMAT($1, CONCAT(DATE_FORMAT($1, '%Y-%m-%d %H:'), LPAD(FLOOR(MINUTE($1)/5)*5, 2, '0'), ':00'))'';
         sql = ReplaceAllFunc interval_re interval_call sql;
         sql = ReplaceAllString (seqR [ilit ''toRelativeSecondNum'', many space, lit ''('', RGroup 1 (some1 (none_of '')'')), lit '')'']) sql
           ''UNIX_TIMESTAMP($1)'';
         sql = ReplaceAllString (seqR [ilit ''toRelativeMinuteNum'', many space, lit ''('', RGroup 1 (some1 (none_of '')'')), lit '')'']) sql
           ''UNIX_TIMESTAMP($1) / 60'';
         sql = ReplaceAllString (seqR [ilit ''toRelativeHourNum'', many space, lit ''('', RGroup 1 (some1 (none_of '')'')), lit '')'']) sql
           ''UNIX_TIMESTAMP($1) / 3600'';
         sql = ReplaceAllString (seqR [ilit ''toRelativeDayNum'', many space, lit ''('', RGroup 1 (some1 (none_of '')'')), lit '')'']) sql
           ''UNIX_TIMESTAMP($1) / 86400'';
         sql = ReplaceAllFunc dateDiff_re (diff_call dateDiff_re) sql;
         sql = ReplaceAllFunc date_diff_re (diff_call date_diff_re) sql;
         sql = ReplaceAllString (seqR [RBound, ilit ''today'', many space, lit ''()'']) sql
           ''CURDATE()''
     in ReplaceAllString (seqR [RBound, ilit ''yesterday'', many space, lit ''()'']) sql
           ''CURDATE() - INTERVAL 1 DAY'')"

text \<open>\<open>AggregateFunction(f, col)\<close> becomes \<open>f(col)\<close>; \<open>argMax\<close> is built from a sorted concatenation.\<close>

definition apply_call :: "re \<Rightarrow> string \<Rightarrow> string" where
  "apply_call r match = (case FindSubmatch r match of
       None \<Rightarrow> match
     | Some m \<Rightarrow> m 1 @ ''('' @ m 2 @ '')'')"

definition simple_aggregate_re :: re where
  "simple_aggregate_re = (seqR [ilit ''SimpleAggregateFunction('', RGroup 1 (some1 word), lit '','', many space, RGroup 2 (some1 (none_of '')'')), lit '')''])"

definition aggregate_re :: re where
  "aggregate_re = (seqR [ilit ''AggregateFunction('', RGroup 1 (some1 word), lit '','', many space, RGroup 2 (some1 (none_of '')'')), lit '')''])"

definition argMax_re :: re where
  "argMax_re = (seqR [ilit ''argMax'', many space, lit ''('', RGroup 1 (some1 (none_of '','')), lit '','', many space, RGroup 2 (some1 (none_of '')'')), lit '')''])"

definition argMax_call :: "string \<Rightarrow> string" where
  "argMax_call match = (case FindSubmatch argMax_re match of
       None \<Rightarrow> match
     | Some m \<Rightarrow> ''SUBSTRING_INDEX(GROUP_CONCAT(CONCAT('' @ m 1 @ '', '|', '' @ m 2 @ '') ORDER BY ''
         @ m 2 @ '' DESC), '|', 1)'')"

definition ch_translateCHAggregateFunctions :: "string \<Rightarrow> string" where
  "ch_translateCHAggregateFunctions sql =
    (let sql = ReplaceAllString (seqR [ilit ''countIf'', many space, lit ''('', RGroup 1 (some1 (none_of '')'')), lit '')'']) sql
           ''COUNT(CASE WHEN $1 THEN 1 END)'';
         sql = ReplaceAllString (seqR [ilit ''count_if'', many space, lit ''('', RGroup 1 (some1 (none_of '')'')), lit '')'']) sql
           ''COUNT(CASE WHEN $1 THEN 1 END)'';
         sql = ReplaceAllString (seqR [ilit ''sumIf'', many space, lit ''('', RGroup 1 (some1 (none_of '','')), lit '','', many space, RGroup 2 (some1 (none_of '')'')), lit '')'']) sql
           ''SUM(CASE WHEN $2 THEN $1 END)'';
         sql = ReplaceAllString (seqR [ilit ''avgIf'', many space, lit ''('', RGroup 1 (some1 (none_of '','')), lit '','', many space, RGroup 2 (some1 (none_of '')'')), lit '')'']) sql
           ''AVG(CASE WHEN $2 THEN $1 END)'';
         sql = ReplaceAllString (seqR [ilit ''minIf'', many space, lit ''('', RGroup 1 (some1 (none_of '','')), lit '','', many space, RGroup 2 (some1 (none_of '')'')), lit '')'']) sql
           ''MIN(CASE WHEN $2 THEN $1 END)'';
         sql = ReplaceAllString (seqR [ilit ''maxIf'', many space, lit ''('', RGroup 1 (some1 (none_of '','')), lit '','', many space, RGroup 2 (some1 (none_of '')'')), lit '')'']) sql
           ''MAX(CASE WHEN $2 THEN $1 END)'';
         sql = ReplaceAllString (seqR [ilit ''groupUniqArrayArray'', many space, lit ''('', RGroup 1 (some1 (none_of '')'')), lit '')'']) sql
           ''JSON_ARRAYAGG(DISTINCT $1)'';
         sql = ReplaceAllString (seqR [ilit ''groupArray'', many space, lit ''('', RGroup 1 (some1 (none_of '')'')), lit '')'']) sql
           ''JSON_ARRAYAGG($1)'';
         sql = ReplaceAllString (seqR [ilit ''groupUniqArray'', many space, lit ''('', RGroup 1 (some1 (none_of '')'')), lit '')'']) sql
           ''JSON_ARRAYAGG(DISTINCT $1)'';
         sql = ReplaceAllString (seqR [ilit ''anyLast'', many space, lit ''('', RGroup 1 (some1 (none_of '')'')), lit '')'']) sql
           ''MAX($1)'';
         sql = ReplaceAllString (seqR [RBound, ilit ''any'', many space, lit ''('', RGroup 1 (some1 (none_of '')'')), lit '')'']) sql
           ''ANY_VALUE($1)'';
         sql = ReplaceAllString (seqR [ilit ''uniq'', many space, lit ''('', RGroup 1 (some1 (none_of '')'')), lit '')'']) sql
           ''COUNT(DISTINCT $1)'';
         sql = ReplaceAllString (seqR [ilit ''uniqCombined'', many space, lit ''('', RGroup 1 (some1 (none_of '')'')), lit '')'']) sql
           ''COUNT(DISTINCT $1)'';
         sql = ReplaceAllString (seqR [ilit ''uniqExact'', many space, lit ''('', RGroup 1 (some1 (none_of '')'')), lit '')'']) sql
           ''COUNT(DISTINCT $1)'';
         sql = ReplaceAllString (seqR [ilit ''topK'', many space, lit ''('', RGroup 1 (some1 digit), lit '')'', many space, lit ''('', RGroup 2 (some1 (none_of '')'')), lit '')'']) sql
           ''SUBSTRING_INDEX(GROUP_CONCAT(DISTINCT $2 ORDER BY $2 DESC), ',', $1)'';
         sql = ReplaceAllString (seqR [ilit ''histogram'', many space, lit ''('', RGroup 1 (some1 digit), lit '')'', many space, lit ''('', RGroup 2 (some1 (none_of '')'')), lit '')'']) sql
           ''HISTOGRAM($2)'';
         sql = ReplaceAllFunc simple_aggregate_re (apply_call simple_aggregate_re) sql;
         sql = ReplaceAllFunc aggregate_re (apply_call aggregate_re) sql;
         sql = ReplaceAllString (seqR [ilit ''argMaxState'', many space, lit ''('', RGroup 1 (some1 (none_of '','')), lit '','', many space, RGroup 2 (some1 (none_of '')'')), lit '')'']) sql
           ''SUBSTRING_INDEX(GROUP_CONCAT(CONCAT($1, '|', $2) ORDER BY $2 DESC), '|', 1)'';
         sql = ReplaceAllFunc argMax_re argMax_call sql;
         sql = ReplaceAllString (seqR [ilit ''sumMap'', many space, lit ''('', RGroup 1 (some1 (none_of '')'')), lit '')'']) sql
           ''$1'';
         sql = ReplaceAllString (seqR [ilit ''maxMap'', many space, lit ''('', RGroup 1 (some1 (none_of '')'')), lit '')'']) sql
           ''$1'';
         sql = ReplaceAllString (seqR [RGroup 1 (some1 word), ilit ''Merge'', many space, lit ''('', RGroup 2 (some1 (none_of '')'')), lit '')'']) sql
           ''$1($2)''
     in ReplaceAllString (seqR [RGroup 1 (some1 word), ilit ''MergeState'', many space, lit ''('', RGroup 2 (some1 (none_of '')'')), lit '')'']) sql
           ''$1($2)'')"

definition ch_translateTuple :: "string \<Rightarrow> string" where
  "ch_translateTuple sql = ReplaceAllString (seqR [RBound, ilit ''tuple'', many space, lit ''('', RGroup 1 (some1 (none_of '')'')), lit '')'']) sql
           ''JSON_OBJECT($1)''"

definition hasAny_re :: re where
  "hasAny_re = (seqR [ilit ''hasAny'', many space, lit ''('', RGroup 1 (some1 (RChar (\<lambda>c. is_word c \<or> c \<in> set ''.''))), lit '','', many space, lit ''['', RGroup 2 (many (none_of '']'')), lit ''])''])"

definition hasAny_call :: "string \<Rightarrow> string" where
  "hasAny_call match = (case FindSubmatch hasAny_re match of
       None \<Rightarrow> match
     | Some m \<Rightarrow> ''JSON_OVERLAPS('' @ m 1 @ '', '['' @ m 2 @ '']')'')"

definition hasAll_re :: re where
  "hasAll_re = (seqR [ilit ''hasAll'', many space, lit ''('', RGroup 1 (some1 (RChar (\<lambda>c. is_word c \<or> c \<in> set ''.''))), lit '','', many space, lit ''['', RGroup 2 (many (none_of '']'')), lit ''])''])"

definition hasAll_call :: "string \<Rightarrow> string" where
  "hasAll_call match = (case FindSubmatch hasAll_re match of
       None \<Rightarrow> match
     | Some m \<Rightarrow> ''('' @ Join (map (\<lambda>e. ''JSON_CONTAINS('' @ m 1 @ '', '' @ TrimSpace e @ '')'')
         (Split (m 2) CHR '','')) '' AND '' @ '')'')"

definition ch_translateHasFunctions :: "string \<Rightarrow> string" where
  "ch_translateHasFunctions sql =
    (let sql = ReplaceAllFunc hasAny_re hasAny_call sql;
         sql = ReplaceAllFunc hasAll_re hasAll_call sql;
         sql = ReplaceAllString (seqR [RBound, ilit ''has'', many space, lit ''('', RGroup 1 (some1 (RChar (\<lambda>c. is_word c \<or> c \<in> set ''.''))), lit '','', many space, RGroup 2 (some1 (none_of '')'')), lit '')'']) sql
           ''JSON_CONTAINS($1, $2)'';
         sql = ReplaceAllString (seqR [RBound, ilit ''empty'', many space, lit ''('', RGroup 1 (some1 (RChar (\<lambda>c. is_word c \<or> c \<in> set ''.''))), lit '')'']) sql
           ''(JSON_LENGTH($1) = 0)''
     in ReplaceAllString (seqR [RBound, ilit ''notEmpty'', many space, lit ''('', RGroup 1 (some1 (RChar (\<lambda>c. is_word c \<or> c \<in> set ''.''))), lit '')'']) sql
           ''(JSON_LENGTH($1) > 0)'')"

definition ch_translateCHParameters :: "string \<Rightarrow> string" where
  "ch_translateCHParameters sql = ReplaceAllString (seqR [lit ''{'', RGroup 1 (some1 word), lit '':'', many space, some1 word, optional (seqR [lit ''('', many (none_of '')''), lit '')'']), optional (lit ''?''), lit ''}'']) sql
           ''?''"

definition ch_translateInterval :: "string \<Rightarrow> string" where
  "ch_translateInterval sql = sql"

definition ch_translateTTL :: "string \<Rightarrow> string" where
  "ch_translateTTL sql = sql"

definition ch_translateCast :: "string \<Rightarrow> string" where
  "ch_translateCast sql =
    (let sql = ReplaceAllString (seqR [ilit ''CAST('', RGroup 1 (lazy1 dot), some1 space, ilit ''AS'', some1 space, ilit ''DateTime64('', some1 digit, lit ''))'']) sql
           ''CAST($1 AS DATETIME(3))'';
         sql = ReplaceAllString (seqR [RGroup 1 (altR [some1 word, seqR [lit [CHR 0x27], many (none_of [CHR 0x27]), lit [CHR 0x27]]]), lit ''::DateTime64('', some1 digit, lit '')'']) sql
           ''CAST($1 AS DATETIME(3))'';
         sql = ReplaceAllString (seqR [RGroup 1 (some1 word), lit ''::String'']) sql
           ''$1'';
         sql = ReplaceAllString (seqR [RGroup 1 (some1 word), lit ''::Float64'']) sql
           ''CAST($1 AS DECIMAL(65,12))''
     in ReplaceAllString (seqR [RGroup 1 (lazy1 dot), lit ''::Decimal64('', some1 digit, lit '')'']) sql
           ''CAST($1 AS DECIMAL(65,12))'')"

definition ch_translateToUnixTimestamp64 :: "string \<Rightarrow> string" where
  "ch_translateToUnixTimestamp64 sql = ReplaceAllString (seqR [ilit ''toUnixTimestamp64Nano'', many space, lit ''('', RGroup 1 (some1 (none_of '')'')), lit '')'']) sql
           ''(UNIX_TIMESTAMP($1) * 1000000000)''"

text \<open>The column list of an INSERT: reserved words that are not quoted yet get backticks.\<close>

definition quote_reserved :: "string \<Rightarrow> string" where
  "quote_reserved col =
    (let col = TrimSpace col in
     if ToLower col \<in> set mysqlReservedWords \<and> \<not> HasPrefix col ''`'' then ''`'' @ col @ ''`'' else col)"

definition quote_columns :: "string \<Rightarrow> string" where
  "quote_columns cols = Join (map quote_reserved (Split cols CHR '','')) '', ''"

definition insert_columns_re :: re where
  "insert_columns_re = (seqR [RGroup 1 (seqR [ilit ''INSERT'', some1 space, ilit ''INTO'', some1 space, some1 word, many space, lit ''('']), RGroup 2 (some1 (none_of '')'')), RGroup 3 (lit '')'')])"

definition insert_columns_call :: "string \<Rightarrow> string" where
  "insert_columns_call match = (case FindSubmatch insert_columns_re match of
       None \<Rightarrow> match
     | Some sub \<Rightarrow> sub 1 @ quote_columns (sub 2) @ sub 3)"

definition ch_translateReservedWords :: "string \<Rightarrow> string" where
  "ch_translateReservedWords sql = ReplaceAllFunc insert_columns_re insert_columns_call sql"

section \<open>The translation\<close>

definition ch_Translate :: "string \<Rightarrow> string" where
  "ch_Translate sql =
    (let result = sql;
         result = ch_translateFinal result;
         result = ch_translateLimit1By result;
         result = ch_translateMapAccess result;
         result = ch_translateMapFunctions result;
         result = ch_translateArrayFunctions result;
         result = ch_translateCHDateFunctions result;
         result = ch_translateCHAggregateFunctions result;
         result = ch_translateTuple result;
         result = ch_translateHasFunctions result;
         result = ch_translateCHParameters result;
         result = ch_translateInterval result;
         result = ch_translateTTL result;
         result = ch_translateCast result;
         result = ch_translateToUnixTimestamp64 result;
         result = ch_translateReservedWords result
     in result)"

section \<open>Queries the translation leaves alone\<close>

text \<open>Every pass but the first two looks for a bracket of some kind or a colon.\<close>

definition ch_trigger_chars :: string where
  "ch_trigger_chars = [CHR 0x00] @ ''([{:''"

definition ch_plain :: "string \<Rightarrow> bool" where
  "ch_plain sql \<longleftrightarrow> list_all (\<lambda>c. c \<notin> set ch_trigger_chars) sql
     \<and> \<not> Contains (ToUpper sql) ''FINAL'' \<and> \<not> Contains (ToUpper sql) ''LIMIT''"

lemma ch_plain_char: "ch_plain sql \<Longrightarrow> c \<in> set ch_trigger_chars \<Longrightarrow> c \<notin> set sql"
  by (auto simp: ch_plain_def list_all_iff)

lemma ch_plain_lit:
  assumes "ch_plain sql"
  shows "c \<in> set ch_trigger_chars \<Longrightarrow> \<not> occurs (lit (c # cs)) sql"
  using ch_plain_char [OF assms, of c] by (intro char_not_occurs [of c]) auto

lemma ch_plain_lits:
  assumes "ch_plain sql"
  shows "\<not> occurs (lit (CHR ''('' # cs)) sql" "\<not> occurs (lit (CHR ''['' # cs)) sql"
    "\<not> occurs (lit (CHR ''{'' # cs)) sql" "\<not> occurs (lit (CHR '':'' # cs)) sql"
  using ch_plain_lit [OF assms] by (simp_all add: ch_trigger_chars_def)

lemma ch_plain_words:
  assumes "ch_plain sql"
  shows "\<not> occurs (ilit ''FINAL'') sql" "\<not> occurs (ilit ''LIMIT'') sql"
proof -
  have "ToUpper ''FINAL'' = ''FINAL''" "ToUpper ''LIMIT'' = ''LIMIT''" by code_simp+
  with assms show "\<not> occurs (ilit ''FINAL'') sql" "\<not> occurs (ilit ''LIMIT'') sql"
    by (auto intro!: word_not_occurs simp: ch_plain_def)
qed

lemma upper_char_paren: "upper_char c = CHR ''('' \<Longrightarrow> c = CHR ''(''"
  by (cases c) (auto simp: upper_char_code split: if_splits)

text \<open>A literal that holds a bracket behind other characters.\<close>

lemma ch_plain_inner:
  assumes "ch_plain sql"
  shows "\<not> occurs (ilit (w @ ''('' @ v)) sql"
proof
  assume "occurs (ilit (w @ ''('' @ v)) sql"
  then obtain t where t: "ToUpper t = ToUpper (w @ ''('' @ v)" "sublist t sql"
    by (auto simp: occurs_def lang_ilit)
  have u: "upper_char (CHR ''('') = CHR ''(''" by code_simp
  have "CHR ''('' \<in> set (ToUpper t)"
    unfolding t(1) by (simp add: ToUpper_def u)
  then obtain c where c: "c \<in> set t" "upper_char c = CHR ''(''" by (auto simp: ToUpper_def)
  have "c = CHR ''(''" by (rule upper_char_paren [OF c(2)])
  with c t(2) have "CHR ''('' \<in> set sql" using set_mono_sublist by fastforce
  with ch_plain_char [OF assms, of "CHR ''(''"] show False by (simp add: ch_trigger_chars_def)
qed

lemmas ch_rules = ReplaceAllString_id ReplaceAllFunc_id not_occurs ch_plain_lits

lemma ch_plain_TrimSpace: "ch_plain sql \<Longrightarrow> ch_plain (TrimSpace sql)"
proof -
  assume p: "ch_plain sql"
  have s: "sublist (TrimSpace sql) sql" by (simp add: TrimSpace_def trim_by_sublist)
  have "set (TrimSpace sql) \<subseteq> set sql" using set_mono_sublist [OF s] .
  moreover have "sublist (ToUpper (TrimSpace sql)) (ToUpper sql)" by (rule sublist_ToUpper [OF s])
  ultimately show ?thesis
    using p by (auto simp: ch_plain_def list_all_iff Contains_iff dest: sublist_order.order_trans)
qed

lemma ch_plain_final: "ch_plain sql \<Longrightarrow> ch_translateFinal sql = sql"
  by (simp add: ch_translateFinal_def ch_rules ch_plain_words)

lemma ch_plain_limit: "ch_plain sql \<Longrightarrow> ch_translateLimit1By sql = TrimSpace sql"
  by (simp add: ch_translateLimit1By_def ch_rules ch_plain_words)

lemma ch_plain_map: "ch_plain sql \<Longrightarrow> ch_translateMapAccess sql = sql"
  unfolding ch_translateMapAccess_def Let_def by (simp add: ch_rules)

lemma ch_plain_mapfun: "ch_plain sql \<Longrightarrow> ch_translateMapFunctions sql = sql"
  unfolding ch_translateMapFunctions_def Let_def by (simp add: ch_rules)

lemma ch_plain_array: "ch_plain sql \<Longrightarrow> ch_translateArrayFunctions sql = sql"
proof -
  assume p: "ch_plain sql"
  then have "CHR ''['' \<notin> set sql" "CHR 0x00 \<notin> set sql"
    by (auto dest: ch_plain_char simp: ch_trigger_chars_def)
  with p show ?thesis
    unfolding ch_translateArrayFunctions_def Let_def
    by (simp add: ch_rules ReplaceAll_id_char [of "CHR ''[''"] ReplaceAll_id_char [of "CHR 0x00"])
qed

lemma ch_plain_date: "ch_plain sql \<Longrightarrow> ch_translateCHDateFunctions sql = sql"
  unfolding ch_translateCHDateFunctions_def Let_def interval_re_def dateDiff_re_def date_diff_re_def
  by (simp add: ch_rules)

lemma ch_plain_calls:
  assumes "ch_plain sql"
  shows "\<not> occurs (ilit ''SimpleAggregateFunction('') sql" "\<not> occurs (ilit ''AggregateFunction('') sql"
    "\<not> occurs (ilit ''CAST('') sql"
  using ch_plain_inner [OF assms, of "''SimpleAggregateFunction''" "[]"]
    ch_plain_inner [OF assms, of "''AggregateFunction''" "[]"] ch_plain_inner [OF assms, of "''CAST''" "[]"]
  by simp_all

lemma ch_plain_aggregate: "ch_plain sql \<Longrightarrow> ch_translateCHAggregateFunctions sql = sql"
  unfolding ch_translateCHAggregateFunctions_def Let_def simple_aggregate_re_def aggregate_re_def argMax_re_def
  by (simp add: ch_rules ch_plain_calls)

lemma ch_plain_cast: "ch_plain sql \<Longrightarrow> ch_translateCast sql = sql"
  unfolding ch_translateCast_def Let_def by (simp add: ch_rules ch_plain_calls)

lemma ch_plain_Tuple: "ch_plain sql \<Longrightarrow> ch_translateTuple sql = sql"
  unfolding ch_translateTuple_def Let_def by (simp add: ch_rules)

lemma ch_plain_HasFunctions: "ch_plain sql \<Longrightarrow> ch_translateHasFunctions sql = sql"
  unfolding ch_translateHasFunctions_def hasAny_re_def hasAll_re_def Let_def by (simp add: ch_rules)

lemma ch_plain_CHParameters: "ch_plain sql \<Longrightarrow> ch_translateCHParameters sql = sql"
  unfolding ch_translateCHParameters_def Let_def by (simp add: ch_rules)

lemma ch_plain_ToUnixTimestamp64: "ch_plain sql \<Longrightarrow> ch_translateToUnixTimestamp64 sql = sql"
  unfolding ch_translateToUnixTimestamp64_def Let_def by (simp add: ch_rules)

lemma ch_plain_ReservedWords: "ch_plain sql \<Longrightarrow> ch_translateReservedWords sql = sql"
  unfolding ch_translateReservedWords_def insert_columns_re_def Let_def by (simp add: ch_rules)

section \<open>Column lists\<close>

lemma is_space_lower: "is_space c \<Longrightarrow> lower_char c = c"
  by (auto simp: is_space_def lower_char_def)

lemma TrimSpace_quoted: "TrimSpace (''`'' @ s @ ''`'') = ''`'' @ s @ ''`''"
  unfolding TrimSpace_def by (rule trim_by_none) (simp_all add: is_space_def)

lemma TrimSpace_idem: "TrimSpace (TrimSpace s) = TrimSpace s"
  by (simp add: TrimSpace_def trim_by_idem)

lemma TrimSpace_quote_reserved: "TrimSpace (quote_reserved col) = quote_reserved col"
  using TrimSpace_quoted [of "TrimSpace col"] by (simp add: quote_reserved_def Let_def TrimSpace_idem)

lemma quote_reserved_idem: "quote_reserved (quote_reserved col) = quote_reserved col"
proof (cases "ToLower (TrimSpace col) \<in> set mysqlReservedWords \<and> \<not> HasPrefix (TrimSpace col) ''`''")
  case True
  then have q: "quote_reserved col = ''`'' @ TrimSpace col @ ''`''" by (simp add: quote_reserved_def Let_def)
  have "HasPrefix (''`'' @ TrimSpace col @ ''`'') ''`''" by (simp add: HasPrefix_def)
  then have "quote_reserved (''`'' @ TrimSpace col @ ''`'') = ''`'' @ TrimSpace col @ ''`''"
    unfolding quote_reserved_def Let_def TrimSpace_quoted by (simp only: not_True_eq_False simp_thms if_False)
  then show ?thesis by (simp only: q)
next
  case False
  then show ?thesis unfolding quote_reserved_def Let_def TrimSpace_idem by (simp only: if_False TrimSpace_idem)
qed

lemma quote_reserved_space: "is_space c \<Longrightarrow> quote_reserved (c # s) = quote_reserved s"
  by (simp add: quote_reserved_def TrimSpace_def trim_by_def)

lemma quote_reserved_comma: "CHR '','' \<notin> set col \<Longrightarrow> CHR '','' \<notin> set (quote_reserved col)"
  using set_mono_sublist [OF trim_by_sublist [of is_space col]]
  by (auto simp: quote_reserved_def Let_def TrimSpace_def)

lemma Join_comma_space:
  "ps \<noteq> [] \<Longrightarrow> Join ps '', '' = Join (hd ps # map (\<lambda>p. CHR '' '' # p) (tl ps)) '',''"
proof (induction ps rule: induct_list012)
  case (3 p q ps)
  then have "Join (p # q # ps) '', '' = p @ '', '' @ Join (q # map (\<lambda>p. CHR '' '' # p) ps) '',''" by simp
  also have "\<dots> = p @ '','' @ Join ((CHR '' '' # q) # map (\<lambda>p. CHR '' '' # p) ps) '',''"
    by (cases ps) simp_all
  finally show ?case by simp
qed simp_all

lemma Split_Join_space:
  "ps \<noteq> [] \<Longrightarrow> (\<And>p. p \<in> set ps \<Longrightarrow> CHR '','' \<notin> set p) \<Longrightarrow>
     Split (Join ps '', '') CHR '','' = hd ps # map (\<lambda>p. CHR '' '' # p) (tl ps)"
  unfolding Join_comma_space by (rule Split_Join) (cases ps; auto)+

lemma Split_columns:
  "Split (quote_columns s) CHR '','' =
     quote_reserved (hd (Split s CHR '','')) # map (\<lambda>p. CHR '' '' # quote_reserved p) (tl (Split s CHR '',''))"
  unfolding quote_columns_def
  by (subst Split_Join_space) (auto dest: Split_parts quote_reserved_comma simp: hd_map map_tl comp_def)

lemma quote_reserved_columns:
  "map quote_reserved (Split (quote_columns s) CHR '','') = map quote_reserved (Split s CHR '','')"
proof -
  obtain q qs where "Split s CHR '','' = q # qs" by (cases "Split s CHR '',''") auto
  then show ?thesis
    by (simp add: Split_columns quote_reserved_space is_space_def quote_reserved_idem)
qed

lemma TrimSpace_columns:
  "map TrimSpace (Split (quote_columns s) CHR '','') = map quote_reserved (Split s CHR '','')"
proof -
  have sp: "TrimSpace (CHR '' '' # p) = TrimSpace p" for p
    by (simp add: TrimSpace_def trim_by_def is_space_def)
  obtain q qs where "Split s CHR '','' = q # qs" by (cases "Split s CHR '',''") auto
  then show ?thesis by (simp add: Split_columns sp TrimSpace_quote_reserved)
qed

section \<open>Properties\<close>

text \<open>
  A ClickHouse query without brackets, braces and colons, and without FINAL and LIMIT, is
  only trimmed.
\<close>

theorem ch_Translate_plain:
  assumes "ch_plain sql"
  shows "ch_Translate sql = TrimSpace sql"
  unfolding ch_Translate_def Let_def
  using assms ch_plain_TrimSpace [OF assms]
  by (simp add: ch_plain_final ch_plain_limit ch_plain_map ch_plain_mapfun ch_plain_array ch_plain_date
    ch_plain_aggregate ch_plain_Tuple ch_plain_HasFunctions ch_plain_CHParameters
    ch_plain_ToUnixTimestamp64 ch_plain_ReservedWords ch_translateInterval_def ch_translateTTL_def ch_plain_cast)

theorem ch_Translate_plain_witness:
  "ch_Translate '' SELECT id FROM traces WHERE a = 1 '' = ''SELECT id FROM traces WHERE a = 1''"
proof -
  have h: "ch_plain '' SELECT id FROM traces WHERE a = 1 ''" by code_simp
  have e: "TrimSpace '' SELECT id FROM traces WHERE a = 1 '' = ''SELECT id FROM traces WHERE a = 1''"
    by code_simp
  show ?thesis using ch_Translate_plain [OF h] by (simp only: e)
qed

text \<open>
  Quoting the reserved words of a column list keeps the number and the order of the
  columns, and quoting a list that is already quoted changes nothing.
\<close>

theorem quote_columns_idem:
  "quote_columns (quote_columns s) = quote_columns s
   \<and> map TrimSpace (Split (quote_columns s) CHR '','') = map quote_reserved (Split s CHR '','')"
  using quote_reserved_columns [of s] TrimSpace_columns [of s] by (simp add: quote_columns_def)

text \<open>
  Two passes destroy ordinary queries: removing \<open>LIMIT n BY\<close> also removes an
  \<open>ORDER BY\<close> and a \<open>LIMIT\<close> behind it, and a cast to \<open>Decimal64\<close> takes the whole query
  before it for its operand.
\<close>

theorem ch_passes_destroy:
  "ch_translateLimit1By ''SELECT a FROM t LIMIT 1 BY a ORDER BY b LIMIT 10'' = ''SELECT a FROM t''
   \<and> ch_translateCast ''SELECT a, b::Decimal64(12) FROM t'' = ''CAST(SELECT a, b AS DECIMAL(65,12)) FROM t''"
proof
  show "ch_translateLimit1By ''SELECT a FROM t LIMIT 1 BY a ORDER BY b LIMIT 10'' = ''SELECT a FROM t''"
    by code_simp
  show "ch_translateCast ''SELECT a, b::Decimal64(12) FROM t'' = ''CAST(SELECT a, b AS DECIMAL(65,12)) FROM t''"
    by code_simp
qed

end
