(* ===== verification/ChHttp.thy ===== *)
theory ChHttp
  imports ChBuffer ChSystem ChTranslator
begin

text \<open>
  \<open>internal/proxy/clickhouse/http_server.go\<close>, the HTTP interface: a request is answered from
  constants, from \<open>information_schema\<close>, by the insert buffer or by MySQL. The state is the
  response being written and the insert buffer, which holds the database.
\<close>

section \<open>The response\<close>

text \<open>Go's \<open>http.ResponseWriter\<close>: the first write or \<open>WriteHeader\<close> fixes the status and the
  headers, later ones are without effect.\<close>

record response =
  status :: "nat option"
  content_type :: string
  resp_body :: string

record 'd http_state =
  resp :: response
  http_wb :: "'d write_buffer"

type_synonym ('d, 'a) http = "('d http_state, 'a) act"

definition no_response :: response where
  "no_response = \<lparr>status = None, content_type = [], resp_body = []\<rparr>"

definition on_resp :: "(response \<Rightarrow> response) \<Rightarrow> ('d, unit) http" where
  "on_resp f = modifyM (\<lambda>s. s\<lparr>resp := f (resp s)\<rparr>)"

definition WriteHeader :: "nat \<Rightarrow> ('d, unit) http" where
  "WriteHeader code = on_resp (\<lambda>r. if status r = None then r\<lparr>status := Some code\<rparr> else r)"

definition SetContentType :: "string \<Rightarrow> ('d, unit) http" where
  "SetContentType t = on_resp (\<lambda>r. if status r = None then r\<lparr>content_type := t\<rparr> else r)"

definition Write :: "string \<Rightarrow> ('d, unit) http" where
  "Write s = bindM (WriteHeader 200) (\<lambda>_. on_resp (\<lambda>r. r\<lparr>resp_body := resp_body r @ s\<rparr>))"

definition http_Error :: "string \<Rightarrow> nat \<Rightarrow> ('d, unit) http" where
  "http_Error msg code = seqM
     [SetContentType ''text/plain; charset=utf-8'', WriteHeader code, Write (msg @ [CHR 0x0A])]"

definition tsv :: string where
  "tsv = ''text/tab-separated-values''"

definition tab :: string where "tab = [CHR 0x09]"
definition nl :: string where "nl = [CHR 0x0A]"

section \<open>The environment\<close>

record 'd ch_env =
  ch_buffer_pool :: "'d buffer_pool"
  ch_floats :: go_float

definition ch_db :: "'d ch_env \<Rightarrow> 'd mysql" where
  "ch_db env = wb_pool (ch_buffer_pool env)"

definition on_buffer :: "('d write_buffer, 'a) act \<Rightarrow> ('d, 'a) http" where
  "on_buffer m s = (case m (http_wb s) of (r, wb) \<Rightarrow> (r, s\<lparr>http_wb := wb\<rparr>))"

text \<open>A call on the database that the buffer holds.\<close>

definition on_store :: "('d, 'a) act \<Rightarrow> ('d write_buffer, 'a) act" where
  "on_store m wb = (case m (wb_db wb) of (r, d) \<Rightarrow> (r, wb\<lparr>wb_db := d\<rparr>))"

section \<open>Queries answered from the catalog\<close>

definition ch_isWriteQuery :: "string \<Rightarrow> bool" where
  "ch_isWriteQuery q = (let upper = ToUpper (TrimSpace q) in
     HasPrefix upper ''INSERT'' \<or> HasPrefix upper ''UPDATE'' \<or> HasPrefix upper ''DELETE''
     \<or> HasPrefix upper ''CREATE'' \<or> HasPrefix upper ''ALTER'' \<or> HasPrefix upper ''DROP''
     \<or> HasPrefix upper ''TRUNCATE'')"

definition table_list_query :: string where
  "table_list_query = [CHR 0x0A, CHR 0x09, CHR 0x09]
     @ ''SELECT table_name FROM information_schema.tables'' @ [CHR 0x0A, CHR 0x09, CHR 0x09]
     @ ''WHERE table_schema = DATABASE() AND table_type = 'BASE TABLE'' @ [CHR 0x27, CHR 0x0A, CHR 0x09]"

text \<open>A query whose error becomes a default answer.\<close>

definition ask_or :: "'b \<Rightarrow> 'd mysql \<Rightarrow> string \<Rightarrow> (mysql_rows \<Rightarrow> 'b) \<Rightarrow> ('d write_buffer, 'b) act" where
  "ask_or dflt db q f = on_store (orElse dflt (bindM (pool_Query db q []) (\<lambda>rows. ret (f rows))))"

definition getTableList :: "'d mysql \<Rightarrow> ('d write_buffer, string) act" where
  "getTableList db = ask_or [] db table_list_query
     (\<lambda>rows. Join (map name_or_empty (first_column rows)) nl @ nl)"

definition tables_engine_query :: string where
  "tables_engine_query = [CHR 0x0A, CHR 0x09, CHR 0x09]
     @ ''SELECT table_name as name, 'MergeTree' as engine'' @ [CHR 0x0A, CHR 0x09, CHR 0x09]
     @ ''FROM information_schema.tables'' @ [CHR 0x0A, CHR 0x09, CHR 0x09]
     @ ''WHERE table_schema = DATABASE() AND table_type = 'BASE TABLE'' @ [CHR 0x27, CHR 0x0A, CHR 0x09]"

definition http_tables_columns :: "string list" where
  "http_tables_columns =
    [''database'', ''name'', ''engine'', ''is_temporary'', ''data_paths'', ''metadata_path'',
     ''metadata_modification_time'', ''metadata_version'', ''storage_policy'', ''delayed_insert_threads'',
     ''parts'', ''active_parts'', ''total_marks'', ''total_rows'', ''total_bytes'', ''lifetime_rows'',
     ''lifetime_bytes'']"

text \<open>\<open>Scan\<close> into string variables, left to right: those after the first that does not convert stay
  empty; its error is dropped.\<close>

fun scan_strings :: "nat \<Rightarrow> gval list res \<Rightarrow> string list" where
  "scan_strings n (Ok row) =
     (if length row \<noteq> n then replicate n []
      else let good = takeWhile (\<lambda>v. v \<noteq> None) (map scan_string row)
           in map the good @ replicate (n - length good) [])"
| "scan_strings n _ = replicate n []"

definition http_tables_row :: "gval list res \<Rightarrow> string" where
  "http_tables_row row = (let cells = scan_strings 2 row in
     ''default'' @ tab @ cells ! 0 @ tab @ cells ! 1 @ tab @ ''0'' @ concat (replicate 6 tab)
     @ Join (replicate 7 ''0'') tab @ concat (replicate 4 tab) @ nl)"

definition getSystemTables :: "'d mysql \<Rightarrow> ('d write_buffer, string) act" where
  "getSystemTables db = ask_or [] db tables_engine_query
     (\<lambda>rows. Join http_tables_columns tab @ nl @ concat (map http_tables_row (scans rows)))"

definition columns_default_query :: string where
  "columns_default_query = [CHR 0x0A, CHR 0x09, CHR 0x09]
     @ ''SELECT table_name, column_name, column_type, is_nullable, column_default'' @ [CHR 0x0A, CHR 0x09, CHR 0x09]
     @ ''FROM information_schema.columns'' @ [CHR 0x0A, CHR 0x09, CHR 0x09]
     @ ''WHERE table_schema = DATABASE()'' @ [CHR 0x0A, CHR 0x09, CHR 0x09]
     @ ''ORDER BY table_name, ordinal_position'' @ [CHR 0x0A, CHR 0x09]"

definition http_columns_columns :: "string list" where
  "http_columns_columns =
    [''database'', ''table'', ''name'', ''type'', ''default_expression'', ''comment'', ''codec_expression'',
     ''default_type'']"

text \<open>The last two of the five variables are pointers that nothing reads.\<close>

definition http_columns_row :: "gval list res \<Rightarrow> string" where
  "http_columns_row row =
    (let cells = scan_strings 3 (bind_res row (\<lambda>vs. if length vs = 5 then Ok (take 3 vs) else Ok [])) in
     ''default'' @ tab @ cells ! 0 @ tab @ cells ! 1 @ tab @ mysqlToCHType (cells ! 2)
     @ concat (replicate 4 tab) @ nl)"

definition getSystemColumns :: "'d mysql \<Rightarrow> ('d write_buffer, string) act" where
  "getSystemColumns db = ask_or [] db columns_default_query
     (\<lambda>rows. Join http_columns_columns tab @ nl @ concat (map http_columns_row (scans rows)))"

text \<open>The last word of an \<open>EXISTS\<close> query, without backticks.\<close>

definition exists_name :: "string \<Rightarrow> string option" where
  "exists_name query = (let parts = Fields query in
     if 3 \<le> length parts then Some (Trim (last parts) [CHR 0x60]) else None)"

definition table_there :: "'d mysql \<Rightarrow> string \<Rightarrow> ('d write_buffer, bool) act" where
  "table_there db query = (case exists_name query of
       Some name \<Rightarrow> on_store (orElse False (TableExists db name))
     | None \<Rightarrow> ret False)"

definition existsTable :: "'d mysql \<Rightarrow> string \<Rightarrow> ('d write_buffer, string) act" where
  "existsTable db query = bindM (table_there db query) (\<lambda>there. ret ((if there then ''1'' else ''0'') @ nl))"

definition handleSystemQuery :: "'d mysql \<Rightarrow> string \<Rightarrow> ('d write_buffer, string) act" where
  "handleSystemQuery db query = (let upper = ToUpper (TrimSpace query) in
     if Contains upper ''VERSION()'' then ret (''24.8.5.115'' @ nl)
     else if Contains upper ''CURRENTUSER()'' \<or> Contains upper ''CURRENT_USER()'' then ret (''default'' @ nl)
     else if Contains upper ''DATABASE()'' \<and> \<not> Contains upper ''SYSTEM'' then ret (''default'' @ nl)
     else if upper = ''SHOW TABLES'' \<or> upper = ''SHOW TABLES FROM default'' then getTableList db
     else if upper = ''SHOW DATABASES'' then ret (''default'' @ nl @ ''information_schema'' @ nl)
     else if Contains upper ''SYSTEM.TABLES'' then getSystemTables db
     else if Contains upper ''SYSTEM.COLUMNS'' then getSystemColumns db
     else if HasPrefix upper ''EXISTS'' then existsTable db query
     else ret [])"

section \<open>A request\<close>

text \<open>The \<open>query\<close> parameter of the URL and the body, which may fail to be read.\<close>

record request =
  url_query :: string
  req_body :: "string res option"

definition cell_text :: "go_float \<Rightarrow> gval \<Rightarrow> string" where
  "cell_text fl v = (case v of
       GNil \<Rightarrow> [CHR 0x5C, CHR ''N'']
     | GBytes b \<Rightarrow> to_str b
     | _ \<Rightarrow> Sprintf_v fl v)"

primrec write_rows :: "go_float \<Rightarrow> gval list res list \<Rightarrow> ('d, unit) http" where
  "write_rows fl [] = ret ()"
| "write_rows fl (r # rs) = catchM
     (bindM (liftR r) (\<lambda>values. bindM (Write (Join (map (cell_text fl) values) tab @ nl)) (\<lambda>_. write_rows fl rs)))
     (\<lambda>e. http_Error (error_text e) 500)"

definition reply_error :: "go_err \<Rightarrow> ('d, unit) http" where
  "reply_error e = http_Error (error_text e) 500"

text \<open>What is done with a translated query.\<close>

definition run_translated :: "'d ch_env \<Rightarrow> string \<Rightarrow> ('d, unit) http" where
  "run_translated env translated =
    (if ch_isWriteQuery translated then
       if HasPrefix (ToUpper translated) ''INSERT'' then
         bindM (on_buffer (Enqueue (ch_buffer_pool env) translated)) (\<lambda>_. WriteHeader 200)
       else catchM (bindM (on_buffer (on_store (pool_Exec (ch_db env) translated []))) (\<lambda>affected.
              Write (int_dec (sint affected) @ nl))) reply_error
     else catchM (bindM (on_buffer (on_store (pool_Query (ch_db env) translated []))) (\<lambda>rows.
            bindM (liftR (col_names rows)) (\<lambda>cols.
            bindM (SetContentType tsv) (\<lambda>_.
            bindM (Write (Join cols tab @ nl)) (\<lambda>_.
              write_rows (ch_floats env) (scans rows)))))) reply_error)"

definition answer_query :: "'d ch_env \<Rightarrow> string \<Rightarrow> ('d, unit) http" where
  "answer_query env query =
    (let query = TrimSpace query in
     if query = [] then WriteHeader 200
     else bindM (on_buffer (handleSystemQuery (ch_db env) query)) (\<lambda>answer.
       if answer \<noteq> [] then bindM (SetContentType tsv) (\<lambda>_. Write answer)
       else run_translated env (ch_Translate query)))"

definition handleRequest :: "'d ch_env \<Rightarrow> request \<Rightarrow> ('d, unit) http" where
  "handleRequest env r =
    (if url_query r \<noteq> [] then answer_query env (url_query r)
     else (case req_body r of
         None \<Rightarrow> answer_query env []
       | Some (Ok body) \<Rightarrow> answer_query env body
       | Some (Err e) \<Rightarrow> http_Error (error_text e) 400
       | Some (Panic p) \<Rightarrow> liftR (Panic p)))"

text \<open>Closing the server flushes the buffer and leaves its goroutine running.\<close>

definition http_Close :: "'d ch_env \<Rightarrow> ('d write_buffer, unit) act" where
  "http_Close env = Flush (ch_buffer_pool env)"

end
