(* ===== verification/ChProto.thy ===== *)
theory ChProto
  imports GoStrings Codec
begin

text \<open>
  \<open>pkg/chproto\<close>: the constants of the ClickHouse native protocol and its primitive
  encodings, the variable-length integer (\<open>ReadVarInt\<close>, \<open>WriteVarInt\<close>), the
  length-prefixed string and the little-endian fixed-width integers. The reference for
  the variable-length integer is \<open>leb128\<close> on natural numbers with its value function
  \<open>leb_value\<close>; the reader and the writer of the code are shown to implement it.
\<close>

section \<open>Constants\<close>

definition ProtoVersion :: "32 word" where "ProtoVersion = 54460"
definition ProtoRevision :: "32 word" where "ProtoRevision = 54461"
definition ProtoDBMSVersion :: string where "ProtoDBMSVersion = ''24.8.5.115''"
definition ProtoTimezone :: string where "ProtoTimezone = ''UTC''"
definition ProtoDisplayName :: string where "ProtoDisplayName = ''AgentX Proxy''"

definition PacketHello :: byte where "PacketHello = 0"
definition PacketQuery :: byte where "PacketQuery = 1"
definition PacketData :: byte where "PacketData = 2"
definition PacketCancel :: byte where "PacketCancel = 3"
definition PacketPing :: byte where "PacketPing = 4"

definition ServerPacketData :: byte where "ServerPacketData = 1"
definition ServerPacketException :: byte where "ServerPacketException = 2"
definition ServerPacketProgress :: byte where "ServerPacketProgress = 3"
definition ServerPacketPong :: byte where "ServerPacketPong = 4"
definition ServerPacketEndOfStream :: byte where "ServerPacketEndOfStream = 5"

definition QuerySecondary :: "64 word" where "QuerySecondary = 1"
definition CompressionEnabled :: "64 word" where "CompressionEnabled = 1"

lemmas packet_defs = PacketHello_def PacketQuery_def PacketData_def PacketCancel_def PacketPing_def

section \<open>Variable-length integers\<close>

text \<open>The loop of \<open>ReadVarInt\<close>: \<open>k\<close> iterations left, the current shift, the result so far.\<close>

primrec ReadVarInt_loop :: "nat \<Rightarrow> nat \<Rightarrow> 64 word \<Rightarrow> 64 word reader" where
  "ReadVarInt_loop 0 shift result = failM UnexpectedEOF"
| "ReadVarInt_loop (Suc k) shift result =
     bindM ReadByte (\<lambda>b.
       let result' = result OR push_bit shift (ucast (b AND 0x7F))
       in if b < 0x80 then ret result' else ReadVarInt_loop k (shift + 7) result')"

definition ReadVarInt :: "64 word reader" where
  "ReadVarInt = ReadVarInt_loop 10 0 0"

function WriteVarInt :: "64 word \<Rightarrow> writer" where
  "WriteVarInt v =
     (if 0x80 \<le> v
      then bindM (WriteByte (ucast v OR 0x80)) (\<lambda>_. WriteVarInt (drop_bit 7 v))
      else WriteByte (ucast v))"
  by pat_completeness auto
termination
proof (relation "measure unat")
  fix v :: "64 word"
  assume "0x80 \<le> v"
  then have "128 \<le> unat v" by (simp add: word_le_nat_alt)
  then show "(drop_bit 7 v, v) \<in> measure unat"
    by (simp add: drop_bit_eq_div unat_div)
qed simp

declare WriteVarInt.simps [simp del]

text \<open>The reference: base 128, least significant group first, the top bit set on all but the last byte.\<close>

fun leb128 :: "nat \<Rightarrow> byte list" where
  "leb128 n =
     (if n < 128 then [word_of_nat n]
      else word_of_nat (n mod 128 + 128) # leb128 (n div 128))"

declare leb128.simps [simp del]

primrec leb_value :: "byte list \<Rightarrow> nat" where
  "leb_value [] = 0"
| "leb_value (b # bs) = unat b mod 128 + 128 * leb_value bs"

text \<open>A complete group: continuation bits on all bytes but the last.\<close>

fun leb_group :: "byte list \<Rightarrow> bool" where
  "leb_group [] = False"
| "leb_group (b # bs) = (if b < 0x80 then bs = [] else leb_group bs)"

lemma unat_last_byte: "n < 128 \<Longrightarrow> unat (word_of_nat n :: byte) = n"
  by (simp add: unat_of_nat)

lemma unat_cont_byte: "unat (word_of_nat (n mod 128 + 128) :: byte) = n mod 128 + 128"
proof -
  have "n mod 128 < 128" by simp
  then have "n mod 128 + 128 < 256" by arith
  then show ?thesis by (subst unat_of_nat) simp
qed

lemma leb_value_leb128: "leb_value (leb128 n) = n"
proof (induction n rule: leb128.induct)
  case (1 n)
  then show ?case
    by (cases "n < 128") (simp_all only: leb128.simps [of n] if_True if_False leb_value.simps
      unat_last_byte unat_cont_byte, simp_all)
qed

lemma leb_group_leb128: "leb_group (leb128 n)"
proof (induction n rule: leb128.induct)
  case (1 n)
  have "\<not> (word_of_nat (n mod 128 + 128) :: byte) < 0x80"
    unfolding word_less_nat_alt unat_cont_byte by simp
  moreover have "(word_of_nat n :: byte) < 0x80" if "n < 128"
    using that by (simp add: word_less_nat_alt unat_last_byte)
  ultimately show ?case using 1 leb128.simps [of n]
    by (cases "n < 128") (simp_all only: if_True if_False leb_group.simps not_False_eq_True)
qed

lemma length_leb128: "n < 128 ^ k \<Longrightarrow> 0 < k \<Longrightarrow> length (leb128 n) \<le> k"
proof (induction k arbitrary: n)
  case (Suc k)
  show ?case
  proof (cases "n < 128")
    case True
    then show ?thesis by (simp add: leb128.simps [of n])
  next
    case False
    then have "k \<noteq> 0" using Suc.prems by (cases k) auto
    moreover have "n div 128 < 128 ^ k"
      using Suc.prems by (simp add: less_mult_imp_div_less mult.commute)
    ultimately show ?thesis using False Suc.IH [of "n div 128"]
      by (simp add: leb128.simps [of n])
  qed
qed simp

lemma leb128_not_Nil [simp]: "leb128 n \<noteq> []"
  by (subst leb128.simps) simp

text \<open>The bytes the writer computes are those of the reference.\<close>

lemma unat_take_bit: "unat (take_bit n w) = unat w mod 2 ^ n"
  by (simp only: unsigned_take_bit_eq take_bit_eq_mod [where 'a = nat])

lemma bit_0x80: "bit (0x80 :: int) i \<longleftrightarrow> i = 7"
proof -
  have "(0x80 :: int) = 2 ^ 7" by simp
  then show ?thesis by (simp only: bit_exp_iff) auto
qed

lemma low7_or_msb: "(ucast v OR 0x80 :: byte) = word_of_nat (unat (v :: 64 word) mod 128 + 128)"
proof -
  have "(ucast v OR 0x80 :: byte) = (ucast (take_bit 7 v) OR 0x80)"
    by (rule bit_word_eqI) (auto simp: bit_simps bit_0x80)
  also have "\<dots> = ucast (take_bit 7 v) + 0x80"
    by (rule disjunctive_add [symmetric]) (auto simp: bit_simps bit_0x80)
  also have "ucast (take_bit 7 v) = (word_of_nat (unat v mod 128) :: byte)"
  proof -
    have "ucast (take_bit 7 v) = (word_of_nat (unat (take_bit 7 v)) :: byte)" by (rule of_nat_unat [symmetric])
    then show ?thesis by (simp only: unat_take_bit) simp
  qed
  finally show ?thesis by simp
qed

text \<open>The writer of the code sends exactly the reference encoding, on every sink.\<close>

lemma WriteVarInt_leb128: "WriteVarInt v = WriteBytes (leb128 (unat v))"
proof (induction v rule: WriteVarInt.induct)
  case (1 v)
  show ?case
  proof (cases "0x80 \<le> v")
    case True
    then have ge: "\<not> unat v < 128" by (simp add: word_le_nat_alt)
    have "unat (drop_bit 7 v) = unat v div 128"
      by (simp add: drop_bit_eq_div unat_div)
    with 1 True have IH: "WriteVarInt (drop_bit 7 v) = WriteBytes (leb128 (unat v div 128))"
      by simp
    have "WriteVarInt v = bindM (WriteByte (ucast v OR 0x80)) (\<lambda>_. WriteVarInt (drop_bit 7 v))"
      using True by (subst WriteVarInt.simps) (rule if_P)
    also have "\<dots> = WriteBytes (word_of_nat (unat v mod 128 + 128) # leb128 (unat v div 128))"
      unfolding IH WriteByte_def WriteBytes_append low7_or_msb by simp
    also have "\<dots> = WriteBytes (leb128 (unat v))"
      using ge by (subst (2) leb128.simps) simp
    finally show ?thesis .
  next
    case False
    then have "unat v < 128" by (simp add: word_le_nat_alt)
    with False show ?thesis
      by (simp add: WriteVarInt.simps [of v] leb128.simps [of "unat v"] WriteByte_def)
  qed
qed

subsection \<open>The reader\<close>

lemma and_0x7F: "unat ((b :: byte) AND 0x7F) = unat b mod 128"
proof -
  have "b AND 0x7F = take_bit 7 b" by (simp add: take_bit_eq_mask mask_numeral)
  then show ?thesis by (simp add: take_bit_eq_mod unat_mod)
qed

lemma or_shifted:
  assumes "unat (r :: 64 word) < 2 ^ s"
  shows "r OR push_bit s (ucast (b AND 0x7F)) = r + word_of_nat (unat (b :: byte) mod 128 * 2 ^ s)"
proof -
  have "unat (take_bit s r) = unat r"
    using assms by (simp only: unat_take_bit) simp
  then have "r = take_bit s r" by (metis unsigned_word_eqI)
  then have "\<not> bit r i" if "s \<le> i" for i
    using that by (metis bit_take_bit_iff not_le)
  then have "r OR push_bit s (ucast (b AND 0x7F)) = r + push_bit s (ucast (b AND 0x7F))"
    by (intro disjunctive_add [symmetric]) (auto simp: bit_simps)
  moreover have "push_bit s (ucast (b AND 0x7F) :: 64 word) = word_of_nat (unat b mod 128 * 2 ^ s)"
    by (simp add: push_bit_eq_mult and_0x7F [symmetric])
  ultimately show ?thesis by simp
qed

lemma add_chunk_bound:
  assumes "unat (r :: 64 word) < 2 ^ s"
  shows "unat (r + word_of_nat (unat (b :: byte) mod 128 * 2 ^ s)) < 2 ^ (s + 7)"
proof -
  have "unat b mod 128 \<le> 127" using mod_less_divisor [of 128 "unat b"] by simp
  then have c: "unat b mod 128 * 2 ^ s \<le> 127 * 2 ^ s" by (rule mult_le_mono1)
  have "unat (r + word_of_nat (unat b mod 128 * 2 ^ s)) \<le> unat r + unat b mod 128 * 2 ^ s"
    unfolding unat_word_ariths unat_of_nat by (metis mod_add_right_eq mod_less_eq_dividend)
  also have "\<dots> < 2 ^ s + 127 * 2 ^ s" by (rule add_less_le_mono [OF assms c])
  finally show ?thesis by (simp add: power_add)
qed

text \<open>A complete group within the budget is read as its value (modulo \<open>2 ^ 64\<close>).\<close>

lemma ReadVarInt_loop_group:
  assumes "leb_group bs" and "length bs \<le> k" and "unat r < 2 ^ s"
  shows "ReadVarInt_loop k s r (bs @ rest) = (Ok (r + word_of_nat (leb_value bs * 2 ^ s)), rest)"
  using assms
proof (induction bs arbitrary: k s r)
  case (Cons b bs)
  then obtain j where k: "k = Suc j" by (cases k) auto
  let ?r = "r + word_of_nat (unat b mod 128 * 2 ^ s) :: 64 word"
  have r: "r OR push_bit s (ucast (b AND 0x7F)) = ?r" using Cons.prems(3) by (rule or_shifted)
  show ?case
  proof (cases "b < 0x80")
    case True
    then show ?thesis using Cons.prems by (simp add: k bindM_def ret_def r)
  next
    case False
    then have "ReadVarInt_loop j (s + 7) ?r (bs @ rest)
        = (Ok (?r + word_of_nat (leb_value bs * 2 ^ (s + 7))), rest)"
      using Cons.prems k by (intro Cons.IH add_chunk_bound) auto
    then show ?thesis using False
      by (simp add: k bindM_def r power_add algebra_simps)
  qed
qed simp

text \<open>Bytes with the continuation bit only: the input ends, or the budget of ten bytes is used up.\<close>

lemma ReadVarInt_loop_cont:
  "(\<And>b. b \<in> set bs \<Longrightarrow> 0x80 \<le> b) \<Longrightarrow> length bs < k \<Longrightarrow> ReadVarInt_loop k s r bs = (Err EOF, [])"
proof (induction bs arbitrary: k s r)
  case Nil
  then show ?case by (cases k) (simp_all add: bindM_def)
next
  case (Cons b bs)
  then have "\<not> b < 0x80" by (simp add: not_less)
  with Cons show ?case by (cases k) (auto simp: bindM_def)
qed

lemma ReadVarInt_loop_over:
  "(\<And>b. b \<in> set bs \<Longrightarrow> 0x80 \<le> b) \<Longrightarrow>
     ReadVarInt_loop (length bs) s r (bs @ rest) = (Err UnexpectedEOF, rest)"
proof (induction bs arbitrary: s r)
  case Nil
  then show ?case by (simp add: failM_def)
next
  case (Cons b bs)
  then have "\<not> b < 0x80" by (simp add: not_less)
  with Cons show ?case by (auto simp: bindM_def)
qed

lemma ReadVarInt_group:
  "leb_group bs \<Longrightarrow> length bs \<le> 10 \<Longrightarrow> ReadVarInt (bs @ rest) = (Ok (word_of_nat (leb_value bs)), rest)"
  unfolding ReadVarInt_def using ReadVarInt_loop_group [of bs 10 0 0 rest] by simp

text \<open>Every stream starts in one of three ways.\<close>

lemma leb_cases:
  "(\<exists>bs rest. s = bs @ rest \<and> leb_group bs \<and> length bs \<le> n)
   \<or> (length s < n \<and> (\<forall>b \<in> set s. 0x80 \<le> b))
   \<or> (n \<le> length s \<and> (\<forall>b \<in> set (take n s). 0x80 \<le> b))"
proof (induction n arbitrary: s)
  case (Suc n)
  show ?case
  proof (cases s)
    case (Cons b t)
    show ?thesis
    proof (cases "b < 0x80")
      case True
      then have "s = [b] @ t \<and> leb_group [b] \<and> length [b] \<le> Suc n" using Cons by simp
      then show ?thesis by blast
    next
      case False
      then have lift: "leb_group bs \<Longrightarrow> leb_group (b # bs)" for bs by simp
      from False have b: "0x80 \<le> b" by (simp add: not_less)
      from Suc.IH [of t] consider
          (g) bs rest where "t = bs @ rest" "leb_group bs" "length bs \<le> n"
        | (e) "length t < n" "\<forall>b \<in> set t. 0x80 \<le> b"
        | (o) "n \<le> length t" "\<forall>b \<in> set (take n t). 0x80 \<le> b" by blast
      then show ?thesis
      proof cases
        case g
        then have "s = (b # bs) @ rest \<and> leb_group (b # bs) \<and> length (b # bs) \<le> Suc n"
          using Cons lift by simp
        then show ?thesis by blast
      qed (use Cons b in auto)
    qed
  qed simp
qed simp

section \<open>Strings and fixed-width integers\<close>

text \<open>The counted loops over \<open>ReadByte\<close> of the string and the fixed-width readers.\<close>

definition ReadBytes :: "nat \<Rightarrow> byte list reader" where
  "ReadBytes n = decode_n n ReadByte"

definition ReadString :: "string reader" where
  "ReadString =
     bindM ReadVarInt (\<lambda>len.
     bindM (makeBytes (unat len)) (\<lambda>_.
     bindM (ReadBytes (unat len)) (\<lambda>buf. ret (to_str buf))))"

definition WriteString :: "string \<Rightarrow> writer" where
  "WriteString s =
     bindM (WriteVarInt (word_of_nat (length s))) (\<lambda>_. seqM (map WriteByte (to_bytes s)))"

definition ReadFixedUint32 :: "32 word reader" where
  "ReadFixedUint32 = bindM (ReadBytes 4) (\<lambda>buf. ret (le_word buf))"

definition ReadFixedUint64 :: "64 word reader" where
  "ReadFixedUint64 = bindM (ReadBytes 8) (\<lambda>buf. ret (le_word buf))"

definition WriteFixedUint32 :: "32 word \<Rightarrow> writer" where
  "WriteFixedUint32 v = seqM (map WriteByte (le_bytes 4 v))"

definition WriteFixedUint64 :: "64 word \<Rightarrow> writer" where
  "WriteFixedUint64 v = seqM (map WriteByte (le_bytes 8 v))"

text \<open>The reference encodings.\<close>

definition string_bytes :: "string \<Rightarrow> byte list" where
  "string_bytes s = leb128 (length s) @ to_bytes s"

definition string_ok :: "string \<Rightarrow> bool" where
  "string_ok s \<longleftrightarrow> length s \<le> max_alloc"

lemma ReadBytes_simps [simp]:
  "ReadBytes 0 s = (Ok [], s)"
  "ReadBytes (Suc n) [] = (Err EOF, [])"
  by (simp_all add: ReadBytes_def ret_def bindM_def)

lemma ReadBytes_eq:
  "ReadBytes n s = (if n \<le> length s then (Ok (take n s), drop n s) else (Err EOF, []))"
proof (induction n arbitrary: s)
  case (Suc n)
  then show ?case
    by (cases s) (auto simp: ReadBytes_def bindM_def ret_def)
qed simp

lemma WriteString_string_bytes:
  "length s < 2 ^ 64 \<Longrightarrow> WriteString s = WriteBytes (string_bytes s)"
  by (simp add: WriteString_def WriteVarInt_leb128 seqM_WriteByte WriteBytes_append
    string_bytes_def unat_of_nat)

lemma WriteFixed_le_bytes:
  "WriteFixedUint32 v = WriteBytes (le_bytes 4 v)"
  "WriteFixedUint64 w = WriteBytes (le_bytes 8 w)"
  by (simp_all add: WriteFixedUint32_def WriteFixedUint64_def seqM_WriteByte)

section \<open>The formats as codecs\<close>

interpretation varint: codec "\<lambda>v. leb128 (unat v)" ReadVarInt "\<lambda>_. True"
proof
  fix v :: "64 word" and rest
  have "unat v < 128 ^ 10" using unsigned_less [of v, where 'a = nat] by simp
  then have "length (leb128 (unat v)) \<le> 10" by (rule length_leb128) simp
  with leb_group_leb128 show "ReadVarInt (leb128 (unat v) @ rest) = (Ok v, rest)"
    by (simp add: ReadVarInt_group leb_value_leb128)
qed

interpretation chstring: codec string_bytes ReadString string_ok
proof
  fix s rest
  assume "string_ok s"
  then have n: "length s \<le> max_alloc" "unat (word_of_nat (length s) :: 64 word) = length s"
    by (simp_all add: string_ok_def max_alloc_def unat_of_nat)
  have "ReadVarInt (leb128 (length s) @ to_bytes s @ rest) = (Ok (word_of_nat (length s)), to_bytes s @ rest)"
    using varint.dec_enc [of "word_of_nat (length s)"] n(2) by simp
  then show "ReadString (string_bytes s @ rest) = (Ok s, rest)"
    using n by (simp add: ReadString_def string_bytes_def bindM_def ReadBytes_eq ret_def)
qed

interpretation fixed32: fixed_codec "le_bytes 4" ReadFixedUint32 4
proof
  show "ReadFixedUint32 (le_bytes 4 v @ rest) = (Ok v, rest)" for v rest
    by (simp add: ReadFixedUint32_def bindM_def ReadBytes_eq ret_def le_word_le_bytes_full)
  show "\<exists>e. ReadFixedUint32 s = (Err e, [])" if "length s < 4" for s
    using that by (simp add: ReadFixedUint32_def bindM_def ReadBytes_eq)
  show "\<exists>x :: 32 word. le_bytes 4 x = bs" if "length bs = 4" for bs
    using that by (intro exI [of _ "le_word bs"] le_bytes_le_word) simp_all
qed simp

interpretation fixed64: fixed_codec "le_bytes 8" ReadFixedUint64 8
proof
  show "ReadFixedUint64 (le_bytes 8 v @ rest) = (Ok v, rest)" for v rest
    by (simp add: ReadFixedUint64_def bindM_def ReadBytes_eq ret_def le_word_le_bytes_full)
  show "\<exists>e. ReadFixedUint64 s = (Err e, [])" if "length s < 8" for s
    using that by (simp add: ReadFixedUint64_def bindM_def ReadBytes_eq)
  show "\<exists>x :: 64 word. le_bytes 8 x = bs" if "length bs = 8" for bs
    using that by (intro exI [of _ "le_word bs"] le_bytes_le_word) simp_all
qed simp

section \<open>Properties\<close>

lemma leb_group_prefix:
  assumes "n = length (takeWhile (\<lambda>b. 0x80 \<le> b) s)" and "n < length s"
  shows "leb_group (take (Suc n) s)"
  using assms
proof (induction s arbitrary: n)
  case (Cons b s)
  then show ?case by (cases "0x80 \<le> b") (auto simp: not_le not_less)
qed simp

lemma take_takeWhile_all: "n \<le> length (takeWhile P s) \<Longrightarrow> \<forall>b \<in> set (take n s). P b"
proof
  fix b assume n: "n \<le> length (takeWhile P s)" and b: "b \<in> set (take n s)"
  have "take n s = take n (takeWhile P s)"
    using n by (metis append_Nil2 diff_is_0_eq take_append takeWhile_dropWhile_id take0)
  with b show "P b" by (metis in_set_takeD set_takeWhileD)
qed

lemma ReadVarInt_over_budget:
  "10 \<le> length (takeWhile (\<lambda>b. 0x80 \<le> b) s) \<Longrightarrow> ReadVarInt s = (Err UnexpectedEOF, drop 10 s)"
proof -
  assume n: "10 \<le> length (takeWhile (\<lambda>b. 0x80 \<le> b) s)"
  then have "\<forall>b \<in> set (take 10 s). 0x80 \<le> b" by (rule take_takeWhile_all)
  moreover have "length (take 10 s) = 10" using n length_takeWhile_le [of "\<lambda>b. 0x80 \<le> b" s] by simp
  ultimately have "ReadVarInt_loop 10 0 0 (take 10 s @ drop 10 s) = (Err UnexpectedEOF, drop 10 s)"
    using ReadVarInt_loop_over [of "take 10 s" 0 0 "drop 10 s"] by metis
  then show ?thesis by (simp add: ReadVarInt_def)
qed

text \<open>
  C32: a variable-length integer written to a connection takes at most ten bytes, and the
  reader gets the same 64-bit value back and stops right behind it.
\<close>

theorem varint_roundtrip:
  "\<exists>bs. WriteVarInt v (open_sink pre) = (Ok (), open_sink (pre @ bs))
       \<and> 1 \<le> length bs \<and> length bs \<le> 10 \<and> ReadVarInt (bs @ rest) = (Ok v, rest)"
proof (intro exI conjI)
  have "unat v < 128 ^ 10" using unsigned_less [of v, where 'a = nat] by simp
  then show "length (leb128 (unat v)) \<le> 10" by (rule length_leb128) simp
  show "1 \<le> length (leb128 (unat v))" by (metis leb128_not_Nil length_0_conv less_one not_le)
qed (simp_all add: WriteVarInt_leb128 open_sink_def varint.dec_enc)

text \<open>
  What \<open>ReadVarInt\<close> does on every input. With \<open>n\<close> leading bytes that have the
  continuation bit: ten or more are an error after ten bytes, an input that ends with them is
  the end of the stream, and otherwise the value of the first \<open>n + 1\<close> bytes is returned modulo
  \<open>2 ^ 64\<close> (the high bits of a tenth byte are dropped) with the rest left unread.
\<close>

theorem ReadVarInt_outcome:
  "ReadVarInt s =
     (let n = length (takeWhile (\<lambda>b. 0x80 \<le> b) s)
      in if 10 \<le> n then (Err UnexpectedEOF, drop 10 s)
         else if n = length s then (Err EOF, [])
         else (Ok (word_of_nat (leb_value (take (Suc n) s))), drop (Suc n) s))"
proof -
  let ?n = "length (takeWhile (\<lambda>b. 0x80 \<le> b) s)"
  have le: "?n \<le> length s" by (rule length_takeWhile_le)
  consider "10 \<le> ?n" | "?n < 10" "?n = length s" | "?n < 10" "?n < length s" using le by linarith
  then show ?thesis
  proof cases
    case 1
    then show ?thesis by (simp add: ReadVarInt_over_budget)
  next
    case 2
    then have "\<forall>b \<in> set s. 0x80 \<le> b" using take_takeWhile_all [of "length s" "\<lambda>b. 0x80 \<le> b" s] by simp
    with 2 show ?thesis
      by (simp add: ReadVarInt_def ReadVarInt_loop_cont)
  next
    case 3
    then have "leb_group (take (Suc ?n) s)" "length (take (Suc ?n) s) \<le> 10"
      by (auto intro: leb_group_prefix)
    then show ?thesis
      using 3 ReadVarInt_group [of "take (Suc ?n) s" "drop (Suc ?n) s"] by (simp add: Let_def)
  qed
qed

text \<open>
  A string of up to \<open>max_alloc\<close> bytes written to a connection is read back whole,
  and the reader stops right behind it.
\<close>

theorem string_roundtrip:
  assumes "length s \<le> max_alloc"
  shows "\<exists>bs. WriteString s (open_sink pre) = (Ok (), open_sink (pre @ bs))
       \<and> ReadString (bs @ rest) = (Ok s, rest)"
proof (intro exI conjI)
  show "WriteString s (open_sink pre) = (Ok (), open_sink (pre @ string_bytes s))"
    using assms by (simp add: WriteString_string_bytes max_alloc_def open_sink_def)
  show "ReadString (string_bytes s @ rest) = (Ok s, rest)"
    using assms by (simp add: chstring.dec_enc string_ok_def)
qed

theorem string_roundtrip_witness:
  "\<exists>bs. WriteString ''default'' (open_sink []) = (Ok (), open_sink ([] @ bs))
       \<and> ReadString (bs @ [7]) = (Ok ''default'', [7])"
  by (rule string_roundtrip) (simp add: max_alloc_def)

text \<open>
  A peer that announces a string longer than the run time can allocate does not get an
  error: the reader panics before it has read a byte of the string.
\<close>

theorem ReadString_huge_panics:
  assumes "max_alloc < unat (n :: 64 word)"
  shows "ReadString (leb128 (unat n) @ rest) = (Panic MakeSliceLen, rest)"
  using assms by (simp add: ReadString_def bindM_def varint.dec_enc makeBytes_def)

theorem ReadString_huge_panics_witness:
  "ReadString (leb128 (unat (2 ^ 63 :: 64 word)) @ [1, 2]) = (Panic MakeSliceLen, [1, 2])"
  by (rule ReadString_huge_panics) (simp add: max_alloc_def)

text \<open>
  Reading a fixed-width integer takes exactly its four or eight bytes (writing the
  value back gives those bytes), or fails at the end of the stream.
\<close>

theorem fixed_width_outcome:
  "((\<exists>v. ReadFixedUint32 s = (Ok v, drop 4 s) \<and> 4 \<le> length s
        \<and> WriteFixedUint32 v (open_sink []) = (Ok (), open_sink (take 4 s)))
     \<or> (length s < 4 \<and> (\<exists>e. ReadFixedUint32 s = (Err e, []))))
   \<and> ((\<exists>v. ReadFixedUint64 s = (Ok v, drop 8 s) \<and> 8 \<le> length s
        \<and> WriteFixedUint64 v (open_sink []) = (Ok (), open_sink (take 8 s)))
     \<or> (length s < 8 \<and> (\<exists>e. ReadFixedUint64 s = (Err e, []))))"
  using fixed32.dec_long [of s] fixed32.dec_short [of s] fixed64.dec_long [of s] fixed64.dec_short [of s]
  by (auto simp: WriteFixed_le_bytes open_sink_def not_le [symmetric])

end
