(* ===== verification/ChNative.thy ===== *)
theory ChNative
  imports ChHttp ChProto
begin

text \<open>
  \<open>internal/proxy/clickhouse/http_server.go\<close>, the native TCP interface. A connection has the
  bytes still to read, what was written to its buffered writer and not flushed, what the peer
  got, and the insert buffer, which holds the database. The buffered writer takes everything;
  only \<open>Flush\<close> meets the connection, and after it failed nothing more is sent. (Bytes that
  \<open>bufio\<close> sends before a \<open>Flush\<close>, once it holds 64 KB, arrive here with the \<open>Flush\<close>.)
\<close>

section \<open>The connection\<close>

record 'd native =
  nc_in :: "byte list"
  nc_bw :: "byte list"
  nc_out :: sink
  nc_broken :: bool
  nc_wb :: "'d write_buffer"

type_synonym ('d, 'a) nat_act = "('d native, 'a) act"

definition reading :: "'a reader \<Rightarrow> ('d, 'a) nat_act" where
  "reading m s = (case m (nc_in s) of (r, rest) \<Rightarrow> (r, s\<lparr>nc_in := rest\<rparr>))"

text \<open>\<open>x, _ := f(r)\<close>: the zero value of an error.\<close>

definition read_or :: "'a \<Rightarrow> 'a reader \<Rightarrow> ('d, 'a) nat_act" where
  "read_or d m = orElse d (reading m)"

definition skipping :: "'a reader \<Rightarrow> ('d, unit) nat_act" where
  "skipping m = ignoreM (bindM (reading m) (\<lambda>_. ret ()))"

definition put :: "writer \<Rightarrow> ('d, unit) nat_act" where
  "put w s = (case w (open_sink (nc_bw s)) of (r, k) \<Rightarrow> (r, s\<lparr>nc_bw := out k\<rparr>))"

definition put_byte :: "byte \<Rightarrow> ('d, unit) nat_act" where
  "put_byte b = put (WriteByte b)"

definition flush_conn :: "('d, unit) nat_act" where
  "flush_conn s =
    (if nc_broken s then (Err WriteFailed, s)
     else (case WriteBytes (nc_bw s) (nc_out s) of
       (Ok _, k) \<Rightarrow> (Ok (), s\<lparr>nc_bw := [], nc_out := k\<rparr>)
     | (Err e, k) \<Rightarrow> (Err e, s\<lparr>nc_bw := [], nc_out := k, nc_broken := True\<rparr>)
     | (Panic p, k) \<Rightarrow> (Panic p, s)))"

definition on_wb :: "('d write_buffer, 'a) act \<Rightarrow> ('d, 'a) nat_act" where
  "on_wb m s = (case m (nc_wb s) of (r, wb) \<Rightarrow> (r, s\<lparr>nc_wb := wb\<rparr>))"

section \<open>Replies\<close>

record native_column =
  nat_Name :: string
  nat_Type :: string

record native_response =
  nat_columns :: "native_column list"
  nat_rows :: "gval list list"

definition put_count :: "nat \<Rightarrow> ('d, unit) nat_act" where
  "put_count n = put (WriteVarInt (word_of_nat n))"

definition put_progress :: "64 word \<Rightarrow> 64 word \<Rightarrow> 64 word \<Rightarrow> ('d, unit) nat_act" where
  "put_progress rows blocks bytes = seqM
     [put_byte ServerPacketProgress, put (WriteVarInt rows), put (WriteVarInt blocks), put (WriteVarInt bytes)]"

definition put_strings :: "string list \<Rightarrow> ('d, unit) nat_act" where
  "put_strings xs = seqM (map (\<lambda>x. put (WriteString x)) xs)"

text \<open>A data block up to its values: sizes, names, types, serialization of every column.\<close>

definition put_header :: "string list \<Rightarrow> string list \<Rightarrow> nat \<Rightarrow> ('d, unit) nat_act" where
  "put_header names types rows = seqM
     [put_byte ServerPacketData, put_count (length names), put_count rows, put_strings names,
      put_strings types, seqM (replicate (length names) (put (WriteVarInt 0)))]"

definition sendEmptyBlock :: "('d, unit) nat_act" where
  "sendEmptyBlock = seqM [put_byte ServerPacketData, put (WriteVarInt 0), put (WriteVarInt 0), flush_conn]"

definition sendNativeResponse :: "go_float \<Rightarrow> native_response \<Rightarrow> ('d, unit) nat_act" where
  "sendNativeResponse fl r = seqM
     [put_progress 0 0 0,
      put_header (map nat_Name (nat_columns r)) (map nat_Type (nat_columns r)) (length (nat_rows r)),
      seqM (map (\<lambda>row. put_strings (map (Sprintf_v fl) row)) (nat_rows r)),
      put_byte ServerPacketEndOfStream, flush_conn]"

definition sendNativeProgress :: "('d, unit) nat_act" where
  "sendNativeProgress = seqM [put_progress 0 0 0, put_byte ServerPacketEndOfStream, flush_conn]"

definition sendNativeComplete :: "64 word \<Rightarrow> ('d, unit) nat_act" where
  "sendNativeComplete affected = seqM [put_progress affected 1 0, put_byte ServerPacketEndOfStream, flush_conn]"

definition sendNativeError :: "string \<Rightarrow> ('d, unit) nat_act" where
  "sendNativeError msg = seqM
     [put_byte ServerPacketException, put (WriteFixedUint32 0), put_strings [msg, [], []], put_byte 0,
      put_byte ServerPacketEndOfStream, flush_conn]"

definition native_cell :: "go_float \<Rightarrow> gval \<Rightarrow> string" where
  "native_cell fl v = (case v of GNil \<Rightarrow> [] | _ \<Rightarrow> Sprintf_v fl v)"

text \<open>All rows are scanned before the block is written; the first scan that fails, or a row that
  does not fit the columns, is the error.\<close>

primrec collect_rows :: "nat \<Rightarrow> gval list res list \<Rightarrow> gval list list res" where
  "collect_rows n [] = Ok []"
| "collect_rows n (r # rs) = bind_res r (\<lambda>row.
     if length row \<noteq> n then Err (ErrorText ''sql: expected destination arguments in Scan'')
     else bind_res (collect_rows n rs) (\<lambda>rows. Ok (row # rows)))"

definition or_error :: "'a res \<Rightarrow> ('a \<Rightarrow> ('d, unit) nat_act) \<Rightarrow> ('d, unit) nat_act" where
  "or_error r f = (case r of
       Ok x \<Rightarrow> f x
     | Err e \<Rightarrow> sendNativeError (error_text e)
     | Panic p \<Rightarrow> liftR (Panic p))"

definition put_columns :: "go_float \<Rightarrow> nat \<Rightarrow> gval list list \<Rightarrow> ('d, unit) nat_act" where
  "put_columns fl n rows =
     seqM (map (\<lambda>col. put_strings (map (\<lambda>row. native_cell fl (row ! col)) rows)) [0..<n])"

definition sendNativeData :: "go_float \<Rightarrow> mysql_rows \<Rightarrow> ('d, unit) nat_act" where
  "sendNativeData fl rows =
     bindM (put_progress 0 0 0) (\<lambda>_.
     or_error (col_types rows) (\<lambda>colTypes.
     or_error (col_names rows) (\<lambda>colNames.
     or_error (collect_rows (length colTypes) (scans rows)) (\<lambda>allRows.
       if length colNames < length colTypes then liftR (Panic IndexRange)
       else seqM
         [put_header (take (length colTypes) colNames) (map mysqlToCHType colTypes) (length allRows),
          put_columns fl (length colTypes) allRows,
          put_byte ServerPacketEndOfStream, flush_conn]))))"

section \<open>Queries answered from the catalog\<close>

definition string_columns :: "string list \<Rightarrow> native_column list" where
  "string_columns names = map (\<lambda>n. \<lparr>nat_Name = n, nat_Type = ''String''\<rparr>) names"

definition native_tables_columns :: "native_column list" where
  "native_tables_columns = map (\<lambda>(n, t). \<lparr>nat_Name = n, nat_Type = t\<rparr>)
    [(''database'', ''String''), (''name'', ''String''), (''engine'', ''String''),
     (''is_temporary'', ''UInt8''), (''data_paths'', ''String''), (''metadata_path'', ''String''),
     (''metadata_modification_time'', ''DateTime64(3)''), (''metadata_version'', ''UInt64''),
     (''storage_policy'', ''String''), (''delayed_insert_threads'', ''UInt64''),
     (''parts'', ''UInt64''), (''active_parts'', ''UInt64''), (''total_marks'', ''UInt64''),
     (''total_rows'', ''UInt64''), (''total_bytes'', ''UInt64'')]"

definition native_tables_row :: "string \<Rightarrow> gval list" where
  "native_tables_row name =
    [GString ''default'', GString name, GString ''MergeTree'', GUint 0, GString [], GString [],
     GString ''1970-01-01 00:00:00.000'', GUint 0, GString [], GUint 0,
     GUint 0, GUint 0, GUint 0, GUint 0, GUint 0]"

definition getNativeSystemTables :: "'d mysql \<Rightarrow> ('d write_buffer, native_response option) act" where
  "getNativeSystemTables db = ask_or None db table_list_query (\<lambda>rows.
     Some \<lparr>nat_columns = native_tables_columns,
       nat_rows = map (\<lambda>v. native_tables_row (name_or_empty v)) (first_column rows)\<rparr>)"

definition columns_type_query :: string where
  "columns_type_query = [CHR 0x0A, CHR 0x09, CHR 0x09]
     @ ''SELECT table_name, column_name, column_type'' @ [CHR 0x0A, CHR 0x09, CHR 0x09]
     @ ''FROM information_schema.columns'' @ [CHR 0x0A, CHR 0x09, CHR 0x09]
     @ ''WHERE table_schema = DATABASE()'' @ [CHR 0x0A, CHR 0x09, CHR 0x09]
     @ ''ORDER BY table_name, ordinal_position'' @ [CHR 0x0A, CHR 0x09]"

definition native_columns_row :: "gval list res \<Rightarrow> gval list" where
  "native_columns_row row = (let cells = scan_strings 3 row in
     [GString ''default'', GString (cells ! 0), GString (cells ! 1), GString (mysqlToCHType (cells ! 2)),
      GString [], GString [], GString [], GString []])"

definition getNativeSystemColumns :: "'d mysql \<Rightarrow> ('d write_buffer, native_response option) act" where
  "getNativeSystemColumns db = ask_or None db columns_type_query (\<lambda>rows.
     Some \<lparr>nat_columns = string_columns
         [''database'', ''table'', ''name'', ''type'', ''default_expression'', ''comment'', ''codec_expression'', ''default_type''],
       nat_rows = map native_columns_row (scans rows)\<rparr>)"

definition nativeExistsTable :: "'d mysql \<Rightarrow> string \<Rightarrow> ('d write_buffer, native_response option) act" where
  "nativeExistsTable db query = bindM (table_there db query) (\<lambda>there.
     ret (Some \<lparr>nat_columns = [\<lparr>nat_Name = ''result'', nat_Type = ''UInt8''\<rparr>],
       nat_rows = [[GUint (if there then 1 else 0)]]\<rparr>))"

definition one_value :: "string \<Rightarrow> string list \<Rightarrow> native_response" where
  "one_value name values = \<lparr>nat_columns = string_columns [name], nat_rows = map (\<lambda>v. [GString v]) values\<rparr>"

definition handleSystemQueryNative :: "'d mysql \<Rightarrow> string \<Rightarrow> ('d write_buffer, native_response option) act" where
  "handleSystemQueryNative db query = (let upper = ToUpper (TrimSpace query) in
     if Contains upper ''VERSION()'' then ret (Some (one_value ''version()'' [ProtoDBMSVersion]))
     else if Contains upper ''CURRENTUSER()'' \<or> Contains upper ''CURRENT_USER()''
       then ret (Some (one_value ''currentUser()'' [''default'']))
     else if Contains upper ''DATABASE()'' then ret (Some (one_value ''database()'' [''default'']))
     else if upper = ''SHOW TABLES'' \<or> upper = ''SHOW TABLES FROM default''
       then bindM (getTableList db) (\<lambda>tables.
         ret (Some (one_value ''name'' (filter (\<lambda>t. t \<noteq> []) (Split (TrimSpace tables) CHR 0x0A)))))
     else if Contains upper ''SHOW DATABASES''
       then ret (Some (one_value ''name'' [''default'', ''information_schema'']))
     else if Contains upper ''SYSTEM.TABLES'' then getNativeSystemTables db
     else if Contains upper ''SYSTEM.COLUMNS'' then getNativeSystemColumns db
     else if HasPrefix upper ''EXISTS'' then nativeExistsTable db query
     else ret None)"

section \<open>Packets\<close>

definition read_query :: "('d, string) nat_act" where
  "read_query =
     bindM (skipping ReadString) (\<lambda>_.                \<comment> \<open>query id\<close>
     bindM (skipping ReadVarInt) (\<lambda>_.                \<comment> \<open>stage\<close>
     bindM (read_or 0 ReadVarInt) (\<lambda>compression.
     bindM (seqM [skipping ReadVarInt, skipping ReadString, skipping ReadVarInt, skipping ReadVarInt,
       skipping ReadVarInt, skipping ReadVarInt, skipping ReadString, skipping ReadVarInt, skipping ReadVarInt]) (\<lambda>_.
     bindM (read_or [] ReadString) (\<lambda>query.
     bindM (read_or 0 ReadVarInt) (\<lambda>kind.
     bindM (if kind = QuerySecondary
        then bindM (read_or [] ReadString) (\<lambda>second. ret (if second \<noteq> [] then second else query))
        else ret query) (\<lambda>query.
     bindM (if compression = CompressionEnabled then seqM (replicate 4 (skipping ReadByte)) else ret ()) (\<lambda>_.
       ret query))))))))"

definition native_error :: "go_err \<Rightarrow> ('d, unit) nat_act" where
  "native_error e = sendNativeError (error_text e)"

definition run_native :: "'d ch_env \<Rightarrow> string \<Rightarrow> ('d, unit) nat_act" where
  "run_native env translated =
    (if ch_isWriteQuery translated then
       if HasPrefix (ToUpper translated) ''INSERT'' then
         bindM (on_wb (Enqueue (ch_buffer_pool env) translated)) (\<lambda>_. sendNativeProgress)
       else bindM (catchM (bindM (on_wb (on_store (pool_Exec (ch_db env) translated []))) (\<lambda>n. ret (Ok n)))
              (\<lambda>e. ret (Err e))) (\<lambda>r. or_error r sendNativeComplete)
     else bindM (catchM (bindM (on_wb (on_store (pool_Query (ch_db env) translated []))) (\<lambda>rows. ret (Ok rows)))
            (\<lambda>e. ret (Err e))) (\<lambda>r. or_error r (sendNativeData (ch_floats env))))"

definition handleCHQuery :: "'d ch_env \<Rightarrow> ('d, unit) nat_act" where
  "handleCHQuery env = bindM read_query (\<lambda>query.
    (let query = TrimSpace query in
     if query = [] then sendEmptyBlock
     else bindM (on_wb (handleSystemQueryNative (ch_db env) query)) (\<lambda>resp.
       case resp of
         Some r \<Rightarrow> sendNativeResponse (ch_floats env) r
       | None \<Rightarrow> run_native env (ch_Translate query))))"

definition skipBlock :: "('d, unit) nat_act" where
  "skipBlock = seqM [skipping ReadVarInt, skipping ReadVarInt]"

definition send_hello :: "('d, unit) nat_act" where
  "send_hello = seqM
     [put (WriteFixedUint32 ProtoVersion), put (WriteString ProtoDisplayName),
      put (WriteFixedUint32 ProtoRevision), put (WriteString ProtoTimezone)]"

definition handleReHandshake :: "('d, unit) nat_act" where
  "handleReHandshake = seqM
     [skipping ReadFixedUint32, skipping ReadFixedUint32, skipping ReadFixedUint32,
      skipping ReadString, skipping ReadString, skipping ReadString, send_hello]"

text \<open>One packet; the result says whether the connection goes on.\<close>

definition handle_packet :: "'d ch_env \<Rightarrow> byte \<Rightarrow> ('d, bool) nat_act" where
  "handle_packet env packetType =
    (if packetType = PacketQuery then bindM (ignoreM (handleCHQuery env)) (\<lambda>_. ret True)
     else if packetType = PacketData then bindM skipBlock (\<lambda>_. ret True)
     else if packetType = PacketCancel then ret False
     else if packetType = PacketPing
       then bindM (put_byte ServerPacketPong) (\<lambda>_. bindM (ignoreM flush_conn) (\<lambda>_. ret True))
     else if packetType = PacketHello
       then bindM handleReHandshake (\<lambda>_. bindM (ignoreM flush_conn) (\<lambda>_. ret True))
     else ret True)"

definition handshake :: "('d, unit) nat_act" where
  "handshake =
     bindM (reading ReadFixedUint32) (\<lambda>clientVersion. seqM
       [skipping ReadFixedUint32, skipping ReadFixedUint32,
        skipping ReadString, skipping ReadString, skipping ReadString,
        send_hello, ignoreM flush_conn])"

section \<open>Reading consumes, writing adds\<close>

definition shorter :: "byte list \<Rightarrow> byte list \<Rightarrow> bool" where
  "shorter s t \<longleftrightarrow> length t \<le> length s"

interpretation rd: kept_relation shorter
  by unfold_locales (auto simp: shorter_def)

lemma ReadByte_shorter: "within shorter ReadByte"
  by (auto simp: within_def ReadByte_def shorter_def split: list.split)

lemma makeBytes_shorter: "within shorter (makeBytes n)"
  by (auto simp: makeBytes_def intro!: rd.control simp: within_def ret_def liftR_def shorter_def)

lemma decode_n_shorter: "within shorter dec \<Longrightarrow> within shorter (decode_n n dec)"
  by (induction n) (auto intro!: rd.control)

lemma ReadVarInt_loop_shorter: "within shorter (ReadVarInt_loop k sh r)"
  by (induction k arbitrary: sh r) (auto simp: Let_def intro!: rd.control ReadByte_shorter)

lemma readers_shorter:
  "within shorter ReadByte" "within shorter ReadVarInt" "within shorter ReadString" "within shorter ReadFixedUint32"
  by (auto simp: ReadVarInt_def ReadString_def ReadFixedUint32_def ReadBytes_def
    intro!: rd.control ReadByte_shorter ReadVarInt_loop_shorter decode_n_shorter makeBytes_shorter)

text \<open>What holds across everything a connection does: input is used up, the peer's output
  grows, and the insert buffer stays within its bound.\<close>

definition native_progress :: "'d native \<Rightarrow> 'd native \<Rightarrow> bool" where
  "native_progress s t \<longleftrightarrow> length (nc_in t) \<le> length (nc_in s) \<and> grows (nc_out s) (nc_out t)
     \<and> stays_bounded (nc_wb s) (nc_wb t)"

interpretation np: kept_relation native_progress
  by unfold_locales (auto simp: native_progress_def bnd.R_refl intro: grows_trans bnd.R_trans)

lemma reading_keep: "within shorter m \<Longrightarrow> within native_progress (reading m)"
  unfolding within_def
proof
  fix s :: "'b native"
  assume "\<forall>s. shorter s (snd (m s))"
  then have "shorter (nc_in s) (snd (m (nc_in s)))" by blast
  then show "native_progress s (snd (reading m s))"
    by (auto simp: reading_def native_progress_def shorter_def bnd.R_refl split: prod.split)
qed

lemma put_keep: "within native_progress (put w)"
  by (auto simp: within_def put_def native_progress_def bnd.R_refl split: prod.split)

lemma flush_keep: "within native_progress flush_conn"
  unfolding within_def
proof
  fix s :: "'a native"
  show "native_progress s (snd (flush_conn s))"
    by (auto simp: flush_conn_def native_progress_def bnd.R_refl WriteBytes_def grows_def
      split: option.split)
qed

lemma on_wb_keep: "within stays_bounded m \<Longrightarrow> within native_progress (on_wb m)"
  unfolding within_def
proof
  fix s :: "'a native"
  assume "\<forall>s. stays_bounded s (snd (m s))"
  then have "stays_bounded (nc_wb s) (snd (m (nc_wb s)))" by blast
  then show "native_progress s (snd (on_wb m s))"
    by (auto simp: on_wb_def native_progress_def split: prod.split)
qed

lemma on_store_bounded: "within stays_bounded (on_store m)"
  by (auto simp: within_def on_store_def stays_bounded_def bounded_def split: prod.split)

lemma enqueue_bounded: "within stays_bounded (Enqueue p q)"
  using step_bounded [of p "Enq q"] by simp

lemma system_bounded: "within stays_bounded (handleSystemQueryNative db q)"
  unfolding handleSystemQueryNative_def getTableList_def getNativeSystemTables_def getNativeSystemColumns_def
    nativeExistsTable_def table_there_def ask_or_def Let_def
  by (auto intro!: bnd.control on_store_bounded split: option.split)

lemma steps_keep:
  "within native_progress (skipping ReadByte)" "within native_progress (skipping ReadVarInt)"
  "within native_progress (skipping ReadString)" "within native_progress (skipping ReadFixedUint32)"
  "within native_progress (read_or a ReadVarInt)" "within native_progress (read_or b ReadString)"
  "within native_progress (put_byte c)"
  by (auto simp: skipping_def read_or_def put_byte_def intro!: np.control reading_keep readers_shorter put_keep)

lemma sends_keep:
  "within native_progress (put_progress a b c)" "within native_progress (put_strings xs)"
  "within native_progress (put_header ns ts k)" "within native_progress sendEmptyBlock"
  "within native_progress (sendNativeResponse fl r)" "within native_progress sendNativeProgress"
  "within native_progress (sendNativeComplete n)" "within native_progress (sendNativeError msg)"
  "within native_progress (put_columns fl k rows)" "within native_progress send_hello"
  unfolding put_progress_def put_strings_def put_header_def sendEmptyBlock_def sendNativeResponse_def
    sendNativeProgress_def sendNativeComplete_def sendNativeError_def put_columns_def put_count_def send_hello_def
  by (rule np.seq_keep; auto intro!: np.control np.seq_keep put_keep flush_keep steps_keep)+

lemma or_error_keep:
  "(\<And>x. within native_progress (f x)) \<Longrightarrow> within native_progress (or_error r f)"
  by (cases r) (auto simp: or_error_def intro!: sends_keep np.control)

lemma data_keep: "within native_progress (sendNativeData fl rows)"
  unfolding sendNativeData_def
  by (intro np.control or_error_keep sends_keep, rule np.seq_keep)
     (auto intro!: sends_keep steps_keep flush_keep)

lemma run_native_keep: "within native_progress (run_native env q)"
  unfolding run_native_def
  by (intro np.control on_wb_keep enqueue_bounded on_store_bounded or_error_keep sends_keep data_keep)

lemma read_query_keep: "within native_progress read_query"
  unfolding read_query_def
  by (intro np.control steps_keep np.seq_keep; auto intro!: steps_keep)

lemma query_keep: "within native_progress (handleCHQuery env)"
  unfolding handleCHQuery_def Let_def
  by (auto intro!: np.control read_query_keep sends_keep on_wb_keep system_bounded run_native_keep split: option.split)

lemma packet_keep: "within native_progress (handle_packet env b)"
  unfolding handle_packet_def skipBlock_def handleReHandshake_def
  by (auto intro!: np.control query_keep steps_keep flush_keep sends_keep np.seq_keep)

section \<open>The packet loop\<close>

text \<open>An error of a packet does not occur: the handlers drop theirs.\<close>

function serve_native :: "'d ch_env \<Rightarrow> 'd native \<Rightarrow> ending \<times> 'd native" where
  "serve_native env s = (case reading ReadByte s of
       (Ok b, t) \<Rightarrow> (case handle_packet env b t of
           (Ok go_on, u) \<Rightarrow> if go_on then serve_native env u else (Closed, u)
         | (Err _, u) \<Rightarrow> (Closed, u)
         | (Panic p, u) \<Rightarrow> (Crashed p, u))
     | (Err _, t) \<Rightarrow> (Closed, t)
     | (Panic p, t) \<Rightarrow> (Crashed p, t))"
  by auto
termination
proof (relation "measure (\<lambda>(env, s). length (nc_in s))", goal_cases)
  case (2 env s r t b v u)
  then have "length (nc_in t) < length (nc_in s)" "native_progress t u"
    using within_run [OF packet_keep, of env b t v u]
    by (auto simp: reading_def ReadByte_def split: list.splits)
  then show ?case
    by (simp add: native_progress_def)
qed simp

declare serve_native.simps [simp del]

definition native_handleConn :: "'d ch_env \<Rightarrow> 'd native \<Rightarrow> ending \<times> 'd native" where
  "native_handleConn env s = (case handshake s of
       (Ok _, t) \<Rightarrow> serve_native env t
     | (Err _, t) \<Rightarrow> (Closed, t)
     | (Panic p, t) \<Rightarrow> (Crashed p, t))"

definition new_native :: "byte list \<Rightarrow> sink \<Rightarrow> 'd write_buffer \<Rightarrow> 'd native" where
  "new_native inp w wb = \<lparr>nc_in = inp, nc_bw = [], nc_out = w, nc_broken = False, nc_wb = wb\<rparr>"

end
