(* ===== verification/ChReplies.thy ===== *)
theory ChReplies
  imports ChHttp
begin

text \<open>
  What an HTTP client of the ClickHouse interface sees: the answer to queries taken for system
  queries, the acknowledgement of an \<open>INSERT\<close>, the result of a query, and the shape of the
  tables the proxy makes up.
\<close>

section \<open>A response\<close>

text \<open>A response to which nothing has been written, and one that was answered with status 200.\<close>

definition answered :: "string \<Rightarrow> string \<Rightarrow> response" where
  "answered ct body = \<lparr>status = Some 200, content_type = ct, resp_body = body\<rparr>"

lemma first_write:
  "resp s = no_response \<Longrightarrow> bindM (SetContentType ct) (\<lambda>_. Write t) s = (Ok (), s\<lparr>resp := answered ct t\<rparr>)"
  by (simp add: SetContentType_def Write_def WriteHeader_def on_resp_def modifyM_def bindM_def
    no_response_def answered_def)

lemma more_write [simp]:
  "resp s = answered ct t \<Longrightarrow> Write u s = (Ok (), s\<lparr>resp := answered ct (t @ u)\<rparr>)"
  by (simp add: Write_def WriteHeader_def on_resp_def modifyM_def bindM_def answered_def)

text \<open>An error after the first write: the status and the type are those of a success.\<close>

lemma late_error [simp]:
  "resp s = answered ct t \<Longrightarrow>
     http_Error msg code s = (Ok (), s\<lparr>resp := answered ct (t @ msg @ nl)\<rparr>)"
  by (simp add: http_Error_def SetContentType_def Write_def WriteHeader_def on_resp_def modifyM_def
    bindM_def answered_def nl_def ret_def)

declare TrimSpace_idem [simp]

lemma Contains_Nil: "Contains [] w \<longleftrightarrow> w = []"
  by (simp add: Contains_iff)

section \<open>System queries\<close>

text \<open>
  A request whose query has the text \<open>version()\<close> anywhere, in any case, is answered with the
  version: nothing is executed and nothing is queued, even when it is an \<open>INSERT\<close>, which is
  thereby lost.
\<close>

theorem version_text_hides_query:
  assumes "Contains (ToUpper (TrimSpace (url_query r))) ''VERSION()''" and "resp s = no_response"
  shows "handleRequest env r s = (Ok (), s\<lparr>resp := answered tsv (''24.8.5.115'' @ nl)\<rparr>)"
proof -
  let ?q = "TrimSpace (url_query r)"
  have ne: "?q \<noteq> []" using assms(1) by (auto simp: Contains_Nil)
  then have "url_query r \<noteq> []" by (auto simp: TrimSpace_def trim_by_def)
  moreover have "handleSystemQuery (ch_db env) ?q = ret (''24.8.5.115'' @ nl)"
    using assms(1) by (simp add: handleSystemQuery_def)
  ultimately show ?thesis using ne first_write [OF assms(2), of tsv "''24.8.5.115'' @ nl"]
    by (simp add: handleRequest_def answer_query_def Let_def on_buffer_def bindM_def ret_def)
qed

definition store_env :: "store_policy \<Rightarrow> store ch_env" where
  "store_env pol = \<lparr>ch_buffer_pool = store_pool pol, ch_floats = plain_float\<rparr>"

definition new_request :: "store http_state" where
  "new_request = \<lparr>resp = no_response, http_wb = empty_buffer\<rparr>"

theorem version_text_hides_query_witness:
  "handleRequest (store_env good_policy)
      \<lparr>url_query = ''INSERT INTO notes (body) VALUES ('use version() to check')'', req_body = None\<rparr> new_request
    = (Ok (), new_request\<lparr>resp := answered tsv (''24.8.5.115'' @ nl)\<rparr>)"
proof (rule version_text_hides_query)
  show "Contains (ToUpper (TrimSpace (url_query
      \<lparr>url_query = ''INSERT INTO notes (body) VALUES ('use version() to check')'', req_body = None\<rparr>))) ''VERSION()''"
    by code_simp
qed (simp add: new_request_def)

text \<open>
  \<open>SHOW TABLES FROM default\<close> is never recognised, on either interface: the text it is
  compared with has lower-case letters and the query was put in upper case. The plain
  \<open>SHOW TABLES\<close> is answered with the tables of MySQL.
\<close>

theorem show_tables_from_default:
  "handleSystemQuery db ''SHOW TABLES FROM default'' = ret []
    \<and> handleSystemQuery db ''SHOW TABLES'' = getTableList db"
proof -
  have "ToUpper (TrimSpace ''SHOW TABLES FROM default'') = ''SHOW TABLES FROM DEFAULT''"
    "ToUpper (TrimSpace ''SHOW TABLES'') = ''SHOW TABLES''" by code_simp+
  moreover have "list_all (\<lambda>w. \<not> Contains ''SHOW TABLES FROM DEFAULT'' w)
      [''VERSION()'', ''CURRENTUSER()'', ''CURRENT_USER()'', ''DATABASE()'', ''SYSTEM.TABLES'', ''SYSTEM.COLUMNS'']"
    "list_all (\<lambda>w. \<not> Contains ''SHOW TABLES'' w)
      [''VERSION()'', ''CURRENTUSER()'', ''CURRENT_USER()'', ''DATABASE()'']"
    "\<not> HasPrefix ''SHOW TABLES FROM DEFAULT'' ''EXISTS''" by code_simp+
  ultimately show ?thesis by (simp add: handleSystemQuery_def)
qed

section \<open>Inserts\<close>

lemma space_upper: "is_space c \<Longrightarrow> upper_char c = c"
proof -
  have "list_all (\<lambda>c. upper_char c = c)
      [CHR '' '', CHR 0x09, CHR 0x0A, CHR 0x0B, CHR 0x0C, CHR 0x0D]" by code_simp
  then show "is_space c \<Longrightarrow> upper_char c = c"
    by (simp only: list.pred_inject is_space_def) blast
qed

text \<open>Trimming leaves a leading word of solid characters in place.\<close>

lemma trim_keeps_word:
  assumes "HasPrefix (ToUpper t) w" and "w \<noteq> []" and "\<And>c. c \<in> set w \<Longrightarrow> \<not> is_space c"
  shows "HasPrefix (ToUpper (TrimSpace t)) w"
proof -
  obtain x where "map upper_char t = w @ x"
    using assms(1) by (auto simp: HasPrefix_iff prefix_def ToUpper_def)
  then obtain u v where t: "t = u @ v" and u: "w = map upper_char u"
    by (auto simp: map_eq_append_conv)
  have solid: "\<not> is_space c" if "c \<in> set u" for c
    using assms(3) [of "upper_char c"] space_upper [of c] that by (auto simp: u)
  have ne: "u \<noteq> []" using assms(2) u by auto
  have "dropWhile is_space (u @ v) = u @ v"
    using ne solid by (cases u) auto
  moreover have "dropWhile is_space (rev v @ rev u) = dropWhile is_space (rev v) @ rev u"
    using ne solid by (induction v rule: rev_induct)
      (auto simp: dropWhile_eq_self_iff hd_rev)
  ultimately have "TrimSpace t = u @ rev (dropWhile is_space (rev v))"
    by (simp add: TrimSpace_def trim_by_def t)
  then show ?thesis by (simp add: HasPrefix_iff u ToUpper_def)
qed

lemma inserts_are_writes:
  assumes "HasPrefix (ToUpper t) ''INSERT''"
  shows "ch_isWriteQuery t"
proof -
  have solid: "list_all (\<lambda>c. \<not> is_space c) ''INSERT''" by code_simp
  have "HasPrefix (ToUpper (TrimSpace t)) ''INSERT''"
    by (rule trim_keeps_word [OF assms]) (use solid in \<open>simp_all only: list_all_iff list.distinct not_False_eq_True\<close>)
  then show ?thesis by (simp only: ch_isWriteQuery_def Let_def simp_thms)
qed

text \<open>
  An \<open>INSERT\<close> is acknowledged with status 200 and an empty body whatever MySQL does with it:
  refuses it, refuses another statement of its batch or fails to commit. Its translation is
  queued (or flushed with the queue), never executed twice.
\<close>

theorem insert_acknowledged:
  assumes "TrimSpace q \<noteq> []"
    and "handleSystemQuery (ch_db (store_env pol)) (TrimSpace q) = ret []"
    and "HasPrefix (ToUpper (ch_Translate (TrimSpace q))) ''INSERT''"
  shows "\<exists>wb. handleRequest (store_env pol) \<lparr>url_query = q, req_body = body\<rparr> \<lparr>resp = no_response, http_wb = w\<rparr>
      = (Ok (), \<lparr>resp = answered [] [], http_wb = wb\<rparr>)
    \<and> subseq (accepted wb) (accepted w @ [ch_Translate (TrimSpace q)])"
proof -
  obtain wb where wb: "Enqueue (store_pool pol) (ch_Translate (TrimSpace q)) w = (Ok (), wb)"
      "subseq (accepted wb) (accepted w @ [ch_Translate (TrimSpace q)])"
    using enqueue_store [of pol "ch_Translate (TrimSpace q)" w] by blast
  have "q \<noteq> []" using assms(1) by (auto simp: TrimSpace_def trim_by_def)
  then show ?thesis using assms wb inserts_are_writes [OF assms(3)]
    by (simp add: handleRequest_def answer_query_def Let_def on_buffer_def bindM_def ret_def
      run_translated_def store_env_def WriteHeader_def on_resp_def modifyM_def no_response_def answered_def)
qed

theorem insert_acknowledged_witness:
  "\<exists>wb. handleRequest (store_env bad_policy) \<lparr>url_query = '' INSERT INTO t (a) VALUES (1)'', req_body = None\<rparr>
        \<lparr>resp = no_response, http_wb = empty_buffer\<lparr>buffered := [''bad'']\<rparr>\<rparr>
      = (Ok (), \<lparr>resp = answered [] [], http_wb = wb\<rparr>)
    \<and> subseq (accepted wb) (accepted (empty_buffer\<lparr>buffered := [''bad'']\<rparr>)
        @ [ch_Translate (TrimSpace '' INSERT INTO t (a) VALUES (1)'')])"
proof (rule insert_acknowledged)
  have t: "TrimSpace '' INSERT INTO t (a) VALUES (1)'' = ''INSERT INTO t (a) VALUES (1)''" by code_simp
  show "TrimSpace '' INSERT INTO t (a) VALUES (1)'' \<noteq> []" by (simp add: t)
  have "ToUpper ''INSERT INTO t (a) VALUES (1)'' = ''INSERT INTO T (A) VALUES (1)''" by code_simp
  moreover have "list_all (\<lambda>w. \<not> Contains ''INSERT INTO T (A) VALUES (1)'' w)
      [''VERSION()'', ''CURRENTUSER()'', ''CURRENT_USER()'', ''DATABASE()'', ''SYSTEM.TABLES'', ''SYSTEM.COLUMNS'']"
    "\<not> HasPrefix ''INSERT INTO T (A) VALUES (1)'' ''EXISTS''" by code_simp+
  moreover have "TrimSpace ''INSERT INTO t (a) VALUES (1)'' = ''INSERT INTO t (a) VALUES (1)''" by code_simp
  ultimately show "handleSystemQuery (ch_db (store_env bad_policy)) (TrimSpace '' INSERT INTO t (a) VALUES (1)'') = ret []"
    by (simp add: handleSystemQuery_def t)
  show "HasPrefix (ToUpper (ch_Translate (TrimSpace '' INSERT INTO t (a) VALUES (1)''))) ''INSERT''"
    by code_simp
qed

section \<open>Results\<close>

text \<open>The lines of the rows that scan, and the error of the first that does not.\<close>

definition row_line :: "go_float \<Rightarrow> gval list \<Rightarrow> string" where
  "row_line fl vs = Join (map (cell_text fl) vs) tab @ nl"

fun sent_rows :: "go_float \<Rightarrow> gval list res list \<Rightarrow> string" where
  "sent_rows fl (Ok vs # rs) = row_line fl vs @ sent_rows fl rs"
| "sent_rows fl (Err e # rs) = error_text e @ nl"
| "sent_rows fl _ = []"

lemma write_rows_sent:
  "list_all (\<lambda>r. \<forall>p. r \<noteq> Panic p) rs \<Longrightarrow> resp s = answered ct t \<Longrightarrow>
     write_rows fl rs s = (Ok (), s\<lparr>resp := answered ct (t @ sent_rows fl rs)\<rparr>)"
proof (induction rs arbitrary: s t)
  case Nil
  then show ?case by simp
next
  case (Cons r rs)
  show ?case
  proof (cases r)
    case (Ok vs)
    let ?s = "s\<lparr>resp := answered ct (t @ row_line fl vs)\<rparr>"
    have "Write (row_line fl vs) s = (Ok (), ?s)" using Cons.prems(2) by simp
    moreover have "write_rows fl rs ?s
        = (Ok (), s\<lparr>resp := answered ct ((t @ row_line fl vs) @ sent_rows fl rs)\<rparr>)"
      using Cons.prems(1) Cons.IH [of ?s "t @ row_line fl vs"] by simp
    ultimately show ?thesis
      by (simp add: Ok catchM_def bindM_def liftR_def row_line_def)
  next
    case (Err e)
    then show ?thesis using Cons.prems(2) by (simp add: catchM_def bindM_def liftR_def)
  next
    case (Panic p)
    then show ?thesis using Cons.prems(1) by simp
  qed
qed

text \<open>
  C29: a query that is not a write is answered with a line of column names and a line per row,
  tab-separated, up to the first row that does not scan. The error of that row follows as one
  more line, and the response still has status 200 and the type of a table: a client cannot
  tell a broken result from a complete one.
\<close>

theorem select_reply:
  assumes "\<not> ch_isWriteQuery t"
    and "pool_Query (ch_db env) t [] (wb_db w) = (Ok rows, d)"
    and "col_names rows = Ok cols" and "list_all (\<lambda>r. \<forall>p. r \<noteq> Panic p) (scans rows)"
  shows "run_translated env t \<lparr>resp = no_response, http_wb = w\<rparr>
    = (Ok (), \<lparr>resp = answered tsv ((Join cols tab @ nl) @ sent_rows (ch_floats env) (scans rows)),
        http_wb = w\<lparr>wb_db := d\<rparr>\<rparr>)"
proof -
  let ?s = "\<lparr>resp = no_response, http_wb = w\<lparr>wb_db := d\<rparr>\<rparr>"
  let ?t = "?s\<lparr>resp := answered tsv (Join cols tab @ nl)\<rparr>"
  have "bindM (SetContentType tsv) (\<lambda>_. Write (Join cols tab @ nl)) ?s = (Ok (), ?t)"
    by (rule first_write) simp
  then have "bindM (SetContentType tsv) (\<lambda>_. bindM (Write (Join cols tab @ nl)) (\<lambda>_.
      write_rows (ch_floats env) (scans rows))) ?s = write_rows (ch_floats env) (scans rows) ?t"
    by (simp add: bindM_assoc [symmetric] bindM_apply_Ok)
  also have "\<dots> = (Ok (), ?t\<lparr>resp := answered tsv ((Join cols tab @ nl) @ sent_rows (ch_floats env) (scans rows))\<rparr>)"
    by (rule write_rows_sent [OF assms(4)]) simp
  finally show ?thesis using assms(1-3)
    by (simp add: run_translated_def catchM_def bindM_apply_Ok on_buffer_def on_store_def liftR_def)
qed

definition broken_result :: mysql_rows where
  "broken_result = \<lparr>col_types = Ok [''INT''], col_names = Ok [''a''],
     scans = [Ok [GInt 1], Err WriteFailed, Ok [GInt 2]], iter_err = None\<rparr>"

definition broken_env :: "unit ch_env" where
  "broken_env = \<lparr>ch_buffer_pool = \<lparr>wb_pool =
       \<lparr>pool_Query = (\<lambda>q args d. (Ok broken_result, d)), pool_Exec = (\<lambda>q args d. (Ok 0, d))\<rparr>,
     wb_tx = \<lparr>tx_Begin = ret (), tx_Exec = (\<lambda>q. ret ()), tx_Commit = ret (), tx_Rollback = ret ()\<rparr>\<rparr>,
     ch_floats = plain_float\<rparr>"

theorem select_reply_witness:
  "run_translated broken_env ''SELECT a FROM t''
      \<lparr>resp = no_response, http_wb = \<lparr>buffered = [], maxSize = 1, stopped = False, wb_db = ()\<rparr>\<rparr>
    = (Ok (), \<lparr>resp = answered tsv ((Join [''a''] tab @ nl) @ sent_rows plain_float (scans broken_result)),
        http_wb = \<lparr>buffered = [], maxSize = 1, stopped = False, wb_db = ()\<rparr>\<rparr>)
    \<and> sent_rows plain_float (scans broken_result) = ''1'' @ nl @ error_text WriteFailed @ nl"
proof -
  have "\<not> ch_isWriteQuery ''SELECT a FROM t''" by code_simp
  then have "run_translated broken_env ''SELECT a FROM t''
      \<lparr>resp = no_response, http_wb = \<lparr>buffered = [], maxSize = 1, stopped = False, wb_db = ()\<rparr>\<rparr>
    = (Ok (), \<lparr>resp = answered tsv ((Join [''a''] tab @ nl) @ sent_rows (ch_floats broken_env) (scans broken_result)),
        http_wb = \<lparr>buffered = [], maxSize = 1, stopped = False, wb_db = ()\<rparr>\<lparr>wb_db := ()\<rparr>\<rparr>)"
    by (rule select_reply)
      (simp_all add: broken_env_def ch_db_def broken_result_def)
  moreover have "sent_rows plain_float (scans broken_result) = ''1'' @ nl @ error_text WriteFailed @ nl"
    by code_simp
  ultimately show ?thesis by (simp add: broken_env_def)
qed

text \<open>
  The header of \<open>system.tables\<close> over HTTP has 17 columns (16 tabs) and each of its rows at
  least 20 cells (19 tabs), whatever MySQL returns, so that cells do not stand under their names.
\<close>

theorem system_tables_ragged:
  "count_list (Join http_tables_columns tab) CHR 0x09 = 16
    \<and> 19 \<le> count_list (http_tables_row row) CHR 0x09"
proof
  show "count_list (Join http_tables_columns tab) CHR 0x09 = 16" by code_simp
  have "count_list (concat (replicate 6 tab)) CHR 0x09 = 6"
    "count_list (Join (replicate 7 ''0'') tab) CHR 0x09 = 6" "count_list (concat (replicate 4 tab)) CHR 0x09 = 4"
    by code_simp+
  then show "19 \<le> count_list (http_tables_row row) CHR 0x09"
    by (simp add: http_tables_row_def Let_def tab_def)
qed

end
