(* ===== verification/ChSession.thy ===== *)
theory ChSession
  imports ChNative ChReplies
begin

text \<open>
  What a client of the native ClickHouse interface gets: the bytes of the replies, a reader of
  data blocks as their client, and whole connections.
\<close>

section \<open>What the writers put\<close>

definition emit :: "byte list \<Rightarrow> ('d, unit) nat_act" where
  "emit bs s = (Ok (), s\<lparr>nc_bw := nc_bw s @ bs\<rparr>)"

lemma put_emit [simp]: "put (WriteBytes bs) = emit bs"
  by (simp add: put_def emit_def open_sink_def fun_eq_iff)

lemma emit_Nil [simp]: "emit [] = ret ()"
  by (simp add: emit_def ret_def fun_eq_iff)

lemma emit_emit [simp]:
  "bindM (emit a) (\<lambda>_. emit b) = emit (a @ b)"
  "bindM (emit a) (\<lambda>_. bindM (emit b) (\<lambda>_. m)) = bindM (emit (a @ b)) (\<lambda>_. m)"
  by (simp_all add: emit_def bindM_def fun_eq_iff)

lemma seq_emit:
  "(\<And>x. x \<in> set xs \<Longrightarrow> m x = emit (f x)) \<Longrightarrow> seqM (map m xs) = emit (concat (map f xs))"
  by (induction xs) simp_all

lemma seq_emit_replicate: "seqM (replicate k (emit b)) = emit (concat (replicate k b))"
  by (induction k) simp_all

lemma seqM_single [simp]: "bindM m (\<lambda>_. ret ()) = m"
  using bindM_ret_right [of m] by (simp add: ret_def)

lemma concat_nested: "concat (map f (concat xss)) = concat (map (\<lambda>xs. concat (map f xs)) xss)"
  by (induction xss) simp_all

lemma put_varint [simp]: "put (WriteVarInt v) = emit (leb128 (unat v))"
  by (simp add: WriteVarInt_leb128)

lemma put_fixed [simp]: "put (WriteFixedUint32 v) = emit (le_bytes 4 v)"
  by (simp add: WriteFixed_le_bytes)

lemma put_byte_emit [simp]: "put_byte b = emit [b]"
  by (simp add: put_byte_def WriteByte_def)

lemma put_count_emit [simp]: "n < 2 ^ 64 \<Longrightarrow> put_count n = emit (leb128 n)"
  by (simp add: put_count_def unat_of_nat)

lemma string_ok_size: "string_ok x \<Longrightarrow> length x < 2 ^ 64"
  by (simp add: string_ok_def max_alloc_def)

lemma put_strings_emit:
  "list_all string_ok xs \<Longrightarrow> put_strings xs = emit (concat (map string_bytes xs))"
  unfolding put_strings_def
  by (rule seq_emit) (simp add: list_all_iff WriteString_string_bytes [OF string_ok_size])

text \<open>A flush sends all of it to a peer that takes it.\<close>

definition open_conn :: "'d native \<Rightarrow> bool" where
  "open_conn s \<longleftrightarrow> nc_bw s = [] \<and> \<not> nc_broken s \<and> room (nc_out s) = None"

definition sent :: "byte list \<Rightarrow> 'd native \<Rightarrow> 'd native" where
  "sent bs s = s\<lparr>nc_out := (nc_out s)\<lparr>out := out (nc_out s) @ bs\<rparr>\<rparr>"

lemma sent_simps [simp]:
  "sent a (sent b s) = sent (b @ a) s" "open_conn (sent a s) = open_conn s"
  "nc_in (sent a s) = nc_in s" "nc_wb (sent a s) = nc_wb s" "out (nc_out (sent a s)) = out (nc_out s) @ a"
  by (simp_all add: sent_def open_conn_def)

lemma sent_Nil [simp]: "sent [] s = s"
  by (simp add: sent_def)

lemma emit_flush:
  "open_conn s \<Longrightarrow> seqM [emit bs, flush_conn] s = (Ok (), sent bs s)"
  by (cases s) (simp add: bindM_def emit_def flush_conn_def open_conn_def sent_def ret_def)

section \<open>A client\<close>

text \<open>The layout of a reply with data: progress, one block, end of stream. A block has its
  sizes, the names, the types and the serialization of its columns, and then column after
  column.\<close>

definition expect :: "byte \<Rightarrow> unit reader" where
  "expect b = bindM ReadByte (\<lambda>c. if c = b then ret () else failM UnexpectedEOF)"

definition read_block :: "(string list \<times> string list \<times> string list list) reader" where
  "read_block =
     bindM ReadVarInt (\<lambda>columns. bindM ReadVarInt (\<lambda>rows.
     bindM (decode_n (unat columns) ReadString) (\<lambda>names.
     bindM (decode_n (unat columns) ReadString) (\<lambda>types.
     bindM (decode_n (unat columns) ReadVarInt) (\<lambda>_.
     bindM (decode_n (unat columns) (decode_n (unat rows) ReadString)) (\<lambda>cells.
       ret (names, types, cells)))))))"

definition read_table :: "(string list \<times> string list \<times> string list list) reader" where
  "read_table =
     bindM (expect ServerPacketProgress) (\<lambda>_. bindM (decode_n 3 ReadVarInt) (\<lambda>_.
     bindM (expect ServerPacketData) (\<lambda>_. bindM read_block (\<lambda>b.
     bindM (expect ServerPacketEndOfStream) (\<lambda>_. ret b)))))"

text \<open>The bytes of such a reply; the cells are in the order they are sent in.\<close>

definition table_bytes :: "string list \<Rightarrow> string list \<Rightarrow> nat \<Rightarrow> string list \<Rightarrow> byte list" where
  "table_bytes names types n cells =
     [ServerPacketProgress, 0, 0, 0, ServerPacketData] @ leb128 (length names) @ leb128 n
     @ concat (map string_bytes names) @ concat (map string_bytes types) @ replicate (length names) 0
     @ concat (map string_bytes cells) @ [ServerPacketEndOfStream]"

interpretation column: codec "\<lambda>xs. concat (map string_bytes xs)" "decode_n n ReadString"
    "\<lambda>xs. length xs = n \<and> list_all string_ok xs" for n
  by unfold_locales (auto simp: list_all_iff intro: chstring.decode_n_concat)

lemma leb_zero: "leb128 0 = [0]"
  by (simp add: leb128.simps)

lemma ReadVarInt_size: "n < 2 ^ 64 \<Longrightarrow> ReadVarInt (leb128 n @ rest) = (Ok (word_of_nat n), rest)"
  using varint.dec_enc [of "word_of_nat n" rest] by (simp add: unat_of_nat)

lemma ReadVarInt_zero: "ReadVarInt (0 # rest) = (Ok 0, rest)"
  using ReadVarInt_size [of 0 rest] by (simp add: leb_zero)

lemma ReadVarInt_zeros: "decode_n n ReadVarInt (replicate n 0 @ rest) = (Ok (replicate n 0), rest)"
  by (induction n) (simp_all add: bindM_def ReadVarInt_zero ret_def)

lemma read_table_bytes:
  assumes "list_all string_ok names" and "list_all string_ok types" and "length types = length names"
    and "length names < 2 ^ 64" and "n < 2 ^ 64"
    and "length cells = length names" and "list_all (\<lambda>c. length c = n \<and> list_all string_ok c) cells"
  shows "read_table (table_bytes names types n (concat cells) @ rest) = (Ok (names, types, cells), rest)"
proof -
  have c: "decode_n (length names) (decode_n n ReadString)
      (concat (map string_bytes (concat cells)) @ r) = (Ok cells, r)" for r
    using column.decode_n_concat [of cells n r] assms(6,7)
    by (simp add: list_all_iff concat_nested comp_def)
  have s: "decode_n (length names) ReadString (concat (map string_bytes xs) @ r) = (Ok xs, r)"
    if "xs = names \<or> xs = types" for xs r
    using column.dec_enc [of xs "length names" r] assms(1-3) that by auto
  have three: "decode_n 3 ReadVarInt (0 # 0 # 0 # r) = (Ok [0, 0, 0], r)" for r
    using ReadVarInt_zeros [of 3 r] by (simp add: numeral_3_eq_3)
  have b: "read_block (leb128 (length names) @ leb128 n
     @ concat (map string_bytes names) @ concat (map string_bytes types) @ replicate (length names) 0
     @ concat (map string_bytes (concat cells)) @ r) = (Ok (names, types, cells), r)" for r
    using assms(4,5)
    by (simp add: read_block_def bindM_def ReadVarInt_size unat_of_nat s ReadVarInt_zeros c ret_def)
  show ?thesis
    using b [of "ServerPacketEndOfStream # rest"]
    by (simp add: read_table_def table_bytes_def expect_def bindM_def three ret_def)
qed

section \<open>Replies with data\<close>

lemma put_header_emit:
  assumes "list_all string_ok names" and "list_all string_ok types" and "length names < 2 ^ 64" and "n < 2 ^ 64"
  shows "put_header names types n = emit ([ServerPacketData] @ leb128 (length names) @ leb128 n
     @ concat (map string_bytes names) @ concat (map string_bytes types) @ replicate (length names) 0)"
  using assms by (simp add: put_header_def put_strings_emit leb_zero seq_emit_replicate)

lemma put_progress_emit: "put_progress 0 0 0 = emit [ServerPacketProgress, 0, 0, 0]"
  by (simp add: put_progress_def leb_zero)

lemma mysqlToCHType_ok: "string_ok (mysqlToCHType t)"
proof -
  have "list_all (\<lambda>(w, c). length c \<le> 40) ch_types" by code_simp
  then have "length c \<le> 40" if "filter P ch_types = (w, c) # r" for P w c r
    using that filter_is_subset [of P ch_types] by (fastforce simp: list_all_iff)
  then have "length (mysqlToCHType t) \<le> 40"
    by (auto simp: mysqlToCHType_def split: list.split)
  then show ?thesis by (simp add: string_ok_def max_alloc_def)
qed

definition columns_of :: "go_float \<Rightarrow> nat \<Rightarrow> gval list list \<Rightarrow> string list list" where
  "columns_of fl n rows = map (\<lambda>col. map (\<lambda>row. native_cell fl (row ! col)) rows) [0..<n]"

lemma collect_rows_Ok:
  "list_all (\<lambda>row. length row = n) rows \<Longrightarrow> collect_rows n (map Ok rows) = Ok rows"
  by (induction rows) auto

lemma put_columns_emit:
  assumes "list_all (list_all string_ok) (columns_of fl n rows)"
  shows "put_columns fl n rows = emit (concat (map string_bytes (concat (columns_of fl n rows))))"
  unfolding put_columns_def columns_of_def concat_nested map_map comp_def
  by (rule seq_emit, subst put_strings_emit) (use assms in \<open>auto simp: columns_of_def list_all_iff comp_def\<close>)

text \<open>
  C6: a result that MySQL returns completely arrives at the client of the native interface as a
  block: a reader of the layout gets the names of the columns, their ClickHouse types, and for
  every column its value in every row, in order.
\<close>

theorem native_data_roundtrip:
  assumes "col_types rows = Ok types" and "col_names rows = Ok names" and "scans rows = map Ok cells"
    and "length names = length types" and "list_all (\<lambda>row. length row = length types) cells"
    and "length types < 2 ^ 64" and "length cells < 2 ^ 64" and "list_all string_ok names"
    and "list_all (list_all string_ok) (columns_of fl (length types) cells)" and "open_conn s"
  shows "\<exists>bs. sendNativeData fl rows s = (Ok (), sent bs s)
    \<and> read_table (bs @ rest) = (Ok (names, map mysqlToCHType types, columns_of fl (length types) cells), rest)"
proof (intro exI conjI)
  let ?types = "map mysqlToCHType types"
  let ?cols = "columns_of fl (length types) cells"
  have t: "list_all string_ok ?types" by (simp add: list_all_iff mysqlToCHType_ok)
  have "sendNativeData fl rows s = seqM [emit (table_bytes names ?types (length cells) (concat ?cols)), flush_conn] s"
    using assms t
    by (simp add: sendNativeData_def put_progress_emit or_error_def collect_rows_Ok put_header_emit
      put_columns_emit table_bytes_def)
  then show "sendNativeData fl rows s = (Ok (), sent (table_bytes names ?types (length cells) (concat ?cols)) s)"
    by (simp only: emit_flush [OF assms(10)])
  have "list_all (\<lambda>c. length c = length cells \<and> list_all string_ok c) ?cols"
    using assms(9) by (auto simp: columns_of_def list_all_iff)
  then show "read_table (table_bytes names ?types (length cells) (concat ?cols) @ rest) = (Ok (names, ?types, ?cols), rest)"
    using assms t by (intro read_table_bytes) (simp_all add: columns_of_def)
qed

definition two_by_two :: mysql_rows where
  "two_by_two = \<lparr>col_types = Ok [''BIGINT'', ''VARCHAR''], col_names = Ok [''id'', ''name''],
     scans = map Ok [[GInt 1, GNil], [GInt 2, GString ''b'']], iter_err = None\<rparr>"

definition idle_conn :: "unit native" where
  "idle_conn = \<lparr>nc_in = [], nc_bw = [], nc_out = open_sink [], nc_broken = False,
     nc_wb = \<lparr>buffered = [], maxSize = 1, stopped = False, wb_db = ()\<rparr>\<rparr>"

theorem native_data_roundtrip_witness:
  "\<exists>bs. sendNativeData plain_float two_by_two idle_conn = (Ok (), sent bs idle_conn)
    \<and> read_table (bs @ [7]) = (Ok ([''id'', ''name''], [''String'', ''String''], [[''1'', ''2''], [[], ''b'']]), [7])"
proof -
  have "map mysqlToCHType [''BIGINT'', ''VARCHAR''] = [''String'', ''String'']"
    "columns_of plain_float 2 [[GInt 1, GNil], [GInt 2, GString ''b'']] = [[''1'', ''2''], [[], ''b'']]"
    by code_simp+
  moreover have "open_conn idle_conn" by (simp add: open_conn_def idle_conn_def open_sink_def)
  ultimately show ?thesis
    using native_data_roundtrip [of two_by_two "[''BIGINT'', ''VARCHAR'']" "[''id'', ''name'']"
        "[[GInt 1, GNil], [GInt 2, GString ''b'']]" plain_float idle_conn "[7]"]
    by (simp add: two_by_two_def numeral_2_eq_2 [symmetric] string_ok_def max_alloc_def del: list.map)
qed

text \<open>The chunks of a list that is as long as \<open>m\<close> columns of \<open>n\<close> cells.\<close>

fun chunks :: "nat \<Rightarrow> nat \<Rightarrow> 'a list \<Rightarrow> 'a list list" where
  "chunks n 0 xs = []"
| "chunks n (Suc m) xs = take n xs # chunks n m (drop n xs)"

lemma chunks_props:
  "length xs = m * n \<Longrightarrow> concat (chunks n m xs) = xs \<and> length (chunks n m xs) = m
     \<and> list_all (\<lambda>c. length c = n) (chunks n m xs)"
  by (induction m arbitrary: xs) simp_all

lemma chunks_subset: "c \<in> set (chunks n m xs) \<Longrightarrow> set c \<subseteq> set xs"
  by (induction m arbitrary: xs) (auto dest: in_set_takeD in_set_dropD)

lemma length_flat:
  "list_all (\<lambda>row. length row = n) rows \<Longrightarrow> length (concat (map (map f) rows)) = n * length rows"
  by (induction rows) simp_all

lemma put_rows_emit:
  "list_all string_ok (concat (map (map f) rows)) \<Longrightarrow>
     seqM (map (\<lambda>row. put_strings (map f row)) rows) = emit (concat (map string_bytes (concat (map (map f) rows))))"
  by (induction rows) (simp_all add: put_strings_emit)

definition flat_cells :: "go_float \<Rightarrow> native_response \<Rightarrow> string list" where
  "flat_cells fl r = concat (map (map (Sprintf_v fl)) (nat_rows r))"

text \<open>
  C18: an answer from the catalog is sent row after row in the same layout (the comment in the
  code says column after column), so that the reader which is right for query results gets as
  its columns successive pieces of the rows put end to end. They are the columns only when the
  answer has one row or one column.
\<close>

theorem native_response_row_major:
  assumes "length (nat_columns r) < 2 ^ 64" and "length (nat_rows r) < 2 ^ 64"
    and "list_all (\<lambda>row. length row = length (nat_columns r)) (nat_rows r)"
    and "list_all (\<lambda>c. string_ok (nat_Name c) \<and> string_ok (nat_Type c)) (nat_columns r)"
    and "list_all string_ok (flat_cells fl r)" and "open_conn s"
  shows "\<exists>bs. sendNativeResponse fl r s = (Ok (), sent bs s)
    \<and> read_table (bs @ rest) = (Ok (map nat_Name (nat_columns r), map nat_Type (nat_columns r),
        chunks (length (nat_rows r)) (length (nat_columns r)) (flat_cells fl r)), rest)"
proof (intro exI conjI)
  let ?names = "map nat_Name (nat_columns r)" and ?types = "map nat_Type (nat_columns r)"
  let ?cells = "chunks (length (nat_rows r)) (length (nat_columns r)) (flat_cells fl r)"
  have "length (flat_cells fl r) = length (nat_columns r) * length (nat_rows r)"
    unfolding flat_cells_def by (rule length_flat [OF assms(3)])
  note ch = chunks_props [OF this]
  have ok: "list_all string_ok ?names" "list_all string_ok ?types"
    using assms(4) by (simp_all add: list_all_iff)
  have "sendNativeResponse fl r s
      = seqM [emit (table_bytes ?names ?types (length (nat_rows r)) (concat ?cells)), flush_conn] s"
    using assms(1,2,5) ok ch
    by (simp add: sendNativeResponse_def put_progress_emit put_header_emit table_bytes_def flat_cells_def
      put_rows_emit)
  then show "sendNativeResponse fl r s
      = (Ok (), sent (table_bytes ?names ?types (length (nat_rows r)) (concat ?cells)) s)"
    by (simp only: emit_flush [OF assms(6)])
  have "list_all (\<lambda>c. length c = length (nat_rows r) \<and> list_all string_ok c) ?cells"
    using assms(5) ch chunks_subset [of _ "length (nat_rows r)" "length (nat_columns r)" "flat_cells fl r"]
    by (fastforce simp: list_all_iff)
  then show "read_table (table_bytes ?names ?types (length (nat_rows r)) (concat ?cells) @ rest) = (Ok (?names, ?types, ?cells), rest)"
    using assms(1,2) ok ch by (intro read_table_bytes) simp_all
qed

definition two_tables :: native_response where
  "two_tables = \<lparr>nat_columns = string_columns [''database'', ''name''],
     nat_rows = [[GString ''default'', GString ''t1''], [GString ''default'', GString ''t2'']]\<rparr>"

theorem native_response_row_major_witness:
  "\<exists>bs. sendNativeResponse plain_float two_tables idle_conn = (Ok (), sent bs idle_conn)
    \<and> read_table (bs @ [7])
      = (Ok ([''database'', ''name''], [''String'', ''String''], [[''default'', ''t1''], [''default'', ''t2'']]), [7])"
proof -
  have n: "length (nat_columns two_tables) = 2" "length (nat_rows two_tables) = 2" by code_simp+
  have v: "map nat_Name (nat_columns two_tables) = [''database'', ''name'']"
    "map nat_Type (nat_columns two_tables) = [''String'', ''String'']"
    "chunks 2 2 (flat_cells plain_float two_tables) = [[''default'', ''t1''], [''default'', ''t2'']]" by code_simp+
  have s: "list_all (\<lambda>row. length row = 2) (nat_rows two_tables)"
    "list_all (\<lambda>c. length (nat_Name c) \<le> 50 \<and> length (nat_Type c) \<le> 50) (nat_columns two_tables)"
    "list_all (\<lambda>c. length c \<le> 50) (flat_cells plain_float two_tables)" by code_simp+
  have ok: "length c \<le> 50 \<Longrightarrow> string_ok c" for c by (simp add: string_ok_def max_alloc_def)
  have "open_conn idle_conn" by (simp add: open_conn_def idle_conn_def open_sink_def)
  then show ?thesis
    using native_response_row_major [of two_tables plain_float idle_conn "[7]"] s ok
    by (simp only: n v list_all_iff) simp
qed

text \<open>
  A text value, which MySQL's driver returns as bytes, is never shown to a client of the
  native interface: it gets the numbers of the bytes in brackets, where the HTTP interface
  sends the text itself.
\<close>

theorem native_bytes_as_numbers:
  "native_cell fl (GBytes b) \<noteq> to_str b \<and> cell_text fl (GBytes b) = to_str b
    \<and> native_cell fl (GBytes [104, 105]) = ''[104 105]''"
proof -
  have "length xs \<le> length (Join (map (\<lambda>x. nat_dec (unat x)) xs) '' '')" for xs :: "byte list"
  proof (induction xs)
    case (Cons x xs)
    have "0 < length (nat_dec (unat x))" by simp
    with Cons show ?case by (cases xs) (auto simp: Suc_le_eq trans_le_add1 simp del: nat_dec.simps)
  qed simp
  then have "length (to_str b) < length (native_cell fl (GBytes b))"
    by (simp add: native_cell_def Sprintf_v_def less_Suc_eq_le le_SucI)
  then have "native_cell fl (GBytes b) \<noteq> to_str b" by (metis less_irrefl)
  moreover have "nat_dec 104 = ''104''" "nat_dec 105 = ''105''" by code_simp+
  ultimately show ?thesis
    by (simp add: native_cell_def Sprintf_v_def cell_text_def)
qed

section \<open>Connections\<close>

text \<open>What a client sends to open a connection, and the answer.\<close>

record client_hello =
  hello_numbers :: "32 word \<times> 32 word \<times> 32 word"
  hello_strings :: "string list"

definition hello_bytes :: "client_hello \<Rightarrow> byte list" where
  "hello_bytes h = (case hello_numbers h of (a, b, c) \<Rightarrow> le_bytes 4 a @ le_bytes 4 b @ le_bytes 4 c)
     @ concat (map string_bytes (hello_strings h))"

definition hello_ok :: "client_hello \<Rightarrow> bool" where
  "hello_ok h \<longleftrightarrow> length (hello_strings h) = 3 \<and> list_all string_ok (hello_strings h)"

definition hello_reply :: "byte list" where
  "hello_reply = le_bytes 4 ProtoVersion @ string_bytes ProtoDisplayName
     @ le_bytes 4 ProtoRevision @ string_bytes ProtoTimezone"

lemma reading_step: "m (nc_in s) = (Ok x, r) \<Longrightarrow> bindM (reading m) k s = k x (s\<lparr>nc_in := r\<rparr>)"
  by (simp add: bindM_def reading_def)

lemma skipping_step: "m (nc_in s) = (Ok x, r) \<Longrightarrow> bindM (skipping m) k s = k () (s\<lparr>nc_in := r\<rparr>)"
  by (simp add: skipping_def ignoreM_def catchM_def reading_step ret_def bindM_def [of _ k])

lemma fixed_steps:
  "nc_in s = le_bytes 4 v @ r \<Longrightarrow> bindM (reading ReadFixedUint32) k s = k v (s\<lparr>nc_in := r\<rparr>)"
  "nc_in s = le_bytes 4 (v :: 32 word) @ r \<Longrightarrow> bindM (skipping ReadFixedUint32) l s = l () (s\<lparr>nc_in := r\<rparr>)"
  by (simp_all add: reading_step skipping_step fixed32.dec_enc)

lemma string_step:
  "nc_in s = string_bytes x @ r \<Longrightarrow> string_ok x \<Longrightarrow> bindM (skipping ReadString) k s = k () (s\<lparr>nc_in := r\<rparr>)"
  by (simp add: skipping_step chstring.dec_enc)

lemma send_hello_emit: "send_hello = emit hello_reply"
proof -
  have "string_ok ProtoDisplayName" "string_ok ProtoTimezone"
    by (simp_all add: string_ok_def max_alloc_def ProtoDisplayName_def ProtoTimezone_def)
  then show ?thesis
    by (simp add: send_hello_def hello_reply_def WriteString_string_bytes [OF string_ok_size])
qed

lemma ignore_flush: "open_conn s \<Longrightarrow> ignoreM flush_conn (s\<lparr>nc_bw := bs\<rparr>) = (Ok (), sent bs s)"
  by (cases s) (simp add: ignoreM_def catchM_def flush_conn_def open_conn_def sent_def)

lemma handshake_hello:
  assumes "hello_ok h" and "open_conn s" and "nc_in s = hello_bytes h @ rest"
  shows "handshake s = (Ok (), sent hello_reply (s\<lparr>nc_in := rest\<rparr>))"
proof -
  obtain a b c where n: "hello_numbers h = (a, b, c)" by (cases "hello_numbers h")
  obtain x y z where x: "hello_strings h = [x, y, z]" "string_ok x" "string_ok y" "string_ok z"
    using assms(1) by (auto simp: hello_ok_def numeral_3_eq_3 length_Suc_conv)
  let ?in = "\<lambda>r. s\<lparr>nc_in := r\<rparr>"
  have o: "open_conn (?in rest)" using assms(2) by (simp add: open_conn_def)
  have e: "bindM send_hello (\<lambda>_. ignoreM flush_conn) (?in rest) = (Ok (), sent hello_reply (?in rest))"
    using ignore_flush [OF o, of hello_reply] assms(2)
    by (simp add: send_hello_emit bindM_def emit_def open_conn_def)
  have "nc_in s = le_bytes 4 a @ le_bytes 4 b @ le_bytes 4 c @ string_bytes x @ string_bytes y @ string_bytes z @ rest"
    using assms(3) by (simp add: hello_bytes_def n x(1))
  then show ?thesis using x(2-4) e
    by (simp add: handshake_def fixed_steps string_step)
qed

lemma serve_pings:
  "open_conn s \<Longrightarrow> nc_in s = replicate n PacketPing \<Longrightarrow>
     serve_native env s = (Closed, sent (replicate n ServerPacketPong) (s\<lparr>nc_in := []\<rparr>))"
proof (induction n arbitrary: s)
  case 0
  then show ?case by (simp add: serve_native.simps [of env s] reading_def)
next
  case (Suc n)
  let ?t = "s\<lparr>nc_in := replicate n PacketPing\<rparr>"
  have t: "open_conn ?t" using Suc.prems by (simp add: open_conn_def)
  have "reading ReadByte s = (Ok PacketPing, ?t)" using Suc.prems by (simp add: reading_def)
  moreover have "handle_packet env PacketPing ?t = (Ok True, sent [ServerPacketPong] ?t)"
    using ignore_flush [OF t, of "[ServerPacketPong]"] t
    by (simp add: handle_packet_def packet_defs bindM_def emit_def open_conn_def)
  moreover have "serve_native env (sent [ServerPacketPong] ?t)
      = (Closed, sent (replicate n ServerPacketPong) ((sent [ServerPacketPong] ?t)\<lparr>nc_in := []\<rparr>))"
    using t by (intro Suc.IH) simp_all
  moreover have "sent (replicate n ServerPacketPong) ((sent [ServerPacketPong] ?t)\<lparr>nc_in := []\<rparr>)
      = sent (replicate (Suc n) ServerPacketPong) (s\<lparr>nc_in := []\<rparr>)"
    by (simp add: sent_def)
  ultimately show ?case by (simp add: serve_native.simps [of env s])
qed

text \<open>
  C30: a client that opens a connection and sends pings gets the answer to its hello and one pong
  for each ping; the connection ends with its input, and the insert buffer and the database are
  as they were.
\<close>

theorem native_pings_answered:
  assumes "hello_ok h"
  shows "native_handleConn env (new_native (hello_bytes h @ replicate n PacketPing) (open_sink []) wb)
    = (Closed, sent (hello_reply @ replicate n ServerPacketPong) (new_native [] (open_sink []) wb))"
proof -
  let ?s = "new_native (hello_bytes h @ replicate n PacketPing) (open_sink []) wb"
  let ?t = "sent hello_reply (?s\<lparr>nc_in := replicate n PacketPing\<rparr>)"
  have o: "open_conn ?s" by (simp add: open_conn_def new_native_def open_sink_def)
  then have "open_conn (?s\<lparr>nc_in := replicate n PacketPing\<rparr>)" by (simp add: open_conn_def)
  then have t: "open_conn ?t" by simp
  have "handshake ?s = (Ok (), ?t)"
    by (rule handshake_hello [OF assms o]) (simp add: new_native_def)
  moreover have "serve_native env ?t = (Closed, sent (replicate n ServerPacketPong) (?t\<lparr>nc_in := []\<rparr>))"
    using t by (rule serve_pings) simp
  ultimately show ?thesis by (simp add: native_handleConn_def new_native_def sent_def)
qed

definition some_hello :: client_hello where
  "some_hello = \<lparr>hello_numbers = (1, 2, 3), hello_strings = [''default'', ''user'', []]\<rparr>"

lemma some_hello_ok: "hello_ok some_hello"
  by (simp add: hello_ok_def some_hello_def string_ok_def max_alloc_def)

theorem native_pings_answered_witness:
  "native_handleConn broken_env (new_native (hello_bytes some_hello @ replicate 2 PacketPing) (open_sink [])
      \<lparr>buffered = [], maxSize = 1, stopped = False, wb_db = ()\<rparr>)
    = (Closed, sent (hello_reply @ replicate 2 ServerPacketPong) (new_native [] (open_sink [])
      \<lparr>buffered = [], maxSize = 1, stopped = False, wb_db = ()\<rparr>))"
  by (rule native_pings_answered [OF some_hello_ok])

text \<open>
  A client that has not said who it is can end the whole proxy: a length above the run
  time's limit in its first string makes the goroutine of its connection panic, and nothing
  recovers.
\<close>

theorem native_length_crashes:
  assumes "max_alloc < unat (n :: 64 word)"
  shows "fst (native_handleConn env (new_native (le_bytes 4 (a :: 32 word) @ le_bytes 4 (b :: 32 word)
      @ le_bytes 4 (c :: 32 word) @ leb128 (unat n) @ rest) w wb)) = Crashed MakeSliceLen"
proof -
  let ?in = "\<lambda>i. new_native i w wb"
  have "ReadString (leb128 (unat n) @ rest) = (Panic MakeSliceLen, rest)"
    using assms by (simp add: ReadString_def bindM_def varint.dec_enc makeBytes_def)
  then have p: "bindM (skipping ReadString) k (?in (leb128 (unat n) @ rest)) = (Panic MakeSliceLen, ?in rest)"
    for k :: "unit \<Rightarrow> ('a, unit) nat_act"
    by (simp add: skipping_def ignoreM_def catchM_def bindM_def reading_def new_native_def)
  have p': "nc_in (?in i) = i" "(?in i)\<lparr>nc_in := j\<rparr> = ?in j" for i j
    by (simp_all add: new_native_def)
  show ?thesis
    by (simp add: native_handleConn_def handshake_def fixed_steps p p')
qed

theorem native_length_crashes_witness:
  "fst (native_handleConn broken_env (new_native (le_bytes 4 (1 :: 32 word) @ le_bytes 4 (2 :: 32 word)
      @ le_bytes 4 (3 :: 32 word) @ leb128 (unat (2 ^ 63 :: 64 word)) @ []) (open_sink [])
      \<lparr>buffered = [], maxSize = 1, stopped = False, wb_db = ()\<rparr>)) = Crashed MakeSliceLen"
  by (rule native_length_crashes) (simp add: max_alloc_def)

lemma handshake_keep: "within native_progress handshake"
  unfolding handshake_def
  by (auto intro!: np.control np.seq_keep reading_keep readers_shorter steps_keep sends_keep flush_keep)

end
