(* ===== verification/ChConversation.thy ===== *)
theory ChConversation
  imports ChSession
begin

text \<open>
  Conversations on the native ClickHouse interface: what a client sends, packet after packet, as
  data with its bytes, and what it gets back. Covered are all packets but the queries that
  MySQL answers: pings, hellos, data blocks, bytes that mean nothing, blank queries and \<open>INSERT\<close>s,
  up to the end of the input or to a \<open>Cancel\<close>.
\<close>

section \<open>What a client sends\<close>

record client_query =
  cq_id :: string
  cq_name :: string
  cq_zone :: string
  cq_stage :: "64 word"
  cq_version :: "64 word"
  cq_release :: "64 word \<times> 64 word \<times> 64 word \<times> 64 word"
  cq_quota :: "64 word"
  cq_depth :: "64 word"
  cq_compression :: "64 word"
  cq_text :: string
  cq_kind :: "64 word"
  cq_second :: string
  cq_header :: "byte list"

datatype client_packet =
    Ping
  | Hello client_hello
  | Block "64 word" "64 word"
  | Unknown byte
  | Query client_query

definition varint_bytes :: "64 word \<Rightarrow> byte list" where
  "varint_bytes v = leb128 (unat v)"

definition query_bytes :: "client_query \<Rightarrow> byte list" where
  "query_bytes q = (case cq_release q of (a, b, c, d) \<Rightarrow>
     string_bytes (cq_id q) @ varint_bytes (cq_stage q) @ varint_bytes (cq_compression q)
     @ varint_bytes (cq_version q) @ string_bytes (cq_name q)
     @ varint_bytes a @ varint_bytes b @ varint_bytes c @ varint_bytes d
     @ string_bytes (cq_zone q) @ varint_bytes (cq_quota q) @ varint_bytes (cq_depth q)
     @ string_bytes (cq_text q) @ varint_bytes (cq_kind q)
     @ (if cq_kind q = QuerySecondary then string_bytes (cq_second q) else [])
     @ (if cq_compression q = CompressionEnabled then cq_header q else []))"

definition client_query_ok :: "client_query \<Rightarrow> bool" where
  "client_query_ok q \<longleftrightarrow> list_all string_ok [cq_id q, cq_name q, cq_zone q, cq_text q, cq_second q]
     \<and> length (cq_header q) = 4"

text \<open>The query that counts: the second text, when there is one.\<close>

definition asked :: "client_query \<Rightarrow> string" where
  "asked q = TrimSpace (if cq_kind q = QuerySecondary \<and> cq_second q \<noteq> [] then cq_second q else cq_text q)"

fun packet_bytes :: "client_packet \<Rightarrow> byte list" where
  "packet_bytes Ping = [PacketPing]"
| "packet_bytes (Hello h) = PacketHello # hello_bytes h"
| "packet_bytes (Block a b) = PacketData # varint_bytes a @ varint_bytes b"
| "packet_bytes (Unknown b) = [b]"
| "packet_bytes (Query q) = PacketQuery # query_bytes q"

definition known_packets :: "byte list" where
  "known_packets = [PacketQuery, PacketData, PacketCancel, PacketPing, PacketHello]"

text \<open>A query that is not MySQL's to answer.\<close>

definition own_query :: "'d ch_env \<Rightarrow> string \<Rightarrow> bool" where
  "own_query env text \<longleftrightarrow> text = []
     \<or> handleSystemQueryNative (ch_db env) text = ret None \<and> HasPrefix (ToUpper (ch_Translate text)) ''INSERT''"

fun packet_ok :: "'d ch_env \<Rightarrow> client_packet \<Rightarrow> bool" where
  "packet_ok env Ping \<longleftrightarrow> True"
| "packet_ok env (Hello h) \<longleftrightarrow> hello_ok h"
| "packet_ok env (Block a b) \<longleftrightarrow> True"
| "packet_ok env (Unknown b) \<longleftrightarrow> b \<notin> set known_packets"
| "packet_ok env (Query q) \<longleftrightarrow> client_query_ok q \<and> own_query env (asked q)"

section \<open>What it gets\<close>

text \<open>The bytes of the answer, and the statements that go into the insert buffer.\<close>

fun answer :: "client_packet \<Rightarrow> byte list" where
  "answer Ping = [ServerPacketPong]"
| "answer (Hello h) = hello_reply"
| "answer (Query q) = (if asked q = [] then [ServerPacketData, 0, 0]
     else [ServerPacketProgress, 0, 0, 0, ServerPacketEndOfStream])"
| "answer _ = []"

fun inserts :: "client_packet \<Rightarrow> buffer_event list" where
  "inserts (Query q) = (if asked q = [] then [] else [Enq (ch_Translate (asked q))])"
| "inserts _ = []"

section \<open>Packet by packet\<close>

lemma varint_step:
  "nc_in s = varint_bytes v @ r \<Longrightarrow> bindM (skipping ReadVarInt) k s = k () (s\<lparr>nc_in := r\<rparr>)"
  "nc_in s = varint_bytes v @ r \<Longrightarrow> bindM (read_or d ReadVarInt) l s = l v (s\<lparr>nc_in := r\<rparr>)"
proof -
  assume "nc_in s = varint_bytes v @ r"
  then have v: "ReadVarInt (nc_in s) = (Ok v, r)" by (simp add: varint_bytes_def varint.dec_enc)
  then show "bindM (skipping ReadVarInt) k s = k () (s\<lparr>nc_in := r\<rparr>)" by (rule skipping_step)
  show "bindM (read_or d ReadVarInt) l s = l v (s\<lparr>nc_in := r\<rparr>)"
    using v by (simp add: read_or_def orElse_def bindM_def reading_def)
qed

lemma text_step:
  "nc_in s = string_bytes x @ r \<Longrightarrow> string_ok x \<Longrightarrow> bindM (read_or d ReadString) l s = l x (s\<lparr>nc_in := r\<rparr>)"
  by (simp add: read_or_def orElse_def bindM_def reading_def chstring.dec_enc)

lemma byte_step: "nc_in s = b # r \<Longrightarrow> bindM (skipping ReadByte) k s = k () (s\<lparr>nc_in := r\<rparr>)"
  by (simp add: skipping_step)

lemma read_query_bytes:
  assumes "client_query_ok q" and "nc_in s = query_bytes q @ r"
  shows "bindM read_query k s
    = k (if cq_kind q = QuerySecondary \<and> cq_second q \<noteq> [] then cq_second q else cq_text q) (s\<lparr>nc_in := r\<rparr>)"
proof -
  obtain a b c d where rel: "cq_release q = (a, b, c, d)" by (cases "cq_release q") auto
  obtain w x y z where h: "cq_header q = [w, x, y, z]"
    using assms(1) by (auto simp: client_query_ok_def length_Suc_conv numeral_eq_Suc)
  have ok: "string_ok (cq_id q)" "string_ok (cq_name q)" "string_ok (cq_zone q)" "string_ok (cq_text q)" "string_ok (cq_second q)"
    using assms(1) by (simp_all add: client_query_ok_def)
  have four: "replicate 4 m = [m, m, m, m]" for m :: "('a, unit) nat_act" by (simp add: numeral_eq_Suc)
  show ?thesis
    using assms(2) ok
    by (simp add: read_query_def query_bytes_def rel bindM_assoc string_step varint_step text_step four h byte_step
      split del: if_split cong: if_cong)
       (auto simp: bindM_assoc text_step byte_step)
qed


lemma handle_query:
  assumes "client_query_ok q" and "nc_in s = query_bytes q @ r"
  shows "handleCHQuery env s = (let query = asked q in
     if query = [] then sendEmptyBlock
     else bindM (on_wb (handleSystemQueryNative (ch_db env) query)) (\<lambda>resp.
       case resp of
         Some r \<Rightarrow> sendNativeResponse (ch_floats env) r
       | None \<Rightarrow> run_native env (ch_Translate query))) (s\<lparr>nc_in := r\<rparr>)"
  unfolding handleCHQuery_def read_query_bytes [OF assms] by (simp add: asked_def Let_def)

lemma acknowledge:
  "sendNativeProgress = seqM [emit [ServerPacketProgress, 0, 0, 0, ServerPacketEndOfStream], flush_conn]"
  "sendEmptyBlock = seqM [emit [ServerPacketData, 0, 0], flush_conn]"
  by (simp_all add: sendNativeProgress_def sendEmptyBlock_def put_progress_def leb_zero)

lemma on_wb_ret: "on_wb (ret x) = ret x"
  by (simp add: on_wb_def ret_def fun_eq_iff)

text \<open>One packet: it is read to its end, answered, and what it inserts is in the buffer.\<close>

lemma own_query_answer:
  assumes "packet_ok env (Query q)" and "open_conn s" and "nc_in s = query_bytes q @ r"
    and "buffer_run (ch_buffer_pool env) (inserts (Query q)) (nc_wb s) = (Ok (), wb)"
  shows "handleCHQuery env s = (Ok (), sent (answer (Query q)) (s\<lparr>nc_in := r, nc_wb := wb\<rparr>))"
proof (cases "asked q = []")
  case True
  then have "wb = nc_wb s" using assms(4) by (simp add: buffer_run_def ret_def)
  then have w: "s\<lparr>nc_in := r, nc_wb := wb\<rparr> = s\<lparr>nc_in := r\<rparr>" by (cases s) simp
  have "open_conn (s\<lparr>nc_in := r\<rparr>)" using assms(2) by (simp add: open_conn_def)
  then show ?thesis using assms True unfolding w
    by (simp add: handle_query [OF _ assms(3)] acknowledge(2) emit_flush [simplified] buffer_run_def ret_def)
next
  case False
  have o: "open_conn (s\<lparr>nc_in := r, nc_wb := wb\<rparr>)" using assms(2) by (simp add: open_conn_def)
  have q: "handleSystemQueryNative (ch_db env) (asked q) = ret None" "HasPrefix (ToUpper (ch_Translate (asked q))) ''INSERT''"
    using assms(1) False by (simp_all add: own_query_def)
  have e: "Enqueue (ch_buffer_pool env) (ch_Translate (asked q)) (nc_wb s) = (Ok (), wb)"
    using assms(4) False by (simp add: buffer_run_def)
  have "run_native env (ch_Translate (asked q)) (s\<lparr>nc_in := r\<rparr>)
      = sendNativeProgress (s\<lparr>nc_in := r, nc_wb := wb\<rparr>)"
    using inserts_are_writes [OF q(2)] q(2) e by (simp add: run_native_def bindM_def on_wb_def)
  moreover have "client_query_ok q" using assms(1) by simp
  ultimately show ?thesis using False o
    by (simp add: handle_query [OF _ assms(3)] q(1) on_wb_ret acknowledge(1) emit_flush [simplified])
qed


lemma rehandshake:
  assumes "hello_ok h" and "open_conn s" and "nc_in s = hello_bytes h @ r"
  shows "bindM handleReHandshake (\<lambda>_. bindM (ignoreM flush_conn) k) s = k () (sent hello_reply (s\<lparr>nc_in := r\<rparr>))"
proof -
  obtain a b c where n: "hello_numbers h = (a, b, c)" by (cases "hello_numbers h")
  obtain x y z where x: "hello_strings h = [x, y, z]" "string_ok x" "string_ok y" "string_ok z"
    using assms(1) by (auto simp: hello_ok_def numeral_3_eq_3 length_Suc_conv)
  have o: "open_conn (s\<lparr>nc_in := r\<rparr>)" using assms(2) by (simp add: open_conn_def)
  have e: "bindM send_hello (\<lambda>_. bindM (ignoreM flush_conn) k) (s\<lparr>nc_in := r\<rparr>) = k () (sent hello_reply (s\<lparr>nc_in := r\<rparr>))"
    using ignore_flush [OF o, of hello_reply] assms(2)
    by (simp add: send_hello_emit bindM_def emit_def open_conn_def)
  have "nc_in s = le_bytes 4 a @ le_bytes 4 b @ le_bytes 4 c @ string_bytes x @ string_bytes y @ string_bytes z @ r"
    using assms(3) by (simp add: hello_bytes_def n x(1))
  then show ?thesis using x(2-4) e
    by (simp add: handleReHandshake_def bindM_assoc fixed_steps string_step)
qed

lemma packet_answer:
  assumes "packet_ok env p" and "open_conn s" and "nc_in s = packet_bytes p @ r"
    and "buffer_run (ch_buffer_pool env) (inserts p) (nc_wb s) = (Ok (), wb)"
  shows "serve_native env s = serve_native env (sent (answer p) (s\<lparr>nc_in := r, nc_wb := wb\<rparr>))"
proof -
  obtain b bs where b: "packet_bytes p = b # bs" by (cases p) auto
  let ?t = "s\<lparr>nc_in := bs @ r\<rparr>"
  have t: "open_conn ?t" "nc_in ?t = bs @ r" "nc_wb ?t = nc_wb s" using assms(2) by (simp_all add: open_conn_def)
  have same: "s\<lparr>nc_in := r, nc_wb := wb\<rparr> = s\<lparr>nc_in := r\<rparr>" if "inserts p = []"
    using assms(4) that by (cases s) (simp add: buffer_run_def ret_def)
  have "handle_packet env b ?t = (Ok True, sent (answer p) (s\<lparr>nc_in := r, nc_wb := wb\<rparr>))"
  proof (cases p)
    case Ping
    then show ?thesis using b same ignore_flush [OF t(1), of "[ServerPacketPong]"] assms(2)
      by (auto simp: handle_packet_def packet_defs bindM_def emit_def open_conn_def ret_def)
  next
    case (Hello h)
    then show ?thesis using b same assms(1) rehandshake [of h ?t r "\<lambda>_. ret True"] t
      by (auto simp: handle_packet_def packet_defs ret_def)
  next
    case (Block x y)
    then show ?thesis using b same t(2)
      by (auto simp: handle_packet_def packet_defs skipBlock_def bindM_assoc varint_step ret_def)
  next
    case (Unknown c)
    then show ?thesis using b same assms(1)
      by (auto simp: handle_packet_def known_packets_def ret_def)
  next
    case (Query q)
    then have "handleCHQuery env ?t = (Ok (), sent (answer p) (s\<lparr>nc_in := r, nc_wb := wb\<rparr>))"
      using own_query_answer [of env q ?t r wb] assms(1,4) t b by simp
    then show ?thesis using b Query by (auto simp: handle_packet_def ignoreM_def catchM_def bindM_def ret_def)
  qed
  moreover have "reading ReadByte s = (Ok b, ?t)" using assms(3) b by (simp add: reading_def)
  ultimately show ?thesis by (simp add: serve_native.simps [of env s])
qed


section \<open>Conversations\<close>

lemma buffer_run_append:
  "buffer_run p (es @ fs) wb = (Ok (), t) \<longleftrightarrow> (\<exists>u. buffer_run p es wb = (Ok (), u) \<and> buffer_run p fs u = (Ok (), t))"
  by (simp add: buffer_run_def seqM_append bindM_eq_Ok)

lemma serve_packets:
  "list_all (packet_ok env) ps \<Longrightarrow> open_conn s \<Longrightarrow> nc_in s = concat (map packet_bytes ps) @ tail \<Longrightarrow>
     buffer_run (ch_buffer_pool env) (concat (map inserts ps)) (nc_wb s) = (Ok (), wb) \<Longrightarrow>
     serve_native env s = serve_native env (sent (concat (map answer ps)) (s\<lparr>nc_in := tail, nc_wb := wb\<rparr>))"
proof (induction ps arbitrary: s)
  case Nil
  then have "s\<lparr>nc_in := tail, nc_wb := wb\<rparr> = s" by (cases s) (simp add: buffer_run_def ret_def)
  then show ?case by simp
next
  case (Cons p ps)
  let ?r = "concat (map packet_bytes ps) @ tail"
  obtain u where u: "buffer_run (ch_buffer_pool env) (inserts p) (nc_wb s) = (Ok (), u)"
    "buffer_run (ch_buffer_pool env) (concat (map inserts ps)) u = (Ok (), wb)"
    using Cons.prems(4) by (auto simp: buffer_run_append)
  let ?s = "sent (answer p) (s\<lparr>nc_in := ?r, nc_wb := u\<rparr>)"
  have "serve_native env s = serve_native env ?s"
    using Cons.prems u(1) by (intro packet_answer) simp_all
  also have "\<dots> = serve_native env (sent (concat (map answer ps)) (?s\<lparr>nc_in := tail, nc_wb := wb\<rparr>))"
    using Cons.prems u(2) by (intro Cons.IH) (simp_all add: open_conn_def sent_def)
  finally show ?case by (simp add: sent_def)
qed

text \<open>
  C7: a whole conversation. A client says hello, then sends any sequence of pings, hellos, data blocks,
  unknown packets, blank queries and \<open>INSERT\<close>s, in whatever encoding of their fields, and then nothing more, or a
  \<open>Cancel\<close> with more behind it. It gets the answer to its hello and, packet by packet, exactly the answers: a
  pong for a ping, the hello again, nothing for a block or an unknown packet, an empty block for a blank query, an
  end of stream for an \<open>INSERT\<close>; the insert buffer has taken exactly the translated \<open>INSERT\<close>s, in order,
  and what follows the \<open>Cancel\<close> is not read.
\<close>

theorem native_conversation:
  assumes "hello_ok h" and "list_all (packet_ok env) ps"
    and "buffer_run (ch_buffer_pool env) (concat (map inserts ps)) wb = (Ok (), wb')"
    and "tail = [] \<and> unread = [] \<or> tail = PacketCancel # unread"
  shows "native_handleConn env (new_native (hello_bytes h @ concat (map packet_bytes ps) @ tail) (open_sink []) wb)
    = (Closed, sent (hello_reply @ concat (map answer ps)) (new_native unread (open_sink []) wb'))"
proof -
  let ?in = "concat (map packet_bytes ps) @ tail"
  let ?s = "new_native (hello_bytes h @ ?in) (open_sink []) wb"
  let ?t = "sent hello_reply (?s\<lparr>nc_in := ?in\<rparr>)"
  let ?u = "sent (concat (map answer ps)) (?t\<lparr>nc_in := tail, nc_wb := wb'\<rparr>)"
  have o: "open_conn ?s" "open_conn (?s\<lparr>nc_in := ?in\<rparr>)" by (simp_all add: open_conn_def new_native_def open_sink_def)
  have "handshake ?s = (Ok (), ?t)"
    by (rule handshake_hello [OF assms(1) o(1)]) (simp add: new_native_def)
  moreover have "serve_native env ?t = serve_native env ?u"
    using o(2) assms(2,3) by (intro serve_packets) (simp_all add: new_native_def)
  moreover have "serve_native env ?u = (Closed, ?u\<lparr>nc_in := unread\<rparr>)"
    using assms(4)
  proof
    assume t: "tail = [] \<and> unread = []"
    then have "reading ReadByte ?u = (Err EOF, ?u\<lparr>nc_in := unread\<rparr>)" by (simp add: reading_def sent_def)
    then show ?thesis by (simp add: serve_native.simps [of env ?u])
  next
    assume t: "tail = PacketCancel # unread"
    then have "reading ReadByte ?u = (Ok PacketCancel, ?u\<lparr>nc_in := unread\<rparr>)" by (simp add: reading_def sent_def)
    then show ?thesis by (simp add: serve_native.simps [of env ?u] handle_packet_def packet_defs ret_def)
  qed
  ultimately show ?thesis by (simp add: native_handleConn_def new_native_def sent_def)
qed

definition some_insert :: client_query where
  "some_insert = \<lparr>cq_id = ''q'', cq_name = ''cli'', cq_zone = [], cq_stage = 2, cq_version = 54, cq_release = (1, 2, 3, 4),
     cq_quota = 0, cq_depth = 0, cq_compression = 1, cq_text = ''select'', cq_kind = 1,
     cq_second = '' INSERT INTO t (a) VALUES (1)'', cq_header = [0, 0, 0, 0]\<rparr>"

theorem native_conversation_witness:
  "native_handleConn (store_env good_policy) (new_native (hello_bytes some_hello
      @ concat (map packet_bytes [Ping, Query some_insert, Block 0 0, Unknown 9]) @ [PacketCancel, 1, 2]) (open_sink []) empty_buffer)
    = (Closed, sent (hello_reply @ [ServerPacketPong, ServerPacketProgress, 0, 0, 0, ServerPacketEndOfStream])
        (new_native [1, 2] (open_sink []) (empty_buffer\<lparr>buffered := [''INSERT INTO t (a) VALUES (1)'']\<rparr>)))"
proof -
  let ?q = "''INSERT INTO t (a) VALUES (1)''"
  have q: "asked some_insert = ?q" "ch_Translate ?q = ?q" "TrimSpace ?q = ?q" "ToUpper ?q = ''INSERT INTO T (A) VALUES (1)''"
    by code_simp+
  have "list_all (\<lambda>w. \<not> Contains ''INSERT INTO T (A) VALUES (1)'' w)
      [''VERSION()'', ''CURRENTUSER()'', ''CURRENT_USER()'', ''DATABASE()'', ''SHOW DATABASES'', ''SYSTEM.TABLES'', ''SYSTEM.COLUMNS'']"
    "\<not> HasPrefix ''INSERT INTO T (A) VALUES (1)'' ''EXISTS''" "HasPrefix ''INSERT INTO T (A) VALUES (1)'' ''INSERT''" by code_simp+
  then have "own_query (store_env good_policy) (asked some_insert)"
    by (simp add: own_query_def q handleSystemQueryNative_def)
  moreover have "client_query_ok some_insert"
    by (simp add: client_query_ok_def some_insert_def string_ok_def max_alloc_def)
  ultimately have ok: "list_all (packet_ok (store_env good_policy)) [Ping, Query some_insert, Block 0 0, Unknown 9]"
    by (simp add: known_packets_def packet_defs)
  have "buffer_run (ch_buffer_pool (store_env good_policy)) (concat (map inserts [Ping, Query some_insert, Block 0 0, Unknown 9]))
      empty_buffer = (Ok (), empty_buffer\<lparr>buffered := [?q]\<rparr>)"
    by (simp add: q buffer_run_def Enqueue_def empty_buffer_def)
  from native_conversation [OF some_hello_ok ok this, of "PacketCancel # [1, 2]" "[1, 2]"] show ?thesis
    by (simp add: q)
qed

end
