(* ===== verification/ChServer.thy ===== *)
theory ChServer
  imports ChSession ProxyConfig
begin

text \<open>
  Both ClickHouse servers of a process over one database: each has an insert buffer of its own,
  created from the configuration. HTTP requests, packets of native connections, the ticks of
  the two flush goroutines and the closing of the servers come in any order.
\<close>

section \<open>The servers\<close>

record 'd ch_server =
  http_buf :: "'d write_buffer"
  native_buf :: "'d write_buffer"
  ch_data :: 'd

text \<open>\<open>NewNativeServer\<close> and \<open>NewHTTPServer\<close>, as \<open>main\<close> calls them; listening is the network's.\<close>

definition new_buffer :: "config \<Rightarrow> 'd \<Rightarrow> 'd write_buffer res" where
  "new_buffer cfg d =
     NewWriteBuffer (WriteBufferSize (CHToMySQL (Proxy cfg))) (WriteFlushInterval (CHToMySQL (Proxy cfg))) d"

definition new_servers :: "config \<Rightarrow> 'd \<Rightarrow> 'd ch_server res" where
  "new_servers cfg d =
     bind_res (new_buffer cfg d) (\<lambda>n. bind_res (new_buffer cfg d) (\<lambda>h.
       Ok \<lparr>http_buf = h, native_buf = n, ch_data = d\<rparr>))"

text \<open>An operation on the buffer of one of the servers, with the database as it is now.\<close>

definition with_http :: "('d write_buffer \<Rightarrow> 'd write_buffer) \<Rightarrow> 'd ch_server \<Rightarrow> 'd ch_server" where
  "with_http f s = (let wb = f ((http_buf s)\<lparr>wb_db := ch_data s\<rparr>) in s\<lparr>http_buf := wb, ch_data := wb_db wb\<rparr>)"

definition with_native :: "('d write_buffer \<Rightarrow> 'd write_buffer) \<Rightarrow> 'd ch_server \<Rightarrow> 'd ch_server" where
  "with_native f s = (let wb = f ((native_buf s)\<lparr>wb_db := ch_data s\<rparr>) in s\<lparr>native_buf := wb, ch_data := wb_db wb\<rparr>)"

datatype 'd ch_event =
    HttpRequest request
  | NativePacket byte "'d native"
  | HttpTick
  | NativeTick
  | HttpClose
  | NativeClose

text \<open>A packet arrives on some connection, whatever was read from it and written to it so far.\<close>

fun serve_event :: "'d ch_env \<Rightarrow> 'd ch_event \<Rightarrow> 'd ch_server \<Rightarrow> 'd ch_server" where
  "serve_event env (HttpRequest r) =
     with_http (\<lambda>wb. http_wb (snd (handleRequest env r \<lparr>resp = no_response, http_wb = wb\<rparr>)))"
| "serve_event env (NativePacket b c) =
     with_native (\<lambda>wb. nc_wb (snd (handle_packet env b (c\<lparr>nc_wb := wb\<rparr>))))"
| "serve_event env HttpTick = with_http (\<lambda>wb. snd (buffer_step (ch_buffer_pool env) Tick wb))"
| "serve_event env NativeTick = with_native (\<lambda>wb. snd (buffer_step (ch_buffer_pool env) Tick wb))"
| "serve_event env HttpClose = with_http (\<lambda>wb. snd (http_Close env wb))"
| "serve_event env NativeClose = with_native (\<lambda>wb. snd (http_Close env wb))"

text \<open>The states that the servers of a configuration can reach.\<close>

inductive ch_reach :: "'d ch_env \<Rightarrow> config \<Rightarrow> 'd ch_server \<Rightarrow> bool" for env cfg where
  start: "new_servers cfg d = Ok s \<Longrightarrow> ch_reach env cfg s"
| event: "ch_reach env cfg s \<Longrightarrow> ch_reach env cfg (serve_event env e s)"

section \<open>What a request does to the buffer\<close>

definition http_bounded :: "'d http_state \<Rightarrow> 'd http_state \<Rightarrow> bool" where
  "http_bounded s t \<longleftrightarrow> stays_bounded (http_wb s) (http_wb t)"

interpretation hb: kept_relation http_bounded
  by unfold_locales (auto simp: http_bounded_def bnd.R_refl intro: bnd.R_trans)

lemma on_resp_keep: "within http_bounded (on_resp f)"
  unfolding on_resp_def by (rule modify_keep) (simp add: http_bounded_def bnd.R_refl)

lemma response_keep:
  "within http_bounded (WriteHeader c)" "within http_bounded (SetContentType t)"
  "within http_bounded (Write u)" "within http_bounded (http_Error m c)" "within http_bounded (reply_error e)"
  by (auto simp: WriteHeader_def SetContentType_def Write_def http_Error_def reply_error_def
    intro!: on_resp_keep hb.control)

lemma on_buffer_keep: "within stays_bounded m \<Longrightarrow> within http_bounded (on_buffer m)"
  unfolding within_def
proof
  fix s :: "'a http_state"
  assume "\<forall>s. stays_bounded s (snd (m s))"
  then have "stays_bounded (http_wb s) (snd (m (http_wb s)))" by blast
  then show "http_bounded s (snd (on_buffer m s))"
    by (auto simp: on_buffer_def http_bounded_def split: prod.split)
qed

lemma http_system_bounded: "within stays_bounded (handleSystemQuery db q)"
  unfolding handleSystemQuery_def getTableList_def getSystemTables_def getSystemColumns_def existsTable_def
    table_there_def ask_or_def Let_def
  by (auto intro!: bnd.control on_store_bounded split: option.split)

lemma write_rows_keep: "within http_bounded (write_rows fl rs)"
  by (induction rs) (auto intro!: hb.control response_keep)

lemma run_translated_keep: "within http_bounded (run_translated env t)"
  unfolding run_translated_def
  by (intro hb.control on_buffer_keep enqueue_bounded on_store_bounded response_keep write_rows_keep)

lemma request_keep: "within http_bounded (handleRequest env r)"
  unfolding handleRequest_def answer_query_def Let_def
  by (auto intro!: hb.control on_buffer_keep http_system_bounded run_translated_keep response_keep
    split: option.split res.split)

section \<open>Reachable states\<close>

definition servers_bounded :: "int \<Rightarrow> 'd ch_server \<Rightarrow> bool" where
  "servers_bounded sz s \<longleftrightarrow> maxSize (http_buf s) = sz \<and> maxSize (native_buf s) = sz
     \<and> bounded (http_buf s) \<and> bounded (native_buf s)"

lemma set_db: "stays_bounded wb (wb\<lparr>wb_db := d\<rparr>)"
  by (simp add: stays_bounded_def bounded_def)

lemma with_bounded:
  assumes "servers_bounded sz s" and "\<And>wb. stays_bounded wb (f wb)"
  shows "servers_bounded sz (with_http f s)" and "servers_bounded sz (with_native f s)"
proof -
  have h: "stays_bounded (http_buf s) (f ((http_buf s)\<lparr>wb_db := ch_data s\<rparr>))"
    and n: "stays_bounded (native_buf s) (f ((native_buf s)\<lparr>wb_db := ch_data s\<rparr>))"
    by (rule bnd.R_trans [OF set_db assms(2)])+
  show "servers_bounded sz (with_http f s)" "servers_bounded sz (with_native f s)"
    using h n assms(1) by (auto simp: with_http_def with_native_def Let_def servers_bounded_def stays_bounded_def)
qed

lemma event_bounded:
  assumes "servers_bounded sz s"
  shows "servers_bounded sz (serve_event env e s)"
proof -
  have http: "stays_bounded wb (http_wb (snd (handleRequest env r \<lparr>resp = no_response, http_wb = wb\<rparr>)))" for r wb
    using withinD [OF request_keep, of "\<lparr>resp = no_response, http_wb = wb\<rparr>" env r] by (simp add: http_bounded_def)
  have native: "stays_bounded wb (nc_wb (snd (handle_packet env b (c\<lparr>nc_wb := wb\<rparr>))))" for b c wb
    using withinD [OF packet_keep, of "c\<lparr>nc_wb := wb\<rparr>" env b] by (simp add: native_progress_def)
  have tick: "stays_bounded wb (snd (buffer_step (ch_buffer_pool env) Tick wb))" for wb
    by (rule withinD [OF step_bounded])
  have close: "stays_bounded wb (snd (http_Close env wb))" for wb
    by (simp add: http_Close_def Flush_def flush_bounded)
  show ?thesis
    using with_bounded [OF assms] http native tick close
    by (cases e) (simp_all only: serve_event.simps)
qed

text \<open>
  In every state that the two ClickHouse servers can reach, after any HTTP requests, packets,
  ticks and closings in any order, each insert buffer holds fewer statements than the
  configured size (none when that is 0 or 1).
\<close>

theorem server_buffers_bounded:
  assumes "ch_reach env cfg s"
  shows "int (length (buffered (http_buf s))) < max 1 (WriteBufferSize (CHToMySQL (Proxy cfg)))
    \<and> int (length (buffered (native_buf s))) < max 1 (WriteBufferSize (CHToMySQL (Proxy cfg)))"
proof -
  let ?sz = "WriteBufferSize (CHToMySQL (Proxy cfg))"
  from assms have "servers_bounded ?sz s"
  proof induction
    case (start d s)
    then show ?case
      by (auto simp: new_servers_def new_buffer_def NewWriteBuffer_def bind_res_eq_Ok servers_bounded_def
        bounded_def split: if_splits)
  next
    case (event s e)
    then show ?case by (intro event_bounded)
  qed
  then show ?thesis unfolding servers_bounded_def bounded_def by metis
qed

text \<open>
  An acknowledged \<open>INSERT\<close> is in memory only: as long as the buffer is not full, the database
  is as it was, so that no query, on either interface, sees the row, and it is lost if the
  process ends.
\<close>

theorem insert_not_yet_visible:
  assumes "int (length (buffered (http_buf s))) + 1 < maxSize (http_buf s)"
    and "TrimSpace (url_query r) \<noteq> []"
    and "handleSystemQuery (ch_db env) (TrimSpace (url_query r)) = ret []"
    and "HasPrefix (ToUpper (ch_Translate (TrimSpace (url_query r)))) ''INSERT''"
  shows "ch_data (serve_event env (HttpRequest r) s) = ch_data s
    \<and> buffered (http_buf (serve_event env (HttpRequest r) s))
      = buffered (http_buf s) @ [ch_Translate (TrimSpace (url_query r))]"
proof -
  have "url_query r \<noteq> []" using assms(2) by (auto simp: TrimSpace_def trim_by_def)
  then show ?thesis using assms inserts_are_writes [OF assms(4)]
    by (simp add: with_http_def Let_def handleRequest_def answer_query_def on_buffer_def bindM_def ret_def
      run_translated_def Enqueue_def WriteHeader_def on_resp_def modifyM_def)
qed

definition started :: "store ch_server" where
  "started = (let wb = \<lparr>buffered = [], maxSize = 10000, stopped = False, wb_db = \<lparr>committed = [], opened = []\<rparr>\<rparr>
     in \<lparr>http_buf = wb, native_buf = wb, ch_data = \<lparr>committed = [], opened = []\<rparr>\<rparr>)"

lemma started_default: "new_servers DefaultConfig \<lparr>committed = [], opened = []\<rparr> = Ok started"
  by (simp add: new_servers_def new_buffer_def NewWriteBuffer_def DefaultConfig_def started_def Second_def max_alloc_def Let_def)

definition insert_request :: request where
  "insert_request = \<lparr>url_query = ''INSERT INTO t (a) VALUES (1)'', req_body = None\<rparr>"

lemma insert_request_runs:
  "TrimSpace (url_query insert_request) \<noteq> []"
  "handleSystemQuery (ch_db (store_env good_policy)) (TrimSpace (url_query insert_request)) = ret []"
  "HasPrefix (ToUpper (ch_Translate (TrimSpace (url_query insert_request)))) ''INSERT''"
proof -
  have t: "TrimSpace (url_query insert_request) = ''INSERT INTO t (a) VALUES (1)''" by code_simp
  then show "TrimSpace (url_query insert_request) \<noteq> []" by simp
  have "ToUpper ''INSERT INTO t (a) VALUES (1)'' = ''INSERT INTO T (A) VALUES (1)''"
    "TrimSpace ''INSERT INTO t (a) VALUES (1)'' = ''INSERT INTO t (a) VALUES (1)''" by code_simp+
  moreover have "list_all (\<lambda>w. \<not> Contains ''INSERT INTO T (A) VALUES (1)'' w)
      [''VERSION()'', ''CURRENTUSER()'', ''CURRENT_USER()'', ''DATABASE()'', ''SYSTEM.TABLES'', ''SYSTEM.COLUMNS'']"
    "\<not> HasPrefix ''INSERT INTO T (A) VALUES (1)'' ''EXISTS''" by code_simp+
  ultimately show "handleSystemQuery (ch_db (store_env good_policy)) (TrimSpace (url_query insert_request)) = ret []"
    by (simp add: handleSystemQuery_def t)
  show "HasPrefix (ToUpper (ch_Translate (TrimSpace (url_query insert_request)))) ''INSERT''"
    by code_simp
qed

theorem server_buffers_bounded_witness:
  "int (length (buffered (http_buf (serve_event (store_env good_policy) NativeTick
      (serve_event (store_env good_policy) (HttpRequest insert_request) started))))) < 10000"
proof -
  have "ch_reach (store_env good_policy) DefaultConfig (serve_event (store_env good_policy) NativeTick
      (serve_event (store_env good_policy) (HttpRequest insert_request) started))"
    by (intro ch_reach.event) (rule ch_reach.start [OF started_default])
  from server_buffers_bounded [OF this] show ?thesis by (simp add: DefaultConfig_def)
qed

theorem insert_not_yet_visible_witness:
  "ch_data (serve_event (store_env good_policy) (HttpRequest insert_request) started) = ch_data started
    \<and> buffered (http_buf (serve_event (store_env good_policy) (HttpRequest insert_request) started))
      = buffered (http_buf started) @ [ch_Translate (TrimSpace (url_query insert_request))]"
  by (rule insert_not_yet_visible [OF _ insert_request_runs]) (simp add: started_def Let_def)

end
