(* ===== verification/ChListener.thy ===== *)
theory ChListener
  imports ChServer Listener
begin

text \<open>
  The ClickHouse side of the process: the native server with its accept loop (\<open>Listener\<close>) and a
  session per connection, the HTTP server with the requests it has taken and not yet answered,
  and the two insert buffers of \<open>ChServer\<close> over one database. Sessions, requests and flush
  goroutines take turns in any order. A panic in a native session ends the process; \<open>net/http\<close>
  recovers one in a request.
\<close>

section \<open>Native sessions\<close>

record 'd native_session =
  ns_phase :: phase
  ns_conn :: "'d native"

definition hello_turn :: "'d ch_env \<Rightarrow> 'd native_session \<Rightarrow> 'd native_session" where
  "hello_turn env se = (case handshake (ns_conn se) of
       (Ok _, t) \<Rightarrow> \<lparr>ns_phase = Serving, ns_conn = t\<rparr>
     | (Err _, t) \<Rightarrow> \<lparr>ns_phase = Over Closed, ns_conn = t\<rparr>
     | (Panic p, t) \<Rightarrow> \<lparr>ns_phase = Over (Crashed p), ns_conn = t\<rparr>)"

definition packet_turn :: "'d ch_env \<Rightarrow> 'd native_session \<Rightarrow> 'd native_session" where
  "packet_turn env se = (case reading ReadByte (ns_conn se) of
       (Ok b, t) \<Rightarrow> (case handle_packet env b t of
           (Ok go_on, u) \<Rightarrow> \<lparr>ns_phase = (if go_on then Serving else Over Closed), ns_conn = u\<rparr>
         | (Err _, u) \<Rightarrow> \<lparr>ns_phase = Over Closed, ns_conn = u\<rparr>
         | (Panic p, u) \<Rightarrow> \<lparr>ns_phase = Over (Crashed p), ns_conn = u\<rparr>)
     | (Err _, t) \<Rightarrow> \<lparr>ns_phase = Over Closed, ns_conn = t\<rparr>
     | (Panic p, t) \<Rightarrow> \<lparr>ns_phase = Over (Crashed p), ns_conn = t\<rparr>)"

definition native_advance :: "'d ch_env \<Rightarrow> (unit, 'd native_session) system" where
  "native_advance env u se = (case ns_phase se of
       Greeting \<Rightarrow> Some (hello_turn env se)
     | Serving \<Rightarrow> Some (packet_turn env se)
     | Over e \<Rightarrow> None)"

section \<open>The servers\<close>

datatype http_phase = HttpServing | HttpEnded go_err

record 'd ch_side =
  cs_server :: "'d ch_server"
  cs_loop :: "client accept_loop"
  cs_sessions :: "'d native_session list"
  cs_http :: http_phase
  cs_inflight :: "request list"
  cs_answers :: "(request \<times> response) list"

text \<open>\<open>NewNativeServer\<close> listens before it returns; the HTTP server listens in \<open>Start\<close>, in its
  goroutine, and what \<open>Start\<close> returns is only logged.\<close>

definition NewNativeServer :: "(string \<Rightarrow> go_err option) \<Rightarrow> config \<Rightarrow> 'd \<Rightarrow> (client accept_loop \<times> 'd write_buffer) res" where
  "NewNativeServer net_Listen cfg d = (case net_Listen (ClickHouseNative (Listen cfg)) of
       Some e \<Rightarrow> Err e
     | None \<Rightarrow> bind_res (new_buffer cfg d) (\<lambda>wb. Ok (new_loop, wb)))"

definition NewHTTPServer :: "config \<Rightarrow> 'd \<Rightarrow> 'd write_buffer res" where
  "NewHTTPServer cfg d = new_buffer cfg d"

definition http_Start :: "(string \<Rightarrow> go_err option) \<Rightarrow> config \<Rightarrow> http_phase" where
  "http_Start net_Listen cfg = (case net_Listen (ClickHouseHTTP (Listen cfg)) of
       Some e \<Rightarrow> HttpEnded e
     | None \<Rightarrow> HttpServing)"

definition ErrServerClosed :: go_err where
  "ErrServerClosed = ErrorText ''http: Server closed''"

definition stop_http :: "'d ch_side \<Rightarrow> 'd ch_side" where
  "stop_http s = (case cs_http s of HttpServing \<Rightarrow> s\<lparr>cs_http := HttpEnded ErrServerClosed\<rparr> | HttpEnded e \<Rightarrow> s)"

section \<open>Events\<close>

datatype ch_side_event =
    ChDoor "client listen_event"
  | ChAttend nat
  | HttpArrive request
  | HttpHandle nat
  | HttpTimer
  | NativeTimer
  | HttpShutdown

definition open_native :: "client \<Rightarrow> 'd ch_side \<Rightarrow> 'd ch_side" where
  "open_native c s = s\<lparr>cs_sessions := cs_sessions s @ [\<lparr>ns_phase = Greeting,
     ns_conn = new_native (cl_in c) \<lparr>out = [], room = cl_room c\<rparr> (native_buf (cs_server s))\<rparr>]\<rparr>"

definition ch_door :: "client listen_event \<Rightarrow> 'd ch_side \<Rightarrow> 'd ch_side option" where
  "ch_door e s = map_option (\<lambda>l. fold (\<lambda>(connID, c). open_native c)
       (drop (length (spawned (cs_loop s))) (spawned l)) (s\<lparr>cs_loop := l\<rparr>)) (listen_step e (cs_loop s))"

text \<open>A session works on the buffer of the native server, over the database as it is.\<close>

definition native_load :: "'d ch_side \<Rightarrow> nat \<Rightarrow> 'd native_session" where
  "native_load s i = (let se = cs_sessions s ! i; sv = cs_server s in
     se\<lparr>ns_conn := (ns_conn se)\<lparr>nc_wb := (native_buf sv)\<lparr>wb_db := ch_data sv\<rparr>\<rparr>\<rparr>)"

definition native_store :: "'d ch_side \<Rightarrow> nat \<Rightarrow> 'd native_session \<Rightarrow> 'd ch_side" where
  "native_store s i se = (let wb = nc_wb (ns_conn se) in s\<lparr>cs_sessions := (cs_sessions s)[i := se],
     cs_server := (cs_server s)\<lparr>native_buf := wb, ch_data := wb_db wb\<rparr>\<rparr>)"

text \<open>A request that was taken is answered, also after the server stopped taking new ones.\<close>

definition http_turn :: "'d ch_env \<Rightarrow> nat \<Rightarrow> 'd ch_side \<Rightarrow> 'd ch_side" where
  "http_turn env i s = (let r = cs_inflight s ! i; sv = cs_server s;
       st = snd (handleRequest env r \<lparr>resp = no_response, http_wb = (http_buf sv)\<lparr>wb_db := ch_data sv\<rparr>\<rparr>)
     in s\<lparr>cs_inflight := take i (cs_inflight s) @ drop (Suc i) (cs_inflight s),
          cs_answers := cs_answers s @ [(r, resp st)],
          cs_server := sv\<lparr>http_buf := http_wb st, ch_data := wb_db (http_wb st)\<rparr>\<rparr>)"

definition ch_crashed :: "'d native_session \<Rightarrow> bool" where
  "ch_crashed se = (case ns_phase se of Over (Crashed p) \<Rightarrow> True | _ \<Rightarrow> False)"

definition on_server :: "('d ch_server \<Rightarrow> 'd ch_server) \<Rightarrow> 'd ch_side \<Rightarrow> 'd ch_side" where
  "on_server f s = s\<lparr>cs_server := f (cs_server s)\<rparr>"

text \<open>The two timers are those of \<open>flushLoop\<close>; \<open>HttpShutdown\<close> is the goroutine of \<open>Start\<close> that waits for
  the context.\<close>

fun ch_side_step :: "'d ch_env \<Rightarrow> (ch_side_event, 'd ch_side) system" where
  "ch_side_step env (ChDoor e) s = ch_door e s"
| "ch_side_step env (ChAttend i) s =
    (if i < length (cs_sessions s)
     then map_option (native_store s i) (native_advance env () (native_load s i)) else None)"
| "ch_side_step env (HttpArrive r) s =
    (if cs_http s = HttpServing then Some (s\<lparr>cs_inflight := cs_inflight s @ [r]\<rparr>) else None)"
| "ch_side_step env (HttpHandle i) s =
    (if i < length (cs_inflight s) then Some (http_turn env i s) else None)"
| "ch_side_step env HttpTimer s = Some (on_server (serve_event env HttpTick) s)"
| "ch_side_step env NativeTimer s = Some (on_server (serve_event env NativeTick) s)"
| "ch_side_step env HttpShutdown s =
    (if ctx_done (cs_loop s) \<and> cs_http s = HttpServing then Some (stop_http s) else None)"

section \<open>A native session on its own is the connection\<close>

definition native_whole :: "'d ch_env \<Rightarrow> 'd native_session \<Rightarrow> ending \<times> 'd native" where
  "native_whole env se = (case ns_phase se of
       Greeting \<Rightarrow> native_handleConn env (ns_conn se)
     | Serving \<Rightarrow> serve_native env (ns_conn se)
     | Over e \<Rightarrow> (e, ns_conn se))"

definition native_result :: "'d native_session \<Rightarrow> (ending \<times> 'd native) option" where
  "native_result se = (case ns_phase se of Over e \<Rightarrow> Some (e, ns_conn se) | _ \<Rightarrow> None)"

definition native_left :: "'d native_session \<Rightarrow> nat" where
  "native_left se = (case ns_phase se of
       Greeting \<Rightarrow> length (nc_in (ns_conn se)) + 2 | Serving \<Rightarrow> length (nc_in (ns_conn se)) + 1 | Over e \<Rightarrow> 0)"

lemma byte_taken: "reading ReadByte s = (Ok b, t) \<Longrightarrow> length (nc_in t) < length (nc_in s)"
  by (auto simp: reading_def ReadByte_def split: list.splits)

interpretation native_turns: turn_system "native_advance env" native_result "native_whole env" native_left for env
proof
  fix se :: "'a native_session"
  assume "native_result se = None"
  then consider "ns_phase se = Greeting" | "ns_phase se = Serving"
    by (auto simp: native_result_def split: phase.splits)
  then show "\<exists>t. native_advance env () se = Some t \<and> native_whole env t = native_whole env se \<and> native_left t < native_left se"
  proof cases
    case 1
    then show ?thesis
      using withinD [OF handshake_keep, of "ns_conn se"]
      by (auto simp: native_advance_def hello_turn_def native_whole_def native_left_def native_handleConn_def
        native_progress_def split: prod.splits res.splits)
  next
    case 2
    have "length (nc_in u) < length (nc_in (ns_conn se))"
      if "reading ReadByte (ns_conn se) = (Ok b, t)" "handle_packet env b t = (r, u)" for b t r u
      using byte_taken [OF that(1)] within_run [OF packet_keep that(2)] by (simp add: native_progress_def)
    with 2 show ?thesis
      by (auto simp: native_advance_def packet_turn_def native_whole_def native_left_def serve_native.simps [of env "ns_conn se"]
        split: prod.splits res.splits)
  qed
qed (auto simp: native_result_def native_whole_def split: phase.splits)

text \<open>
  The turns of a native session are the connection: from the handshake on, one turn for the
  handshake and one for each packet, it comes to the ending of \<open>handleConn\<close> and to the same state.
\<close>

theorem native_turns_are_handleConn:
  "\<exists>n. run_events (native_advance env) (replicate n ()) \<lparr>ns_phase = Greeting, ns_conn = s\<rparr>
     = Some \<lparr>ns_phase = Over (fst (native_handleConn env s)), ns_conn = snd (native_handleConn env s)\<rparr>"
proof -
  let ?se = "\<lparr>ns_phase = Greeting, ns_conn = s\<rparr>"
  obtain n t where "run_events (native_advance env) (replicate n ()) ?se = Some t" "native_result t = Some (native_whole env ?se)"
    using native_turns.comes_to [of env ?se] by auto
  then show ?thesis
    by (cases t; cases "native_handleConn env s") (auto simp: native_result_def native_whole_def split: phase.splits)
qed

section \<open>What every event keeps\<close>

definition native_kept :: "'d native_session \<Rightarrow> 'd native_session \<Rightarrow> bool" where
  "native_kept a b \<longleftrightarrow> grows (nc_out (ns_conn a)) (nc_out (ns_conn b)) \<and> (\<forall>e. ns_phase a = Over e \<longrightarrow> b = a)"

definition side_kept :: "'d ch_side \<Rightarrow> 'd ch_side \<Rightarrow> bool" where
  "side_kept s t \<longleftrightarrow> (\<forall>sz. servers_bounded sz (cs_server s) \<longrightarrow> servers_bounded sz (cs_server t))
     \<and> prefix (cs_answers s) (cs_answers t) \<and> length (cs_sessions s) \<le> length (cs_sessions t)
     \<and> (\<forall>i < length (cs_sessions s). native_kept (cs_sessions s ! i) (cs_sessions t ! i))"

lemma native_kept_refl: "native_kept a a"
  by (simp add: native_kept_def)

interpretation cs: kept_relation side_kept
proof
  fix s t u :: "'a ch_side"
  assume "side_kept s t" "side_kept t u"
  then show "side_kept s u"
    unfolding side_kept_def native_kept_def
    by (auto intro: grows_trans prefix_order.order_trans dest: less_le_trans)
qed (simp add: side_kept_def native_kept_refl)

lemma on_server_kept:
  assumes "\<And>sz. servers_bounded sz (cs_server s) \<Longrightarrow> servers_bounded sz (f (cs_server s))"
  shows "side_kept s (on_server f s)"
  using assms by (simp add: side_kept_def on_server_def native_kept_refl)

lemma door_kept: "ch_door e s = Some t \<Longrightarrow> side_kept s t"
proof -
  have o: "side_kept u (fold (\<lambda>(connID, c). open_native c) xs u)" for xs and u :: "'a ch_side"
  proof (induction xs arbitrary: u)
    case (Cons x xs)
    have "side_kept u (open_native (snd x) u)"
      by (auto simp: side_kept_def open_native_def nth_append native_kept_refl)
    with Cons show ?case by (cases x) (auto intro: cs.R_trans)
  qed (simp add: cs.R_refl)
  have "side_kept s (s\<lparr>cs_loop := l\<rparr>)" for l by (simp add: side_kept_def native_kept_refl)
  then show "ch_door e s = Some t \<Longrightarrow> side_kept s t"
    by (auto simp: ch_door_def intro: cs.R_trans o)
qed

lemma native_turn_progress: "native_advance env u se = Some b \<Longrightarrow> native_progress (ns_conn se) (ns_conn b)"
proof -
  have h: "native_progress s (snd (handshake s))" for s :: "'a native"
    by (rule withinD [OF handshake_keep])
  have p: "native_progress s (snd (reading ReadByte s))" for s :: "'a native"
    by (rule withinD [OF reading_keep [OF readers_shorter(1)]])
  show "native_advance env u se = Some b \<Longrightarrow> native_progress (ns_conn se) (ns_conn b)"
    using h [of "ns_conn se"] p [of "ns_conn se"] packet_keep [of env, THEN within_run]
    by (auto simp: native_advance_def hello_turn_def packet_turn_def split: phase.splits prod.splits res.splits if_splits)
      (metis np.R_trans)+
qed

lemma native_attend_kept:
  assumes "native_advance env u (native_load s i) = Some se" and "i < length (cs_sessions s)"
  shows "side_kept s (native_store s i se)"
proof -
  have p: "native_progress (ns_conn (native_load s i)) (ns_conn se)" by (rule native_turn_progress [OF assms(1)])
  then have wb: "stays_bounded ((native_buf (cs_server s))\<lparr>wb_db := ch_data (cs_server s)\<rparr>) (nc_wb (ns_conn se))"
    and out: "grows (nc_out (ns_conn (cs_sessions s ! i))) (nc_out (ns_conn se))"
    by (simp_all add: native_progress_def native_load_def Let_def)
  have ph: "\<nexists>e. ns_phase (cs_sessions s ! i) = Over e"
    using assms(1) by (auto simp: native_advance_def native_load_def Let_def split: phase.splits)
  have "servers_bounded sz (cs_server (native_store s i se))" if "servers_bounded sz (cs_server s)" for sz
    using that bnd.R_trans [OF set_db wb]
    by (auto simp: native_store_def Let_def servers_bounded_def stays_bounded_def)
  then show ?thesis
    using assms(2) out ph by (auto simp: side_kept_def native_store_def Let_def nth_list_update native_kept_refl native_kept_def)
qed

lemma http_turn_kept: "side_kept s (http_turn env i s)"
proof -
  let ?wb = "(http_buf (cs_server s))\<lparr>wb_db := ch_data (cs_server s)\<rparr>"
  have "stays_bounded ?wb (http_wb (snd (handleRequest env (cs_inflight s ! i) \<lparr>resp = no_response, http_wb = ?wb\<rparr>)))"
    using withinD [OF request_keep, of "\<lparr>resp = no_response, http_wb = ?wb\<rparr>" env "cs_inflight s ! i"]
    by (simp add: http_bounded_def)
  from bnd.R_trans [OF set_db this]
  have "servers_bounded sz (cs_server (http_turn env i s))" if "servers_bounded sz (cs_server s)" for sz
    using that by (auto simp: http_turn_def Let_def servers_bounded_def stays_bounded_def)
  then show ?thesis by (simp add: side_kept_def native_kept_refl) (simp add: http_turn_def Let_def native_kept_refl)
qed

lemma arrive_kept: "side_kept s (s\<lparr>cs_inflight := rs\<rparr>)"
  by (simp add: side_kept_def native_kept_refl)

lemma stop_kept: "side_kept s (stop_http s)"
  by (auto simp: stop_http_def side_kept_def native_kept_refl split: http_phase.split)

lemma side_step_kept: "ch_side_step env e s = Some t \<Longrightarrow> side_kept s t"
  by (cases e) (auto split: if_splits intro: door_kept native_attend_kept http_turn_kept on_server_kept event_bounded
    arrive_kept stop_kept simp del: serve_event.simps)

interpretation side: event_system side_kept "ch_side_step env" for env
  by unfold_locales (rule side_step_kept)

end
