(* ===== verification/ProxyProcess.thy ===== *)
theory ProxyProcess
  imports PgListener ChListener
begin

text \<open>
  The running process: the PostgreSQL server, the ClickHouse servers and the main goroutine over
  one MySQL. Events of the servers and the steps of \<open>main\<close> after the signal (cancel the
  context, close the PostgreSQL server, flush and close the native server, flush and close the HTTP
  server, exit) come in any order that the program allows; the context and the listeners belong to
  \<open>main\<close>. A panic in a PostgreSQL or native session ends the process, and nothing happens after.
\<close>

section \<open>The process\<close>

datatype main_pc =
  Waiting | CtxCancelled | PgClosed | NativeFlushed | NativeClosed | HttpFlushed | Exited

text \<open>How far \<open>main\<close> has come.\<close>

fun main_rank :: "main_pc \<Rightarrow> nat" where
  "main_rank Waiting = 0"
| "main_rank CtxCancelled = 1"
| "main_rank PgClosed = 2"
| "main_rank NativeFlushed = 3"
| "main_rank NativeClosed = 4"
| "main_rank HttpFlushed = 5"
| "main_rank Exited = 6"

lemma main_rank_inj: "main_rank a = main_rank b \<Longrightarrow> a = b"
  by (cases a; cases b) simp_all

instantiation main_pc :: linorder
begin

definition less_eq_main_pc :: "main_pc \<Rightarrow> main_pc \<Rightarrow> bool" where
  "less_eq_main_pc a b = (main_rank a \<le> main_rank b)"

definition less_main_pc :: "main_pc \<Rightarrow> main_pc \<Rightarrow> bool" where
  "less_main_pc a b = (main_rank a < main_rank b)"

instance
  by intro_classes (auto simp: less_eq_main_pc_def less_main_pc_def intro: main_rank_inj)

end

record 'd proxy =
  px_config :: config
  px_main :: main_pc
  px_pg :: "'d pg_server option"
  px_ch :: "'d ch_side option"
  px_data :: 'd

text \<open>A server works on the database as it is now.\<close>

definition with_pg :: "('d pg_server \<Rightarrow> 'd pg_server option) \<Rightarrow> 'd proxy \<Rightarrow> 'd proxy option" where
  "with_pg f p = (case px_pg p of
       None \<Rightarrow> None
     | Some s \<Rightarrow> map_option (\<lambda>t. p\<lparr>px_pg := Some t, px_data := sv_data t\<rparr>) (f (s\<lparr>sv_data := px_data p\<rparr>)))"

definition ch_load :: "'d proxy \<Rightarrow> 'd ch_side \<Rightarrow> 'd ch_side" where
  "ch_load p s = on_server (\<lambda>sv. sv\<lparr>ch_data := px_data p\<rparr>) s"

definition with_ch :: "('d ch_side \<Rightarrow> 'd ch_side option) \<Rightarrow> 'd proxy \<Rightarrow> 'd proxy option" where
  "with_ch f p = (case px_ch p of
       None \<Rightarrow> None
     | Some s \<Rightarrow> map_option (\<lambda>t. p\<lparr>px_ch := Some t, px_data := ch_data (cs_server t)\<rparr>) (f (ch_load p s)))"

text \<open>What \<open>main\<close> does to a server that was started.\<close>

definition to_pg :: "('d pg_server \<Rightarrow> 'd pg_server) \<Rightarrow> 'd proxy \<Rightarrow> 'd proxy" where
  "to_pg f p = (case with_pg (\<lambda>s. Some (f s)) p of Some q \<Rightarrow> q | None \<Rightarrow> p)"

definition to_ch :: "('d ch_side \<Rightarrow> 'd ch_side) \<Rightarrow> 'd proxy \<Rightarrow> 'd proxy" where
  "to_ch f p = (case with_ch (\<lambda>s. Some (f s)) p of Some q \<Rightarrow> q | None \<Rightarrow> p)"

definition on_pg_loop :: "(client accept_loop \<Rightarrow> client accept_loop) \<Rightarrow> 'd pg_server \<Rightarrow> 'd pg_server" where
  "on_pg_loop f s = s\<lparr>sv_loop := f (sv_loop s)\<rparr>"

definition on_ch_loop :: "(client accept_loop \<Rightarrow> client accept_loop) \<Rightarrow> 'd ch_side \<Rightarrow> 'd ch_side" where
  "on_ch_loop f s = s\<lparr>cs_loop := f (cs_loop s)\<rparr>"

fun main_step :: "'d ch_env \<Rightarrow> 'd proxy \<Rightarrow> main_pc \<Rightarrow> 'd proxy" where
  "main_step cenv p Waiting =
     (to_ch (on_ch_loop cancel_ctx) (to_pg (on_pg_loop cancel_ctx) p))\<lparr>px_main := CtxCancelled\<rparr>"
| "main_step cenv p CtxCancelled = (to_pg pg_Close p)\<lparr>px_main := PgClosed\<rparr>"
| "main_step cenv p PgClosed = (to_ch (on_server (serve_event cenv NativeClose)) p)\<lparr>px_main := NativeFlushed\<rparr>"
| "main_step cenv p NativeFlushed = (to_ch (on_ch_loop close_listener) p)\<lparr>px_main := NativeClosed\<rparr>"
| "main_step cenv p NativeClosed = (to_ch (on_server (serve_event cenv HttpClose)) p)\<lparr>px_main := HttpFlushed\<rparr>"
| "main_step cenv p HttpFlushed = (to_ch stop_http p)\<lparr>px_main := Exited\<rparr>"
| "main_step cenv p Exited = p"

definition px_alive :: "'d proxy \<Rightarrow> bool" where
  "px_alive p \<longleftrightarrow> px_main p \<noteq> Exited
     \<and> (case px_pg p of Some s \<Rightarrow> pg_alive s | None \<Rightarrow> True)
     \<and> (case px_ch p of Some s \<Rightarrow> \<not> list_ex ch_crashed (cs_sessions s) | None \<Rightarrow> True)"

datatype proxy_event = Pg pg_event | Ch ch_side_event | Main

text \<open>Cancelling and closing are \<open>main\<close>'s.\<close>

definition of_main :: "proxy_event \<Rightarrow> bool" where
  "of_main e = (e \<in> {Pg (Door Cancel), Pg (Door Shut), Ch (ChDoor Cancel), Ch (ChDoor Shut)})"

definition proxy_step :: "'d env \<Rightarrow> 'd ch_env \<Rightarrow> (proxy_event, 'd proxy) system" where
  "proxy_step env cenv e p =
    (if \<not> px_alive p \<or> of_main e then None
     else (case e of
         Pg pe \<Rightarrow> with_pg (pg_step env pe) p
       | Ch ce \<Rightarrow> with_ch (ch_side_step cenv ce) p
       | Main \<Rightarrow> Some (main_step cenv p (px_main p))))"

section \<open>What every step of the process keeps\<close>

definition kept_if :: "('a \<Rightarrow> 'a \<Rightarrow> bool) \<Rightarrow> 'a option \<Rightarrow> 'a option \<Rightarrow> bool" where
  "kept_if R a b = (case a of None \<Rightarrow> b = None | Some s \<Rightarrow> (case b of None \<Rightarrow> False | Some t \<Rightarrow> R s t))"

definition proxy_kept :: "'d proxy \<Rightarrow> 'd proxy \<Rightarrow> bool" where
  "proxy_kept p q \<longleftrightarrow> px_config q = px_config p \<and> px_main p \<le> px_main q \<and> kept_if server_kept (px_pg p) (px_pg q)
     \<and> kept_if side_kept (px_ch p) (px_ch q)"

lemma kept_if_refl: "(\<And>s. R s s) \<Longrightarrow> kept_if R a a"
  by (simp add: kept_if_def split: option.split)

lemma kept_if_trans: "(\<And>s t u. R s t \<Longrightarrow> R t u \<Longrightarrow> R s u) \<Longrightarrow> kept_if R a b \<Longrightarrow> kept_if R b c \<Longrightarrow> kept_if R a c"
  by (auto simp: kept_if_def split: option.splits)

interpretation px: kept_relation proxy_kept
  by unfold_locales
     (auto simp: proxy_kept_def intro: kept_if_refl kept_if_trans sk.R_refl sk.R_trans cs.R_refl cs.R_trans)

lemma data_kept: "server_kept s (s\<lparr>sv_data := d\<rparr>)" "side_kept c (ch_load p c)"
  by (simp_all add: server_kept_def session_kept_refl sessions_wf_def ch_load_def on_server_def side_kept_def
    native_kept_refl servers_bounded_def)

lemma with_pg_kept:
  assumes "with_pg f p = Some q" and "\<And>s t. f s = Some t \<Longrightarrow> server_kept s t"
  shows "proxy_kept p q"
  using assms(1) sk.R_trans [OF data_kept(1) assms(2)]
  by (auto simp: with_pg_def proxy_kept_def kept_if_def cs.R_refl split: option.splits)

lemma with_ch_kept:
  assumes "with_ch f p = Some q" and "\<And>s t. f s = Some t \<Longrightarrow> side_kept s t"
  shows "proxy_kept p q"
  using assms(1) cs.R_trans [OF data_kept(2) assms(2)]
  by (auto simp: with_ch_def proxy_kept_def kept_if_def sk.R_refl split: option.splits)

lemma to_pg_kept: "(\<And>s. server_kept s (f s)) \<Longrightarrow> proxy_kept p (to_pg f p)"
  by (auto simp: to_pg_def px.R_refl intro: with_pg_kept split: option.split)

lemma to_ch_kept: "(\<And>s. side_kept s (f s)) \<Longrightarrow> proxy_kept p (to_ch f p)"
  by (auto simp: to_ch_def px.R_refl intro: with_ch_kept split: option.split)

lemma loops_kept: "server_kept s (on_pg_loop f s)" "server_kept s (pg_Close s)" "side_kept c (on_ch_loop g c)"
  by (simp_all add: on_pg_loop_def pg_Close_def loop_kept on_ch_loop_def side_kept_def native_kept_refl)

lemma to_main [simp]: "px_main (to_pg f p) = px_main p" "px_main (to_ch g p) = px_main p"
  by (simp_all add: to_pg_def with_pg_def to_ch_def with_ch_def split: option.split)

lemma main_kept: "proxy_kept p q \<Longrightarrow> px_main q \<le> m \<Longrightarrow> proxy_kept p (q\<lparr>px_main := m\<rparr>)"
  by (auto simp: proxy_kept_def)

lemma main_step_kept: "proxy_kept p (main_step cenv p (px_main p))"
  by (cases "px_main p") (auto simp: px.R_refl less_eq_main_pc_def simp del: serve_event.simps
    intro!: main_kept to_pg_kept to_ch_kept loops_kept stop_kept on_server_kept event_bounded
    intro: px.R_trans [OF to_pg_kept [OF loops_kept(1)] to_ch_kept [OF loops_kept(3)]])

lemma proxy_step_kept: "proxy_step env cenv e p = Some q \<Longrightarrow> proxy_kept p q"
  by (auto simp: proxy_step_def main_step_kept split: if_splits proxy_event.splits
    intro: with_pg_kept pg_step_kept with_ch_kept side_step_kept)

interpretation proxy: event_system proxy_kept "proxy_step env cenv" for env cenv
  by unfold_locales (rule proxy_step_kept)

section \<open>Until the signal\<close>

definition loop_running :: "'c accept_loop \<Rightarrow> bool" where
  "loop_running l \<longleftrightarrow> \<not> ctx_done l \<and> \<not> ln_closed l \<and> (\<nexists>r. loop_at l = Ended r)"

definition doors_open :: "http_phase option \<Rightarrow> 'd proxy \<Rightarrow> bool" where
  "doors_open h p \<longleftrightarrow> (px_main p = Waiting \<longrightarrow>
     (case px_pg p of Some s \<Rightarrow> loop_running (sv_loop s) | None \<Rightarrow> True)
     \<and> (case px_ch p of Some c \<Rightarrow> loop_running (cs_loop c) | None \<Rightarrow> True)
     \<and> map_option cs_http (px_ch p) = h)"

lemma loop_goes_on:
  "loop_running l \<Longrightarrow> listen_step e l = Some m \<Longrightarrow> e \<noteq> Cancel \<Longrightarrow> e \<noteq> Shut \<Longrightarrow> loop_running m"
  by (cases e) (auto simp: loop_running_def loop_moves split: loop_pc.splits if_splits list.splits)

lemma running_ctx: "loop_running l \<Longrightarrow> \<not> ctx_done l"
  by (simp add: loop_running_def)

lemma opened_loop: "sv_loop (fold (\<lambda>(connID, c). open_session env c) xs s) = sv_loop s"
  by (induction xs arbitrary: s) (auto simp: open_session_def Let_def)

lemma opened_side:
  "cs_loop (fold (\<lambda>(connID, c). open_native c) xs s) = cs_loop s
   \<and> cs_http (fold (\<lambda>(connID, c). open_native c) xs s) = cs_http s"
  by (induction xs arbitrary: s) (auto simp: open_native_def)

lemma pg_step_door:
  "pg_step env e s = Some t \<Longrightarrow> loop_running (sv_loop s) \<Longrightarrow> e \<noteq> Door Cancel \<Longrightarrow> e \<noteq> Door Shut \<Longrightarrow> loop_running (sv_loop t)"
  by (cases e) (auto simp: door_step_def opened_loop store_back_def split: if_splits intro: loop_goes_on)

lemma side_step_door:
  "ch_side_step env e s = Some t \<Longrightarrow> loop_running (cs_loop s) \<Longrightarrow> e \<noteq> ChDoor Cancel \<Longrightarrow> e \<noteq> ChDoor Shut \<Longrightarrow>
     loop_running (cs_loop t) \<and> cs_http t = cs_http s"
  by (cases e) (auto simp: ch_door_def opened_side native_store_def http_turn_def on_server_def Let_def running_ctx
    split: if_splits dest: loop_goes_on)

lemma doors_step: "doors_open h p \<Longrightarrow> proxy_step env cenv e p = Some q \<Longrightarrow> doors_open h q"
proof (cases e)
  case (Pg pe)
  then show "doors_open h p \<Longrightarrow> proxy_step env cenv e p = Some q \<Longrightarrow> doors_open h q"
    by (auto simp: proxy_step_def of_main_def with_pg_def doors_open_def split: if_splits option.splits
      dest: pg_step_door)
next
  case (Ch ce)
  then show "doors_open h p \<Longrightarrow> proxy_step env cenv e p = Some q \<Longrightarrow> doors_open h q"
    by (auto simp: proxy_step_def of_main_def with_ch_def doors_open_def ch_load_def on_server_def
      split: if_splits option.splits dest: side_step_door)
next
  case Main
  moreover have "px_main (main_step cenv p m) \<noteq> Waiting \<or> m = Exited" for m by (cases m) simp_all
  ultimately show "doors_open h p \<Longrightarrow> proxy_step env cenv e p = Some q \<Longrightarrow> doors_open h q"
    by (auto simp: proxy_step_def px_alive_def doors_open_def split: if_splits)
qed

section \<open>An insert at the wrong moment\<close>

text \<open>
  C22: the flush of the HTTP server is not its last word. A request that was taken before the
  server is closed and is handled after the flush of \<open>Close\<close>, an \<open>INSERT\<close>, is answered with status 200;
  its statement is put into the buffer, and the process exits with it: MySQL never sees it, and
  nothing can happen any more.
\<close>

theorem late_insert_lost:
  assumes "px_alive p" and "px_main p = HttpFlushed" and "px_ch p = Some c" and "i < length (cs_inflight c)"
    and "cs_inflight c ! i = r" and "TrimSpace (url_query r) \<noteq> []"
    and "handleSystemQuery (ch_db cenv) (TrimSpace (url_query r)) = ret []"
    and "HasPrefix (ToUpper (ch_Translate (TrimSpace (url_query r)))) ''INSERT''"
    and "int (length (buffered (http_buf (cs_server c)))) + 1 < maxSize (http_buf (cs_server c))"
  shows "\<exists>q d. run_events (proxy_step env cenv) [Ch (HttpHandle i), Main] p = Some q \<and> px_ch q = Some d
    \<and> last (cs_answers d) = (r, answered [] [])
    \<and> buffered (http_buf (cs_server d)) = buffered (http_buf (cs_server c)) @ [ch_Translate (TrimSpace (url_query r))]
    \<and> px_data q = px_data p \<and> px_main q = Exited \<and> (\<forall>e. proxy_step env cenv e q = None)"
proof -
  let ?wb = "(http_buf (cs_server c))\<lparr>wb_db := px_data p\<rparr>" and ?t = "ch_Translate (TrimSpace (url_query r))"
  have u: "url_query r \<noteq> []" using assms(6) by (auto simp: TrimSpace_def trim_by_def)
  have h: "handleRequest cenv r \<lparr>resp = no_response, http_wb = ?wb\<rparr>
      = (Ok (), \<lparr>resp = answered [] [], http_wb = ?wb\<lparr>buffered := buffered ?wb @ [?t]\<rparr>\<rparr>)"
    using assms(6-9) u inserts_are_writes [OF assms(8)]
    by (simp add: handleRequest_def answer_query_def Let_def on_buffer_def bindM_def ret_def run_translated_def
      Enqueue_def WriteHeader_def on_resp_def modifyM_def no_response_def answered_def)
  let ?d = "http_turn cenv i (ch_load p c)"
  have d: "cs_answers ?d = cs_answers c @ [(r, answered [] [])]" "cs_sessions ?d = cs_sessions c"
    "buffered (http_buf (cs_server ?d)) = buffered (http_buf (cs_server c)) @ [?t]"
    "ch_data (cs_server ?d) = px_data p"
    using assms(5) h by (simp_all add: http_turn_def ch_load_def on_server_def Let_def)
  let ?p = "p\<lparr>px_ch := Some ?d, px_data := px_data p\<rparr>"
  have s1: "proxy_step env cenv (Ch (HttpHandle i)) p = Some ?p"
    using assms(1,3,4) d(4) by (simp add: proxy_step_def of_main_def with_ch_def ch_load_def on_server_def)
  have "px_alive ?p" using assms(1-3) d(2) by (simp add: px_alive_def split: option.splits)
  then have s2: "proxy_step env cenv Main ?p = Some ((to_ch stop_http ?p)\<lparr>px_main := Exited\<rparr>)"
    using assms(2) by (simp add: proxy_step_def of_main_def)
  have e: "px_ch (to_ch stop_http ?p) = Some (stop_http (ch_load ?p ?d))" "px_data (to_ch stop_http ?p) = px_data p"
    by (simp_all add: to_ch_def with_ch_def stop_http_def ch_load_def on_server_def split: http_phase.split)
  have "proxy_step env cenv ev ((to_ch stop_http ?p)\<lparr>px_main := Exited\<rparr>) = None" for ev
    by (simp add: proxy_step_def px_alive_def)
  then show ?thesis using s1 s2 e d
    by (auto simp: stop_http_def ch_load_def on_server_def split: http_phase.split)
qed

text \<open>A process with the two servers of ClickHouse, over the transactional store.\<close>

definition store_pg_env :: "store env" where
  "store_pg_env = \<lparr>mysql_pool = wb_pool (store_pool good_policy), pg_translator = NewTranslator [] [], randomness = (\<lambda>_ _. 0),
     floats = plain_float, index_order = (\<lambda>xs. xs), field_order = (\<lambda>xs. xs), status_order = (\<lambda>xs. xs)\<rparr>"

definition ch_process :: "main_pc \<Rightarrow> store ch_server \<Rightarrow> request list \<Rightarrow> store proxy" where
  "ch_process m sv rs = \<lparr>px_config = DefaultConfig, px_main = m, px_pg = None,
     px_ch = Some \<lparr>cs_server = sv, cs_loop = new_loop, cs_sessions = [], cs_http = HttpServing, cs_inflight = rs,
       cs_answers = []\<rparr>, px_data = ch_data sv\<rparr>"

lemma ch_process_alive: "m \<noteq> Exited \<Longrightarrow> px_alive (ch_process m sv rs)"
  by (simp add: px_alive_def ch_process_def)

theorem late_insert_lost_witness:
  "\<exists>q. run_events (proxy_step store_pg_env (store_env good_policy)) [Ch (HttpHandle 0), Main]
      (ch_process HttpFlushed started [insert_request]) = Some q
    \<and> px_main q = Exited \<and> px_data q = ch_data started"
proof -
  let ?p = "ch_process HttpFlushed started [insert_request]"
  have c: "px_main ?p = HttpFlushed" "px_ch ?p = Some (the (px_ch ?p))" "0 < length (cs_inflight (the (px_ch ?p)))"
    "cs_inflight (the (px_ch ?p)) ! 0 = insert_request" by (simp_all add: ch_process_def)
  have b: "int (length (buffered (http_buf (cs_server (the (px_ch ?p)))))) + 1 < maxSize (http_buf (cs_server (the (px_ch ?p))))"
    by (simp add: ch_process_def started_def Let_def)
  have "px_alive ?p" by (rule ch_process_alive) simp
  from late_insert_lost [OF this c insert_request_runs b, of store_pg_env] show ?thesis
    by (auto simp: ch_process_def)
qed

end
