(* ===== verification/SchemaTables.thy ===== *)
theory SchemaTables
  imports GoStrings
begin

text \<open>
  The statements of \<open>internal/mysql/oltp_ddl.go\<close>, \<open>olap_ddl.go\<close> and \<open>pg_catalog_ddl.go\<close>, line
  by line. Every table has the same first and last line, which \<open>table_ddl\<close> adds. A string of
  HOL holds no apostrophe and no backquote: the lines have a caret and a tilde in their place,
  which \<open>sql_text\<close> puts back (the Go files write a backquote as the constant \<open>bt\<close>).
\<close>

definition sql_text :: "string \<Rightarrow> string" where
  "sql_text = map (\<lambda>c. if c = CHR 0x5E then CHR 0x27 else if c = CHR 0x7E then CHR 0x60 else c)"

definition tabs :: "nat \<Rightarrow> string" where
  "tabs n = replicate n (CHR 0x09)"

definition table_end :: string where
  "table_end = tabs 1 @ '') ENGINE=InnoDB DEFAULT CHARSET=utf8mb4 COLLATE=utf8mb4_unicode_ci''"

text \<open>The lines between the first and the last are indented by two tabs.\<close>

definition table_ddl :: "string \<Rightarrow> string list \<Rightarrow> string" where
  "table_ddl name ls = ''CREATE TABLE IF NOT EXISTS '' @ name @ '' ('' @ [CHR 0x0A]
     @ concat (map (\<lambda>l. tabs 2 @ sql_text l @ [CHR 0x0A]) ls) @ table_end"

definition view_ddl :: "string \<Rightarrow> string list \<Rightarrow> string" where
  "view_ddl name ls = ''CREATE OR REPLACE VIEW '' @ name @ '' AS'' @ concat (map (\<lambda>l. [CHR 0x0A] @ sql_text l) ls)"

section \<open>Tables of the application (Prisma schema)\<close>

definition ddl_accounts :: string where
  "ddl_accounts = table_ddl ''accounts''
    [''id VARCHAR(36) PRIMARY KEY,'',
     ''user_id VARCHAR(36) NOT NULL,'',
     ''type VARCHAR(255) NOT NULL,'',
     ''provider VARCHAR(255) NOT NULL,'',
     ''provider_account_id VARCHAR(255) NOT NULL,'',
     ''refresh_token TEXT,'',
     ''access_token TEXT,'',
     ''expires_at BIGINT,'',
     ''token_type VARCHAR(255),'',
     ''scope TEXT,'',
     ''id_token TEXT,'',
     ''session_state VARCHAR(255),'',
     ''INDEX idx_user_id (user_id),'',
     ''UNIQUE KEY uk_provider_account (provider, provider_account_id)'']"

definition ddl_sessions :: string where
  "ddl_sessions = table_ddl ''sessions''
    [''id VARCHAR(36) PRIMARY KEY,'',
     ''session_token VARCHAR(255) NOT NULL UNIQUE,'',
     ''user_id VARCHAR(36) NOT NULL,'',
     ''expires DATETIME(3) NOT NULL,'',
     ''INDEX idx_user_id (user_id)'']"

definition ddl_users :: string where
  "ddl_users = table_ddl ''users''
    [''id VARCHAR(36) PRIMARY KEY,'',
     ''name VARCHAR(255),'',
     ''email VARCHAR(255) NOT NULL UNIQUE,'',
     ''email_verified DATETIME(3),'',
     ''image TEXT,'',
     ''password VARCHAR(255),'',
     ''admin TINYINT(1) NOT NULL DEFAULT 0,'',
     ''feature_flags JSON,'',
     ''v4_beta_enabled TINYINT(1) NOT NULL DEFAULT 0,'',
     ''created_at DATETIME(3) NOT NULL DEFAULT CURRENT_TIMESTAMP(3),'',
     ''updated_at DATETIME(3) NOT NULL DEFAULT CURRENT_TIMESTAMP(3) ON UPDATE CURRENT_TIMESTAMP(3)'']"

definition ddl_verification_tokens :: string where
  "ddl_verification_tokens = table_ddl ''verification_tokens''
    [''identifier VARCHAR(255) NOT NULL,'',
     ''token VARCHAR(255) NOT NULL,'',
     ''expires DATETIME(3) NOT NULL,'',
     ''PRIMARY KEY (identifier, token)'']"

definition ddl_organizations :: string where
  "ddl_organizations = table_ddl ''organizations''
    [''id VARCHAR(36) PRIMARY KEY,'',
     ''name VARCHAR(255) NOT NULL,'',
     ''created_at DATETIME(3) NOT NULL DEFAULT CURRENT_TIMESTAMP(3),'',
     ''updated_at DATETIME(3) NOT NULL DEFAULT CURRENT_TIMESTAMP(3) ON UPDATE CURRENT_TIMESTAMP(3),'',
     ''metadata JSON,'',
     ''cloud_config JSON,'',
     ''billing_email VARCHAR(255),'',
     ''billing_address TEXT'']"

definition ddl_projects :: string where
  "ddl_projects = table_ddl ''projects''
    [''id VARCHAR(36) PRIMARY KEY,'',
     ''name VARCHAR(255) NOT NULL,'',
     ''org_id VARCHAR(36) NOT NULL,'',
     ''created_at DATETIME(3) NOT NULL DEFAULT CURRENT_TIMESTAMP(3),'',
     ''updated_at DATETIME(3) NOT NULL DEFAULT CURRENT_TIMESTAMP(3) ON UPDATE CURRENT_TIMESTAMP(3),'',
     ''metadata JSON,'',
     ''retention_days INT,'',
     ''has_traces TINYINT(1) NOT NULL DEFAULT 0,'',
     ''INDEX idx_org_id (org_id)'']"

definition ddl_organization_memberships :: string where
  "ddl_organization_memberships = table_ddl ''organization_memberships''
    [''org_id VARCHAR(36) NOT NULL,'',
     ''user_id VARCHAR(36) NOT NULL,'',
     ''role VARCHAR(50) NOT NULL,'',
     ''created_at DATETIME(3) NOT NULL DEFAULT CURRENT_TIMESTAMP(3),'',
     ''updated_at DATETIME(3) NOT NULL DEFAULT CURRENT_TIMESTAMP(3) ON UPDATE CURRENT_TIMESTAMP(3),'',
     ''PRIMARY KEY (org_id, user_id),'',
     ''INDEX idx_user_id (user_id)'']"

definition ddl_project_memberships :: string where
  "ddl_project_memberships = table_ddl ''project_memberships''
    [''project_id VARCHAR(36) NOT NULL,'',
     ''user_id VARCHAR(36) NOT NULL,'',
     ''role VARCHAR(50) NOT NULL,'',
     ''created_at DATETIME(3) NOT NULL DEFAULT CURRENT_TIMESTAMP(3),'',
     ''updated_at DATETIME(3) NOT NULL DEFAULT CURRENT_TIMESTAMP(3) ON UPDATE CURRENT_TIMESTAMP(3),'',
     ''PRIMARY KEY (project_id, user_id),'',
     ''INDEX idx_user_id (user_id)'']"

definition ddl_api_keys :: string where
  "ddl_api_keys = table_ddl ''api_keys''
    [''id VARCHAR(36) PRIMARY KEY,'',
     ''public_key VARCHAR(255) NOT NULL UNIQUE,'',
     ''hashed_secret_key VARCHAR(255) NOT NULL,'',
     ''scope VARCHAR(50) NOT NULL,'',
     ''project_id VARCHAR(36),'',
     ''org_id VARCHAR(36),'',
     ''display_name VARCHAR(255),'',
     ''created_at DATETIME(3) NOT NULL DEFAULT CURRENT_TIMESTAMP(3),'',
     ''updated_at DATETIME(3) NOT NULL DEFAULT CURRENT_TIMESTAMP(3) ON UPDATE CURRENT_TIMESTAMP(3),'',
     ''expires_at DATETIME(3),'',
     ''last_used_at DATETIME(3),'',
     ''INDEX idx_public_key (public_key)'']"

definition ddl_trace_sessions :: string where
  "ddl_trace_sessions = table_ddl ''trace_sessions''
    [''id VARCHAR(36) NOT NULL,'',
     ''project_id VARCHAR(36) NOT NULL,'',
     ''created_at DATETIME(3) NOT NULL DEFAULT CURRENT_TIMESTAMP(3),'',
     ''updated_at DATETIME(3) NOT NULL DEFAULT CURRENT_TIMESTAMP(3) ON UPDATE CURRENT_TIMESTAMP(3),'',
     ''PRIMARY KEY (id, project_id),'',
     ''INDEX idx_project_id (project_id),'',
     ''INDEX idx_project_created (project_id, created_at DESC)'']"

definition ddl_prompts :: string where
  "ddl_prompts = table_ddl ''prompts''
    [''id VARCHAR(36) NOT NULL,'',
     ''created_at DATETIME(3) NOT NULL DEFAULT CURRENT_TIMESTAMP(3),'',
     ''updated_at DATETIME(3) NOT NULL DEFAULT CURRENT_TIMESTAMP(3) ON UPDATE CURRENT_TIMESTAMP(3),'',
     ''project_id VARCHAR(36) NOT NULL,'',
     ''name VARCHAR(255) NOT NULL,'',
     ''prompt JSON NOT NULL,'',
     ''config JSON,'',
     ''labels JSON NOT NULL,'',
     ''tags JSON,'',
     ''version INT NOT NULL,'',
     ''is_active TINYINT(1) NOT NULL DEFAULT 0,'',
     ''commit_version VARCHAR(36),'',
     ''type VARCHAR(50) NOT NULL DEFAULT ^text^,'',
     ''PRIMARY KEY (id, project_id),'',
     ''UNIQUE KEY uk_project_name_version (project_id, name, version),'',
     ''INDEX idx_project_name_active (project_id, name, is_active)'']"

definition ddl_models :: string where
  "ddl_models = table_ddl ''models''
    [''id VARCHAR(36) PRIMARY KEY,'',
     ''project_id VARCHAR(36),'',
     ''model_name VARCHAR(255) NOT NULL,'',
     ''start_date DATETIME(3),'',
     ''unit VARCHAR(50),'',
     ''tokenizer_config JSON,'',
     ''created_at DATETIME(3) NOT NULL DEFAULT CURRENT_TIMESTAMP(3),'',
     ''updated_at DATETIME(3) NOT NULL DEFAULT CURRENT_TIMESTAMP(3) ON UPDATE CURRENT_TIMESTAMP(3),'',
     ''UNIQUE KEY uk_project_model_start (project_id, model_name, start_date, unit)'']"

definition ddl_prices :: string where
  "ddl_prices = table_ddl ''prices''
    [''id VARCHAR(36) PRIMARY KEY,'',
     ''model_id VARCHAR(36) NOT NULL,'',
     ''usage_type VARCHAR(50) NOT NULL,'',
     ''pricing_tier_id VARCHAR(36),'',
     ''price DECIMAL(65,30) NOT NULL,'',
     ''currency VARCHAR(10) NOT NULL DEFAULT ^USD^,'',
     ''created_at DATETIME(3) NOT NULL DEFAULT CURRENT_TIMESTAMP(3),'',
     ''updated_at DATETIME(3) NOT NULL DEFAULT CURRENT_TIMESTAMP(3) ON UPDATE CURRENT_TIMESTAMP(3),'',
     ''UNIQUE KEY uk_model_usage_tier (model_id, usage_type, pricing_tier_id)'']"

definition ddl_pricing_tiers :: string where
  "ddl_pricing_tiers = table_ddl ''pricing_tiers''
    [''id VARCHAR(36) PRIMARY KEY,'',
     ''model_id VARCHAR(36) NOT NULL,'',
     ''name VARCHAR(255) NOT NULL,'',
     ''priority INT NOT NULL,'',
     tabs 1 @ ''is_default TINYINT(1) NOT NULL DEFAULT 0,'',
     ''conditions JSON NOT NULL,'',
     ''created_at DATETIME(3) NOT NULL DEFAULT CURRENT_TIMESTAMP(3),'',
     ''updated_at DATETIME(3) NOT NULL DEFAULT CURRENT_TIMESTAMP(3) ON UPDATE CURRENT_TIMESTAMP(3),'',
     ''UNIQUE KEY uk_model_priority (model_id, priority),'',
     ''UNIQUE KEY uk_model_name (model_id, name)'']"

definition ddl_datasets :: string where
  "ddl_datasets = table_ddl ''datasets''
    [''id VARCHAR(36) NOT NULL,'',
     ''project_id VARCHAR(36) NOT NULL,'',
     ''name VARCHAR(255) NOT NULL,'',
     ''description TEXT,'',
     ''metadata JSON,'',
     ''input_schema JSON,'',
     ''expected_output_schema JSON,'',
     ''created_at DATETIME(3) NOT NULL DEFAULT CURRENT_TIMESTAMP(3),'',
     ''updated_at DATETIME(3) NOT NULL DEFAULT CURRENT_TIMESTAMP(3) ON UPDATE CURRENT_TIMESTAMP(3),'',
     ''PRIMARY KEY (id, project_id),'',
     ''UNIQUE KEY uk_project_name (project_id, name)'']"

definition ddl_dataset_items :: string where
  "ddl_dataset_items = table_ddl ''dataset_items''
    [''id VARCHAR(36) NOT NULL,'',
     ''project_id VARCHAR(36) NOT NULL,'',
     ''dataset_name VARCHAR(255) NOT NULL,'',
     ''input JSON NOT NULL,'',
     ''expected_output JSON,'',
     ''metadata JSON,'',
     ''source_trace_id VARCHAR(36),'',
     ''source_observation_id VARCHAR(36),'',
     ''status VARCHAR(50) NOT NULL DEFAULT ^ACTIVE^,'',
     ''is_deleted TINYINT(1) NOT NULL DEFAULT 0,'',
     ''valid_from DATETIME(3) NOT NULL DEFAULT CURRENT_TIMESTAMP(3),'',
     ''valid_to DATETIME(3),'',
     ''created_at DATETIME(3) NOT NULL DEFAULT CURRENT_TIMESTAMP(3),'',
     ''updated_at DATETIME(3) NOT NULL DEFAULT CURRENT_TIMESTAMP(3) ON UPDATE CURRENT_TIMESTAMP(3),'',
     ''PRIMARY KEY (id, project_id, valid_from),'',
     ''INDEX idx_project_dataset (project_id, dataset_name),'',
     ''INDEX idx_trace_id (project_id, source_trace_id)'']"

definition ddl_dataset_runs :: string where
  "ddl_dataset_runs = table_ddl ''dataset_runs''
    [''id VARCHAR(36) NOT NULL,'',
     ''project_id VARCHAR(36) NOT NULL,'',
     ''dataset_name VARCHAR(255) NOT NULL,'',
     ''name VARCHAR(255) NOT NULL,'',
     ''metadata JSON,'',
     ''created_at DATETIME(3) NOT NULL DEFAULT CURRENT_TIMESTAMP(3),'',
     ''updated_at DATETIME(3) NOT NULL DEFAULT CURRENT_TIMESTAMP(3) ON UPDATE CURRENT_TIMESTAMP(3),'',
     ''PRIMARY KEY (id, project_id),'',
     ''INDEX idx_project_dataset (project_id, dataset_name)'']"

definition ddl_dataset_run_items :: string where
  "ddl_dataset_run_items = table_ddl ''dataset_run_items''
    [''id VARCHAR(36) NOT NULL,'',
     ''project_id VARCHAR(36) NOT NULL,'',
     ''dataset_run_id VARCHAR(36) NOT NULL,'',
     ''dataset_run_name VARCHAR(255) NOT NULL,'',
     ''dataset_item_id VARCHAR(36) NOT NULL,'',
     ''trace_id VARCHAR(36),'',
     ''created_at DATETIME(3) NOT NULL DEFAULT CURRENT_TIMESTAMP(3),'',
     ''updated_at DATETIME(3) NOT NULL DEFAULT CURRENT_TIMESTAMP(3) ON UPDATE CURRENT_TIMESTAMP(3),'',
     ''PRIMARY KEY (id, project_id),'',
     ''INDEX idx_project_run (project_id, dataset_run_id),'',
     ''INDEX idx_project_item (project_id, dataset_item_id)'']"

definition ddl_scores :: string where
  "ddl_scores = table_ddl ''scores''
    [''id VARCHAR(36) NOT NULL,'',
     ''project_id VARCHAR(36) NOT NULL,'',
     ''trace_id VARCHAR(36),'',
     ''observation_id VARCHAR(36),'',
     ''name VARCHAR(255) NOT NULL,'',
     ''value DECIMAL(65,30),'',
     ''source VARCHAR(50) NOT NULL,'',
     ''comment TEXT,'',
     ''author_user_id VARCHAR(36),'',
     ''config_id VARCHAR(36),'',
     ''data_type VARCHAR(50) NOT NULL,'',
     ''string_value TEXT,'',
     ''long_string_value LONGTEXT,'',
     ''queue_id VARCHAR(36),'',
     ''session_id VARCHAR(36),'',
     ''dataset_run_id VARCHAR(36),'',
     ''execution_trace_id VARCHAR(36),'',
     ''created_at DATETIME(3) NOT NULL DEFAULT CURRENT_TIMESTAMP(3),'',
     ''updated_at DATETIME(3) NOT NULL DEFAULT CURRENT_TIMESTAMP(3) ON UPDATE CURRENT_TIMESTAMP(3),'',
     ''PRIMARY KEY (id, project_id),'',
     ''INDEX idx_project_trace (project_id, trace_id),'',
     ''INDEX idx_project_observation (project_id, observation_id),'',
     ''INDEX idx_project_name (project_id, name),'',
     ''INDEX idx_project_session (project_id, session_id),'',
     ''INDEX idx_project_dataset_run (project_id, dataset_run_id)'']"

definition ddl_score_configs :: string where
  "ddl_score_configs = table_ddl ''score_configs''
    [''id VARCHAR(36) PRIMARY KEY,'',
     ''project_id VARCHAR(36) NOT NULL,'',
     ''name VARCHAR(255) NOT NULL,'',
     ''data_type VARCHAR(50) NOT NULL,'',
     ''min_value DECIMAL(65,30),'',
     ''max_value DECIMAL(65,30),'',
     ''categories JSON,'',
     ''description TEXT,'',
     ''created_at DATETIME(3) NOT NULL DEFAULT CURRENT_TIMESTAMP(3),'',
     ''updated_at DATETIME(3) NOT NULL DEFAULT CURRENT_TIMESTAMP(3) ON UPDATE CURRENT_TIMESTAMP(3),'',
     ''UNIQUE KEY uk_project_name (project_id, name)'']"

definition ddl_comments :: string where
  "ddl_comments = table_ddl ''comments''
    [''id VARCHAR(36) PRIMARY KEY,'',
     ''project_id VARCHAR(36) NOT NULL,'',
     ''object_type VARCHAR(50) NOT NULL,'',
     ''object_id VARCHAR(36) NOT NULL,'',
     ''content TEXT NOT NULL,'',
     ''author_id VARCHAR(36) NOT NULL,'',
     ''path JSON,'',
     ''range_start JSON,'',
     ''range_end JSON,'',
     ''data_field VARCHAR(255),'',
     ''created_at DATETIME(3) NOT NULL DEFAULT CURRENT_TIMESTAMP(3),'',
     ''updated_at DATETIME(3) NOT NULL DEFAULT CURRENT_TIMESTAMP(3) ON UPDATE CURRENT_TIMESTAMP(3),'',
     ''INDEX idx_project_object (project_id, object_type, object_id)'']"

definition ddl_comment_reactions :: string where
  "ddl_comment_reactions = table_ddl ''comment_reactions''
    [''id VARCHAR(36) PRIMARY KEY,'',
     ''comment_id VARCHAR(36) NOT NULL,'',
     ''user_id VARCHAR(36) NOT NULL,'',
     ''emoji VARCHAR(50) NOT NULL,'',
     ''created_at DATETIME(3) NOT NULL DEFAULT CURRENT_TIMESTAMP(3),'',
     ''UNIQUE KEY uk_comment_user_emoji (comment_id, user_id, emoji)'']"

definition ddl_notifications :: string where
  "ddl_notifications = table_ddl ''notifications''
    [''id VARCHAR(36) PRIMARY KEY,'',
     ''user_id VARCHAR(36) NOT NULL,'',
     ''transaction_id VARCHAR(255),'',
     ''channel VARCHAR(50) NOT NULL,'',
     ''created_at DATETIME(3) NOT NULL DEFAULT CURRENT_TIMESTAMP(3),'',
     ''INDEX idx_user_id (user_id)'']"

definition ddl_notification_preferences :: string where
  "ddl_notification_preferences = table_ddl ''notification_preferences''
    [''id VARCHAR(36) PRIMARY KEY,'',
     ''user_id VARCHAR(36) NOT NULL,'',
     ''project_id VARCHAR(36) NOT NULL,'',
     ''channel VARCHAR(50) NOT NULL,'',
     ''type VARCHAR(50) NOT NULL,'',
     ''created_at DATETIME(3) NOT NULL DEFAULT CURRENT_TIMESTAMP(3),'',
     ''UNIQUE KEY uk_user_project_channel_type (user_id, project_id, channel, type)'']"

definition ddl_sso_configs :: string where
  "ddl_sso_configs = table_ddl ''sso_configs''
    [''id VARCHAR(36) PRIMARY KEY,'',
     ''org_id VARCHAR(36) NOT NULL,'',
     ''provider VARCHAR(50) NOT NULL,'',
     ''created_at DATETIME(3) NOT NULL DEFAULT CURRENT_TIMESTAMP(3),'',
     ''updated_at DATETIME(3) NOT NULL DEFAULT CURRENT_TIMESTAMP(3) ON UPDATE CURRENT_TIMESTAMP(3),'',
     ''UNIQUE KEY uk_org_provider (org_id, provider)'']"

definition ddl_audit_logs :: string where
  "ddl_audit_logs = table_ddl ''audit_logs''
    [''id VARCHAR(36) PRIMARY KEY,'',
     ''project_id VARCHAR(36),'',
     ''org_id VARCHAR(36) NOT NULL,'',
     ''user_id VARCHAR(36),'',
     ''user_email VARCHAR(255),'',
     ''resource_type VARCHAR(255) NOT NULL,'',
     ''resource_id VARCHAR(255) NOT NULL,'',
     ''action VARCHAR(255) NOT NULL,'',
     ''~before~ TEXT,'',
     ''~after~ TEXT,'',
     ''api_key_id VARCHAR(36),'',
     ''created_at DATETIME(3) NOT NULL DEFAULT CURRENT_TIMESTAMP(3),'',
     ''INDEX idx_org_created (org_id, created_at DESC)'']"

definition ddl_batch_exports :: string where
  "ddl_batch_exports = table_ddl ''batch_exports''
    [''id VARCHAR(36) PRIMARY KEY,'',
     ''project_id VARCHAR(36) NOT NULL,'',
     ''user_id VARCHAR(36) NOT NULL,'',
     ''name VARCHAR(255) NOT NULL,'',
     ''query JSON NOT NULL,'',
     ''status VARCHAR(50) NOT NULL DEFAULT ^PENDING^,'',
     ''created_at DATETIME(3) NOT NULL DEFAULT CURRENT_TIMESTAMP(3),'',
     ''updated_at DATETIME(3) NOT NULL DEFAULT CURRENT_TIMESTAMP(3) ON UPDATE CURRENT_TIMESTAMP(3),'',
     ''finished_at DATETIME(3),'',
     ''INDEX idx_project_status (project_id, status)'']"

definition ddl_cron_jobs :: string where
  "ddl_cron_jobs = table_ddl ''cron_jobs''
    [''name VARCHAR(255) PRIMARY KEY,'',
     ''locked_at DATETIME(3),'',
     ''created_at DATETIME(3) NOT NULL DEFAULT CURRENT_TIMESTAMP(3),'',
     ''updated_at DATETIME(3) NOT NULL DEFAULT CURRENT_TIMESTAMP(3) ON UPDATE CURRENT_TIMESTAMP(3)'']"

definition ddl_media :: string where
  "ddl_media = table_ddl ''media''
    [''id VARCHAR(36) NOT NULL,'',
     ''project_id VARCHAR(36) NOT NULL,'',
     ''content_type VARCHAR(255) NOT NULL,'',
     ''content_length BIGINT,'',
     ''upload_url TEXT,'',
     ''sha256_hash CHAR(44),'',
     ''created_at DATETIME(3) NOT NULL DEFAULT CURRENT_TIMESTAMP(3),'',
     ''updated_at DATETIME(3) NOT NULL DEFAULT CURRENT_TIMESTAMP(3) ON UPDATE CURRENT_TIMESTAMP(3),'',
     ''PRIMARY KEY (id, project_id),'',
     ''UNIQUE KEY uk_project_id (project_id, id),'',
     ''UNIQUE KEY uk_project_sha (project_id, sha256_hash)'']"

definition ddl_trace_media :: string where
  "ddl_trace_media = table_ddl ''trace_media''
    [''id VARCHAR(36) PRIMARY KEY,'',
     ''project_id VARCHAR(36) NOT NULL,'',
     ''trace_id VARCHAR(36) NOT NULL,'',
     ''media_id VARCHAR(36) NOT NULL,'',
     ''field VARCHAR(255) NOT NULL,'',
     ''created_at DATETIME(3) NOT NULL DEFAULT CURRENT_TIMESTAMP(3),'',
     ''UNIQUE KEY uk_project_trace_media_field (project_id, trace_id, media_id, field)'']"

definition ddl_observation_media :: string where
  "ddl_observation_media = table_ddl ''observation_media''
    [''id VARCHAR(36) PRIMARY KEY,'',
     ''project_id VARCHAR(36) NOT NULL,'',
     ''trace_id VARCHAR(36) NOT NULL,'',
     ''observation_id VARCHAR(36) NOT NULL,'',
     ''media_id VARCHAR(36) NOT NULL,'',
     ''field VARCHAR(255) NOT NULL,'',
     ''created_at DATETIME(3) NOT NULL DEFAULT CURRENT_TIMESTAMP(3),'',
     ''UNIQUE KEY uk_project_trace_obs_media_field (project_id, trace_id, observation_id, media_id, field)'']"

definition ddl_dashboards :: string where
  "ddl_dashboards = table_ddl ''dashboards''
    [''id VARCHAR(36) PRIMARY KEY,'',
     ''project_id VARCHAR(36) NOT NULL,'',
     ''name VARCHAR(255) NOT NULL,'',
     ''description TEXT,'',
     ''definition JSON NOT NULL,'',
     ''filters JSON,'',
     ''created_at DATETIME(3) NOT NULL DEFAULT CURRENT_TIMESTAMP(3),'',
     ''updated_at DATETIME(3) NOT NULL DEFAULT CURRENT_TIMESTAMP(3) ON UPDATE CURRENT_TIMESTAMP(3),'',
     ''INDEX idx_project_id (project_id)'']"

definition ddl_dashboard_widgets :: string where
  "ddl_dashboard_widgets = table_ddl ''dashboard_widgets''
    [''id VARCHAR(36) PRIMARY KEY,'',
     ''dashboard_id VARCHAR(36) NOT NULL,'',
     ''view VARCHAR(100) NOT NULL,'',
     ''title VARCHAR(255),'',
     ''description TEXT,'',
     ''chart_type VARCHAR(50),'',
     ''dimensions JSON,'',
     ''metrics JSON,'',
     ''filters JSON,'',
     ''chart_config JSON,'',
     ''created_at DATETIME(3) NOT NULL DEFAULT CURRENT_TIMESTAMP(3),'',
     ''updated_at DATETIME(3) NOT NULL DEFAULT CURRENT_TIMESTAMP(3) ON UPDATE CURRENT_TIMESTAMP(3),'',
     ''INDEX idx_dashboard_id (dashboard_id)'']"

definition ddl_table_view_presets :: string where
  "ddl_table_view_presets = table_ddl ''table_view_presets''
    [''id VARCHAR(36) PRIMARY KEY,'',
     ''project_id VARCHAR(36) NOT NULL,'',
     ''table_name VARCHAR(255) NOT NULL,'',
     ''name VARCHAR(255) NOT NULL,'',
     ''filters JSON,'',
     ''column_order JSON,'',
     ''column_visibility JSON,'',
     ''order_by JSON,'',
     ''created_at DATETIME(3) NOT NULL DEFAULT CURRENT_TIMESTAMP(3),'',
     ''updated_at DATETIME(3) NOT NULL DEFAULT CURRENT_TIMESTAMP(3) ON UPDATE CURRENT_TIMESTAMP(3),'',
     ''UNIQUE KEY uk_project_table_name (project_id, table_name, name)'']"

definition ddl_llm_api_keys :: string where
  "ddl_llm_api_keys = table_ddl ''llm_api_keys''
    [''id VARCHAR(36) PRIMARY KEY,'',
     ''project_id VARCHAR(36) NOT NULL,'',
     ''provider VARCHAR(255) NOT NULL,'',
     ''adapter VARCHAR(50),'',
     ''display_name VARCHAR(255),'',
     ''config JSON,'',
     ''custom_models JSON,'',
     ''extra_header_keys JSON,'',
     ''created_at DATETIME(3) NOT NULL DEFAULT CURRENT_TIMESTAMP(3),'',
     ''updated_at DATETIME(3) NOT NULL DEFAULT CURRENT_TIMESTAMP(3) ON UPDATE CURRENT_TIMESTAMP(3),'',
     ''UNIQUE KEY uk_project_provider (project_id, provider)'']"

definition ddl_default_llm_models :: string where
  "ddl_default_llm_models = table_ddl ''default_llm_models''
    [''id VARCHAR(36) PRIMARY KEY,'',
     ''project_id VARCHAR(36) NOT NULL,'',
     ''model_params JSON,'',
     ''created_at DATETIME(3) NOT NULL DEFAULT CURRENT_TIMESTAMP(3),'',
     ''updated_at DATETIME(3) NOT NULL DEFAULT CURRENT_TIMESTAMP(3) ON UPDATE CURRENT_TIMESTAMP(3),'',
     ''UNIQUE KEY uk_project_id (project_id)'']"

definition ddl_llm_schemas :: string where
  "ddl_llm_schemas = table_ddl ''llm_schemas''
    [''id VARCHAR(36) PRIMARY KEY,'',
     ''project_id VARCHAR(36) NOT NULL,'',
     ''name VARCHAR(255) NOT NULL,'',
     ''~schema~ JSON NOT NULL,'',
     ''created_at DATETIME(3) NOT NULL DEFAULT CURRENT_TIMESTAMP(3),'',
     ''updated_at DATETIME(3) NOT NULL DEFAULT CURRENT_TIMESTAMP(3) ON UPDATE CURRENT_TIMESTAMP(3),'',
     ''UNIQUE KEY uk_project_name (project_id, name)'']"

definition ddl_llm_tools :: string where
  "ddl_llm_tools = table_ddl ''llm_tools''
    [''id VARCHAR(36) PRIMARY KEY,'',
     ''project_id VARCHAR(36) NOT NULL,'',
     ''name VARCHAR(255) NOT NULL,'',
     ''description TEXT,'',
     ''parameters JSON NOT NULL,'',
     ''created_at DATETIME(3) NOT NULL DEFAULT CURRENT_TIMESTAMP(3),'',
     ''updated_at DATETIME(3) NOT NULL DEFAULT CURRENT_TIMESTAMP(3) ON UPDATE CURRENT_TIMESTAMP(3),'',
     ''UNIQUE KEY uk_project_name (project_id, name)'']"

definition ddl_posthog_integrations :: string where
  "ddl_posthog_integrations = table_ddl ''posthog_integrations''
    [''id VARCHAR(36) PRIMARY KEY,'',
     ''project_id VARCHAR(36) NOT NULL,'',
     ''display_name VARCHAR(255) NOT NULL,'',
     ''integration_type VARCHAR(50) NOT NULL,'',
     ''integration_config JSON NOT NULL,'',
     ''created_at DATETIME(3) NOT NULL DEFAULT CURRENT_TIMESTAMP(3),'',
     ''updated_at DATETIME(3) NOT NULL DEFAULT CURRENT_TIMESTAMP(3) ON UPDATE CURRENT_TIMESTAMP(3),'',
     ''UNIQUE KEY uk_project_type (project_id, integration_type)'']"

definition ddl_mixpanel_integrations :: string where
  "ddl_mixpanel_integrations = table_ddl ''mixpanel_integrations''
    [''id VARCHAR(36) PRIMARY KEY,'',
     ''project_id VARCHAR(36) NOT NULL,'',
     ''display_name VARCHAR(255) NOT NULL,'',
     ''integration_type VARCHAR(50) NOT NULL,'',
     ''integration_config JSON NOT NULL,'',
     ''created_at DATETIME(3) NOT NULL DEFAULT CURRENT_TIMESTAMP(3),'',
     ''updated_at DATETIME(3) NOT NULL DEFAULT CURRENT_TIMESTAMP(3) ON UPDATE CURRENT_TIMESTAMP(3),'',
     ''UNIQUE KEY uk_project_type (project_id, integration_type)'']"

definition ddl_blob_storage_integrations :: string where
  "ddl_blob_storage_integrations = table_ddl ''blob_storage_integrations''
    [''id VARCHAR(36) PRIMARY KEY,'',
     ''project_id VARCHAR(36) NOT NULL,'',
     ''display_name VARCHAR(255) NOT NULL,'',
     ''type VARCHAR(50) NOT NULL,'',
     ''config JSON NOT NULL,'',
     ''last_log_at DATETIME(3),'',
     ''created_at DATETIME(3) NOT NULL DEFAULT CURRENT_TIMESTAMP(3),'',
     ''updated_at DATETIME(3) NOT NULL DEFAULT CURRENT_TIMESTAMP(3) ON UPDATE CURRENT_TIMESTAMP(3),'',
     ''INDEX idx_project_id (project_id)'']"

definition ddl_slack_integrations :: string where
  "ddl_slack_integrations = table_ddl ''slack_integrations''
    [''id VARCHAR(36) PRIMARY KEY,'',
     ''project_id VARCHAR(36) NOT NULL,'',
     ''display_name VARCHAR(255),'',
     ''integration_type VARCHAR(50) NOT NULL,'',
     ''integration_config JSON NOT NULL,'',
     ''created_at DATETIME(3) NOT NULL DEFAULT CURRENT_TIMESTAMP(3),'',
     ''updated_at DATETIME(3) NOT NULL DEFAULT CURRENT_TIMESTAMP(3) ON UPDATE CURRENT_TIMESTAMP(3),'',
     ''UNIQUE KEY uk_project_type (project_id, integration_type)'']"

definition ddl_actions :: string where
  "ddl_actions = table_ddl ''actions''
    [''id VARCHAR(36) PRIMARY KEY,'',
     ''project_id VARCHAR(36) NOT NULL,'',
     ''type VARCHAR(50) NOT NULL,'',
     ''config JSON NOT NULL,'',
     ''created_at DATETIME(3) NOT NULL DEFAULT CURRENT_TIMESTAMP(3),'',
     ''updated_at DATETIME(3) NOT NULL DEFAULT CURRENT_TIMESTAMP(3) ON UPDATE CURRENT_TIMESTAMP(3),'',
     ''INDEX idx_project_type (project_id, type)'']"

definition ddl_triggers :: string where
  "ddl_triggers = table_ddl ''triggers''
    [''id VARCHAR(36) PRIMARY KEY,'',
     ''project_id VARCHAR(36) NOT NULL,'',
     ''event_type VARCHAR(100) NOT NULL,'',
     ''event_actions JSON,'',
     ''filter JSON,'',
     ''created_at DATETIME(3) NOT NULL DEFAULT CURRENT_TIMESTAMP(3),'',
     ''updated_at DATETIME(3) NOT NULL DEFAULT CURRENT_TIMESTAMP(3) ON UPDATE CURRENT_TIMESTAMP(3),'',
     ''INDEX idx_project_event (project_id, event_type)'']"

definition ddl_automations :: string where
  "ddl_automations = table_ddl ''automations''
    [''id VARCHAR(36) PRIMARY KEY,'',
     ''project_id VARCHAR(36) NOT NULL,'',
     ''trigger_id VARCHAR(36) NOT NULL,'',
     ''action_id VARCHAR(36) NOT NULL,'',
     ''name VARCHAR(255),'',
     ''created_at DATETIME(3) NOT NULL DEFAULT CURRENT_TIMESTAMP(3),'',
     ''updated_at DATETIME(3) NOT NULL DEFAULT CURRENT_TIMESTAMP(3) ON UPDATE CURRENT_TIMESTAMP(3),'',
     ''INDEX idx_project_id (project_id)'']"

definition ddl_automation_executions :: string where
  "ddl_automation_executions = table_ddl ''automation_executions''
    [''id VARCHAR(36) PRIMARY KEY,'',
     ''automation_id VARCHAR(36) NOT NULL,'',
     ''status VARCHAR(50) NOT NULL,'',
     ''input JSON,'',
     ''output JSON,'',
     ''error TEXT,'',
     ''created_at DATETIME(3) NOT NULL DEFAULT CURRENT_TIMESTAMP(3),'',
     ''INDEX idx_automation_id (automation_id)'']"

definition ddl_annotation_queues :: string where
  "ddl_annotation_queues = table_ddl ''annotation_queues''
    [''id VARCHAR(36) PRIMARY KEY,'',
     ''project_id VARCHAR(36) NOT NULL,'',
     ''name VARCHAR(255) NOT NULL,'',
     ''description TEXT,'',
     ''score_config_ids JSON,'',
     ''created_at DATETIME(3) NOT NULL DEFAULT CURRENT_TIMESTAMP(3),'',
     ''updated_at DATETIME(3) NOT NULL DEFAULT CURRENT_TIMESTAMP(3) ON UPDATE CURRENT_TIMESTAMP(3),'',
     ''UNIQUE KEY uk_project_name (project_id, name)'']"

definition ddl_annotation_queue_items :: string where
  "ddl_annotation_queue_items = table_ddl ''annotation_queue_items''
    [''id VARCHAR(36) PRIMARY KEY,'',
     ''project_id VARCHAR(36) NOT NULL,'',
     ''queue_id VARCHAR(36) NOT NULL,'',
     ''object_type VARCHAR(50) NOT NULL,'',
     ''object_id VARCHAR(36) NOT NULL,'',
     ''status VARCHAR(50) NOT NULL DEFAULT ^PENDING^,'',
     ''created_at DATETIME(3) NOT NULL DEFAULT CURRENT_TIMESTAMP(3),'',
     ''updated_at DATETIME(3) NOT NULL DEFAULT CURRENT_TIMESTAMP(3) ON UPDATE CURRENT_TIMESTAMP(3),'',
     ''UNIQUE KEY uk_project_queue_object (project_id, queue_id, object_type, object_id),'',
     ''INDEX idx_project_queue_status (project_id, queue_id, status)'']"

definition ddl_annotation_queue_assignments :: string where
  "ddl_annotation_queue_assignments = table_ddl ''annotation_queue_assignments''
    [''id VARCHAR(36) PRIMARY KEY,'',
     ''project_id VARCHAR(36) NOT NULL,'',
     ''queue_id VARCHAR(36) NOT NULL,'',
     ''user_id VARCHAR(36) NOT NULL,'',
     ''created_at DATETIME(3) NOT NULL DEFAULT CURRENT_TIMESTAMP(3),'',
     ''UNIQUE KEY uk_project_queue_user (project_id, queue_id, user_id)'']"

definition ddl_eval_templates :: string where
  "ddl_eval_templates = table_ddl ''eval_templates''
    [''id VARCHAR(36) PRIMARY KEY,'',
     ''project_id VARCHAR(36) NOT NULL,'',
     ''name VARCHAR(255) NOT NULL,'',
     ''variable_mapping JSON NOT NULL,'',
     ''vars JSON NOT NULL,'',
     ''output_schema JSON NOT NULL,'',
     ''provider VARCHAR(255) NOT NULL,'',
     ''model VARCHAR(255) NOT NULL,'',
     ''model_params JSON,'',
     ''created_at DATETIME(3) NOT NULL DEFAULT CURRENT_TIMESTAMP(3),'',
     ''updated_at DATETIME(3) NOT NULL DEFAULT CURRENT_TIMESTAMP(3) ON UPDATE CURRENT_TIMESTAMP(3),'',
     ''UNIQUE KEY uk_project_name (project_id, name)'']"

definition ddl_job_configurations :: string where
  "ddl_job_configurations = table_ddl ''job_configurations''
    [''id VARCHAR(36) PRIMARY KEY,'',
     ''project_id VARCHAR(36) NOT NULL,'',
     ''job_type VARCHAR(50) NOT NULL,'',
     ''status VARCHAR(50) NOT NULL,'',
     ''eval_template_id VARCHAR(36) NOT NULL,'',
     ''target_object VARCHAR(50) NOT NULL,'',
     ''filter JSON NOT NULL,'',
     ''variable_mapping JSON NOT NULL,'',
     ''time_scope JSON NOT NULL,'',
     ''delay DECIMAL(10,2),'',
     ''created_at DATETIME(3) NOT NULL DEFAULT CURRENT_TIMESTAMP(3),'',
     ''updated_at DATETIME(3) NOT NULL DEFAULT CURRENT_TIMESTAMP(3) ON UPDATE CURRENT_TIMESTAMP(3),'',
     ''INDEX idx_project_status (project_id, status)'']"

definition ddl_job_executions :: string where
  "ddl_job_executions = table_ddl ''job_executions''
    [''id VARCHAR(36) PRIMARY KEY,'',
     ''project_id VARCHAR(36) NOT NULL,'',
     ''job_configuration_id VARCHAR(36) NOT NULL,'',
     ''status VARCHAR(50) NOT NULL,'',
     ''start_time DATETIME(3) NOT NULL,'',
     ''end_time DATETIME(3),'',
     ''error TEXT,'',
     ''created_at DATETIME(3) NOT NULL DEFAULT CURRENT_TIMESTAMP(3),'',
     ''updated_at DATETIME(3) NOT NULL DEFAULT CURRENT_TIMESTAMP(3) ON UPDATE CURRENT_TIMESTAMP(3),'',
     ''INDEX idx_project_job (project_id, job_configuration_id)'']"

definition ddl_surveys :: string where
  "ddl_surveys = table_ddl ''surveys''
    [''id VARCHAR(36) PRIMARY KEY,'',
     ''name VARCHAR(255) NOT NULL,'',
     ''project_id VARCHAR(36) NOT NULL,'',
     ''response JSON NOT NULL,'',
     ''created_at DATETIME(3) NOT NULL DEFAULT CURRENT_TIMESTAMP(3),'',
     ''INDEX idx_project_name (project_id, name)'']"

definition ddl_billing_meter_backups :: string where
  "ddl_billing_meter_backups = table_ddl ''billing_meter_backups''
    [''id VARCHAR(36) PRIMARY KEY,'',
     ''stripe_meter_id VARCHAR(255) NOT NULL,'',
     ''value DECIMAL(65,30) NOT NULL,'',
     ''timestamp DATETIME(3) NOT NULL,'',
     ''created_at DATETIME(3) NOT NULL DEFAULT CURRENT_TIMESTAMP(3),'',
     ''INDEX idx_stripe_meter (stripe_meter_id)'']"

definition ddl_cloud_spend_alerts :: string where
  "ddl_cloud_spend_alerts = table_ddl ''cloud_spend_alerts''
    [''id VARCHAR(36) PRIMARY KEY,'',
     ''project_id VARCHAR(36) NOT NULL,'',
     ''threshold DECIMAL(65,30) NOT NULL,'',
     ''recipient_email VARCHAR(255) NOT NULL,'',
     ''created_at DATETIME(3) NOT NULL DEFAULT CURRENT_TIMESTAMP(3),'',
     ''INDEX idx_project_id (project_id)'']"

definition ddl_background_migrations :: string where
  "ddl_background_migrations = table_ddl ''background_migrations''
    [''id VARCHAR(36) PRIMARY KEY,'',
     ''migration_name VARCHAR(255) NOT NULL UNIQUE,'',
     ''state JSON,'',
     ''args JSON,'',
     ''status VARCHAR(50) NOT NULL DEFAULT ^PENDING^,'',
     ''created_at DATETIME(3) NOT NULL DEFAULT CURRENT_TIMESTAMP(3),'',
     ''updated_at DATETIME(3) NOT NULL DEFAULT CURRENT_TIMESTAMP(3) ON UPDATE CURRENT_TIMESTAMP(3),'',
     ''finished_at DATETIME(3)'']"

definition ddl_batch_actions :: string where
  "ddl_batch_actions = table_ddl ''batch_actions''
    [''id VARCHAR(36) PRIMARY KEY,'',
     ''project_id VARCHAR(36) NOT NULL,'',
     ''user_id VARCHAR(36) NOT NULL,'',
     ''action VARCHAR(255) NOT NULL,'',
     ''query JSON NOT NULL,'',
     ''config JSON,'',
     ''status VARCHAR(50) NOT NULL DEFAULT ^PENDING^,'',
     ''created_at DATETIME(3) NOT NULL DEFAULT CURRENT_TIMESTAMP(3),'',
     ''updated_at DATETIME(3) NOT NULL DEFAULT CURRENT_TIMESTAMP(3) ON UPDATE CURRENT_TIMESTAMP(3),'',
     ''finished_at DATETIME(3),'',
     ''INDEX idx_project_status (project_id, status)'']"

definition ddl_prompt_dependencies :: string where
  "ddl_prompt_dependencies = table_ddl ''prompt_dependencies''
    [''id VARCHAR(36) PRIMARY KEY,'',
     ''parent_prompt_id VARCHAR(36) NOT NULL,'',
     ''child_prompt_id VARCHAR(36) NOT NULL,'',
     ''project_id VARCHAR(36) NOT NULL,'',
     ''created_at DATETIME(3) NOT NULL DEFAULT CURRENT_TIMESTAMP(3),'',
     ''INDEX idx_parent (parent_prompt_id),'',
     ''INDEX idx_child (child_prompt_id)'']"

definition ddl_prompt_protected_labels :: string where
  "ddl_prompt_protected_labels = table_ddl ''prompt_protected_labels''
    [''id VARCHAR(36) PRIMARY KEY,'',
     ''project_id VARCHAR(36) NOT NULL,'',
     ''label VARCHAR(255) NOT NULL,'',
     ''created_at DATETIME(3) NOT NULL DEFAULT CURRENT_TIMESTAMP(3),'',
     ''UNIQUE KEY uk_project_label (project_id, label)'']"

definition ddl_membership_invitations :: string where
  "ddl_membership_invitations = table_ddl ''membership_invitations''
    [''id VARCHAR(36) PRIMARY KEY,'',
     ''org_id VARCHAR(36) NOT NULL,'',
     ''email VARCHAR(255) NOT NULL,'',
     ''role VARCHAR(50) NOT NULL,'',
     ''inviter_id VARCHAR(36) NOT NULL,'',
     ''expires_at DATETIME(3) NOT NULL,'',
     ''created_at DATETIME(3) NOT NULL DEFAULT CURRENT_TIMESTAMP(3),'',
     ''UNIQUE KEY uk_email_org (email, org_id)'']"

definition ddl_prisma_migrations :: string where
  "ddl_prisma_migrations = table_ddl ''_prisma_migrations''
    [''id VARCHAR(36) PRIMARY KEY,'',
     ''checksum VARCHAR(255) NOT NULL,'',
     ''finished_at DATETIME(3),'',
     ''migration_name VARCHAR(255) NOT NULL,'',
     ''logs TEXT,'',
     ''rolled_back_at DATETIME(3),'',
     ''applied_steps_count INT NOT NULL DEFAULT 0,'',
     ''applied_at DATETIME(3) NOT NULL DEFAULT CURRENT_TIMESTAMP(3)'']"

definition oltpDDLs :: "string list" where
  "oltpDDLs =
    [ddl_accounts, ddl_sessions, ddl_users, ddl_verification_tokens, ddl_organizations, ddl_projects,
     ddl_organization_memberships, ddl_project_memberships, ddl_api_keys, ddl_trace_sessions,
     ddl_prompts, ddl_models, ddl_prices, ddl_pricing_tiers, ddl_datasets, ddl_dataset_items,
     ddl_dataset_runs, ddl_dataset_run_items, ddl_scores, ddl_score_configs, ddl_comments,
     ddl_comment_reactions, ddl_notifications, ddl_notification_preferences, ddl_sso_configs,
     ddl_audit_logs, ddl_batch_exports, ddl_cron_jobs, ddl_media, ddl_trace_media, ddl_observation_media,
     ddl_dashboards, ddl_dashboard_widgets, ddl_table_view_presets, ddl_llm_api_keys,
     ddl_default_llm_models, ddl_llm_schemas, ddl_llm_tools, ddl_posthog_integrations,
     ddl_mixpanel_integrations, ddl_blob_storage_integrations, ddl_slack_integrations, ddl_actions,
     ddl_triggers, ddl_automations, ddl_automation_executions, ddl_annotation_queues,
     ddl_annotation_queue_items, ddl_annotation_queue_assignments, ddl_eval_templates,
     ddl_job_configurations, ddl_job_executions, ddl_surveys, ddl_billing_meter_backups,
     ddl_cloud_spend_alerts, ddl_background_migrations, ddl_batch_actions, ddl_prompt_dependencies,
     ddl_prompt_protected_labels, ddl_membership_invitations, ddl_prisma_migrations]"

section \<open>Tables and views of the analytics database\<close>

definition ddl_traces :: string where
  "ddl_traces = table_ddl ''traces''
    [''id VARCHAR(36) NOT NULL,'',
     ''timestamp DATETIME(3) NOT NULL,'',
     ''~name~ VARCHAR(255),'',
     ''user_id VARCHAR(36),'',
     ''metadata JSON,'',
     ''~release~ VARCHAR(255),'',
     ''~version~ VARCHAR(255),'',
     ''project_id VARCHAR(36) NOT NULL,'',
     ''public TINYINT(1) NOT NULL DEFAULT 0,'',
     ''bookmarked TINYINT(1) NOT NULL DEFAULT 0,'',
     ''tags JSON,'',
     ''input LONGTEXT,'',
     ''output LONGTEXT,'',
     ''session_id VARCHAR(36),'',
     ''environment VARCHAR(255) NOT NULL DEFAULT ^default^,'',
     ''created_at DATETIME(3) NOT NULL,'',
     ''updated_at DATETIME(3) NOT NULL,'',
     ''event_ts DATETIME(3) NOT NULL,'',
     ''is_deleted TINYINT(1) NOT NULL DEFAULT 0,'',
     ''PRIMARY KEY (id, project_id),'',
     ''INDEX idx_project_id (project_id),'',
     ''INDEX idx_timestamp (timestamp DESC),'',
     ''INDEX idx_project_timestamp (project_id, timestamp DESC),'',
     ''INDEX idx_session_id (project_id, session_id),'',
     ''INDEX idx_user_id (project_id, user_id),'',
     ''INDEX idx_environment (project_id, environment),'',
     ''INDEX idx_tags ((CAST(JSON_EXTRACT(tags, ^$[*]^) AS CHAR(255) ARRAY)))'']"

definition ddl_observations :: string where
  "ddl_observations = table_ddl ''observations''
    [''id VARCHAR(36) NOT NULL,'',
     ''trace_id VARCHAR(36),'',
     ''project_id VARCHAR(36) NOT NULL,'',
     ''type VARCHAR(50) NOT NULL,'',
     ''parent_observation_id VARCHAR(36),'',
     ''start_time DATETIME(3) NOT NULL,'',
     ''end_time DATETIME(3),'',
     ''name VARCHAR(255),'',
     ''metadata JSON,'',
     ''level VARCHAR(50) NOT NULL DEFAULT ^DEFAULT^,'',
     ''status_message TEXT,'',
     ''version VARCHAR(255),'',
     ''input LONGTEXT,'',
     ''output LONGTEXT,'',
     ''provided_model_name VARCHAR(255),'',
     ''internal_model_id VARCHAR(36),'',
     ''model_parameters JSON,'',
     ''provided_usage_details JSON,'',
     ''usage_details JSON,'',
     ''provided_cost_details JSON,'',
     ''cost_details JSON,'',
     ''total_cost DECIMAL(65,30),'',
     ''completion_start_time DATETIME(3),'',
     ''prompt_id VARCHAR(36),'',
     ''prompt_name VARCHAR(255),'',
     ''prompt_version INT,'',
     ''environment VARCHAR(255) NOT NULL DEFAULT ^default^,'',
     ''usage_pricing_tier_id VARCHAR(36),'',
     ''usage_pricing_tier_name VARCHAR(255),'',
     ''tool_definitions JSON,'',
     ''tool_calls JSON,'',
     ''tool_call_names JSON,'',
     ''event_ts DATETIME(3) NOT NULL,'',
     ''is_deleted TINYINT(1) NOT NULL DEFAULT 0,'',
     ''created_at DATETIME(3) NOT NULL,'',
     ''updated_at DATETIME(3) NOT NULL,'',
     ''PRIMARY KEY (id, project_id),'',
     ''INDEX idx_project_id (project_id),'',
     ''INDEX idx_trace_id (project_id, trace_id),'',
     ''INDEX idx_project_trace (project_id, trace_id),'',
     ''INDEX idx_project_type (project_id, type),'',
     ''INDEX idx_project_timestamp (project_id, start_time DESC),'',
     ''INDEX idx_prompt_name (project_id, prompt_name, prompt_version),'',
     ''INDEX idx_environment (project_id, environment)'']"

definition ddl_ch_scores :: string where
  "ddl_ch_scores = table_ddl ''ch_scores''
    [''id VARCHAR(36) NOT NULL,'',
     ''timestamp DATETIME(3) NOT NULL,'',
     ''project_id VARCHAR(36) NOT NULL,'',
     ''trace_id VARCHAR(36),'',
     ''observation_id VARCHAR(36),'',
     ''name VARCHAR(255) NOT NULL,'',
     ''value DECIMAL(65,30),'',
     ''source VARCHAR(50) NOT NULL,'',
     ''comment TEXT,'',
     ''author_user_id VARCHAR(36),'',
     ''config_id VARCHAR(36),'',
     ''data_type VARCHAR(50) NOT NULL,'',
     ''string_value TEXT,'',
     ''long_string_value LONGTEXT,'',
     ''queue_id VARCHAR(36),'',
     ''session_id VARCHAR(36),'',
     ''dataset_run_id VARCHAR(36),'',
     ''execution_trace_id VARCHAR(36),'',
     ''metadata JSON,'',
     ''environment VARCHAR(255) NOT NULL DEFAULT ^default^,'',
     ''event_ts DATETIME(3) NOT NULL,'',
     ''is_deleted TINYINT(1) NOT NULL DEFAULT 0,'',
     ''created_at DATETIME(3) NOT NULL,'',
     ''updated_at DATETIME(3) NOT NULL,'',
     ''PRIMARY KEY (id, project_id),'',
     ''INDEX idx_project_id (project_id),'',
     ''INDEX idx_timestamp (timestamp DESC),'',
     ''INDEX idx_project_timestamp (project_id, timestamp DESC),'',
     ''INDEX idx_project_trace (project_id, trace_id),'',
     ''INDEX idx_project_observation (project_id, observation_id),'',
     ''INDEX idx_project_name (project_id, name),'',
     ''INDEX idx_project_session (project_id, session_id),'',
     ''INDEX idx_project_dataset_run (project_id, dataset_run_id),'',
     ''INDEX idx_project_config (project_id, config_id),'',
     ''INDEX idx_project_trace_obs (project_id, trace_id, observation_id)'']"

definition ddl_event_log :: string where
  "ddl_event_log = table_ddl ''event_log''
    [''id VARCHAR(36) NOT NULL,'',
     ''timestamp DATETIME(3) NOT NULL,'',
     ''event_type VARCHAR(100) NOT NULL,'',
     ''project_id VARCHAR(36) NOT NULL,'',
     ''payload JSON,'',
     ''event_ts DATETIME(3) NOT NULL,'',
     ''created_at DATETIME(3) NOT NULL,'',
     ''PRIMARY KEY (id, project_id),'',
     ''INDEX idx_project_timestamp (project_id, timestamp DESC)'']"

definition ddl_blob_storage_file_log :: string where
  "ddl_blob_storage_file_log = table_ddl ''blob_storage_file_log''
    [''id VARCHAR(36) NOT NULL,'',
     ''project_id VARCHAR(36) NOT NULL,'',
     ''file_path VARCHAR(1024) NOT NULL,'',
     ''file_size BIGINT,'',
     ''content_type VARCHAR(255),'',
     ''created_at DATETIME(3) NOT NULL,'',
     ''event_ts DATETIME(3) NOT NULL,'',
     ''is_deleted TINYINT(1) NOT NULL DEFAULT 0,'',
     ''PRIMARY KEY (id, project_id),'',
     ''INDEX idx_project_path (project_id, file_path(255)),'',
     ''INDEX idx_project_timestamp (project_id, created_at DESC)'']"

definition ddl_ch_dataset_run_items :: string where
  "ddl_ch_dataset_run_items = table_ddl ''ch_dataset_run_items''
    [''id VARCHAR(36) NOT NULL,'',
     ''project_id VARCHAR(36) NOT NULL,'',
     ''dataset_run_id VARCHAR(36) NOT NULL,'',
     ''dataset_run_name VARCHAR(255) NOT NULL,'',
     ''dataset_item_id VARCHAR(36) NOT NULL,'',
     ''trace_id VARCHAR(36),'',
     ''dataset_run_metadata JSON,'',
     ''dataset_item_metadata JSON,'',
     ''created_at DATETIME(3) NOT NULL,'',
     ''event_ts DATETIME(3) NOT NULL,'',
     ''is_deleted TINYINT(1) NOT NULL DEFAULT 0,'',
     ''PRIMARY KEY (id, project_id),'',
     ''INDEX idx_project_run (project_id, dataset_run_id),'',
     ''INDEX idx_project_item (project_id, dataset_item_id),'',
     ''INDEX idx_project_trace (project_id, trace_id)'']"

definition ddl_traces_all_amt :: string where
  "ddl_traces_all_amt = table_ddl ''traces_all_amt''
    [''project_id VARCHAR(36) NOT NULL,'',
     ''start_time DATETIME(3) NOT NULL,'',
     ''end_time DATETIME(3),'',
     ''min_start_time DATETIME(3),'',
     ''max_end_time DATETIME(3),'',
     ''trace_count BIGINT NOT NULL,'',
     ''unique_users JSON,'',
     ''unique_sessions JSON,'',
     ''unique_names JSON,'',
     ''sum_input_cost DECIMAL(65,30),'',
     ''sum_total_cost DECIMAL(65,30),'',
     ''sum_output_cost DECIMAL(65,30),'',
     ''input_units BIGINT,'',
     ''output_units BIGINT,'',
     ''total_units BIGINT,'',
     ''levels JSON,'',
     ''bookmarks BIGINT,'',
     ''environments JSON,'',
     ''PRIMARY KEY (project_id, start_time),'',
     ''INDEX idx_project_start (project_id, start_time DESC)'']"

definition ddl_traces_7d_amt :: string where
  "ddl_traces_7d_amt = table_ddl ''traces_7d_amt''
    [''project_id VARCHAR(36) NOT NULL,'',
     ''start_time DATETIME(3) NOT NULL,'',
     ''end_time DATETIME(3),'',
     ''min_start_time DATETIME(3),'',
     ''max_end_time DATETIME(3),'',
     ''trace_count BIGINT NOT NULL,'',
     ''unique_users JSON,'',
     ''unique_sessions JSON,'',
     ''unique_names JSON,'',
     ''sum_input_cost DECIMAL(65,30),'',
     ''sum_total_cost DECIMAL(65,30),'',
     ''sum_output_cost DECIMAL(65,30),'',
     ''input_units BIGINT,'',
     ''output_units BIGINT,'',
     ''total_units BIGINT,'',
     ''levels JSON,'',
     ''bookmarks BIGINT,'',
     ''environments JSON,'',
     ''PRIMARY KEY (project_id, start_time),'',
     ''INDEX idx_project_start (project_id, start_time DESC)'']"

definition ddl_traces_30d_amt :: string where
  "ddl_traces_30d_amt = table_ddl ''traces_30d_amt''
    [''project_id VARCHAR(36) NOT NULL,'',
     ''start_time DATETIME(3) NOT NULL,'',
     ''end_time DATETIME(3),'',
     ''min_start_time DATETIME(3),'',
     ''max_end_time DATETIME(3),'',
     ''trace_count BIGINT NOT NULL,'',
     ''unique_users JSON,'',
     ''unique_sessions JSON,'',
     ''unique_names JSON,'',
     ''sum_input_cost DECIMAL(65,30),'',
     ''sum_total_cost DECIMAL(65,30),'',
     ''sum_output_cost DECIMAL(65,30),'',
     ''input_units BIGINT,'',
     ''output_units BIGINT,'',
     ''total_units BIGINT,'',
     ''levels JSON,'',
     ''bookmarks BIGINT,'',
     ''environments JSON,'',
     ''PRIMARY KEY (project_id, start_time),'',
     ''INDEX idx_project_start (project_id, start_time DESC)'']"

definition ddl_analytics_traces :: string where
  "ddl_analytics_traces = view_ddl ''analytics_traces''
    [tabs 1 @ ''SELECT'',
     tabs 2 @ ''DATE_FORMAT(timestamp, ^%Y-%m-%d %H:00:00^) AS hour,'',
     tabs 2 @ ''project_id,'',
     tabs 2 @ ''COUNT(*) AS trace_count,'',
     tabs 2 @ ''COUNT(DISTINCT user_id) AS unique_users,'',
     tabs 2 @ ''COUNT(DISTINCT session_id) AS unique_sessions,'',
     tabs 2 @ ''MAX(updated_at) AS max_end_time,'',
     tabs 2 @ ''MIN(timestamp) AS min_start_time'',
     tabs 1 @ ''FROM traces'',
     tabs 1 @ ''GROUP BY hour, project_id'']"

definition ddl_analytics_observations :: string where
  "ddl_analytics_observations = view_ddl ''analytics_observations''
    [tabs 1 @ ''SELECT'',
     tabs 2 @ ''DATE_FORMAT(start_time, ^%Y-%m-%d %H:00:00^) AS hour,'',
     tabs 2 @ ''project_id,'',
     tabs 2 @ ''type,'',
     tabs 2 @ ''COUNT(*) AS observation_count'',
     tabs 1 @ ''FROM observations'',
     tabs 1 @ ''GROUP BY hour, project_id, type'']"

definition ddl_analytics_scores :: string where
  "ddl_analytics_scores = view_ddl ''analytics_scores''
    [tabs 1 @ ''SELECT'',
     tabs 2 @ ''DATE_FORMAT(timestamp, ^%Y-%m-%d %H:00:00^) AS hour,'',
     tabs 2 @ ''project_id,'',
     tabs 2 @ ''name,'',
     tabs 2 @ ''data_type,'',
     tabs 2 @ ''COUNT(*) AS score_count'',
     tabs 1 @ ''FROM ch_scores'',
     tabs 1 @ ''GROUP BY hour, project_id, name, data_type'']"

definition ddl_scores_numeric :: string where
  "ddl_scores_numeric = view_ddl ''scores_numeric''
    [tabs 1 @ ''SELECT * FROM ch_scores WHERE data_type = ^NUMERIC^'']"

definition ddl_scores_categorical :: string where
  "ddl_scores_categorical = view_ddl ''scores_categorical''
    [tabs 1 @ ''SELECT * FROM ch_scores WHERE data_type = ^CATEGORICAL^'']"

definition olapDDLs :: "string list" where
  "olapDDLs =
    [ddl_traces, ddl_observations, ddl_ch_scores, ddl_event_log, ddl_blob_storage_file_log,
     ddl_ch_dataset_run_items, ddl_traces_all_amt, ddl_traces_7d_amt, ddl_traces_30d_amt,
     ddl_analytics_traces, ddl_analytics_observations, ddl_analytics_scores, ddl_scores_numeric,
     ddl_scores_categorical]"

section \<open>Tables named like the PostgreSQL catalog\<close>

definition ddl_pg_type :: string where
  "ddl_pg_type = table_ddl ''pg_type''
    [''oid INT NOT NULL PRIMARY KEY,'',
     ''typname VARCHAR(255) NOT NULL,'',
     ''typnamespace INT NOT NULL DEFAULT 11,'',
     ''typtype CHAR(1) NOT NULL DEFAULT ^b^,'',
     ''typcategory CHAR(1) NOT NULL DEFAULT ^S^,'',
     ''typrelid INT NOT NULL DEFAULT 0,'',
     ''typelem INT NOT NULL DEFAULT 0,'',
     ''typarray INT NOT NULL DEFAULT 0,'',
     ''typinput VARCHAR(255) NOT NULL DEFAULT ^-^,'',
     ''typoutput VARCHAR(255) NOT NULL DEFAULT ^-^,'',
     ''typreceive VARCHAR(255) NOT NULL DEFAULT ^-^,'',
     ''typsend VARCHAR(255) NOT NULL DEFAULT ^-^,'',
     ''typmod_in VARCHAR(255) NOT NULL DEFAULT ^-^,'',
     ''typmod_out VARCHAR(255) NOT NULL DEFAULT ^-^,'',
     ''typalign CHAR(1) NOT NULL DEFAULT ^i^,'',
     ''typstorage CHAR(1) NOT NULL DEFAULT ^p^,'',
     ''typnotnull TINYINT(1) NOT NULL DEFAULT 0,'',
     ''typbasetype INT NOT NULL DEFAULT 0,'',
     ''typtypmod INT NOT NULL DEFAULT -1,'',
     ''typndims INT NOT NULL DEFAULT 0,'',
     ''typcollation INT NOT NULL DEFAULT 0,'',
     ''typdefaultbin TEXT,'',
     ''typdefault TEXT,'',
     ''typacl TEXT'']"

definition ddl_pg_class :: string where
  "ddl_pg_class = table_ddl ''pg_class''
    [''oid INT NOT NULL PRIMARY KEY,'',
     ''relname VARCHAR(255) NOT NULL,'',
     ''relnamespace INT NOT NULL DEFAULT 2200,'',
     ''reltype INT NOT NULL DEFAULT 0,'',
     ''reloftype INT NOT NULL DEFAULT 0,'',
     ''relowner INT NOT NULL DEFAULT 0,'',
     ''relam INT NOT NULL DEFAULT 0,'',
     ''relfilenode INT NOT NULL DEFAULT 0,'',
     ''reltablespace INT NOT NULL DEFAULT 0,'',
     ''relpages INT NOT NULL DEFAULT 0,'',
     ''reltuples FLOAT NOT NULL DEFAULT 0,'',
     ''relallvisible INT NOT NULL DEFAULT 0,'',
     ''reltoastrelid INT NOT NULL DEFAULT 0,'',
     ''relhasindex TINYINT(1) NOT NULL DEFAULT 0,'',
     ''relisshared TINYINT(1) NOT NULL DEFAULT 0,'',
     ''relpersistence CHAR(1) NOT NULL DEFAULT ^p^,'',
     ''relkind CHAR(1) NOT NULL DEFAULT ^r^,'',
     ''relnatts INT NOT NULL DEFAULT 0,'',
     ''relchecks INT NOT NULL DEFAULT 0,'',
     ''relhasoids TINYINT(1) NOT NULL DEFAULT 0,'',
     ''relhaspkey TINYINT(1) NOT NULL DEFAULT 0,'',
     ''relhasrules TINYINT(1) NOT NULL DEFAULT 0,'',
     ''relhastriggers TINYINT(1) NOT NULL DEFAULT 0,'',
     ''relhassubclass TINYINT(1) NOT NULL DEFAULT 0,'',
     ''relrowsecurity TINYINT(1) NOT NULL DEFAULT 0,'',
     ''relforcerowsecurity TINYINT(1) NOT NULL DEFAULT 0,'',
     ''relispopulated TINYINT(1) NOT NULL DEFAULT 1,'',
     ''relreplident CHAR(1) NOT NULL DEFAULT ^d^,'',
     ''relispartition TINYINT(1) NOT NULL DEFAULT 0'']"

definition ddl_pg_attribute :: string where
  "ddl_pg_attribute = table_ddl ''pg_attribute''
    [''attrelid INT NOT NULL,'',
     ''attname VARCHAR(255) NOT NULL,'',
     ''atttypid INT NOT NULL,'',
     ''attstattarget INT NOT NULL DEFAULT -1,'',
     ''attlen SMALLINT NOT NULL,'',
     ''attnum SMALLINT NOT NULL,'',
     ''attndims INT NOT NULL DEFAULT 0,'',
     ''attcacheoff INT NOT NULL DEFAULT -1,'',
     ''atttypmod INT NOT NULL DEFAULT -1,'',
     ''attbyval TINYINT(1) NOT NULL DEFAULT 0,'',
     ''attstorage CHAR(1) NOT NULL DEFAULT ^p^,'',
     ''attalign CHAR(1) NOT NULL DEFAULT ^i^,'',
     ''attnotnull TINYINT(1) NOT NULL DEFAULT 0,'',
     ''atthasdef TINYINT(1) NOT NULL DEFAULT 0,'',
     ''atthasmissing TINYINT(1) NOT NULL DEFAULT 0,'',
     ''attidentity CHAR(1) NOT NULL DEFAULT ^^,'',
     ''attgenerated CHAR(1) NOT NULL DEFAULT ^^,'',
     ''attisdropped TINYINT(1) NOT NULL DEFAULT 0,'',
     ''attislocal TINYINT(1) NOT NULL DEFAULT 1,'',
     ''attinhcount INT NOT NULL DEFAULT 0,'',
     ''attcollation INT NOT NULL DEFAULT 0,'',
     ''attacl TEXT,'',
     ''attoptions TEXT,'',
     ''attfdwoptions TEXT,'',
     ''PRIMARY KEY (attrelid, attnum)'']"

definition ddl_pg_namespace :: string where
  "ddl_pg_namespace = table_ddl ''pg_namespace''
    [''oid INT NOT NULL PRIMARY KEY,'',
     ''nspname VARCHAR(255) NOT NULL,'',
     ''nspowner INT NOT NULL DEFAULT 0,'',
     ''nspacl TEXT'']"

definition ddl_pg_index :: string where
  "ddl_pg_index = table_ddl ''pg_index''
    [''indexrelid INT NOT NULL,'',
     ''indrelid INT NOT NULL,'',
     ''indnatts SMALLINT NOT NULL,'',
     ''indnkeyatts SMALLINT NOT NULL,'',
     ''indisunique TINYINT(1) NOT NULL DEFAULT 0,'',
     ''indisprimary TINYINT(1) NOT NULL DEFAULT 0,'',
     ''indisexclusion TINYINT(1) NOT NULL DEFAULT 0,'',
     ''indimmediate TINYINT(1) NOT NULL DEFAULT 1,'',
     ''indisclustered TINYINT(1) NOT NULL DEFAULT 0,'',
     ''indisvalid TINYINT(1) NOT NULL DEFAULT 1,'',
     ''indcheckxmin TINYINT(1) NOT NULL DEFAULT 0,'',
     ''indisready TINYINT(1) NOT NULL DEFAULT 1,'',
     ''indislive TINYINT(1) NOT NULL DEFAULT 1,'',
     ''indisreplident TINYINT(1) NOT NULL DEFAULT 0,'',
     ''indkey TEXT,'',
     ''indcollation TEXT,'',
     ''indclass TEXT,'',
     ''indoption TEXT,'',
     ''indexprs TEXT,'',
     ''indpred TEXT'']"

definition ddl_pg_proc :: string where
  "ddl_pg_proc = table_ddl ''pg_proc''
    [''oid INT NOT NULL PRIMARY KEY,'',
     ''proname VARCHAR(255) NOT NULL,'',
     ''pronamespace INT NOT NULL DEFAULT 11,'',
     ''proowner INT NOT NULL DEFAULT 0,'',
     ''prolang INT NOT NULL DEFAULT 0,'',
     ''procost FLOAT NOT NULL DEFAULT 1,'',
     ''prorows FLOAT NOT NULL DEFAULT 0,'',
     ''provariadic INT NOT NULL DEFAULT 0,'',
     ''prosupport VARCHAR(255),'',
     ''prokind CHAR(1) NOT NULL DEFAULT ^f^,'',
     ''prosecdef TINYINT(1) NOT NULL DEFAULT 0,'',
     ''proleakproof TINYINT(1) NOT NULL DEFAULT 0,'',
     ''proisstrict TINYINT(1) NOT NULL DEFAULT 0,'',
     ''proretset TINYINT(1) NOT NULL DEFAULT 0,'',
     ''provolatile CHAR(1) NOT NULL DEFAULT ^v^,'',
     ''proparallel CHAR(1) NOT NULL DEFAULT ^s^,'',
     ''pronargs SMALLINT NOT NULL,'',
     ''pronargdefaults SMALLINT NOT NULL DEFAULT 0,'',
     ''prorettype INT NOT NULL,'',
     ''proargtypes TEXT,'',
     ''proallargtypes TEXT,'',
     ''proargmodes TEXT,'',
     ''proargnames TEXT,'',
     ''proargdefaults TEXT,'',
     ''protrftypes TEXT,'',
     ''prosrc TEXT,'',
     ''probin TEXT,'',
     ''proconfig TEXT,'',
     ''proacl TEXT'']"

definition ddl_pg_enum :: string where
  "ddl_pg_enum = table_ddl ''pg_enum''
    [''oid INT NOT NULL PRIMARY KEY,'',
     ''enumtypid INT NOT NULL,'',
     ''enumsortorder FLOAT NOT NULL,'',
     ''enumlabel VARCHAR(255) NOT NULL'']"

definition ddl_pg_constraint :: string where
  "ddl_pg_constraint = table_ddl ''pg_constraint''
    [''oid INT NOT NULL PRIMARY KEY,'',
     ''conname VARCHAR(255) NOT NULL,'',
     ''connamespace INT NOT NULL DEFAULT 2200,'',
     ''contype CHAR(1) NOT NULL,'',
     ''condeferrable TINYINT(1) NOT NULL DEFAULT 0,'',
     ''condeferred TINYINT(1) NOT NULL DEFAULT 0,'',
     ''convalidated TINYINT(1) NOT NULL DEFAULT 1,'',
     ''conrelid INT NOT NULL DEFAULT 0,'',
     ''contypid INT NOT NULL DEFAULT 0,'',
     ''conindid INT NOT NULL DEFAULT 0,'',
     ''conparentid INT NOT NULL DEFAULT 0,'',
     ''confrelid INT NOT NULL DEFAULT 0,'',
     ''confupdtype CHAR(1) NOT NULL DEFAULT ^a^,'',
     ''confdeltype CHAR(1) NOT NULL DEFAULT ^a^,'',
     ''confmatchtype CHAR(1) NOT NULL DEFAULT ^s^,'',
     ''conislocal TINYINT(1) NOT NULL DEFAULT 1,'',
     ''coninhcount INT NOT NULL DEFAULT 0,'',
     ''connoinherit TINYINT(1) NOT NULL DEFAULT 0,'',
     ''conkey TEXT,'',
     ''confkey TEXT,'',
     ''conpfeqop TEXT,'',
     ''conppeqop TEXT,'',
     ''conffeqop TEXT,'',
     ''conexclop TEXT,'',
     ''conbin TEXT'']"

definition ddl_pg_description :: string where
  "ddl_pg_description = table_ddl ''pg_description''
    [''objoid INT NOT NULL,'',
     ''classoid INT NOT NULL,'',
     ''objsubid INT NOT NULL,'',
     ''description TEXT,'',
     ''PRIMARY KEY (objoid, classoid, objsubid)'']"

definition ddl_pg_database :: string where
  "ddl_pg_database = table_ddl ''pg_database''
    [''oid INT NOT NULL PRIMARY KEY,'',
     ''datname VARCHAR(255) NOT NULL,'',
     ''datdba INT NOT NULL DEFAULT 0,'',
     ''encoding INT NOT NULL DEFAULT 6,'',
     ''datcollate VARCHAR(255) NOT NULL,'',
     ''datctype VARCHAR(255) NOT NULL,'',
     ''datistemplate TINYINT(1) NOT NULL DEFAULT 0,'',
     ''datallowconn TINYINT(1) NOT NULL DEFAULT 1,'',
     ''datconnlimit INT NOT NULL DEFAULT -1,'',
     ''datfrozenxid INT NOT NULL DEFAULT 0,'',
     ''datminmxid INT NOT NULL DEFAULT 1,'',
     ''dattablespace INT NOT NULL DEFAULT 0'']"

definition pgCatalogDDLs :: "string list" where
  "pgCatalogDDLs =
    [ddl_pg_type, ddl_pg_class, ddl_pg_attribute, ddl_pg_namespace, ddl_pg_index, ddl_pg_proc,
     ddl_pg_enum, ddl_pg_constraint, ddl_pg_description, ddl_pg_database]"

end
