(* ===== verification/Schema.thy ===== *)
theory Schema
  imports MysqlPool SchemaTables
begin

text \<open>
  \<open>internal/mysql/schema.go\<close>: the tables are created when the proxy starts. A statement for a
  table that exists is skipped, an error that says so is ignored, any other ends the start.
\<close>

section \<open>The name of a table\<close>

definition stripQuotes :: "string \<Rightarrow> string" where
  "stripQuotes s = Trim (Trim (Trim s [CHR 0x60]) [CHR 0x22]) [CHR 0x27]"

text \<open>The loop over the words of the statement.\<close>

fun name_after :: "string list \<Rightarrow> string" where
  "name_after [] = []"
| "name_after (p # ps) =
     (if EqualFold p ''TABLE'' \<and> ps \<noteq> [] then
        if EqualFold (hd ps) ''IF'' \<and> 4 \<le> length ps then stripQuotes (ps ! 3) else stripQuotes (hd ps)
      else name_after ps)"

definition extractTableName_ddl :: "string \<Rightarrow> string" where
  "extractTableName_ddl ddl = (let ddl = TrimSpace ddl in
     if \<not> HasPrefix (ToUpper ddl) ''CREATE TABLE'' then [] else name_after (Fields ddl))"

section \<open>The statements\<close>

definition execDDL :: "'d mysql \<Rightarrow> string \<Rightarrow> ('d, unit) act" where
  "execDDL db ddl = (let ddl = TrimSpace ddl in
     if ddl = [] then ret ()
     else bindM (if extractTableName_ddl ddl \<noteq> [] then orElse False (TableExists db (extractTableName_ddl ddl))
                 else ret False) (\<lambda>there.
       if there then ret ()
       else catchM (bindM (pool_Exec db ddl []) (\<lambda>_. ret ())) (\<lambda>e.
         if Contains (error_text e) ''already exists'' then ret () else failM e)))"

definition exec_ddls :: "'d mysql \<Rightarrow> string \<Rightarrow> string list \<Rightarrow> ('d, unit) act" where
  "exec_ddls db label ddls = seqM (map (\<lambda>ddl. catchM (execDDL db ddl) (\<lambda>e.
     failM (ErrorText (label @ '' DDL: '' @ error_text e @ [CHR 0x0A] @ ''SQL: '' @ ddl)))) ddls)"

definition EnsureSchema :: "'d mysql \<Rightarrow> ('d, unit) act" where
  "EnsureSchema db = seqM
     [exec_ddls db ''OLTP'' oltpDDLs, exec_ddls db ''OLAP'' olapDDLs, exec_ddls db ''pg_catalog'' pgCatalogDDLs]"

section \<open>The names of the tables\<close>

text \<open>A name that trimming leaves alone.\<close>

definition plain_name :: "string \<Rightarrow> bool" where
  "plain_name n \<longleftrightarrow> n \<noteq> [] \<and> list_all (\<lambda>c. \<not> is_space c \<and> c \<noteq> CHR 0x60 \<and> c \<noteq> CHR 0x22 \<and> c \<noteq> CHR 0x27) n"

lemma fields_word: "list_all (\<lambda>c. \<not> is_space c) w \<Longrightarrow> fields_acc (w @ cs) acc = fields_acc cs (rev w @ acc)"
  by (induction w arbitrary: acc) auto

lemma Fields_word:
  "w \<noteq> [] \<Longrightarrow> list_all (\<lambda>c. \<not> is_space c) w \<Longrightarrow> is_space c \<Longrightarrow> Fields (w @ c # cs) = w # Fields cs"
  by (simp add: Fields_def fields_word)

lemma stripQuotes_plain: "plain_name n \<Longrightarrow> stripQuotes n = n"
proof -
  assume p: "plain_name n"
  then have "hd n \<in> set n" "last n \<in> set n" by (auto simp: plain_name_def)
  with p show ?thesis
    by (simp add: stripQuotes_def Trim_def trim_by_none plain_name_def list_all_iff)
qed

lemma table_ddl_trim: "TrimSpace (table_ddl n ls) = table_ddl n ls"
proof -
  have "hd (table_ddl n ls) = CHR ''C''" by (simp add: table_ddl_def)
  moreover have "last (table_ddl n ls) = CHR ''i''" by (simp add: table_ddl_def table_end_def)
  moreover have "\<not> is_space CHR ''C''" "\<not> is_space CHR ''i''" by code_simp+
  ultimately show ?thesis unfolding TrimSpace_def by (intro trim_by_none) simp_all
qed

lemma table_ddl_name:
  assumes "plain_name n"
  shows "extractTableName_ddl (table_ddl n ls) = n"
proof -
  have words: "is_space CHR '' ''" "EqualFold ''TABLE'' ''TABLE''" "EqualFold ''IF'' ''IF''" "\<not> EqualFold ''CREATE'' ''TABLE''"
    by code_simp+
  have solid: "list_all (\<lambda>c. \<not> is_space c) ''CREATE''" "list_all (\<lambda>c. \<not> is_space c) ''TABLE''"
    "list_all (\<lambda>c. \<not> is_space c) ''IF''" "list_all (\<lambda>c. \<not> is_space c) ''NOT''" "list_all (\<lambda>c. \<not> is_space c) ''EXISTS''"
    by code_simp+
  have name: "n \<noteq> []" "list_all (\<lambda>c. \<not> is_space c) n" using assms by (auto simp: plain_name_def list_all_iff)
  obtain r where r: "table_ddl n ls = ''CREATE'' @ CHR '' '' # ''TABLE'' @ CHR '' '' # ''IF'' @ CHR '' '' # ''NOT''
      @ CHR '' '' # ''EXISTS'' @ CHR '' '' # n @ CHR '' '' # r"
    by (simp add: table_ddl_def)
  have "Fields (table_ddl n ls) = ''CREATE'' # ''TABLE'' # ''IF'' # ''NOT'' # ''EXISTS'' # n # Fields r"
    unfolding r by (simp only: Fields_word solid name words(1) list.distinct not_False_eq_True)
  moreover have "HasPrefix (ToUpper (table_ddl n ls)) ''CREATE TABLE''"
  proof -
    have "ToUpper ''CREATE TABLE'' = ''CREATE TABLE''" by code_simp
    moreover have "table_ddl n ls = ''CREATE TABLE'' @ drop 12 (table_ddl n ls)" by (simp add: table_ddl_def)
    ultimately show ?thesis by (metis HasPrefix_iff ToUpper_append prefixI)
  qed
  ultimately show ?thesis using words stripQuotes_plain [OF assms]
    by (simp add: extractTableName_ddl_def table_ddl_trim)
qed

section \<open>All the statements\<close>

text \<open>The names of the tables, in the order of the statements; the views come after the tables
  of the analytics database.\<close>

definition oltp_names :: "string list" where
  "oltp_names =
    [''accounts'', ''sessions'', ''users'', ''verification_tokens'', ''organizations'', ''projects'',
     ''organization_memberships'', ''project_memberships'', ''api_keys'', ''trace_sessions'', ''prompts'',
     ''models'', ''prices'', ''pricing_tiers'', ''datasets'', ''dataset_items'', ''dataset_runs'',
     ''dataset_run_items'', ''scores'', ''score_configs'', ''comments'', ''comment_reactions'',
     ''notifications'', ''notification_preferences'', ''sso_configs'', ''audit_logs'', ''batch_exports'',
     ''cron_jobs'', ''media'', ''trace_media'', ''observation_media'', ''dashboards'', ''dashboard_widgets'',
     ''table_view_presets'', ''llm_api_keys'', ''default_llm_models'', ''llm_schemas'', ''llm_tools'',
     ''posthog_integrations'', ''mixpanel_integrations'', ''blob_storage_integrations'',
     ''slack_integrations'', ''actions'', ''triggers'', ''automations'', ''automation_executions'',
     ''annotation_queues'', ''annotation_queue_items'', ''annotation_queue_assignments'', ''eval_templates'',
     ''job_configurations'', ''job_executions'', ''surveys'', ''billing_meter_backups'',
     ''cloud_spend_alerts'', ''background_migrations'', ''batch_actions'', ''prompt_dependencies'',
     ''prompt_protected_labels'', ''membership_invitations'', ''_prisma_migrations'']"

definition olap_names :: "string list" where
  "olap_names =
    [''traces'', ''observations'', ''ch_scores'', ''event_log'', ''blob_storage_file_log'',
     ''ch_dataset_run_items'', ''traces_all_amt'', ''traces_7d_amt'', ''traces_30d_amt'']"

definition catalog_names :: "string list" where
  "catalog_names =
    [''pg_type'', ''pg_class'', ''pg_attribute'', ''pg_namespace'', ''pg_index'', ''pg_proc'', ''pg_enum'',
     ''pg_constraint'', ''pg_description'', ''pg_database'']"

definition ddl_views :: "string list" where
  "ddl_views = [ddl_analytics_traces, ddl_analytics_observations, ddl_analytics_scores,
     ddl_scores_numeric, ddl_scores_categorical]"

definition all_ddls :: "string list" where
  "all_ddls = oltpDDLs @ olapDDLs @ pgCatalogDDLs"

lemmas ddl_defs =
  ddl_accounts_def ddl_sessions_def ddl_users_def ddl_verification_tokens_def ddl_organizations_def
  ddl_projects_def ddl_organization_memberships_def ddl_project_memberships_def ddl_api_keys_def
  ddl_trace_sessions_def ddl_prompts_def ddl_models_def ddl_prices_def ddl_pricing_tiers_def
  ddl_datasets_def ddl_dataset_items_def ddl_dataset_runs_def ddl_dataset_run_items_def ddl_scores_def
  ddl_score_configs_def ddl_comments_def ddl_comment_reactions_def ddl_notifications_def
  ddl_notification_preferences_def ddl_sso_configs_def ddl_audit_logs_def ddl_batch_exports_def
  ddl_cron_jobs_def ddl_media_def ddl_trace_media_def ddl_observation_media_def ddl_dashboards_def
  ddl_dashboard_widgets_def ddl_table_view_presets_def ddl_llm_api_keys_def ddl_default_llm_models_def
  ddl_llm_schemas_def ddl_llm_tools_def ddl_posthog_integrations_def ddl_mixpanel_integrations_def
  ddl_blob_storage_integrations_def ddl_slack_integrations_def ddl_actions_def ddl_triggers_def
  ddl_automations_def ddl_automation_executions_def ddl_annotation_queues_def
  ddl_annotation_queue_items_def ddl_annotation_queue_assignments_def ddl_eval_templates_def
  ddl_job_configurations_def ddl_job_executions_def ddl_surveys_def ddl_billing_meter_backups_def
  ddl_cloud_spend_alerts_def ddl_background_migrations_def ddl_batch_actions_def
  ddl_prompt_dependencies_def ddl_prompt_protected_labels_def ddl_membership_invitations_def
  ddl_prisma_migrations_def ddl_traces_def ddl_observations_def ddl_ch_scores_def ddl_event_log_def
  ddl_blob_storage_file_log_def ddl_ch_dataset_run_items_def ddl_traces_all_amt_def
  ddl_traces_7d_amt_def ddl_traces_30d_amt_def ddl_analytics_traces_def ddl_analytics_observations_def
  ddl_analytics_scores_def ddl_scores_numeric_def ddl_scores_categorical_def ddl_pg_type_def
  ddl_pg_class_def ddl_pg_attribute_def ddl_pg_namespace_def ddl_pg_index_def ddl_pg_proc_def
  ddl_pg_enum_def ddl_pg_constraint_def ddl_pg_description_def ddl_pg_database_def

definition creates :: "string \<Rightarrow> string \<Rightarrow> bool" where
  "creates n d \<longleftrightarrow> (\<exists>ls. d = table_ddl n ls)"

lemma creates_intro: "d = table_ddl n ls \<Longrightarrow> creates n d"
  by (auto simp: creates_def)

lemma oltp_creates: "list_all2 creates oltp_names oltpDDLs"
  unfolding oltp_names_def oltpDDLs_def
  by (rule list.rel_intros(2), rule creates_intro, rule ddl_defs)+ (rule list.rel_intros(1))

definition olap_tables :: "string list" where
  "olap_tables = [ddl_traces, ddl_observations, ddl_ch_scores, ddl_event_log, ddl_blob_storage_file_log, ddl_ch_dataset_run_items, ddl_traces_all_amt, ddl_traces_7d_amt, ddl_traces_30d_amt]"

lemma olap_split: "olapDDLs = olap_tables @ ddl_views"
  by (simp add: olapDDLs_def olap_tables_def ddl_views_def)

lemma olap_creates: "list_all2 creates olap_names olap_tables"
  unfolding olap_names_def olap_tables_def
  by (rule list.rel_intros(2), rule creates_intro, rule ddl_defs)+ (rule list.rel_intros(1))

lemma catalog_creates: "list_all2 creates catalog_names pgCatalogDDLs"
  unfolding catalog_names_def pgCatalogDDLs_def
  by (rule list.rel_intros(2), rule creates_intro, rule ddl_defs)+ (rule list.rel_intros(1))

lemma names_plain: "list_all plain_name (oltp_names @ olap_names @ catalog_names)"
  by code_simp

lemma names_distinct: "distinct (oltp_names @ olap_names @ catalog_names)"
  by code_simp

lemma creates_name:
  "list_all2 creates ns ds \<Longrightarrow> list_all plain_name ns \<Longrightarrow>
     map extractTableName_ddl ds = ns \<and> list_all (\<lambda>d. TrimSpace d = d \<and> d \<noteq> []) ds"
proof (induction rule: list_all2_induct)
  case (Cons n ns d ds)
  then obtain ls where "d = table_ddl n ls" by (auto simp: creates_def)
  moreover have "table_ddl n ls \<noteq> []" by (simp add: table_ddl_def)
  ultimately show ?case using Cons by (auto simp: table_ddl_name table_ddl_trim)
qed simp

lemma views_plain: "list_all (\<lambda>d. TrimSpace d = d \<and> d \<noteq> [] \<and> extractTableName_ddl d = []) ddl_views"
  by code_simp

lemma all_names:
  "map extractTableName_ddl all_ddls = oltp_names @ olap_names @ replicate 5 [] @ catalog_names"
  "list_all (\<lambda>d. TrimSpace d = d \<and> d \<noteq> []) all_ddls"
proof -
  have p: "list_all plain_name oltp_names" "list_all plain_name olap_names" "list_all plain_name catalog_names"
    using names_plain by (simp_all add: list_all_append)
  note c = creates_name [OF oltp_creates p(1)] creates_name [OF olap_creates p(2)] creates_name [OF catalog_creates p(3)]
  have "map extractTableName_ddl ddl_views = map (\<lambda>_. []) ddl_views"
    using views_plain by (simp add: list_all_iff)
  then have v: "map extractTableName_ddl ddl_views = replicate 5 []"
    by (simp add: ddl_views_def numeral_eq_Suc)
  have "list_all (\<lambda>d. TrimSpace d = d \<and> d \<noteq> []) ddl_views"
    using views_plain by (auto simp: list_all_iff)
  with c v show "map extractTableName_ddl all_ddls = oltp_names @ olap_names @ replicate 5 [] @ catalog_names"
    "list_all (\<lambda>d. TrimSpace d = d \<and> d \<noteq> []) all_ddls"
    by (simp_all add: all_ddls_def olap_split)
qed

section \<open>A database that creates tables\<close>

text \<open>
  What the proxy relies on: a statement that is not refused is executed, and a table is there
  when a statement that creates it was. The state is the list of statements executed.
\<close>

definition ddl_db :: "(string \<Rightarrow> go_err option) \<Rightarrow> string list mysql" where
  "ddl_db refuse = \<lparr>
     pool_Query = (\<lambda>q args d. (Ok \<lparr>col_types = Ok [''BIGINT''], col_names = Ok [''COUNT(*)''],
        scans = [Ok [GInt (if args \<in> set (map (\<lambda>s. [GString (extractTableName_ddl s)]) d) then 1 else 0)]],
        iter_err = None\<rparr>, d)),
     pool_Exec = (\<lambda>q args d. case refuse q of Some e \<Rightarrow> (Err e, d) | None \<Rightarrow> (Ok 0, d @ [q]))\<rparr>"

definition ddl_known :: "string \<Rightarrow> string list \<Rightarrow> bool" where
  "ddl_known s d \<longleftrightarrow> extractTableName_ddl s \<noteq> [] \<and> extractTableName_ddl s \<in> extractTableName_ddl ` set d"

lemma ddl_db_exists: "TableExists (ddl_db refuse) t d = (Ok (t \<in> extractTableName_ddl ` set d), d)"
  by (auto simp: TableExists_def query_row_def ddl_db_def bindM_def liftR_def ret_def scan_into_def scan_int_def)

lemma execDDL_step:
  assumes "TrimSpace s = s" and "s \<noteq> []"
  shows "execDDL (ddl_db refuse) s d =
    (if ddl_known s d then (Ok (), d)
     else case refuse s of
         None \<Rightarrow> (Ok (), d @ [s])
       | Some e \<Rightarrow> if Contains (error_text e) ''already exists'' then (Ok (), d) else (Err e, d))"
proof -
  have "pool_Exec (ddl_db refuse) s [] d = (case refuse s of Some e \<Rightarrow> (Err e, d) | None \<Rightarrow> (Ok 0, d @ [s]))"
    by (simp add: ddl_db_def)
  then show ?thesis using assms
    by (auto simp: execDDL_def Let_def orElse_def ddl_db_exists bindM_def catchM_def ret_def failM_def ddl_known_def
      split: option.split)
qed

definition ddl_step :: "string list \<Rightarrow> string \<Rightarrow> string list" where
  "ddl_step d s = (if ddl_known s d then d else d @ [s])"

lemma exec_ddls_all:
  "list_all (\<lambda>d. TrimSpace d = d \<and> d \<noteq> []) ss \<Longrightarrow>
     exec_ddls (ddl_db (\<lambda>_. None)) label ss d = (Ok (), foldl ddl_step d ss)"
  by (induction ss arbitrary: d)
     (simp_all add: exec_ddls_def bindM_def catchM_def execDDL_step ddl_step_def ret_def)

lemma EnsureSchema_all: "EnsureSchema (ddl_db (\<lambda>_. None)) d = (Ok (), foldl ddl_step d all_ddls)"
  using all_names(2)
  by (simp add: EnsureSchema_def all_ddls_def exec_ddls_all bindM_def ret_def)

lemma foldl_new:
  "distinct (filter (\<lambda>n. n \<noteq> []) (map extractTableName_ddl (d @ ss))) \<Longrightarrow> foldl ddl_step d ss = d @ ss"
proof (induction ss arbitrary: d)
  case (Cons s ss)
  have "\<not> ddl_known s d" using Cons.prems by (auto simp: ddl_known_def)
  then show ?case using Cons.IH [of "d @ [s]"] Cons.prems by (simp add: ddl_step_def)
qed simp

lemma foldl_again:
  "set (filter (\<lambda>n. n \<noteq> []) (map extractTableName_ddl ss)) \<subseteq> extractTableName_ddl ` set d \<Longrightarrow>
     foldl ddl_step d ss = d @ filter (\<lambda>s. extractTableName_ddl s = []) ss"
proof (induction ss arbitrary: d)
  case (Cons s ss)
  show ?case
  proof (cases "extractTableName_ddl s = []")
    case True
    then show ?thesis using Cons.IH [of "d @ [s]"] Cons.prems
      by (auto simp: ddl_step_def ddl_known_def split: if_splits)
  next
    case False
    then have "ddl_known s d" using Cons.prems by (auto simp: ddl_known_def)
    then show ?thesis using False Cons.IH [of d] Cons.prems by (simp add: ddl_step_def)
  qed
qed simp

lemma filter_plain: "list_all plain_name ns \<Longrightarrow> filter (\<lambda>n. n \<noteq> []) ns = ns \<and> filter (\<lambda>n. n = []) ns = []"
  by (induction ns) (auto simp: plain_name_def)

lemma table_names: "filter (\<lambda>n. n \<noteq> []) (map extractTableName_ddl all_ddls) = oltp_names @ olap_names @ catalog_names"
  using filter_plain [of "oltp_names @ olap_names @ catalog_names"] names_plain by (simp add: all_names(1))

lemma first_run: "foldl ddl_step [] all_ddls = all_ddls"
  using foldl_new [of "[]" all_ddls] names_distinct by (simp add: table_names)

text \<open>
  C37: on an empty database the start of the proxy executes all 85 statements, in the order of the
  files; every table has a name of its own. At the next start only the five views are created
  again (they are \<open>CREATE OR REPLACE\<close>).
\<close>

theorem schema_created_once:
  "EnsureSchema (ddl_db (\<lambda>_. None)) [] = (Ok (), all_ddls) \<and> length all_ddls = 85
    \<and> EnsureSchema (ddl_db (\<lambda>_. None)) all_ddls = (Ok (), all_ddls @ ddl_views)"
proof -
  have "filter (\<lambda>s. extractTableName_ddl s = []) all_ddls = ddl_views"
  proof -
    have p: "list_all plain_name oltp_names" "list_all plain_name olap_names" "list_all plain_name catalog_names"
      using names_plain by (simp_all add: list_all_append)
    have none: "filter (\<lambda>s. extractTableName_ddl s = []) ds = []"
      if "list_all2 creates ns ds" "list_all plain_name ns" for ns ds
    proof -
      have "set ns = extractTableName_ddl ` set ds" using creates_name [OF that] by (metis list.set_map)
      then have "\<forall>d \<in> set ds. plain_name (extractTableName_ddl d)" using that(2) by (simp add: list_all_iff)
      then show ?thesis unfolding filter_empty_conv plain_name_def by blast
    qed
    have "filter (\<lambda>s. extractTableName_ddl s = []) ddl_views = ddl_views"
      using views_plain by (auto simp: list_all_iff intro: filter_True)
    then show ?thesis
      using none [OF oltp_creates p(1)] none [OF olap_creates p(2)] none [OF catalog_creates p(3)]
      by (simp add: all_ddls_def olap_split)
  qed
  moreover have "set (filter (\<lambda>n. n \<noteq> []) (map extractTableName_ddl all_ddls)) \<subseteq> extractTableName_ddl ` set all_ddls"
    by auto
  moreover have "length all_ddls = 85"
    using arg_cong [OF all_names(1), of length] by (simp add: oltp_names_def olap_names_def catalog_names_def)
  ultimately show ?thesis using foldl_again [of all_ddls all_ddls] first_run by (simp add: EnsureSchema_all)
qed

end
