(* ===== verification/MainProgram.thy ===== *)
theory MainProgram
  imports ProxyProcess Schema
begin

text \<open>
  \<open>cmd/agentx-proxy/main.go\<close>: how the parts are started and stopped. The world outside is a
  parameter: the environment, the files, YAML, the driver, and what listening on an address
  returns. Once it is up the process is that of \<open>ProxyProcess\<close>.
\<close>

section \<open>Starting\<close>

record ('d, 'p) world =
  Getenv :: environment
  ReadFile :: "string \<Rightarrow> config_file"
  Unmarshal :: "byte list \<Rightarrow> config \<Rightarrow> config res"
  sql_Open :: "string \<Rightarrow> 'p res"
  PingContext :: "'p \<Rightarrow> go_err option"
  handle :: "'p \<Rightarrow> 'd mysql"
  net_Listen :: "string \<Rightarrow> go_err option"

datatype 'd start = ExitCode nat | Died go_panic | Ready "'d proxy"

definition cfgPath :: "environment \<Rightarrow> string" where
  "cfgPath env = (if env ''CONFIG_PATH'' \<noteq> [] then env ''CONFIG_PATH'' else ''config.yaml'')"

text \<open>\<open>os.Exit(1)\<close> on an error.\<close>

definition or_exit :: "'a res \<Rightarrow> ('a \<Rightarrow> 'd start) \<Rightarrow> 'd start" where
  "or_exit r f = (case r of Ok x \<Rightarrow> f x | Err e \<Rightarrow> ExitCode 1 | Panic p \<Rightarrow> Died p)"

definition start_pg :: "('d, 'p) world \<Rightarrow> config \<Rightarrow> 'd \<Rightarrow> 'd pg_server option res" where
  "start_pg w cfg d = (if pg_Enabled (PGToMySQL (Proxy cfg))
     then bind_res (NewServer (net_Listen w) cfg d) (\<lambda>s. Ok (Some s)) else Ok None)"

definition start_ch :: "('d, 'p) world \<Rightarrow> config \<Rightarrow> 'd \<Rightarrow> 'd ch_side option res" where
  "start_ch w cfg d = (if ch_Enabled (CHToMySQL (Proxy cfg))
     then bind_res (NewNativeServer (net_Listen w) cfg d) (\<lambda>(loop, n).
       bind_res (NewHTTPServer cfg d) (\<lambda>h. Ok (Some \<lparr>
         cs_server = \<lparr>http_buf = h, native_buf = n, ch_data = d\<rparr>, cs_loop = loop, cs_sessions = [],
         cs_http = http_Start (net_Listen w) cfg, cs_inflight = [], cs_answers = []\<rparr>))) else Ok None)"

definition main_start :: "('d, 'p) world \<Rightarrow> 'd \<Rightarrow> 'd start" where
  "main_start w d =
     or_exit (LoadConfig (Unmarshal w) (Getenv w) (ReadFile w (cfgPath (Getenv w)))) (\<lambda>cfg.
     or_exit (NewPool (sql_Open w) (PingContext w) (MySQL cfg)) (\<lambda>(p, limits).
       case EnsureSchema (handle w p) d of (r, d) \<Rightarrow>
     or_exit r (\<lambda>_.
     or_exit (start_pg w cfg d) (\<lambda>pg.
     or_exit (start_ch w cfg d) (\<lambda>ch.
       Ready \<lparr>px_config = cfg, px_main = Waiting, px_pg = pg, px_ch = ch, px_data = d\<rparr>)))))"

section \<open>Stopping\<close>

text \<open>After a signal: the native server is closed, then the HTTP server; each flushes its buffer
  first.\<close>

definition shutdown :: "'d ch_env \<Rightarrow> 'd ch_server \<Rightarrow> 'd ch_server" where
  "shutdown env s = serve_event env HttpClose (serve_event env NativeClose s)"

section \<open>Logging\<close>

datatype log_level = LevelDebug | LevelInfo | LevelWarn | LevelError

text \<open>The level, and whether lines are JSON.\<close>

definition setupLogger :: "config \<Rightarrow> log_level \<times> bool" where
  "setupLogger cfg =
    (if Level (Log cfg) = ''debug'' then LevelDebug
     else if Level (Log cfg) = ''warn'' then LevelWarn
     else if Level (Log cfg) = ''error'' then LevelError
     else LevelInfo,
     Format (Log cfg) = ''json'')"

section \<open>Properties\<close>

text \<open>A machine without a configuration file, with a driver that opens and an empty MySQL.\<close>

definition fresh_machine :: "(string \<Rightarrow> bool) \<Rightarrow> (string list, unit) world" where
  "fresh_machine free = \<lparr>Getenv = (\<lambda>_. []), ReadFile = (\<lambda>_. NotExist), Unmarshal = (\<lambda>_. Ok), sql_Open = (\<lambda>_. Ok ()),
     PingContext = (\<lambda>_. None), handle = (\<lambda>_. ddl_db (\<lambda>_. None)),
     net_Listen = (\<lambda>a. if free a then None else Some (ErrorText ''address already in use''))\<rparr>"

lemma fresh_started:
  "main_start (fresh_machine free) [] =
    (if free ''0.0.0.0:5432'' \<and> free ''0.0.0.0:9000'' then
       let wb = \<lparr>buffered = [], maxSize = 10000, stopped = False, wb_db = all_ddls\<rparr> in
       Ready \<lparr>px_config = DefaultConfig, px_main = Waiting,
         px_pg = Some \<lparr>sv_translator = \<lparr>arrayColumnMode = ''json'', fulltextMode = ''match_against''\<rparr>,
           sv_arrayConv = \<lparr>mode = ''json''\<rparr>, sv_loop = new_loop, sv_sessions = [], sv_data = all_ddls,
           sv_cache = Map.empty, sv_draws = 0\<rparr>,
         px_ch = Some \<lparr>cs_server = \<lparr>http_buf = wb, native_buf = wb, ch_data = all_ddls\<rparr>, cs_loop = new_loop,
           cs_sessions = [], cs_http = (if free ''0.0.0.0:8123'' then HttpServing
             else HttpEnded (ErrorText ''address already in use'')), cs_inflight = [], cs_answers = []\<rparr>,
         px_data = all_ddls\<rparr>
     else ExitCode 1)"
proof -
  have "EnsureSchema (ddl_db (\<lambda>_. None)) [] = (Ok (), all_ddls)"
    using EnsureSchema_all [of "[]"] first_run by simp
  then show ?thesis
    by (simp add: main_start_def fresh_machine_def or_exit_def LoadConfig_def NewPool_def start_pg_def start_ch_def
      NewServer_def NewNativeServer_def NewHTTPServer_def http_Start_def NewTranslator_def NewArrayConverter_def
      NewCatalog_def new_buffer_def NewWriteBuffer_def DefaultConfig_def Second_def max_alloc_def Let_def)
qed

text \<open>
  C38: on a fresh machine the proxy comes up when the PostgreSQL and the native port are free, with
  every table of the schema created, no connections, empty insert buffers of 10000 statements, and the
  default configuration; if one of the two ports is taken it exits, after having created the schema.
  A taken HTTP port does not stop it: it runs without that interface.
\<close>

theorem fresh_start:
  "main_start (fresh_machine free) [] =
    (if free ''0.0.0.0:5432'' \<and> free ''0.0.0.0:9000'' then
       let wb = \<lparr>buffered = [], maxSize = 10000, stopped = False, wb_db = all_ddls\<rparr> in
       Ready \<lparr>px_config = DefaultConfig, px_main = Waiting,
         px_pg = Some \<lparr>sv_translator = \<lparr>arrayColumnMode = ''json'', fulltextMode = ''match_against''\<rparr>,
           sv_arrayConv = \<lparr>mode = ''json''\<rparr>, sv_loop = new_loop, sv_sessions = [], sv_data = all_ddls,
           sv_cache = Map.empty, sv_draws = 0\<rparr>,
         px_ch = Some \<lparr>cs_server = \<lparr>http_buf = wb, native_buf = wb, ch_data = all_ddls\<rparr>, cs_loop = new_loop,
           cs_sessions = [], cs_http = (if free ''0.0.0.0:8123'' then HttpServing
             else HttpEnded (ErrorText ''address already in use'')), cs_inflight = [], cs_answers = []\<rparr>,
         px_data = all_ddls\<rparr>
     else ExitCode 1)"
  by (rule fresh_started)

text \<open>
  Stopping the proxy flushes both insert buffers: when MySQL takes every statement, what was
  queued is in the database, the statements of native clients before those of HTTP clients,
  and nothing is queued any more.
\<close>

theorem shutdown_flushes:
  assumes "refuses pol = (\<lambda>_ _. False)" and "\<forall>d. may_begin pol d \<and> may_commit pol d"
  shows "committed (ch_data (shutdown (store_env pol) s))
      = committed (ch_data s) @ buffered (native_buf s) @ buffered (http_buf s)
    \<and> buffered (native_buf (shutdown (store_env pol) s)) = []
    \<and> buffered (http_buf (shutdown (store_env pol) s)) = []"
proof -
  have f: "\<exists>t. flushLocked (store_pool pol) wb = (Ok (), t) \<and> buffered t = []
      \<and> committed (wb_db t) = committed (wb_db wb) @ buffered wb" for wb
    using flush_store [of pol wb] assms by (auto simp: accepted_def)
  obtain n where n: "flushLocked (store_pool pol) ((native_buf s)\<lparr>wb_db := ch_data s\<rparr>) = (Ok (), n)"
      "buffered n = []" "committed (wb_db n) = committed (ch_data s) @ buffered (native_buf s)"
    using f [of "(native_buf s)\<lparr>wb_db := ch_data s\<rparr>"] by auto
  obtain h where h: "flushLocked (store_pool pol) ((http_buf s)\<lparr>wb_db := wb_db n\<rparr>) = (Ok (), h)"
      "buffered h = []" "committed (wb_db h) = committed (wb_db n) @ buffered (http_buf s)"
    using f [of "(http_buf s)\<lparr>wb_db := wb_db n\<rparr>"] by auto
  show ?thesis
    using n h by (simp add: shutdown_def http_Close_def Flush_def store_env_def with_native_def with_http_def Let_def)
qed

theorem shutdown_flushes_witness:
  "committed (ch_data (shutdown (store_env good_policy) (started\<lparr>http_buf := empty_buffer\<lparr>buffered := [''b'']\<rparr>,
      native_buf := empty_buffer\<lparr>buffered := [''a'']\<rparr>\<rparr>))) = [''a'', ''b'']"
  using shutdown_flushes [of good_policy "started\<lparr>http_buf := empty_buffer\<lparr>buffered := [''b'']\<rparr>,
      native_buf := empty_buffer\<lparr>buffered := [''a'']\<rparr>\<rparr>"]
  by (simp add: good_policy_def started_def empty_buffer_def Let_def)

section \<open>The whole program\<close>

lemma or_exit_Ready: "or_exit r f = Ready p \<longleftrightarrow> (\<exists>x. r = Ok x \<and> f x = Ready p)"
  by (auto simp: or_exit_def split: res.split)

text \<open>What holds of the process when it comes up.\<close>

definition fresh_process :: "'d proxy \<Rightarrow> bool" where
  "fresh_process p \<longleftrightarrow> px_main p = Waiting
     \<and> (\<forall>s. px_pg p = Some s \<longrightarrow> sessions_wf s \<and> sv_loop s = new_loop)
     \<and> (\<forall>c. px_ch p = Some c \<longrightarrow> cs_loop c = new_loop
           \<and> servers_bounded (WriteBufferSize (CHToMySQL (Proxy (px_config p)))) (cs_server c))"

lemma buffer_fresh:
  "new_buffer cfg d = Ok wb \<Longrightarrow> maxSize wb = WriteBufferSize (CHToMySQL (Proxy cfg)) \<and> bounded wb"
  by (auto simp: new_buffer_def NewWriteBuffer_def bounded_def split: if_splits)

lemma main_start_parts:
  assumes "main_start w d = Ready p"
  shows "px_main p = Waiting" "\<exists>d. start_pg w (px_config p) d = Ok (px_pg p) \<and> start_ch w (px_config p) d = Ok (px_ch p)"
proof -
  from assms have "\<exists>cfg d pg ch. start_pg w cfg d = Ok pg \<and> start_ch w cfg d = Ok ch
      \<and> p = \<lparr>px_config = cfg, px_main = Waiting, px_pg = pg, px_ch = ch, px_data = d\<rparr>"
    unfolding main_start_def or_exit_Ready by (force simp: or_exit_Ready split: prod.splits)
  then show "px_main p = Waiting" "\<exists>d. start_pg w (px_config p) d = Ok (px_pg p) \<and> start_ch w (px_config p) d = Ok (px_ch p)"
    by auto
qed

lemma start_pg_fresh: "start_pg w cfg d = Ok (Some s) \<Longrightarrow> sessions_wf s \<and> sv_loop s = new_loop"
  by (auto simp: start_pg_def bind_res_eq_Ok NewServer_def Let_def sessions_wf_def split: if_splits option.splits)

lemma start_ch_fresh:
  "start_ch w cfg d = Ok (Some c) \<Longrightarrow>
     cs_loop c = new_loop \<and> servers_bounded (WriteBufferSize (CHToMySQL (Proxy cfg))) (cs_server c)"
  by (auto simp: start_ch_def bind_res_eq_Ok NewNativeServer_def NewHTTPServer_def servers_bounded_def
    split: if_splits option.splits dest!: buffer_fresh)

lemma start_fresh: "main_start w d = Ready p \<Longrightarrow> fresh_process p"
  unfolding fresh_process_def
  by (frule main_start_parts(2), drule main_start_parts(1)) (auto dest: start_pg_fresh start_ch_fresh)

lemma kept_ifD: "kept_if R (Some s) b \<Longrightarrow> \<exists>t. b = Some t \<and> R s t" "kept_if R a (Some t) \<Longrightarrow> \<exists>s. a = Some s \<and> R s t"
  by (auto simp: kept_if_def split: option.splits)

text \<open>
  C4: the whole program. After any start, over any run of the process, with any clients on the three
  interfaces, whatever MySQL does and whenever the signal comes: every prepared statement and
  portal of every PostgreSQL session points to a statement that exists; each insert buffer
  holds fewer statements than the configured size (none when that is 0 or 1); and until the
  signal both accept loops run and the servers that were started are there.
\<close>

theorem process_invariant:
  assumes "main_start w d = Ready p" and "run_events (proxy_step env cenv) es p = Some q"
  shows "(case px_pg q of None \<Rightarrow> px_pg p = None | Some s \<Rightarrow>
        (\<forall>se \<in> set (sv_sessions s). conn_wf (se_conn se))
        \<and> (px_main q = Waiting \<longrightarrow> (\<nexists>r. loop_at (sv_loop s) = Ended r)))
    \<and> (case px_ch q of None \<Rightarrow> px_ch p = None | Some c \<Rightarrow>
        (let n = max 1 (WriteBufferSize (CHToMySQL (Proxy (px_config q)))) in
          int (length (buffered (http_buf (cs_server c)))) < n \<and> int (length (buffered (native_buf (cs_server c)))) < n)
        \<and> (px_main q = Waiting \<longrightarrow> (\<nexists>r. loop_at (cs_loop c) = Ended r)))"
proof -
  note fresh = start_fresh [OF assms(1)]
  have kept: "proxy_kept p q" by (rule proxy.run_keep [OF assms(2)])
  have "doors_open (map_option cs_http (px_ch p)) p"
    using fresh by (auto simp: fresh_process_def doors_open_def loop_running_def new_loop_def split: option.split)
  with assms(2) have doors: "doors_open (map_option cs_http (px_ch p)) q"
    by (rule run_invariant) (rule doors_step)
  have pg: "(\<forall>se \<in> set (sv_sessions s). conn_wf (se_conn se))
      \<and> (px_main q = Waiting \<longrightarrow> (\<nexists>r. loop_at (sv_loop s) = Ended r))" if s: "px_pg q = Some s" for s
  proof -
    obtain s0 where "px_pg p = Some s0" "server_kept s0 s"
      using kept kept_ifD(2) [of server_kept "px_pg p" s] s by (auto simp: proxy_kept_def)
    then have "sessions_wf s" using fresh by (simp add: fresh_process_def server_kept_def)
    moreover have "px_main q = Waiting \<longrightarrow> loop_running (sv_loop s)" using doors s by (simp add: doors_open_def)
    ultimately show ?thesis by (auto simp: sessions_wf_def all_set_conv_all_nth loop_running_def)
  qed
  have ch: "servers_bounded (WriteBufferSize (CHToMySQL (Proxy (px_config q)))) (cs_server c)
      \<and> (px_main q = Waiting \<longrightarrow> (\<nexists>r. loop_at (cs_loop c) = Ended r))" if c: "px_ch q = Some c" for c
  proof -
    obtain c0 where "px_ch p = Some c0" "side_kept c0 c"
      using kept kept_ifD(2) [of side_kept "px_ch p" c] c by (auto simp: proxy_kept_def)
    then have "servers_bounded (WriteBufferSize (CHToMySQL (Proxy (px_config q)))) (cs_server c)"
      using fresh kept by (simp add: fresh_process_def side_kept_def proxy_kept_def)
    moreover have "px_main q = Waiting \<longrightarrow> loop_running (cs_loop c)" using doors c by (simp add: doors_open_def)
    ultimately show ?thesis by (auto simp: loop_running_def)
  qed
  show ?thesis
    using pg ch kept
    by (auto simp: servers_bounded_def bounded_def Let_def proxy_kept_def kept_if_def split: option.splits)
qed

text \<open>The pool of the fresh machine, with transactions that are not needed before the first flush.\<close>

definition schema_env :: "string list env" where
  "schema_env = \<lparr>mysql_pool = ddl_db (\<lambda>_. None), pg_translator = NewTranslator [] [], randomness = (\<lambda>_ _. 0),
     floats = plain_float, index_order = (\<lambda>xs. xs), field_order = (\<lambda>xs. xs), status_order = (\<lambda>xs. xs)\<rparr>"

definition schema_ch_env :: "string list ch_env" where
  "schema_ch_env = \<lparr>ch_buffer_pool = \<lparr>wb_pool = ddl_db (\<lambda>_. None), wb_tx = \<lparr>tx_Begin = ret (), tx_Exec = (\<lambda>_. ret ()),
     tx_Commit = ret (), tx_Rollback = ret ()\<rparr>\<rparr>, ch_floats = plain_float\<rparr>"

definition first_events :: "proxy_event list" where
  "first_events = [Ch (ChDoor Turn), Pg (Door Turn), Pg (Door (Dial short_client)), Pg (Door Turn), Ch (HttpArrive insert_request), Main]"

theorem process_invariant_witness:
  "case main_start (fresh_machine (\<lambda>_. True)) [] of
     Ready p \<Rightarrow> (case run_events (proxy_step schema_env schema_ch_env) first_events p of
         Some q \<Rightarrow> px_main q = CtxCancelled \<and> (case px_pg q of
             Some s \<Rightarrow> length (sv_sessions s) = 1 \<and> (\<forall>se \<in> set (sv_sessions s). conn_wf (se_conn se))
           | None \<Rightarrow> False)
       | None \<Rightarrow> False)
   | _ \<Rightarrow> False"
proof -
  obtain p where p: "main_start (fresh_machine (\<lambda>_. True)) [] = Ready p"
    using fresh_started [of "\<lambda>_. True"] by (simp add: Let_def)
  obtain q s where q: "run_events (proxy_step schema_env schema_ch_env) first_events p = Some q"
    "px_main q = CtxCancelled" "px_pg q = Some s" "length (sv_sessions s) = 1"
    using p fresh_started [of "\<lambda>_. True"]
    by (auto simp: Let_def first_events_def proxy_step_def of_main_def px_alive_def pg_alive_def with_ch_def with_pg_def
      ch_load_def on_server_def ch_door_def door_step_def new_loop_def loop_moves open_session_def crashed_def to_ch_def
      to_pg_def on_ch_loop_def on_pg_loop_def)
  show ?thesis using process_invariant [OF p q(1)] p q by simp
qed

lemma to_ch_some:
  "px_ch p = Some c \<Longrightarrow>
     to_ch f p = p\<lparr>px_ch := Some (f (ch_load p c)), px_data := ch_data (cs_server (f (ch_load p c)))\<rparr>"
  by (simp add: to_ch_def with_ch_def)

lemma ch_load_same: "ch_data (cs_server c) = px_data p \<Longrightarrow> ch_load p c = c"
  by (simp add: ch_load_def on_server_def)

lemma stop_http_server: "cs_server (stop_http c) = cs_server c" "cs_loop (stop_http c) = cs_loop c"
    "cs_sessions (stop_http c) = cs_sessions c" "cs_http (stop_http c) \<noteq> HttpServing"
  by (simp_all add: stop_http_def split: http_phase.split)

text \<open>The six steps of \<open>main\<close>, on the ClickHouse side.\<close>

lemma six_steps:
  fixes p :: "'d proxy" and cenv :: "'d ch_env"
  assumes "px_alive p" and "px_main p = Waiting" and "px_ch p = Some c"
  defines "d \<equiv> stop_http ((ch_load p c)\<lparr>cs_loop := close_listener (cancel_ctx (cs_loop c)),
      cs_server := shutdown cenv (cs_server (ch_load p c))\<rparr>)"
  shows "\<exists>q. run_events (proxy_step env cenv) (replicate 6 Main) p = Some q \<and> px_main q = Exited \<and> px_ch q = Some d
    \<and> px_data q = ch_data (cs_server d)"
proof -
  have alive: "\<not> list_ex ch_crashed (cs_sessions c)" "\<And>s. px_pg p = Some s \<Longrightarrow> pg_alive s"
    using assms(1,3) by (auto simp: px_alive_def)
  have pg: "pg_alive (s\<lparr>sv_loop := l\<rparr>) = pg_alive s" "pg_alive (s\<lparr>sv_data := e\<rparr>) = pg_alive s" for s :: "'d pg_server" and l e
    by (simp_all add: pg_alive_def)
  note step = proxy_step_def of_main_def px_alive_def to_ch_some to_pg_def with_pg_def on_ch_loop_def on_pg_loop_def
    pg_Close_def on_server_def ch_load_same ch_load_def shutdown_def stop_http_server d_def
  show ?thesis
    using alive assms(2,3)
    by (cases "px_pg p") (simp_all add: numeral_eq_Suc step pg del: serve_event.simps)
qed

text \<open>
  C15: an orderly end. When nothing comes between the steps of \<open>main\<close> after the signal and MySQL
  takes every statement, six steps bring the process to its end: what was queued is in the
  database, the statements of native clients first, nothing is queued, the HTTP server has stopped, and
  the accept loop of the native server returns within two turns.
\<close>

theorem orderly_shutdown:
  assumes "px_alive p" and "px_main p = Waiting" and "px_ch p = Some c"
    and "refuses pol = (\<lambda>_ _. False)" and "\<forall>d. may_begin pol d \<and> may_commit pol d"
  shows "\<exists>q d. run_events (proxy_step env (store_env pol)) (replicate 6 Main) p = Some q \<and> px_main q = Exited \<and> px_ch q = Some d
    \<and> committed (px_data q) = committed (px_data p) @ buffered (native_buf (cs_server c)) @ buffered (http_buf (cs_server c))
    \<and> buffered (native_buf (cs_server d)) = [] \<and> buffered (http_buf (cs_server d)) = []
    \<and> cs_http d \<noteq> HttpServing \<and> (\<exists>r. loop_at (run_loop 2 (cs_loop d)) = Ended r)"
proof -
  let ?sv = "(cs_server c)\<lparr>ch_data := px_data p\<rparr>"
  let ?d = "stop_http ((ch_load p c)\<lparr>cs_loop := close_listener (cancel_ctx (cs_loop c)),
      cs_server := shutdown (store_env pol) ?sv\<rparr>)"
  obtain q where q: "run_events (proxy_step env (store_env pol)) (replicate 6 Main) p = Some q" "px_main q = Exited"
    "px_ch q = Some ?d" "px_data q = ch_data (cs_server ?d)"
    using six_steps [OF assms(1-3), of env "store_env pol"] by (auto simp: ch_load_def on_server_def)
  show ?thesis
    using q shutdown_flushes [OF assms(4,5), of ?sv] loop_returns [of "cs_loop c"]
    by (auto simp: stop_http_server)
qed

theorem orderly_shutdown_witness:
  "\<exists>q. run_events (proxy_step store_pg_env (store_env good_policy)) (replicate 6 Main) (ch_process Waiting
      (started\<lparr>http_buf := empty_buffer\<lparr>buffered := [''b'']\<rparr>, native_buf := empty_buffer\<lparr>buffered := [''a'']\<rparr>\<rparr>) []) = Some q
    \<and> px_main q = Exited \<and> committed (px_data q) = [''a'', ''b'']"
proof -
  let ?sv = "started\<lparr>http_buf := empty_buffer\<lparr>buffered := [''b'']\<rparr>, native_buf := empty_buffer\<lparr>buffered := [''a'']\<rparr>\<rparr>"
  let ?p = "ch_process Waiting ?sv []"
  have c: "px_main ?p = Waiting" "px_ch ?p = Some (the (px_ch ?p))" by (simp_all add: ch_process_def)
  have pol: "refuses good_policy = (\<lambda>_ _. False)" "\<forall>d. may_begin good_policy d \<and> may_commit good_policy d"
    by (simp_all add: good_policy_def)
  have "px_alive ?p" by (rule ch_process_alive) simp
  from orderly_shutdown [OF this c pol, of store_pg_env] obtain q where
    "run_events (proxy_step store_pg_env (store_env good_policy)) (replicate 6 Main) ?p = Some q" "px_main q = Exited"
    "committed (px_data q) = committed (px_data ?p) @ buffered (native_buf (cs_server (the (px_ch ?p))))
       @ buffered (http_buf (cs_server (the (px_ch ?p))))"
    by blast
  then show ?thesis by (auto simp: ch_process_def started_def empty_buffer_def Let_def)
qed

end
