(* ===== verification/TranslationRules.thy ===== *)
theory TranslationRules
  imports GoStrings
begin

text \<open>
  \<open>internal/translation/rules.go\<close>: the translation rules, read from a file once. The
  package keeps the loaded rules and a \<open>sync.Once\<close>; reading the file and parsing YAML are
  parameters.
\<close>

record pg_rules =
  Types :: "string \<Rightarrow> string option"
  pg_Functions :: "string \<Rightarrow> string option"
  Operators :: "string \<Rightarrow> string option"
  ArrayMode :: "string option"

record ch_rules =
  ch_Functions :: "string \<Rightarrow> string option"
  Aggregates :: "string \<Rightarrow> string option"

record rules =
  PGRules :: "pg_rules option"
  CHRules :: "ch_rules option"

record rules_state =
  loaded :: "rules option"
  loadedOnce :: bool

definition fresh_rules :: rules_state where
  "fresh_rules = \<lparr>loaded = None, loadedOnce = False\<rparr>"

text \<open>The result is the pair that Go returns: the rules or nil, the error or nil.\<close>

definition Load ::
    "(string \<Rightarrow> byte list res) \<Rightarrow> (byte list \<Rightarrow> rules res) \<Rightarrow> string \<Rightarrow> rules_state
      \<Rightarrow> (rules option \<times> go_err option) res \<times> rules_state" where
  "Load readFile unmarshal path s =
    (if loadedOnce s then (Ok (loaded s, None), s)
     else (let s = s\<lparr>loadedOnce := True\<rparr> in
       case bind_res (readFile path) unmarshal of
         Ok cfg \<Rightarrow> (Ok (Some cfg, None), s\<lparr>loaded := Some cfg\<rparr>)
       | Err e \<Rightarrow> (Ok (loaded s, Some e), s)
       | Panic p \<Rightarrow> (Panic p, s)))"

definition Default_rules :: "rules_state \<Rightarrow> rules option" where
  "Default_rules s = loaded s"

definition Reset :: "rules_state \<Rightarrow> rules_state" where
  "Reset s = \<lparr>loaded = None, loadedOnce = False\<rparr>"

section \<open>Loading once\<close>

lemma Load_again: "loadedOnce s \<Longrightarrow> Load rf um path s = (Ok (loaded s, None), s)"
  by (simp add: Load_def)

lemma Load_done: "loadedOnce (snd (Load rf um path s))"
  by (simp add: Load_def Let_def split: res.split)

text \<open>
  The first \<open>Load\<close> decides: a later one, of any path and whatever that file holds, reads
  nothing and returns the rules of the first; \<open>Default\<close> returns the same.
\<close>

theorem first_load_decides:
  "Load rf2 um2 path2 (snd (Load rf um path s))
      = (Ok (Default_rules (snd (Load rf um path s)), None), snd (Load rf um path s))
    \<and> Load rf um path (Reset s) = Load rf um path fresh_rules"
  by (simp add: Load_again Load_done Default_rules_def Reset_def fresh_rules_def)

text \<open>
  A first load that fails is reported once and then hidden: every later \<open>Load\<close> returns no
  rules and no error.
\<close>

theorem failed_load_is_hidden:
  assumes "readFile path = Err e"
  shows "fst (Load readFile um path fresh_rules) = Ok (None, Some e)
    \<and> fst (Load rf2 um2 path2 (snd (Load readFile um path fresh_rules))) = Ok (None, None)"
  using assms by (simp add: Load_def fresh_rules_def)

theorem failed_load_is_hidden_witness:
  "fst (Load (\<lambda>_. Ok []) (\<lambda>_. Ok \<lparr>PGRules = None, CHRules = None\<rparr>) ''good''
     (snd (Load (\<lambda>_. Err EOF) (\<lambda>_. Ok \<lparr>PGRules = None, CHRules = None\<rparr>) ''bad'' fresh_rules))) = Ok (None, None)"
  by (rule failed_load_is_hidden [THEN conjunct2, of _ _ EOF]) simp

end
